(* ===== verification/Prelude.thy ===== *)
theory Prelude
  imports Main "HOL-Library.Word" "HOL-Library.AList" "HOL-Library.Sublist"
begin

text \<open>
  The layer every component shares: the integer widths of the Go code, association lists as
  Go maps, the result type of fallible operations, and the collections of rewrite rules the
  component proofs use.

  A Go map is an association list with distinct keys. The order of the list is the order in
  which a \<^verbatim>\<open>range\<close> statement visits the entries; Go leaves that order open, and every
  statement of the development is about an arbitrary list, so it holds for every order.
\<close>

named_theorems frame "fields of the daemon state an operation leaves alone"

section \<open>Types of the Go code\<close>

text \<open>Go strings and byte slices are byte sequences; \<open>char\<close> is a byte.\<close>

type_synonym gostring = string
type_synonym bytes = "char list"

type_synonym int64 = "64 word"

type_synonym ('k, 'v) go_map = "('k \<times> 'v) list"

abbreviation go_get :: "('k, 'v) go_map \<Rightarrow> 'k \<Rightarrow> 'v option" where
  "go_get m k \<equiv> map_of m k"

abbreviation go_put :: "'k \<Rightarrow> 'v \<Rightarrow> ('k, 'v) go_map \<Rightarrow> ('k, 'v) go_map" where
  "go_put \<equiv> AList.update"

abbreviation go_del :: "'k \<Rightarrow> ('k, 'v) go_map \<Rightarrow> ('k, 'v) go_map" where
  "go_del \<equiv> AList.delete"

definition go_keys :: "('k, 'v) go_map \<Rightarrow> 'k list" where
  "go_keys m = map fst m"

definition wf_map :: "('k, 'v) go_map \<Rightarrow> bool" where
  "wf_map m \<longleftrightarrow> distinct (map fst m)"

section \<open>The map interface\<close>

text \<open>
  What the daemon relies on when it reads, writes and deletes map entries. The client facts
  are proved from these laws alone and used through the interpretation on association lists.
\<close>

locale key_value_map =
  fixes get :: "'m \<Rightarrow> 'k \<Rightarrow> 'v option"
    and put :: "'k \<Rightarrow> 'v \<Rightarrow> 'm \<Rightarrow> 'm"
    and del :: "'k \<Rightarrow> 'm \<Rightarrow> 'm"
    and wf :: "'m \<Rightarrow> bool"
  assumes get_put: "get (put k v m) = (get m)(k \<mapsto> v)"
    and get_del: "get (del k m) = (get m)(k := None)"
    and wf_put: "wf m \<Longrightarrow> wf (put k v m)"
    and wf_del: "wf m \<Longrightarrow> wf (del k m)"
begin

lemma put_same: "get (put k v m) k = Some v"
  by (simp add: get_put)

lemma put_other: "k' \<noteq> k \<Longrightarrow> get (put k v m) k' = get m k'"
  by (simp add: get_put)

lemma del_same: "get (del k m) k = None"
  by (simp add: get_del)

lemma del_other: "k' \<noteq> k \<Longrightarrow> get (del k m) k' = get m k'"
  by (simp add: get_del)

lemma del_put: "get (del k (put k v m)) = (get m)(k := None)"
  by (simp add: get_put get_del)

lemma dom_put: "dom (get (put k v m)) = insert k (dom (get m))"
  by (simp add: get_put)

lemma dom_del: "dom (get (del k m)) = dom (get m) - {k}"
  by (simp add: get_del)

lemmas map_laws = get_put get_del wf_put wf_del

end

interpretation gm: key_value_map map_of AList.update AList.delete wf_map
  by unfold_locales
    (simp_all add: update_conv' delete_conv' wf_map_def distinct_update distinct_delete)

lemma wf_map_Nil [simp]: "wf_map []"
  by (simp add: wf_map_def)

lemma wf_map_Cons [simp]: "wf_map ((k, v) # m) \<longleftrightarrow> k \<notin> fst ` set m \<and> wf_map m"
  by (auto simp: wf_map_def)

lemma wf_map_get: "wf_map m \<Longrightarrow> (k, v) \<in> set m \<longleftrightarrow> go_get m k = Some v"
  by (auto simp: wf_map_def intro: map_of_is_SomeI dest: map_of_SomeD)

lemma go_get_mem: "go_get m k = Some v \<Longrightarrow> (k, v) \<in> set m"
  by (rule map_of_SomeD)

lemma delete_filter: "AList.delete k m = filter (\<lambda>e. fst e \<noteq> k) m"
  by (induction m) (auto simp: AList.delete_eq)

lemma delete_absent: "k \<notin> fst ` set m \<Longrightarrow> AList.delete k m = m"
  by (auto simp: delete_filter filter_id_conv)

text \<open>Writing a present key changes the value in place.\<close>

lemma update_present:
  "wf_map m \<Longrightarrow> k \<in> fst ` set m \<Longrightarrow>
     AList.update k v m = map (\<lambda>e. if fst e = k then (k, v) else e) m"
proof (induction m)
  case (Cons e m)
  show ?case
  proof (cases "fst e = k")
    case True
    with Cons.prems have "k \<notin> fst ` set m"
      by (cases e) auto
    then have "map (\<lambda>e. if fst e = k then (k, v) else e) m = m"
      by (intro map_idI) force
    with True show ?thesis by (cases e) simp
  next
    case False
    with Cons show ?thesis by (cases e) auto
  qed
qed simp

text \<open>Writing an absent key appends an entry.\<close>

lemma update_absent: "k \<notin> fst ` set m \<Longrightarrow> AList.update k v m = m @ [(k, v)]"
  by (induction m) auto

section \<open>Results\<close>

text \<open>A Go function that returns a value and an error: \<open>Inl\<close> is the error.\<close>

fun is_err :: "'e + 'a \<Rightarrow> bool" where
  "is_err (Inl e) = True"
| "is_err (Inr x) = False"

lemma is_err_iff: "is_err r \<longleftrightarrow> (\<exists>e. r = Inl e)"
  by (cases r) auto

lemma not_is_err_iff: "\<not> is_err r \<longleftrightarrow> (\<exists>x. r = Inr x)"
  by (cases r) auto

end
