(* ===== verification/Go_Strings.thy ===== *)
theory Go_Strings
  imports Prelude "HOL-Library.Char_ord" "HOL-Library.List_Lexorder"
begin

text \<open>
  The part of Go's string library the program uses, on byte strings: prefixes, suffixes,
  \<^verbatim>\<open>Index\<close>, \<^verbatim>\<open>Cut\<close>, \<^verbatim>\<open>Split\<close>, \<^verbatim>\<open>ReplaceAll\<close>, \<^verbatim>\<open>TrimSpace\<close>, decoding of UTF-8 into
  runes, decimal printing and \<^verbatim>\<open>strconv.Atoi\<close>. Each function follows the documented
  behaviour of the standard library, malformed UTF-8 included.
\<close>

section \<open>Prefixes, suffixes, searching\<close>

abbreviation has_prefix :: "gostring \<Rightarrow> gostring \<Rightarrow> bool" where
  "has_prefix s p \<equiv> prefix p s"

abbreviation has_suffix :: "gostring \<Rightarrow> gostring \<Rightarrow> bool" where
  "has_suffix s p \<equiv> suffix p s"

definition trim_prefix :: "gostring \<Rightarrow> gostring \<Rightarrow> gostring" where
  "trim_prefix s p = (if has_prefix s p then drop (length p) s else s)"

definition trim_suffix :: "gostring \<Rightarrow> gostring \<Rightarrow> gostring" where
  "trim_suffix s p = (if has_suffix s p then take (length s - length p) s else s)"

text \<open>\<^verbatim>\<open>strings.Index\<close>: the first position of a substring, \<open>None\<close> for -1.\<close>

fun str_index :: "gostring \<Rightarrow> gostring \<Rightarrow> nat option" where
  "str_index s sub =
     (if prefix sub s then Some 0
      else case s of [] \<Rightarrow> None | _ # cs \<Rightarrow> map_option Suc (str_index cs sub))"

declare str_index.simps [simp del]

definition str_contains :: "gostring \<Rightarrow> gostring \<Rightarrow> bool" where
  "str_contains s sub \<longleftrightarrow> str_index s sub \<noteq> None"

lemma str_index_Some:
  "str_index s sub = Some i \<Longrightarrow> \<exists>rest. s = take i s @ sub @ rest \<and> i \<le> length s"
proof (induction s sub arbitrary: i rule: str_index.induct)
  case (1 s sub)
  show ?case
  proof (cases "prefix sub s")
    case True
    with "1.prems" have "i = 0" by (simp add: str_index.simps [of s sub])
    with True show ?thesis by (auto elim: prefixE)
  next
    case False
    with "1.prems" obtain c cs j where s: "s = c # cs" "i = Suc j" "str_index cs sub = Some j"
      by (auto simp: str_index.simps [of s sub] split: list.splits)
    with "1.IH" [OF False, of c cs j] show ?thesis by auto
  qed
qed

lemma str_index_None: "str_index s sub = None \<longleftrightarrow> \<not> sublist sub s"
proof (induction s)
  case Nil
  show ?case by (simp add: str_index.simps [of "[]" sub])
next
  case (Cons c cs)
  then show ?case
    by (simp add: str_index.simps [of "c # cs" sub] sublist_Cons_right)
qed

lemma str_contains_sublist: "str_contains s sub \<longleftrightarrow> sublist sub s"
  by (simp add: str_contains_def str_index_None)

text \<open>\<^verbatim>\<open>strings.Cut\<close>: the text before and after the first separator, and whether it occurs.\<close>

definition cut :: "gostring \<Rightarrow> gostring \<Rightarrow> gostring \<times> gostring \<times> bool" where
  "cut s sep =
     (case str_index s sep of
        Some i \<Rightarrow> (take i s, drop (i + length sep) s, True)
      | None \<Rightarrow> (s, [], False))"

lemma cut_found:
  assumes "cut s sep = (before, after, True)"
  shows "s = before @ sep @ after"
proof -
  from assms obtain i where i: "str_index s sep = Some i" "before = take i s"
      "after = drop (i + length sep) s"
    by (auto simp: cut_def split: option.splits)
  from str_index_Some [OF i(1)] obtain rest where "s = take i s @ sep @ rest" "i \<le> length s"
    by blast
  then have "drop (i + length sep) s = rest"
    by (metis append_assoc append_eq_conv_conj length_append length_take min.absorb2)
  with i \<open>s = take i s @ sep @ rest\<close> show ?thesis by simp
qed

section \<open>Splitting and replacing\<close>

text \<open>\<^verbatim>\<open>strings.Split\<close> with a one-byte separator; the result is never empty.\<close>

fun split_on :: "char \<Rightarrow> gostring \<Rightarrow> gostring list" where
  "split_on sep [] = [[]]"
| "split_on sep (c # cs) =
     (if c = sep then [] # split_on sep cs
      else case split_on sep cs of [] \<Rightarrow> [[c]] | p # ps \<Rightarrow> (c # p) # ps)"

fun join_with :: "gostring \<Rightarrow> gostring list \<Rightarrow> gostring" where
  "join_with sep [] = []"
| "join_with sep [p] = p"
| "join_with sep (p # q # ps) = p @ sep @ join_with sep (q # ps)"

lemma split_on_not_Nil [simp]: "split_on sep s \<noteq> []"
  by (induction s) (auto split: list.splits)

lemma join_with_Cons: "ps \<noteq> [] \<Longrightarrow> join_with sep (p # ps) = p @ sep @ join_with sep ps"
  by (cases ps) auto

lemma join_split: "join_with [sep] (split_on sep s) = s"
proof (induction s)
  case (Cons c cs)
  then obtain p ps where ps: "split_on sep cs = p # ps"
    by (cases "split_on sep cs") auto
  with Cons show ?case by (cases ps) (auto simp: join_with_Cons)
qed simp

lemma split_parts_clean: "p \<in> set (split_on sep s) \<Longrightarrow> sep \<notin> set p"
proof (induction s arbitrary: p)
  case (Cons c cs)
  then show ?case by (auto split: if_splits list.splits)
qed simp

lemma split_join:
  "ps \<noteq> [] \<Longrightarrow> \<forall>p \<in> set ps. sep \<notin> set p \<Longrightarrow> split_on sep (join_with [sep] ps) = ps"
proof (induction "[sep]" ps rule: join_with.induct)
  case (2 p)
  then show ?case by (induction p) auto
next
  case (3 p q ps)
  have rest: "split_on sep (join_with [sep] (q # ps)) = q # ps"
    using 3 by simp
  have "sep \<notin> set p \<Longrightarrow> split_on sep (p @ sep # t) = p # split_on sep t" for t
    by (induction p) auto
  with 3 rest show ?case by simp
qed simp

text \<open>
  \<^verbatim>\<open>strings.ReplaceAll\<close> for a non-empty \<open>old\<close> (the program guards against the empty one):
  left to right, without overlaps.
\<close>

function replace_all :: "gostring \<Rightarrow> gostring \<Rightarrow> gostring \<Rightarrow> gostring" where
  "replace_all old new s =
     (if old = [] then s
      else if prefix old s then new @ replace_all old new (drop (length old) s)
      else case s of [] \<Rightarrow> [] | c # cs \<Rightarrow> c # replace_all old new cs)"
  by pat_completeness auto
termination
  by (relation "measure (\<lambda>(old, new, s). length s)") (auto simp: prefix_def)

declare replace_all.simps [simp del]

lemma replace_all_Nil [simp]: "replace_all old new [] = []"
  by (simp add: replace_all.simps [of old new "[]"])

lemma replace_all_match: "old \<noteq> [] \<Longrightarrow> replace_all old new (old @ t) = new @ replace_all old new t"
  by (simp add: replace_all.simps [of old new "old @ t"])

lemma replace_all_step:
  "old \<noteq> [] \<Longrightarrow> \<not> prefix old (c # cs) \<Longrightarrow> replace_all old new (c # cs) = c # replace_all old new cs"
  by (simp add: replace_all.simps [of old new "c # cs"])

lemma replace_all_absent: "\<not> sublist old s \<Longrightarrow> replace_all old new s = s"
proof (induction s)
  case Nil
  then show ?case by (simp add: replace_all.simps [of old new "[]"])
next
  case (Cons c cs)
  then show ?case
    by (simp add: replace_all.simps [of old new "c # cs"] sublist_Cons_right)
qed

section \<open>UTF-8\<close>

text \<open>
  \<^verbatim>\<open>utf8.DecodeRuneInString\<close>: the first rune and its width. A malformed sequence is the
  replacement rune 0xFFFD of width one, as in Go.
\<close>

abbreviation byte_of :: "char \<Rightarrow> nat" where
  "byte_of c \<equiv> of_char c"

definition cont_byte :: "nat \<Rightarrow> bool" where
  "cont_byte b \<longleftrightarrow> 128 \<le> b \<and> b \<le> 191"

definition second_range :: "nat \<Rightarrow> nat \<times> nat" where
  "second_range b0 =
     (if b0 = 224 then (160, 191) else if b0 = 237 then (128, 159)
      else if b0 = 240 then (144, 191) else if b0 = 244 then (128, 143) else (128, 191))"

definition in_second_range :: "nat \<Rightarrow> nat \<Rightarrow> bool" where
  "in_second_range b0 b1 \<longleftrightarrow> fst (second_range b0) \<le> b1 \<and> b1 \<le> snd (second_range b0)"

definition decode_multi :: "nat \<Rightarrow> nat list \<Rightarrow> nat \<times> nat" where
  "decode_multi b0 rest =
     (if 194 \<le> b0 \<and> b0 \<le> 223 then
        (case rest of b1 # _ \<Rightarrow>
           if cont_byte b1 then ((b0 mod 32) * 64 + b1 mod 64, 2) else (65533, 1)
         | _ \<Rightarrow> (65533, 1))
      else if 224 \<le> b0 \<and> b0 \<le> 239 then
        (case rest of b1 # b2 # _ \<Rightarrow>
           if in_second_range b0 b1 \<and> cont_byte b2
           then ((b0 mod 16) * 4096 + (b1 mod 64) * 64 + b2 mod 64, 3) else (65533, 1)
         | _ \<Rightarrow> (65533, 1))
      else if 240 \<le> b0 \<and> b0 \<le> 244 then
        (case rest of b1 # b2 # b3 # _ \<Rightarrow>
           if in_second_range b0 b1 \<and> cont_byte b2 \<and> cont_byte b3
           then ((b0 mod 8) * 262144 + (b1 mod 64) * 4096 + (b2 mod 64) * 64 + b3 mod 64, 4)
           else (65533, 1)
         | _ \<Rightarrow> (65533, 1))
      else (65533, 1))"

definition decode_rune :: "char \<Rightarrow> char list \<Rightarrow> nat \<times> nat" where
  "decode_rune c cs =
     (let b0 = byte_of c
      in if b0 < 128 then (b0, 1) else decode_multi b0 (map byte_of (take 3 cs)))"

lemma decode_multi_width: "1 \<le> snd (decode_multi b0 rest)"
  by (auto simp: decode_multi_def split: list.splits)

lemma decode_rune_width: "1 \<le> snd (decode_rune c cs)"
  using decode_multi_width by (auto simp: decode_rune_def Let_def simp flip: One_nat_def)

text \<open>\<^verbatim>\<open>[]rune(s)\<close>, and the runes a \<^verbatim>\<open>range\<close> over a string yields.\<close>

function runes :: "gostring \<Rightarrow> nat list" where
  "runes [] = []"
| "runes (c # cs) = fst (decode_rune c cs) # runes (drop (snd (decode_rune c cs) - 1) cs)"
  by pat_completeness auto
termination
  by (relation "measure length") auto

definition is_ascii :: "gostring \<Rightarrow> bool" where
  "is_ascii s \<longleftrightarrow> (\<forall>c \<in> set s. byte_of c < (128 :: nat))"

lemma runes_ascii: "is_ascii s \<Longrightarrow> runes s = map byte_of s"
  by (induction s) (auto simp: is_ascii_def decode_rune_def)

lemma length_runes_le: "length (runes s) \<le> length s"
proof (induction s rule: runes.induct)
  case (2 c cs)
  then show ?case by simp
qed simp

section \<open>Trimming white space\<close>

text \<open>
  \<^verbatim>\<open>strings.TrimSpace\<close> removes leading and trailing Unicode white space: the encodings of
  the runes \<^verbatim>\<open>unicode.IsSpace\<close> accepts. UTF-8 is self-synchronising, so looking for one of
  these byte sequences at either end is decoding the first and the last rune.
\<close>

definition space_codes :: "nat list list" where
  "space_codes =
     [[9], [10], [11], [12], [13], [32], [194, 133], [194, 160], [225, 154, 128]] @
     map (\<lambda>b. [226, 128, b]) [128, 129, 130, 131, 132, 133, 134, 135, 136, 137, 138, 168, 169, 175] @
     [[226, 129, 159], [227, 128, 128]]"

definition space_encodings :: "gostring list" where
  "space_encodings = map (map char_of) space_codes"

lemma space_encodings_nonempty: "e \<in> set space_encodings \<Longrightarrow> e \<noteq> []"
  by (auto simp: space_encodings_def space_codes_def)

text \<open>
  The two loops, over the encodings \<open>es\<close> of white space: drop a leading one while there is
  one. The trailing loop is the leading loop on the reversed string and encodings.
\<close>

function drop_leading :: "gostring list \<Rightarrow> gostring \<Rightarrow> gostring" where
  "drop_leading es s =
     (case find (\<lambda>e. e \<noteq> [] \<and> prefix e s) es of
        None \<Rightarrow> s
      | Some e \<Rightarrow> drop_leading es (drop (length e) s))"
  by pat_completeness auto
termination
  by (relation "measure (\<lambda>(es, s). length s)") (auto simp: find_Some_iff prefix_def)

declare drop_leading.simps [simp del]

definition trim_space :: "gostring \<Rightarrow> gostring" where
  "trim_space s =
     rev (drop_leading (map rev space_encodings) (rev (drop_leading space_encodings s)))"

lemma drop_leading_clean:
  "e \<in> set es \<Longrightarrow> e \<noteq> [] \<Longrightarrow> \<not> prefix e (drop_leading es s)"
proof (induction es s rule: drop_leading.induct)
  case (1 es s)
  show ?case
  proof (cases "find (\<lambda>e. e \<noteq> [] \<and> prefix e s) es")
    case None
    then have "drop_leading es s = s"
      by (subst drop_leading.simps) simp
    with None "1.prems" show ?thesis
      by (auto simp: find_None_iff)
  next
    case (Some e')
    with "1.IH" [OF Some] "1.prems" show ?thesis
      by (simp add: drop_leading.simps [of es s])
  qed
qed

lemma drop_leading_suffix: "\<exists>p. s = p @ drop_leading es s"
proof (induction es s rule: drop_leading.induct)
  case (1 es s)
  show ?case
  proof (cases "find (\<lambda>e. e \<noteq> [] \<and> prefix e s) es")
    case (Some e)
    with "1.IH" [OF Some] obtain p where "drop (length e) s = p @ drop_leading es s"
      by (auto simp: drop_leading.simps [of es s])
    then have "s = (take (length e) s @ p) @ drop_leading es s"
      by (metis append_assoc append_take_drop_id)
    then show ?thesis by blast
  qed (simp add: drop_leading.simps [of es s])
qed

lemma drop_leading_id: "(\<And>e. e \<in> set es \<Longrightarrow> e \<noteq> [] \<Longrightarrow> \<not> prefix e s) \<Longrightarrow> drop_leading es s = s"
  by (subst drop_leading.simps) (auto split: option.split simp: find_Some_iff)

text \<open>A trimmed string neither begins nor ends with white space, and trimming it again is the identity.\<close>

lemma trim_space_no_trailing:
  assumes "e \<in> set space_encodings"
  shows "\<not> suffix e (trim_space s)"
proof -
  have "\<not> prefix (rev e) (drop_leading (map rev space_encodings) (rev (drop_leading space_encodings s)))"
    using assms space_encodings_nonempty by (intro drop_leading_clean) auto
  then show ?thesis by (simp add: trim_space_def suffix_to_prefix)
qed

lemma trim_space_no_leading:
  assumes "e \<in> set space_encodings"
  shows "\<not> prefix e (trim_space s)"
proof
  assume pre: "prefix e (trim_space s)"
  let ?t = "drop_leading space_encodings s"
  obtain p where "rev ?t = p @ drop_leading (map rev space_encodings) (rev ?t)"
    using drop_leading_suffix by blast
  then have "?t = trim_space s @ rev p"
    by (metis rev_append rev_rev_ident trim_space_def)
  with pre have "prefix e ?t"
    by (simp add: prefix_append)
  then show False
    using assms space_encodings_nonempty drop_leading_clean by blast
qed

lemma trim_space_idem: "trim_space (trim_space s) = trim_space s"
proof -
  let ?t = "trim_space s"
  have "drop_leading space_encodings ?t = ?t"
    using trim_space_no_leading by (intro drop_leading_id) blast
  moreover have "drop_leading (map rev space_encodings) (rev ?t) = rev ?t"
    using trim_space_no_trailing by (intro drop_leading_id) (auto simp: suffix_to_prefix)
  ultimately show ?thesis by (simp add: trim_space_def [of ?t])
qed

text \<open>White space begins and ends with a byte outside the graphic ASCII range.\<close>

definition graphic :: "char \<Rightarrow> bool" where
  "graphic c \<longleftrightarrow> 32 < byte_of c \<and> byte_of c < (127 :: nat)"

lemma space_ends:
  "e \<in> set space_encodings \<Longrightarrow> \<not> graphic (hd e) \<and> \<not> graphic (last e)"
  by (auto simp: space_encodings_def space_codes_def graphic_def)

lemma trim_space_Nil [simp]: "trim_space [] = []"
  by (simp add: trim_space_def drop_leading_id)

lemma trim_space_graphic:
  assumes "s \<noteq> []" and "graphic (hd s)" and "graphic (last s)"
  shows "trim_space s = s"
proof -
  have "drop_leading space_encodings s = s"
    using assms(1,2) space_ends by (intro drop_leading_id) (auto simp: prefix_def)
  moreover have "drop_leading (map rev space_encodings) (rev s) = rev s"
  proof (intro drop_leading_id notI)
    fix e assume "e \<in> set (map rev space_encodings)" and "e \<noteq> []" and "prefix e (rev s)"
    then obtain e' where e': "e' \<in> set space_encodings" "e = rev e'" by auto
    have "hd e = hd (rev s)" using \<open>prefix e (rev s)\<close> \<open>e \<noteq> []\<close> by (auto simp: prefix_def)
    then show False using e' space_ends [OF e'(1)] assms(1,3) \<open>e \<noteq> []\<close> by (simp add: hd_rev)
  qed
  ultimately show ?thesis by (simp add: trim_space_def)
qed

end
