(* ===== verification/Go_Numbers.thy ===== *)
theory Go_Numbers
  imports Go_Strings "HOL-Library.Signed_Division"
begin

text \<open>
  Decimal printing (\<^verbatim>\<open>%d\<close>), \<^verbatim>\<open>strconv.Atoi\<close> on a 64-bit platform, 64-bit durations and time
  instants. A \<^verbatim>\<open>time.Duration\<close> is an \<open>int64\<close> count of nanoseconds whose arithmetic wraps; a
  \<^verbatim>\<open>time.Time\<close> is an instant, an \<open>int\<close> count of nanoseconds, which never wraps in practice.
\<close>

section \<open>Decimal numbers\<close>

definition digit_char :: "nat \<Rightarrow> char" where
  "digit_char d = char_of (48 + d)"

definition is_digit :: "char \<Rightarrow> bool" where
  "is_digit c \<longleftrightarrow> 48 \<le> byte_of c \<and> byte_of c \<le> (57 :: nat)"

definition digit_value :: "char \<Rightarrow> nat" where
  "digit_value c = byte_of c - 48"

fun show_nat :: "nat \<Rightarrow> gostring" where
  "show_nat n = (if n < 10 then [digit_char n] else show_nat (n div 10) @ [digit_char (n mod 10)])"

declare show_nat.simps [simp del]

definition show_int :: "int \<Rightarrow> gostring" where
  "show_int i = (if i < 0 then CHR ''-'' # show_nat (nat (- i)) else show_nat (nat i))"

definition read_nat :: "gostring \<Rightarrow> nat" where
  "read_nat s = foldl (\<lambda>n c. 10 * n + digit_value c) 0 s"

text \<open>
  \<^verbatim>\<open>strconv.Atoi\<close>: an optional sign and at least one decimal digit, in the range of \<open>int64\<close>;
  \<open>None\<close> is any error, out of range included.
\<close>

definition int64_range :: "int \<Rightarrow> bool" where
  "int64_range i \<longleftrightarrow> - (2 ^ 63) \<le> i \<and> i < 2 ^ 63"

definition atoi :: "gostring \<Rightarrow> int option" where
  "atoi s =
     (let (neg, digits) =
        (case s of c # cs \<Rightarrow> if c = CHR ''-'' then (True, cs) else if c = CHR ''+'' then (False, cs) else (False, s)
         | [] \<Rightarrow> (False, []));
          value = (if neg then - int (read_nat digits) else int (read_nat digits))
      in if digits \<noteq> [] \<and> list_all is_digit digits \<and> int64_range value then Some value else None)"

lemma digit_char_props: "d < 10 \<Longrightarrow> is_digit (digit_char d)" "d < 10 \<Longrightarrow> digit_value (digit_char d) = d"
  by (simp_all add: is_digit_def digit_char_def digit_value_def)

lemma show_nat_digits: "list_all is_digit (show_nat n)"
proof (induction n rule: show_nat.induct)
  case (1 n)
  then show ?case
    by (subst show_nat.simps) (simp add: digit_char_props)
qed

lemma show_nat_nonempty: "show_nat n \<noteq> []"
  by (subst show_nat.simps) simp

lemma read_nat_snoc: "read_nat (s @ [c]) = 10 * read_nat s + digit_value c"
  by (simp add: read_nat_def)

lemma read_show_nat: "read_nat (show_nat n) = n"
proof (induction n rule: show_nat.induct)
  case (1 n)
  show ?case
  proof (cases "n < 10")
    case True
    then show ?thesis
      by (subst show_nat.simps) (simp add: read_nat_def digit_char_props)
  next
    case False
    with 1 show ?thesis
      by (subst show_nat.simps) (simp add: read_nat_snoc digit_char_props)
  qed
qed

lemma show_nat_inj: "show_nat m = show_nat n \<Longrightarrow> m = n"
  by (metis read_show_nat)

lemma show_nat_head: "\<exists>c cs. show_nat n = c # cs \<and> c \<noteq> CHR ''-'' \<and> c \<noteq> CHR ''+''"
proof -
  obtain c cs where s: "show_nat n = c # cs"
    using show_nat_nonempty by (cases "show_nat n") auto
  with show_nat_digits [of n] have "is_digit c" by simp
  then have "c \<noteq> CHR ''-''" "c \<noteq> CHR ''+''" by (auto simp: is_digit_def)
  with s show ?thesis by blast
qed

lemma atoi_show_int:
  assumes "int64_range i"
  shows "atoi (show_int i) = Some i"
proof (cases "i < 0")
  case True
  with assms show ?thesis
    by (simp add: atoi_def show_int_def show_nat_nonempty show_nat_digits read_show_nat)
next
  case False
  obtain c cs where s: "show_nat (nat i) = c # cs" "c \<noteq> CHR ''-''" "c \<noteq> CHR ''+''"
    using show_nat_head by blast
  have "list_all is_digit (c # cs)" "read_nat (c # cs) = nat i"
    using show_nat_digits read_show_nat s(1) by metis+
  with False assms s show ?thesis
    by (simp add: atoi_def show_int_def)
qed

lemma atoi_range: "atoi s = Some i \<Longrightarrow> int64_range i"
  by (auto simp: atoi_def Let_def split: if_splits list.splits prod.splits)

section \<open>Durations\<close>

type_synonym duration = int64
type_synonym time = int

definition second :: duration where "second = 1000000000"
definition minute :: duration where "minute = 60 * second"
definition hour :: duration where "hour = 60 * minute"

text \<open>\<^verbatim>\<open>time.Duration(seconds) * time.Second\<close>: the product wraps at 64 bits.\<close>

definition seconds :: "int64 \<Rightarrow> duration" where
  "seconds n = n * second"

text \<open>Signed comparison of durations, as Go's \<^verbatim>\<open><\<close> on \<open>int64\<close>.\<close>

abbreviation dur_less :: "duration \<Rightarrow> duration \<Rightarrow> bool" where
  "dur_less d e \<equiv> sint d < sint e"

definition in_bounds :: "duration \<Rightarrow> duration \<Rightarrow> duration \<Rightarrow> bool" where
  "in_bounds lo hi d \<longleftrightarrow> \<not> (dur_less d lo \<or> dur_less hi d)"

definition time_add :: "time \<Rightarrow> duration \<Rightarrow> time" where
  "time_add t d = t + sint d"

text \<open>\<^verbatim>\<open>t.Sub(u)\<close> saturates at the ends of \<open>int64\<close>.\<close>

definition time_sub :: "time \<Rightarrow> time \<Rightarrow> duration" where
  "time_sub t u = word_of_int (max (- (2 ^ 63)) (min (2 ^ 63 - 1) (t - u)))"

definition min_time :: "time \<Rightarrow> time \<Rightarrow> time" where
  "min_time left right = (if left < right then left else right)"

lemma sint_second [simp]: "sint second = 1000000000"
  by (simp add: second_def)

lemma sint_minute [simp]: "sint minute = 60000000000"
  by (simp add: minute_def second_def)

lemma sint_hour [simp]: "sint hour = 3600000000000"
  by (simp add: hour_def minute_def second_def)

lemma sint_time_sub: "sint (time_sub t u) = max (- (2 ^ 63)) (min (2 ^ 63 - 1) (t - u))"
  unfolding time_sub_def
  by (subst signed_of_int) (simp add: signed_take_bit_int_eq_self)

lemma time_sub_exact:
  "- (2 ^ 63) \<le> t - u \<Longrightarrow> t - u < 2 ^ 63 \<Longrightarrow> sint (time_sub t u) = t - u"
  by (simp add: sint_time_sub)

text \<open>Seconds that fit convert exactly; all others wrap.\<close>

lemma sint_seconds_wraps: "sint (seconds n) = signed_take_bit 63 (sint n * 1000000000)"
  unfolding seconds_def second_def
  by (simp add: sint_word_ariths)

lemma sint_seconds_exact:
  assumes "\<bar>sint n\<bar> \<le> 9223372036"
  shows "sint (seconds n) = sint n * 1000000000"
proof -
  have "- (2 ^ 63) \<le> sint n * 1000000000 \<and> sint n * 1000000000 < 2 ^ 63"
    using assms by auto
  then show ?thesis
    by (simp add: sint_seconds_wraps signed_take_bit_int_eq_self)
qed

lemma min_time_le: "min_time a b \<le> a" "min_time a b \<le> b"
  by (auto simp: min_time_def)

text \<open>
  \<^verbatim>\<open>d.Round(time.Second)\<close>: to the nearest second, halves away from zero, and the largest (or
  smallest) duration when the rounded value does not fit.
\<close>

definition round_to :: "duration \<Rightarrow> duration \<Rightarrow> duration" where
  "round_to m d =
     (let r = sint d smod sint m
      in if sint d < 0 then
           (if 2 * (- r) < sint m then word_of_int (sint d - r)
            else let d1 = word_of_int (sint d - sint m - r) :: duration
                 in if dur_less d1 d then d1 else word_of_int (- (2 ^ 63)))
         else
           (if 2 * r < sint m then word_of_int (sint d - r)
            else let d1 = word_of_int (sint d + sint m - r) :: duration
                 in if dur_less d d1 then d1 else word_of_int (2 ^ 63 - 1)))"

text \<open>\<^verbatim>\<open>Duration.String\<close>, the \<^verbatim>\<open>%s\<close> of a duration: \<^verbatim>\<open>1h2m3.5s\<close>, \<^verbatim>\<open>30s\<close>, \<^verbatim>\<open>1.5ms\<close>.\<close>

definition show_frac :: "nat \<Rightarrow> nat \<Rightarrow> gostring" where
  "show_frac v prec =
     (let digits = show_nat (v mod 10 ^ prec);
          padded = replicate (prec - length digits) (CHR ''0'') @ digits;
          kept = rev (dropWhile (\<lambda>c. c = CHR ''0'') (rev padded))
      in show_nat (v div 10 ^ prec) @ (if kept = [] then [] else CHR ''.'' # kept))"

definition duration_string :: "duration \<Rightarrow> gostring" where
  "duration_string d =
     (let u = nat \<bar>sint d\<bar>; sign = (if sint d < 0 then ''-'' else [])
      in if u = 0 then ''0s''
         else if u < 1000 then sign @ show_nat u @ ''ns''
         else if u < 1000000 then sign @ show_frac u 3 @ [char_of (194 :: nat), char_of (181 :: nat), CHR ''s'']
         else if u < 1000000000 then sign @ show_frac u 6 @ ''ms''
         else let total = u div 1000000000;
                  secs = show_frac (u mod 60000000000) 9 @ ''s'';
                  mins = total div 60;
                  hours = mins div 60
              in sign @ (if hours > 0 then show_nat hours @ ''h'' else []) @
                   (if mins > 0 then show_nat (mins mod 60) @ ''m'' else []) @ secs)"

end
