(* ===== verification/Contract.thy ===== *)
theory Contract
  imports Go_Numbers
begin

text \<open>
  The schema-v2 wire types of \<^verbatim>\<open>internal/contract/v2/types.go\<close>, one record per Go struct, with
  the field names prefixed by the struct so that they stay distinct, and the errors the daemon
  and its clients return, one constructor per \<^verbatim>\<open>errors.New\<close> or \<^verbatim>\<open>fmt.Errorf\<close>. JSON encoding is
  not modelled: a decoded value is the record itself.
\<close>

definition schema_version :: int where
  "schema_version = 2"

record runtime_descriptor =
  rd_schema_version :: int
  rd_endpoint :: gostring
  rd_token :: gostring
  rd_daemon_instance_id :: gostring
  rd_daemon_version :: gostring
  rd_pid :: int
  rd_generated_at :: time

record handshake =
  hs_schema_version :: int
  hs_daemon_instance_id :: gostring
  hs_daemon_version :: gostring
  hs_supported :: "int list"

record daemon_info =
  di_instance_id :: gostring
  di_version :: gostring
  di_started_at :: time

record public_profile =
  pp_kind :: gostring
  pp_public_key :: gostring
  pp_name :: gostring
  pp_env :: gostring
  pp_lease_seconds :: int64

record lease =
  lease_kind :: gostring
  lease_id :: gostring
  lease_consumer_id :: gostring
  lease_consumer_label :: gostring
  lease_profile :: gostring
  lease_env :: gostring
  lease_reason :: gostring
  lease_granted_at :: time
  lease_expires_at :: time

record consumer =
  consumer_id :: gostring
  consumer_label :: gostring
  consumer_created_at :: time
  consumer_expires_at :: time
  consumer_leases :: "lease list"

record event =
  event_id :: gostring
  event_kind :: gostring
  event_profile :: gostring
  event_consumer_id :: gostring
  event_consumer_label :: gostring
  event_reason :: gostring
  event_detail :: gostring
  event_occurred_at :: time

record snapshot =
  snap_schema_version :: int
  snap_revision :: int64
  snap_generated_at :: time
  snap_daemon :: daemon_info
  snap_profiles :: "public_profile list"
  snap_consumers :: "consumer list"
  snap_events :: "event list"

record grant_request =
  gr_profile :: gostring
  gr_consumer_token :: gostring
  gr_consumer_label :: gostring
  gr_consumer_duration_seconds :: int64
  gr_reason :: gostring
  gr_duration_seconds :: int64

record grant_response =
  gresp_consumer_token :: gostring
  gresp_consumer :: consumer
  gresp_lease :: lease

record consumer_request =
  cr_consumer_token :: gostring

record consumer_status_response =
  csr_consumer :: consumer

record revoke_request =
  rr_consumer_token :: gostring
  rr_lease_id :: gostring

record admin_revoke_request =
  ar_consumer_id :: gostring
  ar_lease_id :: gostring

record profile_request =
  pr_name :: gostring
  pr_env :: gostring
  pr_lease_seconds :: int64
  pr_secret :: gostring

record profile_update_request =
  pu_env :: gostring
  pu_lease_seconds :: int64
  pu_secret :: gostring
  pu_management_token :: gostring

record management_response =
  mr_management_token :: gostring
  mr_secret :: gostring
  mr_expires_at :: time

record management_request =
  mq_management_token :: gostring

record exec_request =
  er_consumer_token :: gostring
  er_lease_id :: gostring
  er_arguments :: "gostring list"
  er_working_directory :: gostring
  er_timeout_seconds :: int64

record exec_response =
  ex_exit_code :: int
  ex_stdout :: gostring
  ex_stderr :: gostring

record doctor_check =
  dc_name :: gostring
  dc_status :: gostring
  dc_detail :: gostring

record doctor_report =
  dr_healthy :: bool
  dr_checks :: "doctor_check list"

record agent_connection =
  ac_host :: gostring
  ac_display_name :: gostring
  ac_state :: gostring
  ac_mcp_state :: gostring
  ac_skill_state :: gostring
  ac_detail :: gostring
  ac_can_repair :: bool

record agent_repair_request =
  arr_host :: gostring

record contract_error =
  ce_code :: gostring
  ce_message :: gostring
  ce_retryable :: bool

record error_envelope =
  ee_schema_version :: int
  ee_error :: contract_error

record ssh_profile_request =
  sp_name :: gostring
  sp_lease_seconds :: int64

section \<open>Errors\<close>

datatype error =
    PromptRequired gostring | PromptTooLong gostring nat | PromptControl gostring
  | ConsumerDurationRange | LeaseDurationRange | ConsumerFieldsOnReuse
  | CapabilityRequired | CapabilityInvalid | CapabilityCollision | ConsumerExpiring
  | ProfileRequired | ProfileUnknown gostring | ProfileName | ProfileExists
  | EnvironmentShape | EnvironmentDangerous gostring
  | ExecNoProgram | LeaseIdRequired | ExecTimeoutRange | LeaseUnavailable | ExecSSH
  | SecretInvalid | SSHOverwrite | SSHReveal | SSHEdit | ManagementMissing
  | SSHSeedInvalid | SSHKeyMismatch | SSHOnlyAuthentication | SSHNoLease | SSHReadOnly
  | Outside gostring
  | During gostring gostring error

text \<open>
  \<open>Outside\<close> carries the text of an error of the operating system, the Keychain or the random
  source; \<open>During action subject e\<close> is \<^verbatim>\<open>fmt.Errorf\<close> wrapping \<open>e\<close>.
\<close>

end
