(* ===== verification/Atomic_File.thy ===== *)
theory Atomic_File
  imports Contract
begin

text \<open>
  Replacing a file through a temporary one. Five routines of the program do it with the same
  sequence of system calls: \<^verbatim>\<open>config.Store.Save\<close>, \<^verbatim>\<open>auditStore.save\<close>, \<^verbatim>\<open>publishDescriptor\<close>,
  \<^verbatim>\<open>Checker.writeCache\<close> and \<^verbatim>\<open>restorePrivateFile\<close>. Each is a list of the operations below,
  executed until the first one the operating system fails; the deferred removal of the
  temporary file runs at the end on every path.
\<close>

text \<open>A file whose writing failed or was cut short holds only part of its contents.\<close>

datatype 'a contents = Whole 'a | Part 'a

record 'a disk_file =
  file_contents :: "'a contents"
  file_mode :: nat

record 'a disk =
  target :: "'a disk_file option"
  temporary :: "'a disk_file option"

datatype 'a file_op =
    PrepareDirectory \<comment> \<open>\<^verbatim>\<open>Lstat\<close>, \<^verbatim>\<open>MkdirAll\<close> or \<^verbatim>\<open>Chmod\<close> of the parent\<close>
  | Encode
  | CreateTemp 'a \<comment> \<open>\<^verbatim>\<open>os.CreateTemp\<close>: a new empty file of mode 0600\<close>
  | ChmodTemp
  | WriteTemp 'a
  | SyncTemp
  | CloseTemp
  | RenameTemp
  | ChmodTarget

text \<open>Octal 0600.\<close>

definition owner_only :: nat where "owner_only = 384"

fun apply_op :: "'a file_op \<Rightarrow> 'a disk \<Rightarrow> 'a disk" where
  "apply_op (CreateTemp x) d = d\<lparr>temporary := Some \<lparr>file_contents = Part x, file_mode = owner_only\<rparr>\<rparr>"
| "apply_op ChmodTemp d = d\<lparr>temporary := map_option (\<lambda>f. f\<lparr>file_mode := owner_only\<rparr>) (temporary d)\<rparr>"
| "apply_op (WriteTemp x) d =
     d\<lparr>temporary := map_option (\<lambda>f. f\<lparr>file_contents := Whole x\<rparr>) (temporary d)\<rparr>"
| "apply_op RenameTemp d = d\<lparr>target := temporary d, temporary := None\<rparr>"
| "apply_op ChmodTarget d = d\<lparr>target := map_option (\<lambda>f. f\<lparr>file_mode := owner_only\<rparr>) (target d)\<rparr>"
| "apply_op _ d = d"

text \<open>
  \<open>fault i = Some msg\<close> makes the \<open>i\<close>-th call fail, with no effect. The result is the error, if
  any, and the disk before the deferred removal.
\<close>

fun run_ops :: "(nat \<Rightarrow> gostring option) \<Rightarrow> nat \<Rightarrow> 'a file_op list \<Rightarrow> 'a disk \<Rightarrow> gostring option \<times> 'a disk" where
  "run_ops fault i [] d = (None, d)"
| "run_ops fault i (op # ops) d =
     (case fault i of Some msg \<Rightarrow> (Some msg, d) | None \<Rightarrow> run_ops fault (Suc i) ops (apply_op op d))"

definition remove_temp :: "'a disk \<Rightarrow> 'a disk" where
  "remove_temp d = d\<lparr>temporary := None\<rparr>"

definition replace_file :: "(nat \<Rightarrow> gostring option) \<Rightarrow> 'a file_op list \<Rightarrow> 'a disk \<Rightarrow> gostring option \<times> 'a disk" where
  "replace_file fault ops d = (let r = run_ops fault 0 ops d in (fst r, remove_temp (snd r)))"

section \<open>The five programs\<close>

definition config_save_ops :: "'a \<Rightarrow> 'a file_op list" where
  "config_save_ops x =
     [PrepareDirectory, PrepareDirectory, PrepareDirectory, Encode, CreateTemp x, ChmodTemp,
      WriteTemp x, CloseTemp, RenameTemp, ChmodTarget]"

definition audit_save_ops :: "'a \<Rightarrow> 'a file_op list" where
  "audit_save_ops x =
     [PrepareDirectory, Encode, CreateTemp x, ChmodTemp, WriteTemp x, CloseTemp, RenameTemp]"

definition publish_ops :: "'a \<Rightarrow> 'a file_op list" where
  "publish_ops x =
     [PrepareDirectory, PrepareDirectory, Encode, CreateTemp x, ChmodTemp, WriteTemp x, CloseTemp,
      RenameTemp]"

definition write_cache_ops :: "'a \<Rightarrow> 'a file_op list" where
  "write_cache_ops x =
     [PrepareDirectory, PrepareDirectory, Encode, CreateTemp x, ChmodTemp, WriteTemp x, CloseTemp,
      RenameTemp]"

definition restore_ops :: "'a \<Rightarrow> 'a file_op list" where
  "restore_ops x =
     [PrepareDirectory, CreateTemp x, ChmodTemp, WriteTemp x, SyncTemp, CloseTemp, RenameTemp]"

lemmas file_programs =
  config_save_ops_def audit_save_ops_def publish_ops_def write_cache_ops_def restore_ops_def

section \<open>Atomicity\<close>

text \<open>
  What a routine of this kind promises, whatever fails and wherever the process is killed: the
  target is the old file or the complete new one, of mode 0600; an error without the new file
  leaves the old one; success means the new one.
\<close>

definition new_file :: "'a \<Rightarrow> 'a disk_file" where
  "new_file x = \<lparr>file_contents = Whole x, file_mode = owner_only\<rparr>"

definition crash_after :: "nat \<Rightarrow> 'a file_op list \<Rightarrow> 'a disk \<Rightarrow> 'a disk" where
  "crash_after k ops d = fold apply_op (take k ops) d"

text \<open>The shape shared by the five programs: harmless calls around create, chmod, write, rename.\<close>

locale atomic_writer =
  fixes ops :: "'a \<Rightarrow> 'a file_op list"
  assumes crash_target: "target (crash_after k (ops x) d) \<in> {target d, Some (new_file x)}"
    and complete_target: "target (fold apply_op (ops x) d) = Some (new_file x)"
begin

lemma run_prefix:
  "\<exists>k. snd (run_ops fault i os d) = fold apply_op (take k os) d \<and>
     (fst (run_ops fault i os d) = None \<longrightarrow> k = length os)"
proof (induction os arbitrary: i d)
  case (Cons op os)
  show ?case
  proof (cases "fault i")
    case None
    let ?r = "run_ops fault (Suc i) os (apply_op op d)"
    obtain k where k: "snd ?r = fold apply_op (take k os) (apply_op op d)"
      and len: "fst ?r = None \<longrightarrow> k = length os"
      using Cons [of "Suc i" "apply_op op d"] by (elim exE conjE)
    have "run_ops fault i (op # os) d = ?r" by (simp add: None)
    then show ?thesis
      using k len by (intro exI [of _ "Suc k"]) simp
  next
    case (Some msg)
    then show ?thesis by (intro exI [of _ 0]) simp
  qed
qed simp

lemma replace_atomic: "target (snd (replace_file fault (ops x) d)) \<in> {target d, Some (new_file x)}"
proof -
  obtain k where "snd (run_ops fault 0 (ops x) d) = crash_after k (ops x) d"
    using run_prefix [of fault 0 "ops x" d] by (auto simp: crash_after_def)
  then show ?thesis
    using crash_target [of k x d]
    by (simp add: replace_file_def remove_temp_def Let_def)
qed

lemma replace_success:
  assumes "fst (replace_file fault (ops x) d) = None"
  shows "target (snd (replace_file fault (ops x) d)) = Some (new_file x)"
proof -
  have "snd (run_ops fault 0 (ops x) d) = fold apply_op (ops x) d"
    using run_prefix [of fault 0 "ops x" d] assms
    by (auto simp: replace_file_def Let_def)
  then show ?thesis
    using complete_target [of x d]
    by (simp add: replace_file_def remove_temp_def Let_def)
qed

lemma replace_no_leftover: "temporary (snd (replace_file fault (ops x) d)) = None"
  by (simp add: replace_file_def remove_temp_def Let_def)

end

lemma crash_after_config:
  "target (crash_after k (config_save_ops x) d) \<in> {target d, Some (new_file x)}"
  by (simp add: crash_after_def config_save_ops_def take_Cons' new_file_def)

lemma crash_after_audit:
  "target (crash_after k (audit_save_ops x) d) \<in> {target d, Some (new_file x)}"
  by (simp add: crash_after_def audit_save_ops_def take_Cons' new_file_def)

lemma crash_after_publish:
  "target (crash_after k (publish_ops x) d) \<in> {target d, Some (new_file x)}"
  by (simp add: crash_after_def publish_ops_def take_Cons' new_file_def)

lemma crash_after_restore:
  "target (crash_after k (restore_ops x) d) \<in> {target d, Some (new_file x)}"
  by (simp add: crash_after_def restore_ops_def take_Cons' new_file_def)

interpretation config_writer: atomic_writer config_save_ops
  by unfold_locales (rule crash_after_config, simp add: config_save_ops_def new_file_def)

interpretation audit_writer: atomic_writer audit_save_ops
  by unfold_locales (rule crash_after_audit, simp add: audit_save_ops_def new_file_def)

interpretation descriptor_writer: atomic_writer publish_ops
  by unfold_locales (rule crash_after_publish, simp add: publish_ops_def new_file_def)

interpretation cache_writer: atomic_writer write_cache_ops
  by unfold_locales
    (simp_all add: crash_after_def write_cache_ops_def take_Cons' new_file_def)

interpretation restore_writer: atomic_writer restore_ops
  by unfold_locales (rule crash_after_restore, simp add: restore_ops_def new_file_def)

end
