(* ===== verification/Config.thy ===== *)
theory Config
  imports Atomic_File
begin

text \<open>
  \<^verbatim>\<open>internal/config/config.go\<close>: the profile metadata and its file. The file holds the value
  its JSON decodes to; \<open>Whole None\<close> is a document whose \<^verbatim>\<open>profiles\<close> is null, and a file that
  does not decode is \<open>Part\<close>.
\<close>

record profile =
  profile_kind :: gostring
  profile_public_key :: gostring
  profile_env :: gostring
  profile_lease_seconds :: int64

record config =
  cfg_profiles :: "(gostring, profile) go_map"

type_synonym config_json = "(gostring, profile) go_map option"
type_synonym config_disk = "config_json disk"

text \<open>\<open>read_fault\<close> is an error of \<^verbatim>\<open>os.ReadFile\<close> other than a missing file.\<close>

definition config_load :: "gostring option \<Rightarrow> config_disk \<Rightarrow> error + config" where
  "config_load read_fault d =
     (case target d of
        None \<Rightarrow> Inr \<lparr>cfg_profiles = []\<rparr>
      | Some f \<Rightarrow>
          (case read_fault of
             Some msg \<Rightarrow> Inl (During ''read config'' [] (Outside msg))
           | None \<Rightarrow>
               (case file_contents f of
                  Part _ \<Rightarrow> Inl (During ''parse config'' [] (Outside ''invalid JSON''))
                | Whole None \<Rightarrow> Inr \<lparr>cfg_profiles = []\<rparr>
                | Whole (Some ps) \<Rightarrow> Inr \<lparr>cfg_profiles = ps\<rparr>)))"

definition config_save ::
  "(nat \<Rightarrow> gostring option) \<Rightarrow> config \<Rightarrow> config_disk \<Rightarrow> error option \<times> config_disk" where
  "config_save fault configuration d =
     (let r = replace_file fault (config_save_ops (Some (cfg_profiles configuration))) d
      in (map_option Outside (fst r), snd r))"

definition resolve :: "config \<Rightarrow> gostring \<Rightarrow> error + (gostring \<times> profile)" where
  "resolve configuration requested_profile =
     (let profile_name = requested_profile
      in if profile_name = [] then Inl ProfileRequired
         else case go_get (cfg_profiles configuration) profile_name of
           None \<Rightarrow> Inl (ProfileUnknown profile_name)
         | Some p \<Rightarrow> Inr (profile_name, p))"

text \<open>\<^verbatim>\<open>sort.Strings\<close> orders by bytes, which is the lexicographic order on \<open>char list\<close>.\<close>

definition sorted_profile_names :: "config \<Rightarrow> gostring list" where
  "sorted_profile_names configuration = sort (go_keys (cfg_profiles configuration))"

section \<open>Loading what was saved\<close>

lemma config_save_success:
  assumes "config_save fault cfg d = (None, d')"
  shows "config_load None d' = Inr cfg"
proof -
  have "target d' = Some (new_file (Some (cfg_profiles cfg)))"
    using config_writer.replace_success [of fault "Some (cfg_profiles cfg)" d] assms
    by (auto simp: config_save_def Let_def)
  then show ?thesis by (simp add: config_load_def new_file_def)
qed

lemma config_save_atomic:
  assumes "config_save fault cfg d = (e, d')"
  shows "config_load rf d' = config_load rf d \<or> config_load rf d' \<in> {Inr cfg, Inl (During ''read config'' [] (Outside (the rf)))}"
proof -
  have "target d' \<in> {target d, Some (new_file (Some (cfg_profiles cfg)))}"
    using config_writer.replace_atomic [of fault "Some (cfg_profiles cfg)" d] assms
    by (auto simp: config_save_def Let_def)
  then show ?thesis by (auto simp: config_load_def new_file_def split: option.split)
qed

lemma sorted_names_sorted: "sorted (sorted_profile_names c)"
  by (simp add: sorted_profile_names_def)

lemma sorted_names_set: "set (sorted_profile_names c) = fst ` set (cfg_profiles c)"
  by (simp add: sorted_profile_names_def go_keys_def)

lemma resolve_Inr: "resolve c n = Inr (m, p) \<longleftrightarrow> m = n \<and> n \<noteq> [] \<and> go_get (cfg_profiles c) n = Some p"
  by (auto simp: resolve_def Let_def split: option.splits)

end
