(* ===== verification/Validation.thy ===== *)
theory Validation
  imports Contract
begin

text \<open>
  The input checks of \<^verbatim>\<open>internal/daemon/service.go\<close>: prompt fields, consumer and lease durations,
  environment variable names and profile names, with the regular expressions written as
  predicates on byte strings.
\<close>

definition minimum_lease :: duration where "minimum_lease = minute"

definition maximum_lease :: duration where "maximum_lease = 24 * hour"

definition default_consumer_duration :: duration where "default_consumer_duration = 24 * hour"

definition minimum_consumer_duration :: duration where "minimum_consumer_duration = hour"

definition maximum_consumer_duration :: duration where "maximum_consumer_duration = 7 * 24 * hour"

definition management_session_ttl :: duration where "management_session_ttl = 5 * minute"

lemmas duration_limits =
  minimum_lease_def maximum_lease_def default_consumer_duration_def
  minimum_consumer_duration_def maximum_consumer_duration_def management_session_ttl_def

lemma sint_limits [simp]:
  "sint minimum_lease = 60000000000" "sint maximum_lease = 86400000000000"
  "sint default_consumer_duration = 86400000000000"
  "sint minimum_consumer_duration = 3600000000000"
  "sint maximum_consumer_duration = 604800000000000"
  "sint management_session_ttl = 300000000000"
  by (simp_all add: duration_limits hour_def minute_def second_def)

section \<open>Character classes\<close>

definition is_upper :: "char \<Rightarrow> bool" where
  "is_upper c \<longleftrightarrow> 65 \<le> byte_of c \<and> byte_of c \<le> (90 :: nat)"

definition is_lower :: "char \<Rightarrow> bool" where
  "is_lower c \<longleftrightarrow> 97 \<le> byte_of c \<and> byte_of c \<le> (122 :: nat)"

definition is_alnum :: "char \<Rightarrow> bool" where
  "is_alnum c \<longleftrightarrow> is_upper c \<or> is_lower c \<or> is_digit c"

text \<open>\<^verbatim>\<open>strings.ToUpper\<close> on the ASCII names that have passed the pattern before it is called.\<close>

definition to_upper_char :: "char \<Rightarrow> char" where
  "to_upper_char c = (if is_lower c then char_of (byte_of c - 32 :: nat) else c)"

definition to_upper :: "gostring \<Rightarrow> gostring" where
  "to_upper s = map to_upper_char s"

text \<open>\<^verbatim>\<open>^[A-Za-z0-9][A-Za-z0-9._-]{0,63}$\<close>\<close>

fun profile_name_pattern :: "gostring \<Rightarrow> bool" where
  "profile_name_pattern [] = False"
| "profile_name_pattern (c # cs) =
     (is_alnum c \<and> length cs \<le> 63 \<and> list_all (\<lambda>x. is_alnum x \<or> x \<in> set ''._-'') cs)"

text \<open>\<^verbatim>\<open>^[A-Za-z_][A-Za-z0-9_]*$\<close>\<close>

fun environment_variable_pattern :: "gostring \<Rightarrow> bool" where
  "environment_variable_pattern [] = False"
| "environment_variable_pattern (c # cs) =
     ((is_upper c \<or> is_lower c \<or> c = CHR ''_'') \<and> list_all (\<lambda>x. is_alnum x \<or> x = CHR ''_'') cs)"

section \<open>The checks\<close>

definition validate_prompt_field :: "gostring \<Rightarrow> gostring \<Rightarrow> nat \<Rightarrow> error option" where
  "validate_prompt_field name value maximum_characters =
     (if value = [] then Some (PromptRequired name)
      else if length (runes value) > maximum_characters then Some (PromptTooLong name maximum_characters)
      else if list_ex (\<lambda>r. r < 32 \<or> r = 127) (runes value) then Some (PromptControl name)
      else None)"

definition validate_consumer_duration :: "duration \<Rightarrow> error option" where
  "validate_consumer_duration d =
     (if dur_less d minimum_consumer_duration \<or> dur_less maximum_consumer_duration d
      then Some ConsumerDurationRange else None)"

definition dangerous_names :: "gostring list" where
  "dangerous_names =
     [''PATH'', ''IFS'', ''BASH_ENV'', ''ENV'', ''PROMPT_COMMAND'', ''PYTHONPATH'', ''PYTHONHOME'',
      ''NODE_OPTIONS'', ''RUBYOPT'']"

definition validate_environment :: "gostring \<Rightarrow> error option" where
  "validate_environment name =
     (if \<not> environment_variable_pattern name then Some EnvironmentShape
      else let upper = to_upper name
        in if upper \<in> set dangerous_names \<or> has_prefix upper ''LD_'' \<or> has_prefix upper ''DYLD_''
           then Some (EnvironmentDangerous name) else None)"

definition validate_profile :: "gostring \<Rightarrow> gostring \<Rightarrow> int64 \<Rightarrow> error option" where
  "validate_profile name environment_variable default_lease_seconds =
     (if \<not> profile_name_pattern name then Some ProfileName
      else case validate_environment environment_variable of
        Some e \<Rightarrow> Some e
      | None \<Rightarrow>
          let d = seconds default_lease_seconds
          in if dur_less d minimum_lease \<or> dur_less maximum_lease d then Some LeaseDurationRange
             else None)"

section \<open>What the checks guarantee\<close>

lemma in_second_range_cont: "in_second_range b0 b1 \<Longrightarrow> 128 \<le> b1"
  by (auto simp: in_second_range_def second_range_def split: if_splits)

text \<open>Decoding a rune skips continuation bytes only, so every ASCII byte is a rune of its own.\<close>

lemma decode_multi_skips_high:
  assumes "b \<in> set (take (snd (decode_multi b0 rest) - 1) rest)"
  shows "128 \<le> b"
  using assms
  by (auto simp: decode_multi_def cont_byte_def take_Cons' dest: in_second_range_cont
      split: if_splits list.splits)

lemma decode_rune_skips_high:
  assumes "x \<in> set (take (snd (decode_rune c cs) - 1) cs)"
  shows "(128 :: nat) \<le> byte_of x"
proof (cases "byte_of c < (128 :: nat)")
  case True
  with assms show ?thesis by (simp add: decode_rune_def)
next
  case False
  let ?rest = "map byte_of (take 3 cs) :: nat list"
  let ?w = "snd (decode_multi (byte_of c) ?rest)"
  have w: "?w - 1 \<le> 3"
    by (auto simp: decode_multi_def split: list.splits)
  from False assms have "x \<in> set (take (?w - 1) cs)"
    by (simp add: decode_rune_def Let_def)
  with w have "x \<in> set (take (?w - 1) (take 3 cs))" by simp
  then have "byte_of x \<in> set (take (?w - 1) ?rest)"
    by (metis image_eqI list.set_map take_map)
  then show ?thesis by (rule decode_multi_skips_high)
qed

lemma ascii_byte_is_rune:
  "c \<in> set s \<Longrightarrow> byte_of c < (128 :: nat) \<Longrightarrow> byte_of c \<in> set (runes s)"
proof (induction s rule: runes.induct)
  case (2 d ds)
  let ?w = "snd (decode_rune d ds) - 1"
  show ?case
  proof (cases "c = d")
    case True
    with 2 show ?thesis by (simp add: decode_rune_def)
  next
    case False
    with 2 have "c \<in> set (take ?w ds) \<or> c \<in> set (drop ?w ds)"
      by (metis Un_iff append_take_drop_id set_ConsD set_append)
    moreover have "c \<notin> set (take ?w ds)"
      using decode_rune_skips_high [of c d ds] "2.prems"(2) by auto
    ultimately have "byte_of c \<in> set (runes (drop ?w ds))"
      using "2.IH" "2.prems"(2) by blast
    then show ?thesis by simp
  qed
qed simp

lemma prompt_accepted_bytes:
  assumes "validate_prompt_field name value n = None"
  shows "\<forall>c \<in> set value. 32 \<le> byte_of c \<and> byte_of c \<noteq> (127 :: nat)"
proof
  fix c assume "c \<in> set value"
  from assms have ok: "\<forall>r \<in> set (runes value). 32 \<le> r \<and> r \<noteq> 127"
    by (auto simp: validate_prompt_field_def list_ex_iff not_less split: if_splits)
  show "32 \<le> byte_of c \<and> byte_of c \<noteq> (127 :: nat)"
  proof (cases "byte_of c < (128 :: nat)")
    case True
    with \<open>c \<in> set value\<close> ok show ?thesis by (blast dest: ascii_byte_is_rune)
  qed simp
qed

lemma prompt_accepted_no_newline:
  "validate_prompt_field name value n = None \<Longrightarrow> CHR 0x0A \<notin> set value"
  using prompt_accepted_bytes by fastforce

lemma environment_pattern_chars:
  "environment_variable_pattern s \<Longrightarrow> c \<in> set s \<Longrightarrow> is_alnum c \<or> c = CHR ''_''"
  by (cases s) (auto simp: is_alnum_def list_all_iff)

lemma environment_pattern_clean:
  "environment_variable_pattern s \<Longrightarrow> CHR ''='' \<notin> set s \<and> CHR 0x00 \<notin> set s"
  using environment_pattern_chars
  by (fastforce simp: is_alnum_def is_upper_def is_lower_def is_digit_def)

lemma profile_pattern_clean:
  "profile_name_pattern s \<Longrightarrow> c \<in> set s \<Longrightarrow> is_alnum c \<or> c \<in> set ''._-''"
  by (cases s) (auto simp: list_all_iff)

lemma profile_pattern_no_newline: "profile_name_pattern s \<Longrightarrow> CHR 0x0A \<notin> set s"
  using profile_pattern_clean [of s "CHR 0x0A"]
  by (auto simp: is_alnum_def is_upper_def is_lower_def is_digit_def)

lemma validate_profile_None:
  "validate_profile name env n = None \<longleftrightarrow>
     profile_name_pattern name \<and> validate_environment env = None \<and>
     in_bounds minimum_lease maximum_lease (seconds n)"
  by (auto simp: validate_profile_def Let_def in_bounds_def split: option.splits)

lemma validate_consumer_duration_None:
  "validate_consumer_duration d = None \<longleftrightarrow>
     in_bounds minimum_consumer_duration maximum_consumer_duration d"
  by (auto simp: validate_consumer_duration_def in_bounds_def)

text \<open>Printable ASCII text that is not too long is accepted.\<close>

lemma prompt_ascii:
  assumes "s \<noteq> []" and "length s \<le> n" and "\<forall>c \<in> set s. 32 \<le> byte_of c \<and> byte_of c < (127 :: nat)"
  shows "validate_prompt_field name s n = None"
proof -
  have "runes s = map byte_of s" using assms(3) by (intro runes_ascii) (auto simp: is_ascii_def)
  then show ?thesis using assms by (auto simp: validate_prompt_field_def list_ex_iff)
qed

end
