(* ===== verification/Execution.thy ===== *)
theory Execution
  imports Validation
begin

text \<open>
  \<^verbatim>\<open>internal/execution/executor.go\<close>: running one child with a secret in its environment,
  capturing a bounded part of its output, and redacting the secret from what is returned.
  The child process is outside the program: an outcome names what it wrote, in which order,
  and how \<^verbatim>\<open>command.Run\<close> returned. \<^verbatim>\<open>url.Parse\<close> is a parameter, the password of the
  user information of a parsed URL.
\<close>

section \<open>The bounded buffer\<close>

record bounded_buffer =
  bb_contents :: bytes
  bb_remaining :: nat
  bb_truncated :: bool

definition maximum_captured_stream_bytes :: nat where
  "maximum_captured_stream_bytes = 1024 * 1024"

definition new_bounded_buffer :: "nat \<Rightarrow> bounded_buffer" where
  "new_bounded_buffer maximum_bytes =
     \<lparr>bb_contents = [], bb_remaining = maximum_bytes, bb_truncated = False\<rparr>"

text \<open>\<open>Write\<close> reports the length of its argument even when it keeps less of it.\<close>

definition bb_write :: "bytes \<Rightarrow> bounded_buffer \<Rightarrow> nat \<times> bounded_buffer" where
  "bb_write contents b =
     (let written_to_caller = length contents;
          over = length contents > bb_remaining b;
          kept = (if over then take (bb_remaining b) contents else contents)
      in (written_to_caller,
          b\<lparr>bb_contents := bb_contents b @ kept, bb_remaining := bb_remaining b - length kept,
            bb_truncated := bb_truncated b \<or> over\<rparr>))"

definition bb_write_string :: "gostring \<Rightarrow> bounded_buffer \<Rightarrow> nat \<times> bounded_buffer" where
  "bb_write_string contents b = bb_write contents b"

definition truncation_notice :: gostring where
  "truncation_notice = [CHR 0x0A] @ ''<output truncated by key-session>'' @ [CHR 0x0A]"

definition bb_string :: "bounded_buffer \<Rightarrow> gostring" where
  "bb_string b = (if bb_truncated b then bb_contents b @ truncation_notice else bb_contents b)"

section \<open>The environment of the child\<close>

definition inherited_environment_names :: "gostring list" where
  "inherited_environment_names =
     [''COLORTERM'', ''HOME'', ''LANG'', ''LC_ALL'', ''LC_CTYPE'', ''LOGNAME'', ''NO_COLOR'', ''PATH'',
      ''SHELL'', ''TEMP'', ''TERM'', ''TMP'', ''TMPDIR'', ''TZ'', ''USER'']"

definition default_path :: gostring where
  "default_path = ''PATH=/opt/homebrew/bin:/usr/local/bin:/usr/bin:/bin:/usr/sbin:/sbin''"

text \<open>The name before the first \<open>=\<close>, if there is one.\<close>

definition variable_name :: "gostring \<Rightarrow> gostring option" where
  "variable_name variable =
     (case cut variable ''='' of (name, _, found) \<Rightarrow> if found then Some name else None)"

text \<open>The loop: the variables kept so far and whether one of them is the path.\<close>

fun inherit_loop :: "gostring list \<Rightarrow> gostring list \<Rightarrow> bool \<Rightarrow> gostring list \<times> bool" where
  "inherit_loop [] minimal has_path = (minimal, has_path)"
| "inherit_loop (variable # rest) minimal has_path =
     (case variable_name variable of
        None \<Rightarrow> inherit_loop rest minimal has_path
      | Some name \<Rightarrow>
          if name \<in> set inherited_environment_names
          then inherit_loop rest (minimal @ [variable]) (has_path \<or> name = ''PATH'')
          else inherit_loop rest minimal has_path)"

definition minimal_environment :: "gostring list \<Rightarrow> gostring list" where
  "minimal_environment environment =
     (case inherit_loop environment [] False of
        (minimal, has_path) \<Rightarrow> if has_path then minimal else minimal @ [default_path])"

definition with_environment :: "gostring list \<Rightarrow> gostring \<Rightarrow> gostring \<Rightarrow> gostring list" where
  "with_environment environment name value =
     (let pre = name @ ''=''
      in filter (\<lambda>variable. \<not> has_prefix variable pre) environment @ [pre @ value])"

section \<open>Redaction\<close>

definition redaction_marker :: gostring where
  "redaction_marker = ''<redacted>''"

definition redact :: "gostring \<Rightarrow> gostring list \<Rightarrow> gostring" where
  "redact text sensitive_values =
     foldl (\<lambda>t v. if v \<noteq> [] then replace_all v redaction_marker t else t) text sensitive_values"

definition hex_value :: "char \<Rightarrow> nat option" where
  "hex_value c =
     (let b = byte_of c
      in if 48 \<le> b \<and> b \<le> 57 then Some (b - 48)
         else if 97 \<le> b \<and> b \<le> 102 then Some (b - 87)
         else if 65 \<le> b \<and> b \<le> 70 then Some (b - 55) else None)"

text \<open>\<^verbatim>\<open>url.QueryUnescape\<close>: \<open>None\<close> for a malformed percent escape.\<close>

fun query_unescape :: "gostring \<Rightarrow> gostring option" where
  "query_unescape [] = Some []"
| "query_unescape (c # cs) =
     (if c = CHR ''%'' then
        (case cs of
           h # l # rest \<Rightarrow>
             (case (hex_value h, hex_value l) of
                (Some i, Some j) \<Rightarrow> map_option ((#) (char_of (16 * i + j))) (query_unescape rest)
              | _ \<Rightarrow> None)
         | _ \<Rightarrow> None)
      else map_option ((#) (if c = CHR ''+'' then CHR '' '' else c)) (query_unescape cs))"

text \<open>\<open>url_password\<close> is the password of \<^verbatim>\<open>url.Parse(secret).User\<close>, when there is one.\<close>

definition values_to_redact :: "(gostring \<Rightarrow> gostring option) \<Rightarrow> gostring \<Rightarrow> gostring list" where
  "values_to_redact url_password secret =
     [secret] @
     (case url_password secret of
        None \<Rightarrow> []
      | Some password \<Rightarrow>
          if password = [] then []
          else [password] @
            (case query_unescape password of
               Some decoded \<Rightarrow> if decoded \<noteq> password then [decoded] else []
             | None \<Rightarrow> []))"

section \<open>Running the child\<close>

record command_result =
  cres_exit_code :: int
  cres_stdout :: gostring
  cres_stderr :: gostring

record child_command =
  cc_program :: gostring
  cc_arguments :: "gostring list"
  cc_directory :: gostring
  cc_environment :: "gostring list"
  cc_timeout :: duration

datatype stream = Stdout | Stderr

datatype run_error = ExitError int | OtherError gostring

text \<open>
  What the child did: its writes in order, whether the deadline of the context had passed when
  \<^verbatim>\<open>Run\<close> returned, and the error of \<^verbatim>\<open>Run\<close>.
\<close>

record child_outcome =
  co_writes :: "(stream \<times> bytes) list"
  co_deadline :: bool
  co_error :: "run_error option"

definition capture :: "stream \<Rightarrow> (stream \<times> bytes) list \<Rightarrow> bounded_buffer \<Rightarrow> bounded_buffer" where
  "capture which writes b =
     foldl (\<lambda>buf w. if fst w = which then snd (bb_write (snd w) buf) else buf) b writes"

definition effective_timeout :: "duration \<Rightarrow> duration" where
  "effective_timeout t = (if dur_less t second \<or> dur_less (30 * minute) t then 5 * minute else t)"

text \<open>\<open>Inl\<close> is the result of the early return; \<open>Inr\<close> the command that is started.\<close>

definition prepare_command ::
  "gostring list \<Rightarrow> bytes \<Rightarrow> gostring \<Rightarrow> gostring list \<Rightarrow> gostring \<Rightarrow> duration \<Rightarrow>
   command_result + child_command" where
  "prepare_command os_environ secret environment_variable arguments working_directory t =
     (case arguments of
        [] \<Rightarrow> Inl \<lparr>cres_exit_code = 2, cres_stdout = [], cres_stderr = ''exec requires a program after --''\<rparr>
      | program # rest \<Rightarrow>
          Inr \<lparr>cc_program = program, cc_arguments = rest, cc_directory = working_directory,
               cc_environment =
                 with_environment (minimal_environment os_environ) environment_variable secret,
               cc_timeout = effective_timeout t\<rparr>)"

definition command_outcome ::
  "(gostring \<Rightarrow> gostring option) \<Rightarrow> nat \<Rightarrow> bytes \<Rightarrow> duration \<Rightarrow> child_outcome \<Rightarrow> command_result" where
  "command_outcome url_password limit secret t out =
     (if co_error out \<noteq> None \<and> co_deadline out
      then \<lparr>cres_exit_code = 124, cres_stdout = [],
            cres_stderr = ''command timed out after '' @ duration_string t\<rparr>
      else
        let standard_output = capture Stdout (co_writes out) (new_bounded_buffer limit);
            standard_error0 = capture Stderr (co_writes out) (new_bounded_buffer limit);
            (exit_code, standard_error) =
              (case co_error out of
                 None \<Rightarrow> (0, standard_error0)
               | Some (ExitError code) \<Rightarrow> (code, standard_error0)
               | Some (OtherError msg) \<Rightarrow> (1, snd (bb_write_string msg standard_error0)));
            sensitive_values = values_to_redact url_password secret
        in \<lparr>cres_exit_code = exit_code,
            cres_stdout = redact (bb_string standard_output) sensitive_values,
            cres_stderr = redact (bb_string standard_error) sensitive_values\<rparr>)"

definition run_command ::
  "gostring list \<Rightarrow> (gostring \<Rightarrow> gostring option) \<Rightarrow> (child_command \<Rightarrow> child_outcome) \<Rightarrow>
   bytes \<Rightarrow> gostring \<Rightarrow> gostring list \<Rightarrow> gostring \<Rightarrow> duration \<Rightarrow> command_result" where
  "run_command os_environ url_password run secret environment_variable arguments working_directory t =
     (case prepare_command os_environ secret environment_variable arguments working_directory t of
        Inl early \<Rightarrow> early
      | Inr command \<Rightarrow>
          command_outcome url_password maximum_captured_stream_bytes secret (effective_timeout t) (run command))"

definition execute_with_secret ::
  "gostring list \<Rightarrow> (gostring \<Rightarrow> gostring option) \<Rightarrow> (child_command \<Rightarrow> child_outcome) \<Rightarrow>
   bytes \<Rightarrow> gostring \<Rightarrow> gostring list \<Rightarrow> gostring \<Rightarrow> duration \<Rightarrow> command_result" where
  "execute_with_secret os_environ url_password run secret environment_variable arguments working_directory t =
     run_command os_environ url_password run secret environment_variable arguments working_directory t"

end
