(* ===== verification/Sha256.thy ===== *)
theory Sha256
  imports Go_Strings
begin

text \<open>
  \<^verbatim>\<open>crypto/sha256.Sum256\<close> (FIPS 180-4), the hash under which the daemon stores consumer
  capabilities and compares bearer tokens. The definition is executable; no statement of the
  development assumes it free of collisions unless it says so.
\<close>

unbundle bit_operations_syntax

text \<open>A Go \<^verbatim>\<open>[32]byte\<close>.\<close>

type_synonym digest = "8 word list"

text \<open>The round constants and the initial hash, written in decimal.\<close>

definition sha_k :: "32 word list" where
  "sha_k = [
   1116352408, 1899447441, 3049323471, 3921009573, 961987163, 1508970993, 2453635748, 2870763221,
   3624381080, 310598401, 607225278, 1426881987, 1925078388, 2162078206, 2614888103, 3248222580,
   3835390401, 4022224774, 264347078, 604807628, 770255983, 1249150122, 1555081692, 1996064986,
   2554220882, 2821834349, 2952996808, 3210313671, 3336571891, 3584528711, 113926993, 338241895,
   666307205, 773529912, 1294757372, 1396182291, 1695183700, 1986661051, 2177026350, 2456956037,
   2730485921, 2820302411, 3259730800, 3345764771, 3516065817, 3600352804, 4094571909, 275423344,
   430227734, 506948616, 659060556, 883997877, 958139571, 1322822218, 1537002063, 1747873779,
   1955562222, 2024104815, 2227730452, 2361852424, 2428436474, 2756734187, 3204031479, 3329325298]"

definition sha_init :: "32 word list" where
  "sha_init = [1779033703, 3144134277, 1013904242, 2773480762,
     1359893119, 2600822924, 528734635, 1541459225]"

definition sha_rotr :: "nat \<Rightarrow> 32 word \<Rightarrow> 32 word" where
  "sha_rotr n x = (drop_bit n x) OR (push_bit (32 - n) x)"

definition sha_small0 :: "32 word \<Rightarrow> 32 word" where
  "sha_small0 x = sha_rotr 7 x XOR sha_rotr 18 x XOR drop_bit 3 x"

definition sha_small1 :: "32 word \<Rightarrow> 32 word" where
  "sha_small1 x = sha_rotr 17 x XOR sha_rotr 19 x XOR drop_bit 10 x"

definition sha_big0 :: "32 word \<Rightarrow> 32 word" where
  "sha_big0 x = sha_rotr 2 x XOR sha_rotr 13 x XOR sha_rotr 22 x"

definition sha_big1 :: "32 word \<Rightarrow> 32 word" where
  "sha_big1 x = sha_rotr 6 x XOR sha_rotr 11 x XOR sha_rotr 25 x"

fun sha_schedule :: "nat \<Rightarrow> 32 word list \<Rightarrow> 32 word list" where
  "sha_schedule 0 ws = []"
| "sha_schedule (Suc n) ws =
     hd ws # sha_schedule n (tl ws @ [sha_small1 (ws ! 14) + ws ! 9 + sha_small0 (ws ! 1) + hd ws])"

fun sha_round :: "32 word list \<Rightarrow> 32 word \<times> 32 word \<Rightarrow> 32 word list" where
  "sha_round [a, b, c, d, e, f, g, h] (k, w) =
     (let t1 = h + sha_big1 e + ((e AND f) XOR (NOT e AND g)) + k + w;
          t2 = sha_big0 a + ((a AND b) XOR (a AND c) XOR (b AND c))
      in [t1 + t2, a, b, c, d + t1, e, f, g])"
| "sha_round st _ = st"

definition sha_compress :: "32 word list \<Rightarrow> 32 word list \<Rightarrow> 32 word list" where
  "sha_compress st blk = map2 (+) st (foldl sha_round st (zip sha_k (sha_schedule 64 blk)))"

definition be32 :: "8 word list \<Rightarrow> 32 word" where
  "be32 bs = foldl (\<lambda>acc b. push_bit 8 acc OR ucast b) 0 bs"

definition byte_at :: "nat \<Rightarrow> 'a::len word \<Rightarrow> 8 word" where
  "byte_at i w = ucast (drop_bit (8 * i) w)"

definition sha_pad :: "8 word list \<Rightarrow> 8 word list" where
  "sha_pad bs = bs @ [0x80] @ replicate ((119 - length bs mod 64) mod 64) 0 @
     map (\<lambda>i. byte_at i (of_nat (8 * length bs) :: 64 word)) [7, 6, 5, 4, 3, 2, 1, 0]"

fun split_every :: "nat \<Rightarrow> nat \<Rightarrow> 'a list \<Rightarrow> 'a list list" where
  "split_every 0 n xs = []"
| "split_every (Suc k) n xs = take n xs # split_every k n (drop n xs)"

definition sha256 :: "string \<Rightarrow> digest" where
  "sha256 s =
     (let p = sha_pad (map of_char s);
          blocks = map (\<lambda>b. map be32 (split_every 16 4 b)) (split_every (length p div 64) 64 p)
      in concat (map (\<lambda>w. map (\<lambda>i. byte_at i w) [3, 2, 1, 0]) (foldl sha_compress sha_init blocks)))"

text \<open>A digest has 32 bytes.\<close>

lemma length_sha_round [simp]: "length st = 8 \<Longrightarrow> length (sha_round st kw) = 8"
  by (cases "(st, kw)" rule: sha_round.cases) (auto simp: Let_def)

lemma length_sha_rounds: "length st = 8 \<Longrightarrow> length (foldl sha_round st kws) = 8"
  by (induction kws arbitrary: st) auto

lemma length_sha_compress [simp]: "length st = 8 \<Longrightarrow> length (sha_compress st blk) = 8"
  by (simp add: sha_compress_def length_sha_rounds)

lemma length_sha_blocks: "length st = 8 \<Longrightarrow> length (foldl sha_compress st blks) = 8"
  by (induction blks arbitrary: st) auto

lemma length_sha256: "length (sha256 s) = 32"
proof -
  have "length (foldl sha_compress sha_init blks) = 8" for blks
    by (rule length_sha_blocks) (simp add: sha_init_def)
  moreover have "length (concat (map (\<lambda>w :: 32 word. map (\<lambda>i. byte_at i w) [3, 2, 1, 0]) ws)) = 4 * length ws" for ws
    by (induction ws) auto
  ultimately show ?thesis
    unfolding sha256_def Let_def by simp
qed

text \<open>For every digest there is another array of 32 bytes.\<close>

definition other_digest :: "digest \<Rightarrow> digest" where
  "other_digest d = map (\<lambda>b. b + 1) d"

lemma other_digest_neq: "d \<noteq> [] \<Longrightarrow> other_digest d \<noteq> d"
  by (cases d) (auto simp: other_digest_def)

lemma sha256_not_Nil [simp]: "sha256 s \<noteq> []"
  using length_sha256 [of s] by auto

end
