(* ===== verification/Base64.thy ===== *)
theory Base64
  imports Go_Strings
begin

text \<open>
  \<^verbatim>\<open>encoding/base64\<close>: the standard alphabet with padding, in which the daemon stores an
  SSH seed, and the unpadded URL alphabet of its capabilities and identifiers.
\<close>

definition b64_std :: gostring where
  "b64_std = ''ABCDEFGHIJKLMNOPQRSTUVWXYZabcdefghijklmnopqrstuvwxyz0123456789+/''"

definition b64_url :: gostring where
  "b64_url = ''ABCDEFGHIJKLMNOPQRSTUVWXYZabcdefghijklmnopqrstuvwxyz0123456789-_''"

definition b64_char :: "gostring \<Rightarrow> nat \<Rightarrow> char" where
  "b64_char alphabet i = alphabet ! (i mod 64)"

text \<open>The four six-bit groups of three bytes, and the three bytes of four groups.\<close>

definition sextet1 :: "nat \<Rightarrow> nat" where "sextet1 a = a div 4"

definition sextet2 :: "nat \<Rightarrow> nat \<Rightarrow> nat" where "sextet2 a b = a mod 4 * 16 + b div 16"

definition sextet3 :: "nat \<Rightarrow> nat \<Rightarrow> nat" where "sextet3 b c = b mod 16 * 4 + c div 64"

definition sextet4 :: "nat \<Rightarrow> nat" where "sextet4 c = c mod 64"

definition octet1 :: "nat \<Rightarrow> nat \<Rightarrow> nat" where "octet1 i j = i * 4 + j div 16"

definition octet2 :: "nat \<Rightarrow> nat \<Rightarrow> nat" where "octet2 j k = j mod 16 * 16 + k div 4"

definition octet3 :: "nat \<Rightarrow> nat \<Rightarrow> nat" where "octet3 k l = k mod 4 * 64 + l"

text \<open>Encoding, three bytes at a time; \<open>pad\<close> says whether the tail is padded with \<open>=\<close>.\<close>

fun b64_encode :: "gostring \<Rightarrow> bool \<Rightarrow> bytes \<Rightarrow> gostring" where
  "b64_encode al pad [] = []"
| "b64_encode al pad [a] =
     [b64_char al (sextet1 (byte_of a)), b64_char al (sextet2 (byte_of a) 0)] @
     (if pad then ''=='' else [])"
| "b64_encode al pad [a, b] =
     [b64_char al (sextet1 (byte_of a)), b64_char al (sextet2 (byte_of a) (byte_of b)),
      b64_char al (sextet3 (byte_of b) 0)] @ (if pad then ''='' else [])"
| "b64_encode al pad (a # b # c # rest) =
     [b64_char al (sextet1 (byte_of a)), b64_char al (sextet2 (byte_of a) (byte_of b)),
      b64_char al (sextet3 (byte_of b) (byte_of c)), b64_char al (sextet4 (byte_of c))] @
     b64_encode al pad rest"

definition b64_value :: "gostring \<Rightarrow> char \<Rightarrow> nat option" where
  "b64_value al c = find (\<lambda>i. al ! i = c) [0..<64]"

text \<open>
  \<^verbatim>\<open>StdEncoding.Decode\<close>: carriage returns and line feeds are skipped, the input comes in
  groups of four characters, only the last group may end in padding, and the bits the
  padding leaves over are not checked (the encoding is not strict).
\<close>

fun b64_groups :: "gostring \<Rightarrow> bytes option" where
  "b64_groups [] = Some []"
| "b64_groups (w # x # y # z # rest) =
     (case (b64_value b64_std w, b64_value b64_std x) of
        (Some i, Some j) \<Rightarrow>
          (if y = CHR ''='' then
             (if z = CHR ''='' \<and> rest = [] then Some [char_of (octet1 i j)] else None)
           else case b64_value b64_std y of
             None \<Rightarrow> None
           | Some k \<Rightarrow>
               (if z = CHR ''='' then
                  (if rest = [] then Some [char_of (octet1 i j), char_of (octet2 j k)] else None)
                else case (b64_value b64_std z, b64_groups rest) of
                  (Some l, Some out) \<Rightarrow>
                    Some (char_of (octet1 i j) # char_of (octet2 j k) # char_of (octet3 k l) # out)
                | _ \<Rightarrow> None))
      | _ \<Rightarrow> None)"
| "b64_groups _ = None"

definition std_decode :: "gostring \<Rightarrow> bytes option" where
  "std_decode s = b64_groups (filter (\<lambda>c. c \<noteq> CHR 0x0A \<and> c \<noteq> CHR 0x0D) s)"

definition std_encode :: "bytes \<Rightarrow> gostring" where
  "std_encode bs = b64_encode b64_std True bs"

definition raw_url_encode :: "bytes \<Rightarrow> gostring" where
  "raw_url_encode bs = b64_encode b64_url False bs"

lemma b64_std_facts: "length b64_std = 64" "distinct b64_std"
    "CHR ''='' \<notin> set b64_std" "CHR 0x0A \<notin> set b64_std" "CHR 0x0D \<notin> set b64_std"
  by (simp_all add: b64_std_def)

lemma b64_char_nth: "i < 64 \<Longrightarrow> b64_char b64_std i = b64_std ! i"
  by (simp add: b64_char_def)

lemma b64_value_char:
  assumes "i < 64"
  shows "b64_value b64_std (b64_char b64_std i) = Some i"
proof -
  have "b64_std ! j \<noteq> b64_std ! i" if "j < i" for j
    using that assms b64_std_facts by (simp add: nth_eq_iff_index_eq)
  then show ?thesis
    using assms by (auto simp: b64_value_def b64_char_nth find_Some_iff)
qed

lemma b64_char_clean:
  assumes "i < 64"
  shows "b64_char b64_std i \<noteq> CHR ''='' \<and> b64_char b64_std i \<noteq> CHR 0x0A \<and>
    b64_char b64_std i \<noteq> CHR 0x0D"
proof -
  have "b64_char b64_std i \<in> set b64_std"
    using assms b64_std_facts by (simp add: b64_char_nth)
  then show ?thesis using b64_std_facts by metis
qed

lemma byte_lt: "byte_of c < (256 :: nat)"
  by (metis nat_of_char_less_256 of_char_of)

section \<open>Decoding inverts encoding\<close>

lemma sextet_bounds:
  "a < 256 \<Longrightarrow> sextet1 a < 64" "b < 256 \<Longrightarrow> sextet2 a b < 64"
  "c < 256 \<Longrightarrow> sextet3 b c < 64" "sextet4 c < 64"
  using mod_less_divisor [of 4 a] mod_less_divisor [of 16 b]
  by (simp_all add: sextet1_def sextet2_def sextet3_def sextet4_def)

lemma octets_sextets:
  "b < 256 \<Longrightarrow> octet1 (sextet1 a) (sextet2 a b) = a"
  "b < 256 \<Longrightarrow> c < 256 \<Longrightarrow> octet2 (sextet2 a b) (sextet3 b c) = b"
  "c < 256 \<Longrightarrow> octet3 (sextet3 b c) (sextet4 c) = c"
proof -
  assume b: "b < 256"
  then have "b div 16 < 16" by simp
  then have "(a mod 4 * 16 + b div 16) div 16 = a mod 4" by simp
  then show "octet1 (sextet1 a) (sextet2 a b) = a"
    by (simp only: octet1_def sextet1_def sextet2_def div_mult_mod_eq)
next
  assume b: "b < 256" and c: "c < 256"
  then have "b div 16 < 16" "c div 64 < 4" by simp_all
  then have "(a mod 4 * 16 + b div 16) mod 16 = b div 16" "(b mod 16 * 4 + c div 64) div 4 = b mod 16"
    by simp_all
  then show "octet2 (sextet2 a b) (sextet3 b c) = b"
    by (simp only: octet2_def sextet2_def sextet3_def div_mult_mod_eq)
next
  assume c: "c < 256"
  then have "c div 64 < 4" by simp
  then have "(b mod 16 * 4 + c div 64) mod 4 = c div 64" by simp
  then show "octet3 (sextet3 b c) (sextet4 c) = c"
    by (simp only: octet3_def sextet3_def sextet4_def div_mult_mod_eq)
qed

lemmas sextet_chars =
  b64_value_char [OF sextet_bounds(1)] b64_value_char [OF sextet_bounds(2)]
  b64_value_char [OF sextet_bounds(3)] b64_value_char [OF sextet_bounds(4)]
  b64_char_clean [OF sextet_bounds(1)] b64_char_clean [OF sextet_bounds(2)]
  b64_char_clean [OF sextet_bounds(3)] b64_char_clean [OF sextet_bounds(4)]

lemma b64_groups_encode: "b64_groups (b64_encode b64_std True bs) = Some bs"
  by (induction b64_std True bs rule: b64_encode.induct)
    (simp_all add: sextet_chars octets_sextets byte_lt)

lemma b64_encode_clean:
  "c \<in> set (b64_encode b64_std True bs) \<Longrightarrow> c \<noteq> CHR 0x0A \<and> c \<noteq> CHR 0x0D"
  by (induction b64_std True bs rule: b64_encode.induct)
    (auto simp: sextet_chars byte_lt)

lemma std_decode_encode: "std_decode (std_encode bs) = Some bs"
proof -
  have "filter (\<lambda>c. c \<noteq> CHR 0x0A \<and> c \<noteq> CHR 0x0D) (std_encode bs) = std_encode bs"
    using b64_encode_clean by (auto simp: std_encode_def filter_id_conv)
  then show ?thesis
    by (simp add: std_decode_def std_encode_def b64_groups_encode)
qed

end
