(* ===== verification/Service_State.thy ===== *)
theory Service_State
  imports Config Execution Sha256 Base64
begin

text \<open>
  The state of the daemon (\<^verbatim>\<open>internal/daemon/service.go\<close>, \<^verbatim>\<open>audit.go\<close>, \<^verbatim>\<open>runtime.go\<close>) and the
  routines that run under its lock: recording an event, clearing leases, consumers and
  management sessions, and expiring them.

  Secrets live in byte buffers the code shares and overwrites, so the state has a heap: a
  list of buffers, addressed by position. Maps are association lists; a
  \<^verbatim>\<open>*consumerSession\<close> is the entry of the consumer map it was taken from, and writing through
  it is \<open>modify_consumer\<close>.
\<close>

section \<open>What is outside the program\<close>

text \<open>
  Every call to the outside (the clock, the random source, the Keychain, the file system, a
  child process) takes the next number of a counter in the state; the environment answers
  the call with that number. Statements hold for every environment unless they name a
  property of it. The last fields are functions: \<open>env_url_password\<close> is the password of a parsed
  URL, \<open>env_public_of_seed\<close> the public key \<^verbatim>\<open>ed25519.NewKeyFromSeed\<close> derives, and the others
  are of \<^verbatim>\<open>golang.org/x/crypto/ssh\<close>: the wire form \<^verbatim>\<open>ssh.NewPublicKey\<close> gives a public key, its
  authorized-keys line, the wire form of the public key of \<^verbatim>\<open>ssh.NewSignerFromKey\<close>, and the
  signature of a signer.
\<close>

record env =
  env_clock :: "nat \<Rightarrow> time"
  env_random :: "nat \<Rightarrow> nat \<Rightarrow> gostring + bytes"
  env_keychain_read :: "nat \<Rightarrow> gostring \<Rightarrow> gostring \<Rightarrow> gostring + bytes"
  env_keychain_store :: "nat \<Rightarrow> gostring \<Rightarrow> bytes \<Rightarrow> gostring option"
  env_keychain_delete :: "nat \<Rightarrow> gostring \<Rightarrow> gostring \<Rightarrow> gostring option"
  env_read_fault :: "nat \<Rightarrow> gostring option"
  env_write_fault :: "nat \<Rightarrow> nat \<Rightarrow> gostring option"
  env_child :: "nat \<Rightarrow> child_command \<Rightarrow> child_outcome"
  env_environ :: "gostring list"
  env_url_password :: "gostring \<Rightarrow> gostring option"
  env_public_of_seed :: "bytes \<Rightarrow> bytes"
  env_ssh_public :: "bytes \<Rightarrow> gostring + bytes"
  env_ssh_authorized_line :: "bytes \<Rightarrow> gostring"
  env_ssh_signer :: "bytes \<Rightarrow> gostring + bytes"
  env_ssh_sign :: "bytes \<Rightarrow> bytes \<Rightarrow> gostring + bytes"

definition monotone_clock :: "env \<Rightarrow> bool" where
  "monotone_clock E \<longleftrightarrow> (\<forall>i j. i \<le> j \<longrightarrow> env_clock E i \<le> env_clock E j)"

text \<open>What the outside has seen of the daemon, newest first: a history, read by no operation.\<close>

datatype effect =
    KeychainRead (read_account: gostring) (read_message: gostring) (read_approved: bool)
  | KeychainStore gostring bytes bool
  | KeychainDelete gostring gostring bool
  | ChildRun child_command

section \<open>The state\<close>

record active_lease =
  al_metadata :: lease
  al_secret :: nat

record consumer_session =
  cs_metadata :: consumer
  cs_leases :: "(gostring, active_lease) go_map"

record management_session =
  ms_profile :: gostring
  ms_secret :: nat
  ms_expires_at :: time

record service =
  sv_consumers :: "(digest, consumer_session) go_map"
  sv_management :: "(gostring, management_session) go_map"
  sv_events :: "event list"
  sv_revision :: int64
  sv_instance_id :: gostring
  sv_version :: gostring
  sv_started_at :: time
  sv_config :: config_disk
  sv_audit :: "event list disk"
  sv_heap :: "bytes list"
  sv_calls :: nat
  sv_trace :: "effect list"

definition next_call :: "service \<Rightarrow> service" where
  "next_call s = s\<lparr>sv_calls := Suc (sv_calls s)\<rparr>"

definition log_effect :: "effect \<Rightarrow> service \<Rightarrow> service" where
  "log_effect e s = s\<lparr>sv_trace := e # sv_trace s\<rparr>"

definition time_now :: "env \<Rightarrow> service \<Rightarrow> time \<times> service" where
  "time_now E s = (env_clock E (sv_calls s), next_call s)"

section \<open>Buffers\<close>

definition zeroed :: "bytes \<Rightarrow> bool" where
  "zeroed bs \<longleftrightarrow> list_all (\<lambda>c. c = CHR 0x00) bs"

definition alloc :: "bytes \<Rightarrow> service \<Rightarrow> nat \<times> service" where
  "alloc bs s = (length (sv_heap s), s\<lparr>sv_heap := sv_heap s @ [bs]\<rparr>)"

definition buffer :: "service \<Rightarrow> nat \<Rightarrow> bytes" where
  "buffer s a = sv_heap s ! a"

text \<open>\<^verbatim>\<open>clearBytes\<close>: the loop that stores zero at every index of the slice.\<close>

fun zero_from :: "nat \<Rightarrow> bytes \<Rightarrow> bytes" where
  "zero_from 0 bs = bs"
| "zero_from (Suc i) bs = zero_from i (bs[i := CHR 0x00])"

definition clear_bytes :: "nat \<Rightarrow> service \<Rightarrow> service" where
  "clear_bytes a s =
     s\<lparr>sv_heap := (sv_heap s)[a := zero_from (length (sv_heap s ! a)) (sv_heap s ! a)]\<rparr>"

section \<open>The configuration and the Keychain\<close>

definition load_config :: "env \<Rightarrow> service \<Rightarrow> (error + config) \<times> service" where
  "load_config E s = (config_load (env_read_fault E (sv_calls s)) (sv_config s), next_call s)"

definition save_config :: "env \<Rightarrow> config \<Rightarrow> service \<Rightarrow> error option \<times> service" where
  "save_config E cfg s =
     (let r = config_save (env_write_fault E (sv_calls s)) cfg (sv_config s)
      in (fst r, next_call (s\<lparr>sv_config := snd r\<rparr>)))"

text \<open>
  \<^verbatim>\<open>keychain.Read\<close> shows the message on the biometric prompt and returns the item in a new
  buffer when the human approves.
\<close>

definition keychain_read :: "env \<Rightarrow> gostring \<Rightarrow> gostring \<Rightarrow> service \<Rightarrow> (error + nat) \<times> service" where
  "keychain_read E account message s =
     (case env_keychain_read E (sv_calls s) account message of
        Inl msg \<Rightarrow> (Inl (Outside msg), log_effect (KeychainRead account message False) (next_call s))
      | Inr bs \<Rightarrow>
          let (a, s1) = alloc bs (log_effect (KeychainRead account message True) (next_call s))
          in (Inr a, s1))"

definition keychain_store :: "env \<Rightarrow> gostring \<Rightarrow> bytes \<Rightarrow> service \<Rightarrow> error option \<times> service" where
  "keychain_store E account secret s =
     (if secret = [] then (Some (Outside ''secret is empty''), s)
      else
        let r = env_keychain_store E (sv_calls s) account secret
        in (map_option Outside r, log_effect (KeychainStore account secret (r = None)) (next_call s)))"

definition keychain_delete_with_approval :: "env \<Rightarrow> gostring \<Rightarrow> service \<Rightarrow> error option \<times> service" where
  "keychain_delete_with_approval E account s =
     (let message = ''Permanently remove the Key Session profile '' @ account @ '' and its stored secret.'';
          r = env_keychain_delete E (sv_calls s) account message
      in (map_option Outside r, log_effect (KeychainDelete account message (r = None)) (next_call s)))"

section \<open>Random identifiers\<close>

definition random_capability :: "env \<Rightarrow> gostring \<Rightarrow> service \<Rightarrow> (error + gostring) \<times> service" where
  "random_capability E pre s =
     ((case env_random E (sv_calls s) 32 of
         Inl msg \<Rightarrow> Inl (During ''generate capability'' [] (Outside msg))
       | Inr bs \<Rightarrow> Inr (pre @ raw_url_encode bs)),
      next_call s)"

definition random_identifier :: "env \<Rightarrow> gostring \<Rightarrow> service \<Rightarrow> (error + gostring) \<times> service" where
  "random_identifier E pre s =
     ((case env_random E (sv_calls s) 16 of
         Inl msg \<Rightarrow> Inl (Outside msg)
       | Inr bs \<Rightarrow> Inr (pre @ raw_url_encode bs)),
      next_call s)"

section \<open>The audit journal\<close>

definition maximum_audit_events :: nat where
  "maximum_audit_events = 200"

definition last_events :: "event list \<Rightarrow> event list" where
  "last_events evs =
     (if length evs > maximum_audit_events then drop (length evs - maximum_audit_events) evs else evs)"

definition audit_load :: "gostring option \<Rightarrow> event list disk \<Rightarrow> error + event list" where
  "audit_load read_fault d =
     (case target d of
        None \<Rightarrow> Inr []
      | Some f \<Rightarrow>
          (case read_fault of
             Some msg \<Rightarrow> Inl (During ''read audit journal'' [] (Outside msg))
           | None \<Rightarrow>
               (case file_contents f of
                  Part _ \<Rightarrow> Inl (During ''parse audit journal'' [] (Outside ''invalid JSON''))
                | Whole evs \<Rightarrow> Inr evs)))"

definition audit_save ::
  "(nat \<Rightarrow> gostring option) \<Rightarrow> event list \<Rightarrow> event list disk \<Rightarrow> gostring option \<times> event list disk" where
  "audit_save fault evs d = replace_file fault (audit_save_ops (last_events evs)) d"

text \<open>\<open>recordLocked\<close> ignores the error of saving the journal.\<close>

definition record_locked ::
  "env \<Rightarrow> gostring \<Rightarrow> gostring \<Rightarrow> gostring \<Rightarrow> gostring \<Rightarrow> gostring \<Rightarrow> gostring \<Rightarrow> service \<Rightarrow> service" where
  "record_locked E kind prof cid label reason detail s =
     (let s1 = s\<lparr>sv_revision := sv_revision s + 1\<rparr>;
          (stamp, s2) = time_now E s1;
          (occurred, s3) = time_now E s2;
          ev = \<lparr>event_id = ''evt_'' @ show_int stamp @ ''_'' @ show_int (sint (sv_revision s1)),
                event_kind = kind, event_profile = prof, event_consumer_id = cid,
                event_consumer_label = label, event_reason = reason, event_detail = detail,
                event_occurred_at = occurred\<rparr>;
          s4 = s3\<lparr>sv_events := last_events (sv_events s3 @ [ev])\<rparr>
      in next_call
           (s4\<lparr>sv_audit := snd (audit_save (env_write_fault E (sv_calls s4)) (sv_events s4) (sv_audit s4))\<rparr>))"

section \<open>Clearing leases, consumers and management sessions\<close>

text \<open>Writing through the pointer stored under a hash.\<close>

definition modify_consumer :: "digest \<Rightarrow> (consumer_session \<Rightarrow> consumer_session) \<Rightarrow> service \<Rightarrow> service" where
  "modify_consumer h f s =
     s\<lparr>sv_consumers := map (\<lambda>(k, c). (k, if k = h then f c else c)) (sv_consumers s)\<rparr>"

definition leases_at :: "service \<Rightarrow> digest \<Rightarrow> (gostring, active_lease) go_map" where
  "leases_at s h = (case go_get (sv_consumers s) h of None \<Rightarrow> [] | Some c \<Rightarrow> cs_leases c)"

definition clear_lease_locked :: "digest \<Rightarrow> gostring \<Rightarrow> service \<Rightarrow> service" where
  "clear_lease_locked h i s =
     (case go_get (leases_at s h) i of
        None \<Rightarrow> s
      | Some l \<Rightarrow>
          let s1 = clear_bytes (al_secret l) s;
              s2 = modify_consumer h (\<lambda>c. c\<lparr>cs_leases := go_del i (cs_leases c)\<rparr>) s1
          in s2\<lparr>sv_revision := sv_revision s2 + 1\<rparr>)"

text \<open>
  The loop four routines share: over the leases of one consumer, clear each one that is not
  kept and record it.
\<close>

fun sweep_leases ::
  "env \<Rightarrow> digest \<Rightarrow> gostring \<Rightarrow> gostring \<Rightarrow> (active_lease \<Rightarrow> bool) \<Rightarrow> gostring \<Rightarrow> gostring \<Rightarrow>
   (gostring, active_lease) go_map \<Rightarrow> service \<Rightarrow> service" where
  "sweep_leases E h cid label keep kind detail [] s = s"
| "sweep_leases E h cid label keep kind detail ((i, l) # rest) s =
     (if keep l then sweep_leases E h cid label keep kind detail rest s
      else sweep_leases E h cid label keep kind detail rest
        (record_locked E kind (lease_profile (al_metadata l)) cid label (lease_reason (al_metadata l)) detail
          (clear_lease_locked h i s)))"

definition drop_consumer :: "digest \<Rightarrow> service \<Rightarrow> service" where
  "drop_consumer h s = s\<lparr>sv_consumers := go_del h (sv_consumers s)\<rparr>"

definition clear_consumer_locked :: "env \<Rightarrow> digest \<Rightarrow> consumer_session \<Rightarrow> gostring \<Rightarrow> service \<Rightarrow> service" where
  "clear_consumer_locked E h c detail s =
     (let cid = consumer_id (cs_metadata c); label = consumer_label (cs_metadata c);
          s1 = sweep_leases E h cid label (\<lambda>_. False) ''revoked'' detail (leases_at s h) s
      in record_locked E ''consumer_ended'' [] cid label [] detail (drop_consumer h s1))"

definition lease_live :: "time \<Rightarrow> active_lease \<Rightarrow> bool" where
  "lease_live now l \<longleftrightarrow> now < lease_expires_at (al_metadata l)"

definition consumer_live :: "time \<Rightarrow> consumer_session \<Rightarrow> bool" where
  "consumer_live now c \<longleftrightarrow> now < consumer_expires_at (cs_metadata c)"

fun expire_consumers :: "env \<Rightarrow> time \<Rightarrow> (digest, consumer_session) go_map \<Rightarrow> service \<Rightarrow> service" where
  "expire_consumers E now [] s = s"
| "expire_consumers E now ((h, c) # rest) s =
     (let s1 = sweep_leases E h (consumer_id (cs_metadata c)) (consumer_label (cs_metadata c))
                 (lease_live now) ''expired'' ''Lease expired automatically'' (leases_at s h) s
      in if consumer_live now c then expire_consumers E now rest s1
         else expire_consumers E now rest
           (clear_consumer_locked E h c ''Consumer capability expired automatically'' s1))"

definition expire_locked :: "env \<Rightarrow> time \<Rightarrow> service \<Rightarrow> service" where
  "expire_locked E now s = expire_consumers E now (sv_consumers s) s"

fun clear_lease_list :: "digest \<Rightarrow> (gostring, active_lease) go_map \<Rightarrow> service \<Rightarrow> service" where
  "clear_lease_list h [] s = s"
| "clear_lease_list h ((i, l) # rest) s = clear_lease_list h rest (clear_lease_locked h i s)"

fun clear_consumer_list :: "(digest, consumer_session) go_map \<Rightarrow> service \<Rightarrow> service" where
  "clear_consumer_list [] s = s"
| "clear_consumer_list ((h, c) # rest) s =
     clear_consumer_list rest (drop_consumer h (clear_lease_list h (leases_at s h) s))"

definition clear_consumers_locked :: "service \<Rightarrow> service" where
  "clear_consumers_locked s = clear_consumer_list (sv_consumers s) s"

fun clear_profile_list ::
  "env \<Rightarrow> gostring \<Rightarrow> gostring \<Rightarrow> (digest, consumer_session) go_map \<Rightarrow> service \<Rightarrow> service" where
  "clear_profile_list E prof detail [] s = s"
| "clear_profile_list E prof detail ((h, c) # rest) s =
     clear_profile_list E prof detail rest
       (sweep_leases E h (consumer_id (cs_metadata c)) (consumer_label (cs_metadata c))
          (\<lambda>l. lease_profile (al_metadata l) \<noteq> prof) ''revoked'' detail (leases_at s h) s)"

definition clear_profile_leases_locked :: "env \<Rightarrow> gostring \<Rightarrow> gostring \<Rightarrow> service \<Rightarrow> service" where
  "clear_profile_leases_locked E prof detail s = clear_profile_list E prof detail (sv_consumers s) s"

definition drop_management :: "gostring \<Rightarrow> management_session \<Rightarrow> service \<Rightarrow> service" where
  "drop_management t m s =
     (let s1 = clear_bytes (ms_secret m) s in s1\<lparr>sv_management := go_del t (sv_management s1)\<rparr>)"

text \<open>The loops over the management sessions delete the ones that are not kept.\<close>

fun sweep_management ::
  "(management_session \<Rightarrow> bool) \<Rightarrow> (gostring, management_session) go_map \<Rightarrow> service \<Rightarrow> service" where
  "sweep_management keep [] s = s"
| "sweep_management keep ((t, m) # rest) s =
     sweep_management keep rest (if keep m then s else drop_management t m s)"

definition expire_management_sessions_locked :: "time \<Rightarrow> service \<Rightarrow> service" where
  "expire_management_sessions_locked now s =
     sweep_management (\<lambda>m. now < ms_expires_at m) (sv_management s) s"

definition clear_management_sessions_locked :: "service \<Rightarrow> service" where
  "clear_management_sessions_locked s = sweep_management (\<lambda>_. False) (sv_management s) s"

definition close_service :: "service \<Rightarrow> service" where
  "close_service s = clear_management_sessions_locked (clear_consumers_locked s)"

end
