(* ===== verification/Service_Invariants.thy ===== *)
theory Service_Invariants
  imports Service_State
begin

text \<open>
  What the locked routines preserve. An invariant that the four primitives keep (clearing a
  lease, recording an event, dropping an emptied consumer, dropping a management session) is
  kept by every loop built from them; the locale \<open>kept_by_primitives\<close> proves that once, and
  each invariant of the daemon interprets it.
\<close>

section \<open>Frames\<close>

lemma next_call_frame [frame]:
  "sv_consumers (next_call s) = sv_consumers s" "sv_management (next_call s) = sv_management s"
  "sv_events (next_call s) = sv_events s" "sv_revision (next_call s) = sv_revision s"
  "sv_config (next_call s) = sv_config s" "sv_heap (next_call s) = sv_heap s"
  "sv_trace (next_call s) = sv_trace s" "sv_calls (next_call s) = Suc (sv_calls s)"
  "sv_audit (next_call s) = sv_audit s"
  by (simp_all add: next_call_def)

lemma time_now_eq: "time_now E s = (env_clock E (sv_calls s), next_call s)"
  by (simp add: time_now_def)

lemma record_frame [frame]:
  "sv_consumers (record_locked E k p cid lab r d s) = sv_consumers s"
  "sv_management (record_locked E k p cid lab r d s) = sv_management s"
  "sv_config (record_locked E k p cid lab r d s) = sv_config s"
  "sv_heap (record_locked E k p cid lab r d s) = sv_heap s"
  "sv_trace (record_locked E k p cid lab r d s) = sv_trace s"
  "sv_revision (record_locked E k p cid lab r d s) = sv_revision s + 1"
  "sv_calls (record_locked E k p cid lab r d s) = sv_calls s + 3"
  by (simp_all add: record_locked_def time_now_def Let_def next_call_def)

lemma clear_bytes_frame [frame]:
  "sv_consumers (clear_bytes a s) = sv_consumers s" "sv_management (clear_bytes a s) = sv_management s"
  "sv_events (clear_bytes a s) = sv_events s" "sv_revision (clear_bytes a s) = sv_revision s"
  "sv_config (clear_bytes a s) = sv_config s" "sv_trace (clear_bytes a s) = sv_trace s"
  "sv_calls (clear_bytes a s) = sv_calls s" "sv_audit (clear_bytes a s) = sv_audit s"
  by (simp_all add: clear_bytes_def)

lemma modify_frame [frame]:
  "sv_management (modify_consumer h f s) = sv_management s"
  "sv_events (modify_consumer h f s) = sv_events s" "sv_heap (modify_consumer h f s) = sv_heap s"
  "sv_config (modify_consumer h f s) = sv_config s" "sv_trace (modify_consumer h f s) = sv_trace s"
  "sv_calls (modify_consumer h f s) = sv_calls s" "sv_audit (modify_consumer h f s) = sv_audit s"
  "sv_revision (modify_consumer h f s) = sv_revision s"
  by (simp_all add: modify_consumer_def)

lemma clear_lease_frame [frame]:
  "sv_management (clear_lease_locked h i s) = sv_management s"
  "sv_events (clear_lease_locked h i s) = sv_events s"
  "sv_config (clear_lease_locked h i s) = sv_config s"
  "sv_trace (clear_lease_locked h i s) = sv_trace s"
  "sv_calls (clear_lease_locked h i s) = sv_calls s"
  by (simp_all add: clear_lease_locked_def Let_def frame split: option.split)

lemma drop_consumer_frame [frame]:
  "sv_management (drop_consumer h s) = sv_management s" "sv_heap (drop_consumer h s) = sv_heap s"
  "sv_events (drop_consumer h s) = sv_events s" "sv_config (drop_consumer h s) = sv_config s"
  "sv_trace (drop_consumer h s) = sv_trace s" "sv_calls (drop_consumer h s) = sv_calls s"
  by (simp_all add: drop_consumer_def)

lemma drop_management_frame [frame]:
  "sv_consumers (drop_management t m s) = sv_consumers s"
  "sv_events (drop_management t m s) = sv_events s" "sv_config (drop_management t m s) = sv_config s"
  "sv_trace (drop_management t m s) = sv_trace s" "sv_calls (drop_management t m s) = sv_calls s"
  by (simp_all add: drop_management_def Let_def frame)

section \<open>The consumer map after clearing a lease\<close>

definition remove_lease :: "gostring \<Rightarrow> consumer_session \<Rightarrow> consumer_session" where
  "remove_lease i c = c\<lparr>cs_leases := go_del i (cs_leases c)\<rparr>"

lemma remove_lease_simps [simp]:
  "cs_metadata (remove_lease i c) = cs_metadata c"
  "cs_leases (remove_lease i c) = filter (\<lambda>e. fst e \<noteq> i) (cs_leases c)"
  by (simp_all add: remove_lease_def delete_filter)

definition at_key :: "'k \<Rightarrow> ('v \<Rightarrow> 'v) \<Rightarrow> ('k, 'v) go_map \<Rightarrow> ('k, 'v) go_map" where
  "at_key h f m = map (\<lambda>(k, c). (k, if k = h then f c else c)) m"

lemma at_key_simps [simp]:
  "at_key h f [] = []"
  "at_key h f ((k, c) # m) = (k, if k = h then f c else c) # at_key h f m"
  "map fst (at_key h f m) = map fst m"
  by (auto simp: at_key_def)

lemma at_key_keys: "fst ` set (at_key h f m) = fst ` set m"
  by (force simp: at_key_def)

lemma at_key_append [simp]: "at_key h f (m @ m') = at_key h f m @ at_key h f m'"
  by (simp add: at_key_def)

lemma at_key_absent: "h \<notin> fst ` set m \<Longrightarrow> at_key h f m = m"
  by (induction m) force+

lemma at_key_wf [simp]: "wf_map (at_key h f m) = wf_map m"
  by (simp add: wf_map_def)

lemma at_key_get: "go_get (at_key h f m) k = (if k = h then map_option f (go_get m k) else go_get m k)"
  by (induction m) auto

lemma at_key_id [simp]: "at_key h (\<lambda>c. c) m = m"
  by (auto simp: at_key_def intro!: map_idI)

lemma at_key_same: "(\<And>c. (h, c) \<in> set m \<Longrightarrow> f c = c) \<Longrightarrow> at_key h f m = m"
  by (induction m) force+

lemma at_key_cong: "(\<And>c. (h, c) \<in> set m \<Longrightarrow> f c = g c) \<Longrightarrow> at_key h f m = at_key h g m"
  by (induction m) force+

lemma at_key_twice: "at_key h f (at_key h g m) = at_key h (f \<circ> g) m"
  by (induction m) auto

lemma modify_consumers: "sv_consumers (modify_consumer h f s) = at_key h f (sv_consumers s)"
  by (simp add: modify_consumer_def at_key_def)

lemma remove_absent_lease: "i \<notin> fst ` set (cs_leases c) \<Longrightarrow> remove_lease i c = c"
  by (simp add: remove_lease_def delete_absent)

lemma leases_at_get: "go_get (sv_consumers s) h = Some c \<Longrightarrow> leases_at s h = cs_leases c"
  by (simp add: leases_at_def)

section \<open>Well-formed maps\<close>

definition wf_state :: "service \<Rightarrow> bool" where
  "wf_state s \<longleftrightarrow> wf_map (sv_consumers s) \<and> (\<forall>e \<in> set (sv_consumers s). wf_map (cs_leases (snd e))) \<and>
     wf_map (sv_management s)"

lemma clear_lease_consumers:
  assumes "wf_state s"
  shows "sv_consumers (clear_lease_locked h i s) = at_key h (remove_lease i) (sv_consumers s)"
proof (cases "go_get (leases_at s h) i")
  case None
  have "remove_lease i c = c" if "(h, c) \<in> set (sv_consumers s)" for c
  proof -
    have "leases_at s h = cs_leases c"
      using that assms by (simp add: leases_at_def wf_state_def wf_map_get)
    then show ?thesis
      using None by (simp add: remove_absent_lease map_of_eq_None_iff)
  qed
  with None show ?thesis by (simp add: clear_lease_locked_def at_key_same)
next
  case (Some l)
  then show ?thesis
    by (simp add: clear_lease_locked_def Let_def modify_consumers frame remove_lease_def [abs_def])
qed

lemma wf_filter: "wf_map m \<Longrightarrow> wf_map (filter P m)"
  by (simp add: wf_map_def distinct_map_filter)

lemma at_key_mem:
  "e \<in> set (at_key h f m) \<longleftrightarrow> (\<exists>c. (fst e, c) \<in> set m \<and> snd e = (if fst e = h then f c else c))"
  by (induction m) (cases e; force)+

lemma wf_clear_lease: "wf_state s \<Longrightarrow> wf_state (clear_lease_locked h i s)"
  by (fastforce simp: wf_state_def clear_lease_consumers frame at_key_mem wf_filter)

lemma wf_drop_consumer: "wf_state s \<Longrightarrow> wf_state (drop_consumer h s)"
  by (auto simp: wf_state_def drop_consumer_def gm.wf_del delete_filter wf_filter)

lemma wf_drop_management: "wf_state s \<Longrightarrow> wf_state (drop_management t m s)"
  by (simp add: wf_state_def drop_management_def Let_def frame gm.wf_del)

lemma wf_record: "wf_state (record_locked E k p cid lab r d s) = wf_state s"
  by (simp add: wf_state_def frame)

lemma leases_at_clear:
  assumes "wf_state s"
  shows "leases_at (clear_lease_locked h i s) h' =
    (if h' = h then filter (\<lambda>e. fst e \<noteq> i) (leases_at s h') else leases_at s h')"
  using assms by (auto simp: leases_at_def clear_lease_consumers at_key_get split: option.split)

lemma leases_at_record [simp]: "leases_at (record_locked E k p cid lab r d s) h = leases_at s h"
  by (simp add: leases_at_def frame)

section \<open>What the loops compute\<close>

text \<open>The consumer with only the leases that satisfy a predicate.\<close>

definition keep_leases :: "(active_lease \<Rightarrow> bool) \<Rightarrow> consumer_session \<Rightarrow> consumer_session" where
  "keep_leases P c = c\<lparr>cs_leases := filter (\<lambda>e. P (snd e)) (cs_leases c)\<rparr>"

lemma keep_leases_simps [simp]:
  "cs_metadata (keep_leases P c) = cs_metadata c"
  "cs_leases (keep_leases P c) = filter (\<lambda>e. P (snd e)) (cs_leases c)"
  by (simp_all add: keep_leases_def)

lemma keep_leases_all: "(\<And>e. e \<in> set (cs_leases c) \<Longrightarrow> P (snd e)) \<Longrightarrow> keep_leases P c = c"
  by (simp add: keep_leases_def cong: filter_cong)

lemma keep_leases_none: "keep_leases (\<lambda>_. False) c = c\<lparr>cs_leases := []\<rparr>"
  by (simp add: keep_leases_def)

lemma wf_sweep: "wf_state s \<Longrightarrow> wf_state (sweep_leases E h cid lab keep kind detail ls s)"
proof (induction ls arbitrary: s)
  case (Cons e ls)
  then show ?case by (cases e) (simp add: wf_clear_lease wf_record)
qed simp

lemma sweep_frame [frame]:
  "sv_management (sweep_leases E h cid lab keep kind detail ls s) = sv_management s"
  "sv_config (sweep_leases E h cid lab keep kind detail ls s) = sv_config s"
  "sv_trace (sweep_leases E h cid lab keep kind detail ls s) = sv_trace s"
  by (induction ls arbitrary: s) (auto simp: frame)

lemma sweep_consumers_list:
  assumes "wf_state s"
  shows "sv_consumers (sweep_leases E h cid lab keep kind detail ls s) =
    at_key h (\<lambda>c. c\<lparr>cs_leases :=
        filter (\<lambda>e. fst e \<notin> fst ` set (filter (\<lambda>e. \<not> keep (snd e)) ls)) (cs_leases c)\<rparr>) (sv_consumers s)"
  using assms
proof (induction ls arbitrary: s)
  case (Cons e ls)
  obtain i l where e: "e = (i, l)" by (cases e)
  show ?case
  proof (cases "keep l")
    case False
    let ?s = "record_locked E kind (lease_profile (al_metadata l)) cid lab (lease_reason (al_metadata l)) detail
        (clear_lease_locked h i s)"
    have "wf_state ?s" using Cons.prems by (simp add: wf_record wf_clear_lease)
    then show ?thesis
      using Cons False e
      by (simp add: frame clear_lease_consumers at_key_twice comp_def remove_lease_def delete_filter
          conj_commute)
  qed (use Cons e in simp)
qed simp

lemma sweep_consumers:
  assumes "wf_state s"
  shows "sv_consumers (sweep_leases E h cid lab keep kind detail (leases_at s h) s) =
    at_key h (keep_leases keep) (sv_consumers s)"
proof -
  have "c\<lparr>cs_leases := filter (\<lambda>e. fst e \<notin> fst ` set (filter (\<lambda>e. \<not> keep (snd e)) (leases_at s h)))
      (cs_leases c)\<rparr> = keep_leases keep c" if "(h, c) \<in> set (sv_consumers s)" for c
  proof -
    have ls: "leases_at s h = cs_leases c"
      using that assms by (simp add: leases_at_def wf_state_def wf_map_get)
    have wf: "wf_map (cs_leases c)" using that assms by (force simp: wf_state_def)
    have "fst e \<notin> fst ` set (filter (\<lambda>e. \<not> keep (snd e)) (cs_leases c)) \<longleftrightarrow> keep (snd e)"
      if "e \<in> set (cs_leases c)" for e
      using that wf by (force simp: wf_map_def distinct_map inj_on_def)
    then show ?thesis
      unfolding ls keep_leases_def by (metis (no_types, lifting) filter_cong)
  qed
  then show ?thesis
    using assms by (subst sweep_consumers_list) (auto intro: at_key_cong)
qed

text \<open>The entry under the hash is the one between the others.\<close>

lemma at_key_middle:
  assumes "wf_map (pre @ (h, c) # rest)"
  shows "at_key h f (pre @ (h, c) # rest) = pre @ (h, f c) # rest"
  using assms by (auto simp: wf_map_def at_key_absent)

lemma delete_middle:
  assumes "wf_map (pre @ (h, c) # rest)"
  shows "go_del h (pre @ (h, c) # rest) = pre @ rest"
proof -
  have "h \<notin> fst ` set pre" "h \<notin> fst ` set rest" using assms by (auto simp: wf_map_def)
  then show ?thesis
    using delete_absent [of h pre] delete_absent [of h rest] by (simp add: delete_filter)
qed

lemma get_middle:
  assumes "wf_map (pre @ (h, c) # rest)"
  shows "go_get (pre @ (h, c) # rest) h = Some c"
proof -
  have "h \<notin> fst ` set pre" using assms by (auto simp: wf_map_def)
  then have "go_get pre h = None" by (simp add: map_of_eq_None_iff)
  then show ?thesis by (simp add: map_add_def)
qed

lemma sweep_middle:
  assumes "wf_state s" and "sv_consumers s = pre @ (h, c) # rest"
  shows "sv_consumers (sweep_leases E h cid lab keep kind detail (leases_at s h) s) =
    pre @ (h, keep_leases keep c) # rest"
proof -
  have "wf_map (pre @ (h, c) # rest)" using assms by (simp add: wf_state_def)
  then show ?thesis
    unfolding sweep_consumers [OF assms(1)] assms(2) by (rule at_key_middle)
qed

lemma clear_consumer_middle:
  assumes "wf_state s" and "sv_consumers s = pre @ (h, c) # rest"
  shows "sv_consumers (clear_consumer_locked E h c' detail s) = pre @ rest"
proof -
  have "wf_map (pre @ (h, keep_leases (\<lambda>_. False) c) # rest)"
    using assms by (simp add: wf_state_def wf_map_def)
  then show ?thesis
    using assms
    by (simp add: clear_consumer_locked_def Let_def frame drop_consumer_def sweep_middle delete_middle)
qed

lemma wf_clear_consumer: "wf_state s \<Longrightarrow> wf_state (clear_consumer_locked E h c detail s)"
  by (simp add: clear_consumer_locked_def Let_def wf_record wf_drop_consumer wf_sweep)

lemma clear_consumer_frame [frame]:
  "sv_management (clear_consumer_locked E h c d s) = sv_management s"
  "sv_config (clear_consumer_locked E h c d s) = sv_config s"
  "sv_trace (clear_consumer_locked E h c d s) = sv_trace s"
  by (simp_all add: clear_consumer_locked_def Let_def frame)

text \<open>
  Expiring is a filter: every live consumer is kept with exactly its live leases, and nothing
  else changes in the map.
\<close>

lemma expire_consumers_list:
  assumes "wf_state s" and "sv_consumers s = pre @ rest"
  shows "sv_consumers (expire_consumers E now rest s) =
    pre @ map (\<lambda>(h, c). (h, keep_leases (lease_live now) c)) (filter (\<lambda>e. consumer_live now (snd e)) rest)"
  using assms
proof (induction rest arbitrary: s pre)
  case (Cons e rest)
  obtain h c where e: "e = (h, c)" by (cases e)
  let ?c = "keep_leases (lease_live now) c"
  let ?s1 = "sweep_leases E h (consumer_id (cs_metadata c)) (consumer_label (cs_metadata c)) (lease_live now)
      ''expired'' ''Lease expired automatically'' (leases_at s h) s"
  let ?s2 = "clear_consumer_locked E h c ''Consumer capability expired automatically'' ?s1"
  have wf: "wf_state ?s1" "wf_state ?s2"
    using Cons.prems by (simp_all add: wf_sweep wf_clear_consumer)
  have c1: "sv_consumers ?s1 = pre @ (h, ?c) # rest"
    using Cons.prems e by (simp add: sweep_middle)
  then have c2: "sv_consumers ?s2 = pre @ rest"
    using wf by (simp add: clear_consumer_middle)
  show ?case
  proof (cases "consumer_live now c")
    case True
    then show ?thesis
      using Cons.IH [OF wf(1), of "pre @ [(h, ?c)]"] c1 e by (simp add: Let_def)
  next
    case False
    then show ?thesis using Cons.IH [OF wf(2) c2] e by (simp add: Let_def)
  qed
qed simp

lemma expire_consumers_eq:
  "wf_state s \<Longrightarrow> sv_consumers (expire_locked E now s) =
     map (\<lambda>(h, c). (h, keep_leases (lease_live now) c))
       (filter (\<lambda>e. consumer_live now (snd e)) (sv_consumers s))"
  using expire_consumers_list [of s "[]" "sv_consumers s"] by (simp add: expire_locked_def)

lemma map_of_map_filter:
  "wf_map m \<Longrightarrow> go_get (map (\<lambda>(k, v). (k, f v)) (filter (\<lambda>e. P (snd e)) m)) k =
     (case go_get m k of None \<Rightarrow> None | Some v \<Rightarrow> if P v then Some (f v) else None)"
  by (induction m) (auto split: option.split simp: map_of_eq_None_iff image_iff dest: go_get_mem, force dest: go_get_mem)

lemma expire_get:
  "wf_state s \<Longrightarrow> go_get (sv_consumers (expire_locked E now s)) h =
     (case go_get (sv_consumers s) h of None \<Rightarrow> None
      | Some c \<Rightarrow> if consumer_live now c then Some (keep_leases (lease_live now) c) else None)"
  by (simp add: expire_consumers_eq map_of_map_filter wf_state_def)

lemma expire_consumers_frame:
  "sv_management (expire_consumers E now ms s) = sv_management s \<and>
   sv_config (expire_consumers E now ms s) = sv_config s \<and>
   sv_trace (expire_consumers E now ms s) = sv_trace s"
  by (induction ms arbitrary: s) (auto simp: frame Let_def)

lemma expire_frame [frame]:
  "sv_management (expire_locked E now s) = sv_management s"
  "sv_config (expire_locked E now s) = sv_config s"
  "sv_trace (expire_locked E now s) = sv_trace s"
  by (simp_all add: expire_locked_def expire_consumers_frame)

lemma clear_profile_list_consumers:
  assumes "wf_state s" and "sv_consumers s = pre @ rest"
  shows "sv_consumers (clear_profile_list E p d rest s) =
    pre @ map (\<lambda>(h, c). (h, keep_leases (\<lambda>l. lease_profile (al_metadata l) \<noteq> p) c)) rest"
  using assms
proof (induction rest arbitrary: s pre)
  case (Cons e rest)
  obtain h c where e: "e = (h, c)" by (cases e)
  let ?keep = "\<lambda>l. lease_profile (al_metadata l) \<noteq> p"
  let ?s1 = "sweep_leases E h (consumer_id (cs_metadata c)) (consumer_label (cs_metadata c)) ?keep
      ''revoked'' d (leases_at s h) s"
  have "wf_state ?s1" using Cons.prems by (simp add: wf_sweep)
  moreover have "sv_consumers ?s1 = (pre @ [(h, keep_leases ?keep c)]) @ rest"
    using Cons.prems e by (simp add: sweep_middle)
  ultimately show ?case
    using Cons.IH e by simp
qed simp

lemma clear_profile_consumers:
  "wf_state s \<Longrightarrow> sv_consumers (clear_profile_leases_locked E p d s) =
     map (\<lambda>(h, c). (h, keep_leases (\<lambda>l. lease_profile (al_metadata l) \<noteq> p) c)) (sv_consumers s)"
  using clear_profile_list_consumers [of s "[]" "sv_consumers s"]
  by (simp add: clear_profile_leases_locked_def)

lemma clear_profile_list_frame:
  "sv_management (clear_profile_list E p d ms s) = sv_management s \<and>
   sv_config (clear_profile_list E p d ms s) = sv_config s \<and>
   sv_trace (clear_profile_list E p d ms s) = sv_trace s"
  by (induction ms arbitrary: s) (auto simp: frame)

lemma clear_profile_frame [frame]:
  "sv_management (clear_profile_leases_locked E p d s) = sv_management s"
  "sv_config (clear_profile_leases_locked E p d s) = sv_config s"
  "sv_trace (clear_profile_leases_locked E p d s) = sv_trace s"
  by (simp_all add: clear_profile_leases_locked_def clear_profile_list_frame)

section \<open>Management sessions and shutdown\<close>

lemma sweep_management_frame [frame]:
  "sv_consumers (sweep_management keep ms s) = sv_consumers s"
  "sv_config (sweep_management keep ms s) = sv_config s"
  "sv_trace (sweep_management keep ms s) = sv_trace s"
  "sv_events (sweep_management keep ms s) = sv_events s"
  by (induction ms arbitrary: s) (auto simp: frame)

lemma drop_management_sessions: "sv_management (drop_management t m s) = go_del t (sv_management s)"
  by (simp add: drop_management_def Let_def frame)

lemma sweep_management_list:
  assumes "wf_state s" and "sv_management s = pre @ rest"
  shows "sv_management (sweep_management keep rest s) = pre @ filter (\<lambda>e. keep (snd e)) rest"
  using assms
proof (induction rest arbitrary: s pre)
  case (Cons e rest)
  obtain t m where e: "e = (t, m)" by (cases e)
  show ?case
  proof (cases "keep m")
    case True
    then show ?thesis using Cons.IH [of s "pre @ [e]"] Cons.prems e by simp
  next
    case False
    have wf: "wf_state (drop_management t m s)" using Cons.prems by (simp add: wf_drop_management)
    have "wf_map (pre @ (t, m) # rest)" using Cons.prems e by (simp add: wf_state_def)
    then have "sv_management (drop_management t m s) = pre @ rest"
      using Cons.prems e by (simp add: drop_management_sessions delete_middle del: append.simps)
    then show ?thesis using Cons.IH [OF wf] False e by simp
  qed
qed simp

lemma expire_management_eq:
  "wf_state s \<Longrightarrow> sv_management (expire_management_sessions_locked now s) =
     filter (\<lambda>e. now < ms_expires_at (snd e)) (sv_management s)"
  using sweep_management_list [of s "[]" "sv_management s"]
  by (simp add: expire_management_sessions_locked_def)

lemma clear_management_eq: "wf_state s \<Longrightarrow> sv_management (clear_management_sessions_locked s) = []"
  using sweep_management_list [of s "[]" "sv_management s"]
  by (simp add: clear_management_sessions_locked_def)

lemma clear_lease_list_wf: "wf_state s \<Longrightarrow> wf_state (clear_lease_list h ls s)"
proof (induction ls arbitrary: s)
  case (Cons e ls)
  then show ?case by (cases e) (simp add: wf_clear_lease)
qed simp

text \<open>Clearing the leases of a list, without recording: the same map as a sweep that keeps none.\<close>

lemma clear_lease_list_consumers:
  "wf_state s \<Longrightarrow> sv_consumers (clear_lease_list h ls s) =
     sv_consumers (sweep_leases E h cid lab (\<lambda>_. False) kind detail ls s)"
proof (induction ls arbitrary: s)
  case (Cons e ls)
  obtain i l where e: "e = (i, l)" by (cases e)
  let ?r = "record_locked E kind (lease_profile (al_metadata l)) cid lab (lease_reason (al_metadata l)) detail"
  have wf: "wf_state (clear_lease_locked h i s)" using Cons.prems by (rule wf_clear_lease)
  then show ?case
    using Cons.IH [OF wf] e
    by (simp add: sweep_consumers_list wf_record frame)
qed simp

lemma clear_lease_list_all:
  assumes "wf_state s"
  shows "sv_consumers (clear_lease_list h (leases_at s h) s) =
    at_key h (keep_leases (\<lambda>_. False)) (sv_consumers s)"
  unfolding clear_lease_list_consumers [OF assms, of h _ undefined "[]" "[]" "[]" "[]"]
  by (rule sweep_consumers [OF assms])

lemma clear_consumer_list_consumers:
  assumes "wf_state s" and "sv_consumers s = pre @ rest"
  shows "wf_state (clear_consumer_list rest s) \<and> sv_consumers (clear_consumer_list rest s) = pre"
  using assms
proof (induction rest arbitrary: s)
  case (Cons e rest)
  obtain h c where e: "e = (h, c)" by (cases e)
  let ?s1 = "clear_lease_list h (leases_at s h) s"
  have wf: "wf_state ?s1" using Cons.prems by (simp add: clear_lease_list_wf)
  have "wf_map (pre @ (h, c) # rest)" using Cons.prems e by (simp add: wf_state_def)
  then have c1: "sv_consumers ?s1 = pre @ (h, keep_leases (\<lambda>_. False) c) # rest"
    unfolding clear_lease_list_all [OF Cons.prems(1)] Cons.prems(2) e by (rule at_key_middle)
  then have "sv_consumers (drop_consumer h ?s1) = pre @ rest"
    using wf by (simp add: drop_consumer_def wf_state_def delete_middle)
  then show ?case using Cons.IH wf e by (simp add: wf_drop_consumer)
qed simp

lemma clear_consumers_eq:
  "wf_state s \<Longrightarrow> wf_state (clear_consumers_locked s) \<and> sv_consumers (clear_consumers_locked s) = []"
  using clear_consumer_list_consumers [of s "[]" "sv_consumers s"]
  by (simp add: clear_consumers_locked_def)

lemma close_empties:
  "wf_state s \<Longrightarrow> sv_consumers (close_service s) = [] \<and> sv_management (close_service s) = []"
  by (simp add: close_service_def clear_management_eq clear_consumers_eq)
    (simp add: clear_management_sessions_locked_def frame clear_consumers_eq)

section \<open>Invariants that the loops keep\<close>

locale kept_by_primitives =
  fixes inv :: "service \<Rightarrow> bool"
  assumes inv_wf: "inv s \<Longrightarrow> wf_state s"
    and inv_clear_lease: "inv s \<Longrightarrow> inv (clear_lease_locked h i s)"
    and inv_record: "inv s \<Longrightarrow> inv (record_locked E k p cid lab r d s)"
    and inv_drop_consumer: "inv s \<Longrightarrow> leases_at s h = [] \<Longrightarrow> inv (drop_consumer h s)"
    and inv_drop_management:
      "inv s \<Longrightarrow> go_get (sv_management s) t = Some m \<Longrightarrow> inv (drop_management t m s)"
begin

lemma sweep: "inv s \<Longrightarrow> inv (sweep_leases E h cid lab keep kind detail ls s)"
proof (induction ls arbitrary: s)
  case (Cons e ls)
  then show ?case by (cases e) (simp add: inv_clear_lease inv_record)
qed simp

lemma swept_empty:
  assumes "inv s"
  shows "leases_at (sweep_leases E h cid lab (\<lambda>_. False) kind detail (leases_at s h) s) h = []"
  using inv_wf [OF assms]
  by (simp add: leases_at_def [of "sweep_leases E h cid lab (\<lambda>_. False) kind detail (leases_at s h) s"]
      sweep_consumers at_key_get split: option.split)

lemma clear_consumer: "inv s \<Longrightarrow> inv (clear_consumer_locked E h c detail s)"
  by (simp add: clear_consumer_locked_def Let_def inv_record inv_drop_consumer sweep swept_empty)

lemma expire_list: "inv s \<Longrightarrow> inv (expire_consumers E now cs s)"
proof (induction cs arbitrary: s)
  case (Cons e cs)
  then show ?case by (cases e) (simp add: Let_def sweep clear_consumer)
qed simp

lemma expire: "inv s \<Longrightarrow> inv (expire_locked E now s)"
  by (simp add: expire_locked_def expire_list)

lemma clear_profile_list: "inv s \<Longrightarrow> inv (clear_profile_list E p d cs s)"
proof (induction cs arbitrary: s)
  case (Cons e cs)
  then show ?case by (cases e) (simp add: sweep)
qed simp

lemma clear_profile: "inv s \<Longrightarrow> inv (clear_profile_leases_locked E p d s)"
  by (simp add: clear_profile_leases_locked_def clear_profile_list)

lemma clear_leases: "inv s \<Longrightarrow> inv (clear_lease_list h ls s)"
proof (induction ls arbitrary: s)
  case (Cons e ls)
  then show ?case by (cases e) (simp add: inv_clear_lease)
qed simp

lemma cleared_empty: "inv s \<Longrightarrow> leases_at (clear_lease_list h (leases_at s h) s) h = []"
  by (drule inv_wf)
    (simp add: leases_at_def [of "clear_lease_list h (leases_at s h) s"] clear_lease_list_all
      at_key_get split: option.split)

lemma clear_consumers_list: "inv s \<Longrightarrow> inv (clear_consumer_list cs s)"
proof (induction cs arbitrary: s)
  case (Cons e cs)
  then show ?case by (cases e) (simp add: clear_leases inv_drop_consumer cleared_empty)
qed simp

lemma clear_consumers: "inv s \<Longrightarrow> inv (clear_consumers_locked s)"
  by (simp add: clear_consumers_locked_def clear_consumers_list)

text \<open>The sessions still to be visited are in the map when they are reached.\<close>

lemma management_list:
  assumes "inv s" and "sv_management s = pre @ rest"
  shows "inv (sweep_management keep rest s)"
  using assms
proof (induction rest arbitrary: s pre)
  case (Cons e rest)
  obtain t m where e: "e = (t, m)" by (cases e)
  have wf: "wf_map (pre @ (t, m) # rest)"
    using inv_wf [OF Cons.prems(1)] Cons.prems(2) e by (simp add: wf_state_def)
  have got: "go_get (sv_management s) t = Some m"
    unfolding Cons.prems(2) e by (rule get_middle [OF wf])
  show ?case
  proof (cases "keep m")
    case True
    then show ?thesis using Cons.IH [of s "pre @ [e]"] Cons.prems e by simp
  next
    case False
    have "sv_management (drop_management t m s) = pre @ rest"
      using wf Cons.prems(2) e by (simp add: drop_management_sessions delete_middle)
    then show ?thesis
      using Cons.IH [OF inv_drop_management [OF Cons.prems(1) got]] False e by simp
  qed
qed simp

lemma expire_management: "inv s \<Longrightarrow> inv (expire_management_sessions_locked now s)"
  using management_list [of s "[]"] by (simp add: expire_management_sessions_locked_def)

lemma clear_management: "inv s \<Longrightarrow> inv (clear_management_sessions_locked s)"
  using management_list [of s "[]"] by (simp add: clear_management_sessions_locked_def)

lemma close: "inv s \<Longrightarrow> inv (close_service s)"
  by (simp add: close_service_def clear_consumers clear_management)

end

interpretation wf_kept: kept_by_primitives wf_state
  by unfold_locales (simp_all add: wf_clear_lease wf_record wf_drop_consumer wf_drop_management)

end
