(* ===== verification/Ssh_Keys.thy ===== *)
theory Ssh_Keys
  imports Service_Invariants
begin

text \<open>
  \<^verbatim>\<open>internal/daemon/ssh_profiles.go\<close>: the Keychain item of an SSH profile is the base64 text of a
  32-byte seed. The routines here turn it into a private key in a buffer of its own and check
  it against the configured public key; both buffers are cleared before the code returns.
\<close>

section \<open>Decoding into a buffer\<close>

text \<open>
  What \<^verbatim>\<open>StdEncoding.Decode\<close> has written when it returns, also when it fails: the groups before
  the failing one.
\<close>

fun b64_decoded :: "gostring \<Rightarrow> bytes" where
  "b64_decoded (w # x # y # z # rest) =
     (case b64_groups [w, x, y, z] of
        None \<Rightarrow> []
      | Some out \<Rightarrow> out @ (if length out = 3 then b64_decoded rest else []))"
| "b64_decoded _ = []"

definition decoded_len :: "nat \<Rightarrow> nat" where
  "decoded_len n = n div 4 * 3"

definition decode_buffer :: "bytes \<Rightarrow> bytes" where
  "decode_buffer secret =
     (let n = decoded_len (length secret);
          out = b64_decoded (filter (\<lambda>c. c \<noteq> CHR 0x0A \<and> c \<noteq> CHR 0x0D) secret)
      in out @ replicate (n - length out) (CHR 0x00))"

lemma b64_decoded_groups: "b64_groups s = Some bs \<Longrightarrow> b64_decoded s = bs"
  by (induction s arbitrary: bs rule: b64_groups.induct)
    (auto split: option.splits if_splits)

lemma decode_buffer_prefix:
  "std_decode secret = Some bs \<Longrightarrow> take (length bs) (decode_buffer secret) = bs"
  by (simp add: std_decode_def decode_buffer_def Let_def b64_decoded_groups)

section \<open>Keys\<close>

definition seed_size :: nat where
  "seed_size = 32"

text \<open>\<^verbatim>\<open>ed25519.NewKeyFromSeed\<close>: the seed followed by the public key; \<^verbatim>\<open>Public\<close> and \<^verbatim>\<open>Seed\<close> read them back.\<close>

definition new_key_from_seed :: "env \<Rightarrow> bytes \<Rightarrow> bytes" where
  "new_key_from_seed E seed = seed @ env_public_of_seed E seed"

definition key_public :: "bytes \<Rightarrow> bytes" where
  "key_public private = drop seed_size private"

definition key_seed :: "bytes \<Rightarrow> bytes" where
  "key_seed private = take seed_size private"

text \<open>The result is the address of the private key.\<close>

definition ssh_private_key :: "env \<Rightarrow> bytes \<Rightarrow> service \<Rightarrow> (error + nat) \<times> service" where
  "ssh_private_key E secret s =
     (let (seed, s1) = alloc (decode_buffer secret) s
      in case std_decode secret of
           None \<Rightarrow> (Inl SSHSeedInvalid, clear_bytes seed s1)
         | Some out \<Rightarrow>
             if length out \<noteq> seed_size then (Inl SSHSeedInvalid, clear_bytes seed s1)
             else let (private, s2) = alloc (new_key_from_seed E (take (length out) (buffer s1 seed))) s1
                  in (Inr private, clear_bytes seed s2))"

definition validate_ssh_secret :: "env \<Rightarrow> bytes \<Rightarrow> gostring \<Rightarrow> service \<Rightarrow> error option \<times> service" where
  "validate_ssh_secret E secret expected s =
     (case ssh_private_key E secret s of
        (Inl e, s1) \<Rightarrow> (Some e, s1)
      | (Inr private, s1) \<Rightarrow>
          (case env_ssh_public E (key_public (buffer s1 private)) of
             Inl msg \<Rightarrow> (Some (Outside msg), clear_bytes private s1)
           | Inr blob \<Rightarrow>
               if trim_space (env_ssh_authorized_line E blob) \<noteq> expected
               then (Some SSHKeyMismatch, clear_bytes private s1)
               else (None, clear_bytes private s1)))"

end
