(* ===== verification/Grants.thy ===== *)
theory Grants
  imports Ssh_Keys
begin

text \<open>
  \<^verbatim>\<open>Service.Grant\<close>, in the three phases between which the code holds no state lock: \<open>grant_begin\<close>
  validates the request and names the consumer, \<open>grant_approve\<close> asks the human and reads the
  secret, \<open>grant_commit\<close> installs the lease. \<open>profileMu\<close> is held over the last two; \<open>grant\<close> runs
  the three in a row.
\<close>

section \<open>The prompt\<close>

definition newline :: gostring where
  "newline = [CHR 0x0A]"

definition friendly_duration :: "duration \<Rightarrow> gostring" where
  "friendly_duration d0 =
     (let d = round_to second d0
      in if \<not> dur_less d hour
         then show_int (sint d sdiv sint hour) @ ''h '' @
              show_int ((sint d smod sint hour) sdiv sint minute) @ ''m''
         else show_int (sint d sdiv sint minute) @ ''m'')"

definition grant_approval_message :: "gostring \<Rightarrow> gostring \<Rightarrow> gostring \<Rightarrow> duration \<Rightarrow> gostring" where
  "grant_approval_message con prof reason d =
     ''Consumer: '' @ con @ newline @ newline @ ''Profile: '' @ prof @ newline @ ''Lease: '' @
     friendly_duration d @ newline @ newline @ ''Reason: '' @ reason"

definition ssh_notice :: gostring where
  "ssh_notice = newline @ newline @
     ''SSH signing: available to programs under your Mac account until the last lease ends. Existing connections remain open.''"

section \<open>Looking a consumer up\<close>

definition consumer_for_token_locked :: "gostring \<Rightarrow> service \<Rightarrow> error + (digest \<times> consumer_session)" where
  "consumer_for_token_locked token s =
     (if token = [] then Inl CapabilityRequired
      else case go_get (sv_consumers s) (sha256 token) of
        None \<Rightarrow> Inl CapabilityInvalid
      | Some c \<Rightarrow> Inr (sha256 token, c))"

text \<open>\<^verbatim>\<open>sort.Slice\<close> by the grant time; the list sort is stable, the Go sort need not be.\<close>

definition public_consumer :: "consumer_session \<Rightarrow> consumer" where
  "public_consumer c =
     \<lparr>consumer_id = consumer_id (cs_metadata c), consumer_label = consumer_label (cs_metadata c),
      consumer_created_at = consumer_created_at (cs_metadata c),
      consumer_expires_at = consumer_expires_at (cs_metadata c),
      consumer_leases = sort_key lease_granted_at (map (al_metadata \<circ> snd) (cs_leases c))\<rparr>"

section \<open>The phases\<close>

record grant_context =
  gc_request :: grant_request
  gc_new :: bool
  gc_token :: gostring
  gc_consumer_id :: gostring
  gc_consumer_label :: gostring
  gc_consumer_expires_at :: time

definition trim_request :: "grant_request \<Rightarrow> grant_request" where
  "trim_request r =
     r\<lparr>gr_consumer_label := trim_space (gr_consumer_label r), gr_reason := trim_space (gr_reason r)\<rparr>"

definition grant_new_consumer ::
  "env \<Rightarrow> grant_request \<Rightarrow> time \<Rightarrow> service \<Rightarrow> (error + grant_context) \<times> service" where
  "grant_new_consumer E r now s =
     (case validate_prompt_field ''consumer label'' (gr_consumer_label r) 80 of
        Some e \<Rightarrow> (Inl e, s)
      | None \<Rightarrow>
          let asked = seconds (gr_consumer_duration_seconds r);
              d = (if asked = 0 then default_consumer_duration else asked)
          in case validate_consumer_duration d of
               Some e \<Rightarrow> (Inl e, s)
             | None \<Rightarrow>
                 (case random_capability E ''ksc_'' s of
                    (Inl e, s1) \<Rightarrow> (Inl e, s1)
                  | (Inr token, s1) \<Rightarrow>
                      (case random_identifier E ''consumer_'' s1 of
                         (Inl e, s2) \<Rightarrow> (Inl e, s2)
                       | (Inr i, s2) \<Rightarrow>
                           (Inr \<lparr>gc_request = r, gc_new = True, gc_token = token, gc_consumer_id = i,
                                 gc_consumer_label = gr_consumer_label r,
                                 gc_consumer_expires_at = time_add now d\<rparr>, s2))))"

definition grant_existing_consumer ::
  "env \<Rightarrow> grant_request \<Rightarrow> gostring \<Rightarrow> time \<Rightarrow> service \<Rightarrow> (error + grant_context) \<times> service" where
  "grant_existing_consumer E r token now s =
     (if gr_consumer_label r \<noteq> [] \<or> gr_consumer_duration_seconds r \<noteq> 0 then (Inl ConsumerFieldsOnReuse, s)
      else
        let s1 = expire_locked E now s
        in case consumer_for_token_locked token s1 of
             Inl e \<Rightarrow> (Inl e, s1)
           | Inr (h, c) \<Rightarrow>
               (Inr \<lparr>gc_request = r, gc_new = False, gc_token = token,
                     gc_consumer_id = consumer_id (cs_metadata c),
                     gc_consumer_label = consumer_label (cs_metadata c),
                     gc_consumer_expires_at = consumer_expires_at (cs_metadata c)\<rparr>, s1))"

definition grant_begin :: "env \<Rightarrow> grant_request \<Rightarrow> service \<Rightarrow> (error + grant_context) \<times> service" where
  "grant_begin E r0 s =
     (let r = trim_request r0
      in case validate_prompt_field ''reason'' (gr_reason r) 240 of
           Some e \<Rightarrow> (Inl e, s)
         | None \<Rightarrow>
             let (now, s1) = time_now E s; token = trim_space (gr_consumer_token r)
             in if token = [] then grant_new_consumer E r now s1
                else grant_existing_consumer E r token now s1)"

text \<open>The requested duration, the default of the profile when it is zero, within the lease limits.\<close>

definition requested_duration :: "grant_request \<Rightarrow> profile \<Rightarrow> error + duration" where
  "requested_duration r p =
     (let asked = seconds (gr_duration_seconds r);
          d = (if asked = 0 then seconds (profile_lease_seconds p) else asked)
      in if dur_less d minimum_lease \<or> dur_less maximum_lease d then Inl LeaseDurationRange else Inr d)"

text \<open>At most what is left of the consumer session.\<close>

definition capped_duration :: "duration \<Rightarrow> duration \<Rightarrow> error + duration" where
  "capped_duration remaining d =
     (if dur_less remaining minimum_lease then Inl ConsumerExpiring
      else if dur_less remaining d then Inr remaining else Inr d)"

record grant_ready =
  gy_context :: grant_context
  gy_lease :: lease
  gy_secret :: nat
  gy_now :: time

definition grant_message :: "grant_context \<Rightarrow> gostring \<Rightarrow> profile \<Rightarrow> duration \<Rightarrow> gostring" where
  "grant_message gc name p d =
     grant_approval_message (gc_consumer_label gc) name (gr_reason (gc_request gc)) d @
     (if profile_kind p = ''ssh'' then ssh_notice else [])"

text \<open>An SSH secret must be the seed of the configured public key.\<close>

definition check_identity :: "env \<Rightarrow> profile \<Rightarrow> nat \<Rightarrow> service \<Rightarrow> error option \<times> service" where
  "check_identity E p secret s =
     (if profile_kind p = ''ssh'' then validate_ssh_secret E (buffer s secret) (profile_public_key p) s
      else (None, s))"

text \<open>From the prompt on: the secret is cleared on every path that does not return it.\<close>

definition grant_read ::
  "env \<Rightarrow> grant_context \<Rightarrow> gostring \<Rightarrow> profile \<Rightarrow> duration \<Rightarrow> service \<Rightarrow> (error + grant_ready) \<times> service" where
  "grant_read E gc name p d s =
     (case keychain_read E name (grant_message gc name p d) s of
        (Inl e, s1) \<Rightarrow> (Inl (During ''read profile'' name e), s1)
      | (Inr secret, s1) \<Rightarrow>
          (case check_identity E p secret s1 of
             (Some e, s2) \<Rightarrow> (Inl e, clear_bytes secret s2)
           | (None, s2) \<Rightarrow>
               (case random_identifier E ''lease_'' s2 of
                  (Inl e, s3) \<Rightarrow> (Inl e, clear_bytes secret s3)
                | (Inr i, s3) \<Rightarrow>
                    let (now, s4) = time_now E s3
                    in (Inr \<lparr>gy_context = gc,
                             gy_lease =
                               \<lparr>lease_kind = profile_kind p, lease_id = i,
                                lease_consumer_id = gc_consumer_id gc,
                                lease_consumer_label = gc_consumer_label gc, lease_profile = name,
                                lease_env = profile_env p, lease_reason = gr_reason (gc_request gc),
                                lease_granted_at = now,
                                lease_expires_at = min_time (time_add now d) (gc_consumer_expires_at gc)\<rparr>,
                             gy_secret = secret, gy_now = now\<rparr>, s4))))"

definition grant_approve :: "env \<Rightarrow> grant_context \<Rightarrow> service \<Rightarrow> (error + grant_ready) \<times> service" where
  "grant_approve E gc s =
     (case load_config E s of
        (Inl e, s1) \<Rightarrow> (Inl e, s1)
      | (Inr configuration, s1) \<Rightarrow>
          (case resolve configuration (gr_profile (gc_request gc)) of
             Inl e \<Rightarrow> (Inl e, s1)
           | Inr (name, p) \<Rightarrow>
               (case requested_duration (gc_request gc) p of
                  Inl e \<Rightarrow> (Inl e, s1)
                | Inr asked \<Rightarrow>
                    let (now, s2) = time_now E s1
                    in case capped_duration (time_sub (gc_consumer_expires_at gc) now) asked of
                         Inl e \<Rightarrow> (Inl e, s2)
                       | Inr d \<Rightarrow> grant_read E gc name p d s2)))"

text \<open>The installation of the lease in the consumer under the hash.\<close>

definition put_consumer :: "digest \<Rightarrow> consumer_session \<Rightarrow> service \<Rightarrow> service" where
  "put_consumer h c s = s\<lparr>sv_consumers := go_put h c (sv_consumers s)\<rparr>"

definition put_lease :: "digest \<Rightarrow> lease \<Rightarrow> nat \<Rightarrow> service \<Rightarrow> service" where
  "put_lease h l secret s =
     modify_consumer h
       (\<lambda>c. c\<lparr>cs_leases := go_put (lease_id l) \<lparr>al_metadata = l, al_secret = secret\<rparr> (cs_leases c)\<rparr>) s"

definition install_lease :: "env \<Rightarrow> digest \<Rightarrow> grant_ready \<Rightarrow> service \<Rightarrow> service" where
  "install_lease E h g s =
     (let gc = gy_context g; l = gy_lease g; cid = gc_consumer_id gc; label = gc_consumer_label gc;
          s1 = sweep_leases E h cid label (\<lambda>x. lease_profile (al_metadata x) \<noteq> lease_profile l) ''revoked''
                 ''Replaced by a newer lease for this consumer and profile'' (leases_at s h) s;
          s2 = put_lease h l (gy_secret g) s1;
          s3 = s2\<lparr>sv_revision := sv_revision s2 + 1\<rparr>
      in record_locked E ''granted'' (lease_profile l) cid label (lease_reason l) ''Lease approved'' s3)"

definition new_session :: "grant_ready \<Rightarrow> consumer_session" where
  "new_session g =
     (let gc = gy_context g
      in \<lparr>cs_metadata = \<lparr>consumer_id = gc_consumer_id gc, consumer_label = gc_consumer_label gc,
                         consumer_created_at = gy_now g,
                         consumer_expires_at = gc_consumer_expires_at gc, consumer_leases = []\<rparr>,
          cs_leases = []\<rparr>)"

definition start_consumer :: "env \<Rightarrow> digest \<Rightarrow> grant_ready \<Rightarrow> service \<Rightarrow> service" where
  "start_consumer E h g s =
     record_locked E ''consumer_started'' [] (gc_consumer_id (gy_context g)) (gc_consumer_label (gy_context g))
       [] ''Consumer capability created'' (put_consumer h (new_session g) s)"

text \<open>The consumer the lease goes to, after expiry: \<open>None\<close> is the branch that refuses.\<close>

definition commit_target :: "env \<Rightarrow> grant_ready \<Rightarrow> service \<Rightarrow> error + service" where
  "commit_target E g s =
     (let gc = gy_context g; h = sha256 (gc_token gc)
      in case go_get (sv_consumers s) h of
           None \<Rightarrow> if gc_new gc then Inr (start_consumer E h g s) else Inl CapabilityInvalid
         | Some c \<Rightarrow>
             if gc_new gc then Inl CapabilityCollision
             else if consumer_id (cs_metadata c) \<noteq> gc_consumer_id gc then Inl CapabilityInvalid
             else Inr s)"

definition grant_response_of :: "grant_ready \<Rightarrow> service \<Rightarrow> grant_response" where
  "grant_response_of g s =
     (let gc = gy_context g; h = sha256 (gc_token gc)
      in \<lparr>gresp_consumer_token = (if gc_new gc then gc_token gc else []),
          gresp_consumer = public_consumer (the (go_get (sv_consumers s) h)),
          gresp_lease = gy_lease g\<rparr>)"

definition grant_commit :: "env \<Rightarrow> grant_ready \<Rightarrow> service \<Rightarrow> (error + grant_response) \<times> service" where
  "grant_commit E g s =
     (let s1 = expire_locked E (gy_now g) s
      in case commit_target E g s1 of
           Inl e \<Rightarrow> (Inl e, clear_bytes (gy_secret g) s1)
         | Inr s2 \<Rightarrow>
             let s3 = install_lease E (sha256 (gc_token (gy_context g))) g s2
             in (Inr (grant_response_of g s3), s3))"

definition grant :: "env \<Rightarrow> grant_request \<Rightarrow> service \<Rightarrow> (error + grant_response) \<times> service" where
  "grant E r s =
     (case grant_begin E r s of
        (Inl e, s1) \<Rightarrow> (Inl e, s1)
      | (Inr gc, s1) \<Rightarrow>
          (case grant_approve E gc s1 of
             (Inl e, s2) \<Rightarrow> (Inl e, s2)
           | (Inr g, s2) \<Rightarrow> grant_commit E g s2))"

end
