(* ===== verification/Consumers.thy ===== *)
theory Consumers
  imports Grants
begin

text \<open>
  The operations of a capability holder and of the native app on consumers and leases:
  \<^verbatim>\<open>ConsumerStatus\<close>, \<^verbatim>\<open>Revoke\<close>, \<^verbatim>\<open>AdminRevoke\<close>, \<^verbatim>\<open>Execute\<close> and \<^verbatim>\<open>Snapshot\<close>.
\<close>

definition expire_now :: "env \<Rightarrow> service \<Rightarrow> service" where
  "expire_now E s = (let (now, s1) = time_now E s in expire_locked E now s1)"

definition consumer_status :: "env \<Rightarrow> gostring \<Rightarrow> service \<Rightarrow> (error + consumer_status_response) \<times> service" where
  "consumer_status E token s =
     (let s1 = expire_now E s
      in case consumer_for_token_locked (trim_space token) s1 of
           Inl e \<Rightarrow> (Inl e, s1)
         | Inr (h, c) \<Rightarrow> (Inr \<lparr>csr_consumer = public_consumer c\<rparr>, s1))"

text \<open>The common end of \<^verbatim>\<open>Revoke\<close> and \<^verbatim>\<open>AdminRevoke\<close>: one lease, or the consumer when no lease is named.\<close>

definition revoke_at ::
  "env \<Rightarrow> digest \<Rightarrow> consumer_session \<Rightarrow> gostring \<Rightarrow> gostring \<Rightarrow> gostring \<Rightarrow> service \<Rightarrow> bool \<times> service" where
  "revoke_at E h c i consumer_detail lease_detail s =
     (if i = [] then (True, clear_consumer_locked E h c consumer_detail s)
      else case go_get (cs_leases c) i of
        None \<Rightarrow> (False, s)
      | Some l \<Rightarrow>
          (True, record_locked E ''revoked'' (lease_profile (al_metadata l)) (consumer_id (cs_metadata c))
                   (consumer_label (cs_metadata c)) (lease_reason (al_metadata l)) lease_detail
                   (clear_lease_locked h i s)))"

definition revoke :: "env \<Rightarrow> revoke_request \<Rightarrow> service \<Rightarrow> bool \<times> service" where
  "revoke E r s =
     (let s1 = expire_now E s; h = sha256 (trim_space (rr_consumer_token r))
      in case go_get (sv_consumers s1) h of
           None \<Rightarrow> (False, s1)
         | Some c \<Rightarrow>
             revoke_at E h c (rr_lease_id r) ''Consumer ended by its capability holder''
               ''Lease revoked by its consumer'' s1)"

text \<open>The loop of \<^verbatim>\<open>AdminRevoke\<close> returns at the first consumer with the identifier.\<close>

fun consumer_by_id :: "gostring \<Rightarrow> (digest, consumer_session) go_map \<Rightarrow> (digest \<times> consumer_session) option" where
  "consumer_by_id i [] = None"
| "consumer_by_id i ((h, c) # rest) =
     (if consumer_id (cs_metadata c) \<noteq> i then consumer_by_id i rest else Some (h, c))"

definition admin_revoke :: "env \<Rightarrow> admin_revoke_request \<Rightarrow> service \<Rightarrow> bool \<times> service" where
  "admin_revoke E r s =
     (let s1 = expire_now E s
      in case consumer_by_id (ar_consumer_id r) (sv_consumers s1) of
           None \<Rightarrow> (False, s1)
         | Some (h, c) \<Rightarrow>
             revoke_at E h c (ar_lease_id r) ''Consumer ended from Key Session.app''
               ''Lease revoked from Key Session.app'' s1)"

section \<open>Execute\<close>

text \<open>
  \<open>execute_begin\<close> is the part up to the release of the lock, which leaves a copy of the secret
  in a buffer of its own; \<open>execute_finish\<close> runs the child and clears the copy.
\<close>

record exec_running =
  xr_secret :: nat
  xr_env :: gostring
  xr_request :: exec_request
  xr_timeout :: duration

definition execute_begin :: "env \<Rightarrow> exec_request \<Rightarrow> service \<Rightarrow> (error + exec_running) \<times> service" where
  "execute_begin E r s =
     (if er_arguments r = [] then (Inl ExecNoProgram, s)
      else if trim_space (er_lease_id r) = [] then (Inl LeaseIdRequired, s)
      else
        let t = seconds (er_timeout_seconds r)
        in if dur_less t second \<or> dur_less (30 * minute) t then (Inl ExecTimeoutRange, s)
           else
             let s1 = expire_now E s
             in case consumer_for_token_locked (trim_space (er_consumer_token r)) s1 of
                  Inl e \<Rightarrow> (Inl e, s1)
                | Inr (h, c) \<Rightarrow>
                    (case go_get (cs_leases c) (er_lease_id r) of
                       None \<Rightarrow> (Inl LeaseUnavailable, s1)
                     | Some l \<Rightarrow>
                         if lease_kind (al_metadata l) = ''ssh'' then (Inl ExecSSH, s1)
                         else
                           let (a, s2) = alloc (buffer s1 (al_secret l)) s1
                           in (Inr \<lparr>xr_secret = a, xr_env = lease_env (al_metadata l),
                                    xr_request = r, xr_timeout = t\<rparr>, s2)))"

definition execute_finish :: "env \<Rightarrow> exec_running \<Rightarrow> service \<Rightarrow> exec_response \<times> service" where
  "execute_finish E x s =
     (let r = xr_request x; secret = buffer s (xr_secret x);
          prepared = prepare_command (env_environ E) secret (xr_env x) (er_arguments r)
                       (er_working_directory r) (xr_timeout x);
          s1 = (case prepared of Inl _ \<Rightarrow> s | Inr command \<Rightarrow> log_effect (ChildRun command) (next_call s));
          res = execute_with_secret (env_environ E) (env_url_password E) (env_child E (sv_calls s)) secret
                  (xr_env x) (er_arguments r) (er_working_directory r) (xr_timeout x)
      in (\<lparr>ex_exit_code = cres_exit_code res, ex_stdout = cres_stdout res, ex_stderr = cres_stderr res\<rparr>,
          clear_bytes (xr_secret x) s1))"

definition execute :: "env \<Rightarrow> exec_request \<Rightarrow> service \<Rightarrow> (error + exec_response) \<times> service" where
  "execute E r s =
     (case execute_begin E r s of
        (Inl e, s1) \<Rightarrow> (Inl e, s1)
      | (Inr x, s1) \<Rightarrow> (let (resp, s2) = execute_finish E x s1 in (Inr resp, s2)))"

section \<open>Snapshot\<close>

definition public_profile_of :: "config \<Rightarrow> gostring \<Rightarrow> public_profile" where
  "public_profile_of cfg name =
     (let p = the (go_get (cfg_profiles cfg) name)
      in \<lparr>pp_kind = profile_kind p, pp_public_key = profile_public_key p, pp_name = name,
          pp_env = profile_env p, pp_lease_seconds = profile_lease_seconds p\<rparr>)"

definition take_snapshot :: "env \<Rightarrow> service \<Rightarrow> (error + snapshot) \<times> service" where
  "take_snapshot E s =
     (let (now, s1) = time_now E s;
          s2 = expire_management_sessions_locked now (expire_locked E now s1)
      in case load_config E s2 of
           (Inl e, s3) \<Rightarrow> (Inl e, s3)
         | (Inr cfg, s3) \<Rightarrow>
             (Inr \<lparr>snap_schema_version = schema_version, snap_revision = sv_revision s3,
                   snap_generated_at = now,
                   snap_daemon = \<lparr>di_instance_id = sv_instance_id s3, di_version = sv_version s3,
                                  di_started_at = sv_started_at s3\<rparr>,
                   snap_profiles = map (public_profile_of cfg) (sorted_profile_names cfg),
                   snap_consumers =
                     sort_key consumer_created_at (map (public_consumer \<circ> snd) (sv_consumers s3)),
                   snap_events = take 50 (sort_key (\<lambda>e. - event_occurred_at e) (sv_events s3))\<rparr>, s3))"

text \<open>The work of the ticker in \<^verbatim>\<open>Run\<close>, once a second.\<close>

definition tick :: "env \<Rightarrow> service \<Rightarrow> service" where
  "tick E s =
     (let (now, s1) = time_now E s in expire_management_sessions_locked now (expire_locked E now s1))"

text \<open>\<^verbatim>\<open>NewService\<close>, with the stores it opens.\<close>

definition new_service ::
  "env \<Rightarrow> config_disk \<Rightarrow> event list disk \<Rightarrow> gostring option \<Rightarrow> gostring \<Rightarrow> gostring \<Rightarrow> time \<Rightarrow>
   error + service" where
  "new_service E cfg aud read_fault instance_id version started =
     (case audit_load read_fault aud of
        Inl e \<Rightarrow> Inl e
      | Inr evs \<Rightarrow>
          Inr \<lparr>sv_consumers = [], sv_management = [], sv_events = evs, sv_revision = 1,
               sv_instance_id = instance_id, sv_version = version, sv_started_at = started,
               sv_config = cfg, sv_audit = aud, sv_heap = [], sv_calls = 0, sv_trace = []\<rparr>)"

end
