(* ===== verification/Profiles.thy ===== *)
theory Profiles
  imports Consumers
begin

text \<open>
  The operations on profiles, which run under \<^verbatim>\<open>profileMu\<close>: \<^verbatim>\<open>StoreProfile\<close>,
  \<^verbatim>\<open>BeginProfileManagement\<close>, \<^verbatim>\<open>UpdateProfile\<close>, \<^verbatim>\<open>DeleteProfile\<close>, \<^verbatim>\<open>EndProfileManagement\<close> and
  \<^verbatim>\<open>CreateSSHProfile\<close>. A missing profile reads as the zero value, whose kind is the empty string.
\<close>

definition kind_of :: "config \<Rightarrow> gostring \<Rightarrow> gostring" where
  "kind_of cfg name = (case go_get (cfg_profiles cfg) name of None \<Rightarrow> [] | Some p \<Rightarrow> profile_kind p)"

definition put_profile :: "gostring \<Rightarrow> profile \<Rightarrow> config \<Rightarrow> config" where
  "put_profile name p cfg = cfg\<lparr>cfg_profiles := go_put name p (cfg_profiles cfg)\<rparr>"

definition secret_profile :: "gostring \<Rightarrow> int64 \<Rightarrow> profile" where
  "secret_profile environment_variable lease_seconds =
     \<lparr>profile_kind = [], profile_public_key = [], profile_env = environment_variable,
      profile_lease_seconds = lease_seconds\<rparr>"

definition bad_secret :: "bytes \<Rightarrow> bool" where
  "bad_secret secret \<longleftrightarrow> secret = [] \<or> CHR 0x00 \<in> set secret"

section \<open>Storing\<close>

text \<open>The part of \<^verbatim>\<open>StoreProfile\<close> after the copy of the secret, which its caller clears.\<close>

definition store_secret ::
  "env \<Rightarrow> profile_request \<Rightarrow> config \<Rightarrow> nat \<Rightarrow> service \<Rightarrow> error option \<times> service" where
  "store_secret E r cfg a s =
     (if bad_secret (buffer s a) then (Some SecretInvalid, s)
      else case keychain_store E (pr_name r) (buffer s a) s of
        (Some e, s1) \<Rightarrow> (Some (During ''store profile'' (pr_name r) e), s1)
      | (None, s1) \<Rightarrow>
          (case save_config E
              (put_profile (pr_name r) (secret_profile (pr_env r) (pr_lease_seconds r)) cfg) s1 of
             (Some e, s2) \<Rightarrow> (Some e, s2)
           | (None, s2) \<Rightarrow>
               (None, record_locked E ''profile_saved'' (pr_name r) [] [] [] ''Profile stored in Keychain'' s2)))"

definition store_profile :: "env \<Rightarrow> profile_request \<Rightarrow> service \<Rightarrow> error option \<times> service" where
  "store_profile E r s =
     (case load_config E s of
        (Inl e, s1) \<Rightarrow> (Some e, s1)
      | (Inr cfg, s1) \<Rightarrow>
          if kind_of cfg (pr_name r) = ''ssh'' then (Some SSHOverwrite, s1)
          else case validate_profile (pr_name r) (pr_env r) (pr_lease_seconds r) of
            Some e \<Rightarrow> (Some e, s1)
          | None \<Rightarrow>
              let (a, s2) = alloc (pr_secret r) s1;
                  (result, s3) = store_secret E r cfg a s2
              in (result, clear_bytes a s3))"

section \<open>Management sessions\<close>

definition authorize_profile_management ::
  "env \<Rightarrow> gostring \<Rightarrow> gostring \<Rightarrow> service \<Rightarrow> (error + nat) \<times> service" where
  "authorize_profile_management E name reason s =
     (case keychain_read E name (''Reveal and manage the Key Session profile '' @ name @ ''. '' @ reason) s of
        (Inl e, s1) \<Rightarrow> (Inl (During ''authorize management for profile'' name e), s1)
      | (Inr a, s1) \<Rightarrow> (Inr a, s1))"

definition put_management :: "gostring \<Rightarrow> management_session \<Rightarrow> service \<Rightarrow> service" where
  "put_management token m s = s\<lparr>sv_management := go_put token m (sv_management s)\<rparr>"

definition open_management ::
  "env \<Rightarrow> gostring \<Rightarrow> nat \<Rightarrow> gostring \<Rightarrow> service \<Rightarrow> management_response \<times> service" where
  "open_management E name secret token s =
     (let (t1, s1) = time_now E s; expires = time_add t1 management_session_ttl;
          (t2, s2) = time_now E s1;
          s3 = expire_management_sessions_locked t2 s2;
          s4 = put_management token
                 \<lparr>ms_profile = name, ms_secret = secret, ms_expires_at = expires\<rparr> s3;
          s5 = record_locked E ''profile_management_started'' name [] ''Key Session.app''
                 ''Human profile management'' ''Five-minute management session approved'' s4
      in (\<lparr>mr_management_token = token, mr_secret = buffer s5 secret, mr_expires_at = expires\<rparr>, s5))"

definition begin_profile_management ::
  "env \<Rightarrow> gostring \<Rightarrow> service \<Rightarrow> (error + management_response) \<times> service" where
  "begin_profile_management E name s =
     (case load_config E s of
        (Inl e, s1) \<Rightarrow> (Inl e, s1)
      | (Inr cfg, s1) \<Rightarrow>
          if go_get (cfg_profiles cfg) name = None then (Inl (ProfileUnknown name), s1)
          else if kind_of cfg name = ''ssh'' then (Inl SSHReveal, s1)
          else case authorize_profile_management E name
              ''Open the human profile editor and view or change its password.'' s1 of
            (Inl e, s2) \<Rightarrow> (Inl e, s2)
          | (Inr secret, s2) \<Rightarrow>
              (case random_capability E ''ksm_'' s2 of
                 (Inl e, s3) \<Rightarrow> (Inl e, clear_bytes secret s3)
               | (Inr token, s3) \<Rightarrow>
                   let (resp, s4) = open_management E name secret token s3 in (Inr resp, s4)))"

definition end_profile_management :: "gostring \<Rightarrow> gostring \<Rightarrow> service \<Rightarrow> bool \<times> service" where
  "end_profile_management name token s =
     (case go_get (sv_management s) token of
        None \<Rightarrow> (False, s)
      | Some m \<Rightarrow>
          if ms_profile m \<noteq> name then (False, s) else (True, drop_management token m s))"

definition consume_management_session ::
  "env \<Rightarrow> gostring \<Rightarrow> gostring \<Rightarrow> service \<Rightarrow> error option \<times> service" where
  "consume_management_session E name token s =
     (let (now, s1) = time_now E s; s2 = expire_management_sessions_locked now s1
      in case go_get (sv_management s2) token of
           None \<Rightarrow> (Some ManagementMissing, s2)
         | Some m \<Rightarrow>
             if ms_profile m \<noteq> name then (Some ManagementMissing, s2)
             else (None, drop_management token m s2))"

section \<open>Updating\<close>

definition update_secret ::
  "env \<Rightarrow> gostring \<Rightarrow> profile_update_request \<Rightarrow> config \<Rightarrow> nat \<Rightarrow> service \<Rightarrow> error option \<times> service" where
  "update_secret E name r cfg a s =
     (case keychain_store E name (buffer s a) s of
        (Some e, s1) \<Rightarrow> (Some (During ''update profile'' name e), s1)
      | (None, s1) \<Rightarrow>
          (case save_config E (put_profile name (secret_profile (pu_env r) (pu_lease_seconds r)) cfg) s1 of
             (Some e, s2) \<Rightarrow> (Some e, s2)
           | (None, s2) \<Rightarrow>
               (None, record_locked E ''profile_updated'' name [] ''Key Session.app''
                        ''Human profile management'' ''Profile updated in an approved management session''
                        (clear_profile_leases_locked E name ''Profile changed'' s2))))"

definition update_checked ::
  "env \<Rightarrow> gostring \<Rightarrow> profile_update_request \<Rightarrow> nat \<Rightarrow> service \<Rightarrow> error option \<times> service" where
  "update_checked E name r a s =
     (if bad_secret (buffer s a) then (Some SecretInvalid, s)
      else case load_config E s of
        (Inl e, s1) \<Rightarrow> (Some e, s1)
      | (Inr cfg, s1) \<Rightarrow>
          if go_get (cfg_profiles cfg) name = None then (Some (ProfileUnknown name), s1)
          else if kind_of cfg name = ''ssh'' then (Some SSHEdit, s1)
          else case consume_management_session E name (pu_management_token r) s1 of
            (Some e, s2) \<Rightarrow> (Some e, s2)
          | (None, s2) \<Rightarrow> update_secret E name r cfg a s2)"

definition update_profile ::
  "env \<Rightarrow> gostring \<Rightarrow> profile_update_request \<Rightarrow> service \<Rightarrow> error option \<times> service" where
  "update_profile E name r s =
     (case validate_profile name (pu_env r) (pu_lease_seconds r) of
        Some e \<Rightarrow> (Some e, s)
      | None \<Rightarrow>
          let (a, s1) = alloc (pu_secret r) s;
              (result, s2) = update_checked E name r a s1
          in (result, clear_bytes a s2))"

section \<open>Deleting\<close>

definition forget_profile :: "env \<Rightarrow> gostring \<Rightarrow> service \<Rightarrow> service" where
  "forget_profile E name s =
     (let s1 = clear_profile_leases_locked E name ''Profile removed'' s
      in sweep_management (\<lambda>m. ms_profile m \<noteq> name) (sv_management s1) s1)"

definition delete_profile :: "env \<Rightarrow> gostring \<Rightarrow> service \<Rightarrow> error option \<times> service" where
  "delete_profile E name s =
     (case load_config E s of
        (Inl e, s1) \<Rightarrow> (Some e, s1)
      | (Inr cfg, s1) \<Rightarrow>
          if go_get (cfg_profiles cfg) name = None then (Some (ProfileUnknown name), s1)
          else case keychain_delete_with_approval E name s1 of
            (Some e, s2) \<Rightarrow> (Some (During ''delete profile'' name e), s2)
          | (None, s2) \<Rightarrow>
              (case save_config E (cfg\<lparr>cfg_profiles := go_del name (cfg_profiles cfg)\<rparr>)
                  (forget_profile E name s2) of
                 (Some e, s3) \<Rightarrow> (Some e, s3)
               | (None, s3) \<Rightarrow>
                   (None, record_locked E ''profile_removed'' name [] ''Key Session.app''
                            ''Human profile management'' ''Profile removal approved with Touch ID'' s3)))"

section \<open>SSH identities\<close>

text \<open>\<^verbatim>\<open>ed25519.GenerateKey(rand.Reader)\<close> reads a 32-byte seed.\<close>

definition generate_key :: "env \<Rightarrow> service \<Rightarrow> (error + nat) \<times> service" where
  "generate_key E s =
     (case env_random E (sv_calls s) seed_size of
        Inl msg \<Rightarrow> (Inl (Outside msg), next_call s)
      | Inr seed \<Rightarrow> let (a, s1) = alloc (new_key_from_seed E seed) (next_call s) in (Inr a, s1))"

text \<open>The part of \<^verbatim>\<open>createSSHProfile\<close> after its three buffers, which its caller clears.\<close>

definition store_identity ::
  "env \<Rightarrow> ssh_profile_request \<Rightarrow> config \<Rightarrow> bytes \<Rightarrow> nat \<Rightarrow> service \<Rightarrow> (error + public_profile) \<times> service" where
  "store_identity E r cfg public secret s =
     (case env_ssh_public E public of
        Inl msg \<Rightarrow> (Inl (Outside msg), s)
      | Inr blob \<Rightarrow>
          let line = trim_space (env_ssh_authorized_line E blob);
              p = \<lparr>profile_kind = ''ssh'', profile_public_key = line, profile_env = [],
                   profile_lease_seconds = sp_lease_seconds r\<rparr>
          in case keychain_store E (sp_name r) (buffer s secret) s of
               (Some e, s1) \<Rightarrow> (Inl e, s1)
             | (None, s1) \<Rightarrow>
                 (case save_config E (put_profile (sp_name r) p cfg) s1 of
                    (Some e, s2) \<Rightarrow> (Inl e, s2)
                  | (None, s2) \<Rightarrow>
                      (Inr \<lparr>pp_kind = ''ssh'', pp_public_key = line, pp_name = sp_name r, pp_env = [],
                            pp_lease_seconds = sp_lease_seconds r\<rparr>,
                       record_locked E ''profile_saved'' (sp_name r) [] [] []
                         ''SSH signing identity generated in Keychain; private key is not exportable through the API''
                         s2)))"

definition create_ssh_profile ::
  "env \<Rightarrow> ssh_profile_request \<Rightarrow> service \<Rightarrow> (error + public_profile) \<times> service" where
  "create_ssh_profile E r s =
     (case validate_profile (sp_name r) ''SSH_SIGNING'' (sp_lease_seconds r) of
        Some e \<Rightarrow> (Inl e, s)
      | None \<Rightarrow>
          (case load_config E s of
             (Inl e, s1) \<Rightarrow> (Inl e, s1)
           | (Inr cfg, s1) \<Rightarrow>
               if go_get (cfg_profiles cfg) (sp_name r) \<noteq> None then (Inl ProfileExists, s1)
               else case generate_key E s1 of
                 (Inl e, s2) \<Rightarrow> (Inl e, s2)
               | (Inr private, s2) \<Rightarrow>
                   let public = key_public (buffer s2 private);
                       (seed, s3) = alloc (key_seed (buffer s2 private)) s2;
                       (secret, s4) = alloc (std_encode (buffer s3 seed)) s3;
                       (result, s5) = store_identity E r cfg public secret s4
                   in (result, clear_bytes private (clear_bytes seed (clear_bytes secret s5)))))"

end
