(* ===== verification/Ssh_Agent.thy ===== *)
theory Ssh_Agent
  imports Profiles
begin

text \<open>
  \<^verbatim>\<open>internal/daemon/ssh_agent.go\<close>: the agent that signs SSH authentication requests with leased
  keys, and the connection limit of its listener. The wire decoding of
  \<^verbatim>\<open>golang.org/x/crypto/ssh\<close> is a parameter.
\<close>

section \<open>What may be signed\<close>

record auth_request =
  aq_session :: bytes
  aq_message :: nat
  aq_user :: gostring
  aq_service :: gostring
  aq_method :: gostring
  aq_signature :: bool
  aq_algorithm :: gostring
  aq_key :: bytes
  aq_rest :: bytes

record ssh_wire =
  sw_unmarshal_request :: "bytes \<Rightarrow> auth_request option"
  sw_unmarshal_bound :: "bytes \<Rightarrow> bytes option"
  sw_parses_public_key :: "bytes \<Rightarrow> bool"

record public_key =
  pk_type :: gostring
  pk_blob :: bytes

definition key_algo_ed25519 :: gostring where
  "key_algo_ed25519 = ''ssh-ed25519''"

definition ssh_authentication_request :: "ssh_wire \<Rightarrow> public_key \<Rightarrow> bytes \<Rightarrow> bool" where
  "ssh_authentication_request W public bs =
     (if length bs > 16384 then False
      else case sw_unmarshal_request W bs of
        None \<Rightarrow> False
      | Some q \<Rightarrow>
          if length (aq_session q) < 16 \<or> aq_message q \<noteq> 50 \<or> aq_user q = [] \<or>
             aq_service q \<noteq> ''ssh-connection'' \<or> \<not> aq_signature q \<or>
             aq_algorithm q \<noteq> key_algo_ed25519 \<or> pk_type public \<noteq> key_algo_ed25519 \<or>
             aq_key q \<noteq> pk_blob public
          then False
          else if aq_method q = ''publickey'' then aq_rest q = []
          else if aq_method q = ''publickey-hostbound-v00@openssh.com'' then
            (case sw_unmarshal_bound W (aq_rest q) of
               None \<Rightarrow> False
             | Some host_key \<Rightarrow> sw_parses_public_key W host_key)
          else False)"

section \<open>Listing\<close>

record agent_key =
  ak_format :: gostring
  ak_blob :: bytes
  ak_comment :: gostring

fun list_leases ::
  "env \<Rightarrow> (gostring, active_lease) go_map \<Rightarrow> agent_key list \<Rightarrow> gostring list \<Rightarrow> service \<Rightarrow>
   (error + agent_key list \<times> gostring list) \<times> service" where
  "list_leases E [] keys seen s = (Inr (keys, seen), s)"
| "list_leases E ((i, l) # rest) keys seen s =
     (if lease_kind (al_metadata l) \<noteq> ''ssh'' \<or> lease_profile (al_metadata l) \<in> set seen
      then list_leases E rest keys seen s
      else case ssh_private_key E (buffer s (al_secret l)) s of
        (Inl e, s1) \<Rightarrow> (Inl e, s1)
      | (Inr private, s1) \<Rightarrow>
          (case env_ssh_public E (key_public (buffer s1 private)) of
             Inl msg \<Rightarrow> (Inl (Outside msg), clear_bytes private s1)
           | Inr blob \<Rightarrow>
               list_leases E rest
                 (keys @ [\<lparr>ak_format = key_algo_ed25519, ak_blob = blob,
                           ak_comment = ''key-session:'' @ lease_profile (al_metadata l)\<rparr>])
                 (lease_profile (al_metadata l) # seen) (clear_bytes private s1)))"

fun list_consumers ::
  "env \<Rightarrow> (digest, consumer_session) go_map \<Rightarrow> agent_key list \<Rightarrow> gostring list \<Rightarrow> service \<Rightarrow>
   (error + agent_key list \<times> gostring list) \<times> service" where
  "list_consumers E [] keys seen s = (Inr (keys, seen), s)"
| "list_consumers E ((h, c) # rest) keys seen s =
     (case list_leases E (cs_leases c) keys seen s of
        (Inl e, s1) \<Rightarrow> (Inl e, s1)
      | (Inr (keys1, seen1), s1) \<Rightarrow> list_consumers E rest keys1 seen1 s1)"

definition agent_list :: "env \<Rightarrow> service \<Rightarrow> (error + agent_key list) \<times> service" where
  "agent_list E s =
     (let s1 = expire_now E s
      in case list_consumers E (sv_consumers s1) [] [] s1 of
           (Inl e, s2) \<Rightarrow> (Inl e, s2)
         | (Inr (keys, _), s2) \<Rightarrow> (Inr keys, s2))"

section \<open>Signing\<close>

text \<open>\<open>None\<close>: no lease of the list holds the requested key, and the loop goes on.\<close>

fun sign_leases ::
  "env \<Rightarrow> public_key \<Rightarrow> bytes \<Rightarrow> (gostring, active_lease) go_map \<Rightarrow> service \<Rightarrow>
   (error + bytes) option \<times> service" where
  "sign_leases E public bs [] s = (None, s)"
| "sign_leases E public bs ((i, l) # rest) s =
     (if lease_kind (al_metadata l) \<noteq> ''ssh'' then sign_leases E public bs rest s
      else case ssh_private_key E (buffer s (al_secret l)) s of
        (Inl e, s1) \<Rightarrow> (Some (Inl e), s1)
      | (Inr private, s1) \<Rightarrow>
          (case env_ssh_signer E (buffer s1 private) of
             Inl msg \<Rightarrow> (Some (Inl (Outside msg)), clear_bytes private s1)
           | Inr blob \<Rightarrow>
               if pk_blob public \<noteq> blob then sign_leases E public bs rest (clear_bytes private s1)
               else
                 (Some (case env_ssh_sign E (buffer s1 private) bs of
                          Inl msg \<Rightarrow> Inl (Outside msg)
                        | Inr signature \<Rightarrow> Inr signature),
                  clear_bytes private s1)))"

fun sign_consumers ::
  "env \<Rightarrow> public_key \<Rightarrow> bytes \<Rightarrow> (digest, consumer_session) go_map \<Rightarrow> service \<Rightarrow>
   (error + bytes) option \<times> service" where
  "sign_consumers E public bs [] s = (None, s)"
| "sign_consumers E public bs ((h, c) # rest) s =
     (case sign_leases E public bs (cs_leases c) s of
        (None, s1) \<Rightarrow> sign_consumers E public bs rest s1
      | (Some r, s1) \<Rightarrow> (Some r, s1))"

definition agent_sign :: "env \<Rightarrow> ssh_wire \<Rightarrow> public_key \<Rightarrow> bytes \<Rightarrow> service \<Rightarrow> (error + bytes) \<times> service" where
  "agent_sign E W public bs s =
     (if \<not> ssh_authentication_request W public bs then (Inl SSHOnlyAuthentication, s)
      else
        let s1 = expire_now E s
        in case sign_consumers E public bs (sv_consumers s1) s1 of
             (None, s2) \<Rightarrow> (Inl SSHNoLease, s2)
           | (Some r, s2) \<Rightarrow> (r, s2))"

text \<open>The six operations that would change the agent.\<close>

datatype agent_change = Add | Remove | RemoveAll | Lock | Unlock | Signers

definition agent_change_result :: "agent_change \<Rightarrow> error" where
  "agent_change_result c = SSHReadOnly"

section \<open>The listener\<close>

record listener =
  ln_connections :: "nat list"
  ln_closed :: bool

definition maximum_connections :: nat where
  "maximum_connections = 32"

text \<open>The answer says whether the accepted connection is served or closed at once.\<close>

definition listener_accept :: "nat \<Rightarrow> listener \<Rightarrow> bool \<times> listener" where
  "listener_accept c ln =
     (if ln_closed ln \<or> length (ln_connections ln) \<ge> maximum_connections then (False, ln)
      else (True, ln\<lparr>ln_connections := List.insert c (ln_connections ln)\<rparr>))"

definition listener_finish :: "nat \<Rightarrow> listener \<Rightarrow> listener" where
  "listener_finish c ln = ln\<lparr>ln_connections := removeAll c (ln_connections ln)\<rparr>"

text \<open>\<open>Close\<close> closes every connection; each one leaves the map when its goroutine ends.\<close>

definition listener_close :: "listener \<Rightarrow> nat list \<times> listener" where
  "listener_close ln = (ln_connections ln, ln\<lparr>ln_closed := True\<rparr>)"

end
