(* ===== verification/Profile_Phases.thy ===== *)
theory Profile_Phases
  imports Ssh_Agent
begin

text \<open>
  The operations on profiles as the daemon interleaves them. Each holds \<^verbatim>\<open>profileMu\<close> from its
  first line to its return, but takes and releases the state lock inside, so requests, the
  ticker and \<^verbatim>\<open>Close\<close> run between its sections. A \<open>profile_job\<close> is an operation that has stopped
  between two sections, with the local variables it goes on with; \<open>begin_call\<close> runs up to the
  first section that holds the state lock and \<open>next_phase\<close> over one such section, or over the
  writes between two of them. \<open>run_phase\<close> goes to the end; the last section shows that it
  computes the operations of \<open>Profiles\<close>.
\<close>

section \<open>Calls, jobs and phases\<close>

datatype profile_call =
    CallStore profile_request | CallManage gostring | CallUpdate gostring profile_update_request
  | CallDelete gostring | CallCreate ssh_profile_request

datatype call_result =
    Finished "error option" | Managed "error + management_response" | Created "error + public_profile"

text \<open>Addresses are those of the buffers the operation clears, or gives to a session.\<close>

datatype profile_job =
    RecordStored gostring nat
  | OpenSession gostring nat gostring
  | RevealSecret nat gostring time
  | ConsumeSession gostring profile_update_request config nat
  | WriteUpdate gostring profile_update_request config nat
  | PublishUpdate gostring nat
  | Forget gostring config
  | SaveDeletion gostring config
  | RecordDeleted gostring
  | RecordCreated public_profile nat nat nat

datatype phase = Done call_result | Next profile_job

text \<open>What \<^verbatim>\<open>StoreProfile\<close>, \<^verbatim>\<open>UpdateProfile\<close> and \<^verbatim>\<open>createSSHProfile\<close> write, in this order.\<close>

definition write_profile ::
  "env \<Rightarrow> gostring \<Rightarrow> nat \<Rightarrow> profile \<Rightarrow> config \<Rightarrow> (error \<Rightarrow> error) \<Rightarrow> service \<Rightarrow> error option \<times> service" where
  "write_profile E name a p cfg explain s =
     (case keychain_store E name (buffer s a) s of
        (Some e, s1) \<Rightarrow> (Some (explain e), s1)
      | (None, s1) \<Rightarrow> save_config E (put_profile name p cfg) s1)"

section \<open>Up to the first locked section\<close>

definition begin_store :: "env \<Rightarrow> profile_request \<Rightarrow> service \<Rightarrow> phase \<times> service" where
  "begin_store E r s =
     (case load_config E s of
        (Inl e, s1) \<Rightarrow> (Done (Finished (Some e)), s1)
      | (Inr cfg, s1) \<Rightarrow>
          if kind_of cfg (pr_name r) = ''ssh'' then (Done (Finished (Some SSHOverwrite)), s1)
          else case validate_profile (pr_name r) (pr_env r) (pr_lease_seconds r) of
            Some e \<Rightarrow> (Done (Finished (Some e)), s1)
          | None \<Rightarrow>
              let (a, s2) = alloc (pr_secret r) s1
              in if bad_secret (buffer s2 a) then (Done (Finished (Some SecretInvalid)), clear_bytes a s2)
                 else case write_profile E (pr_name r) a
                     (secret_profile (pr_env r) (pr_lease_seconds r)) cfg
                     (During ''store profile'' (pr_name r)) s2 of
                   (Some e, s3) \<Rightarrow> (Done (Finished (Some e)), clear_bytes a s3)
                 | (None, s3) \<Rightarrow> (Next (RecordStored (pr_name r) a), s3))"

definition begin_manage :: "env \<Rightarrow> gostring \<Rightarrow> service \<Rightarrow> phase \<times> service" where
  "begin_manage E name s =
     (case load_config E s of
        (Inl e, s1) \<Rightarrow> (Done (Managed (Inl e)), s1)
      | (Inr cfg, s1) \<Rightarrow>
          if go_get (cfg_profiles cfg) name = None then (Done (Managed (Inl (ProfileUnknown name))), s1)
          else if kind_of cfg name = ''ssh'' then (Done (Managed (Inl SSHReveal)), s1)
          else case authorize_profile_management E name
              ''Open the human profile editor and view or change its password.'' s1 of
            (Inl e, s2) \<Rightarrow> (Done (Managed (Inl e)), s2)
          | (Inr secret, s2) \<Rightarrow>
              (case random_capability E ''ksm_'' s2 of
                 (Inl e, s3) \<Rightarrow> (Done (Managed (Inl e)), clear_bytes secret s3)
               | (Inr token, s3) \<Rightarrow> (Next (OpenSession name secret token), s3)))"

definition begin_update :: "env \<Rightarrow> gostring \<Rightarrow> profile_update_request \<Rightarrow> service \<Rightarrow> phase \<times> service" where
  "begin_update E name r s =
     (case validate_profile name (pu_env r) (pu_lease_seconds r) of
        Some e \<Rightarrow> (Done (Finished (Some e)), s)
      | None \<Rightarrow>
          let (a, s1) = alloc (pu_secret r) s
          in if bad_secret (buffer s1 a) then (Done (Finished (Some SecretInvalid)), clear_bytes a s1)
             else case load_config E s1 of
               (Inl e, s2) \<Rightarrow> (Done (Finished (Some e)), clear_bytes a s2)
             | (Inr cfg, s2) \<Rightarrow>
                 if go_get (cfg_profiles cfg) name = None
                 then (Done (Finished (Some (ProfileUnknown name))), clear_bytes a s2)
                 else if kind_of cfg name = ''ssh'' then (Done (Finished (Some SSHEdit)), clear_bytes a s2)
                 else (Next (ConsumeSession name r cfg a), s2))"

definition begin_delete :: "env \<Rightarrow> gostring \<Rightarrow> service \<Rightarrow> phase \<times> service" where
  "begin_delete E name s =
     (case load_config E s of
        (Inl e, s1) \<Rightarrow> (Done (Finished (Some e)), s1)
      | (Inr cfg, s1) \<Rightarrow>
          if go_get (cfg_profiles cfg) name = None then (Done (Finished (Some (ProfileUnknown name))), s1)
          else case keychain_delete_with_approval E name s1 of
            (Some e, s2) \<Rightarrow> (Done (Finished (Some (During ''delete profile'' name e))), s2)
          | (None, s2) \<Rightarrow> (Next (Forget name cfg), s2))"

text \<open>The profile \<^verbatim>\<open>createSSHProfile\<close> stores and the one it returns.\<close>

definition identity_profile :: "ssh_profile_request \<Rightarrow> gostring \<Rightarrow> profile" where
  "identity_profile r line =
     \<lparr>profile_kind = ''ssh'', profile_public_key = line, profile_env = [],
      profile_lease_seconds = sp_lease_seconds r\<rparr>"

definition identity_answer :: "ssh_profile_request \<Rightarrow> gostring \<Rightarrow> public_profile" where
  "identity_answer r line =
     \<lparr>pp_kind = ''ssh'', pp_public_key = line, pp_name = sp_name r, pp_env = [],
      pp_lease_seconds = sp_lease_seconds r\<rparr>"

text \<open>Deferred calls run in reverse: the text of the seed, the seed, the private key.\<close>

definition clear_identity :: "nat \<Rightarrow> nat \<Rightarrow> nat \<Rightarrow> service \<Rightarrow> service" where
  "clear_identity private seed secret s = clear_bytes private (clear_bytes seed (clear_bytes secret s))"

definition begin_create :: "env \<Rightarrow> ssh_profile_request \<Rightarrow> service \<Rightarrow> phase \<times> service" where
  "begin_create E r s =
     (case validate_profile (sp_name r) ''SSH_SIGNING'' (sp_lease_seconds r) of
        Some e \<Rightarrow> (Done (Created (Inl e)), s)
      | None \<Rightarrow>
          (case load_config E s of
             (Inl e, s1) \<Rightarrow> (Done (Created (Inl e)), s1)
           | (Inr cfg, s1) \<Rightarrow>
               if go_get (cfg_profiles cfg) (sp_name r) \<noteq> None then (Done (Created (Inl ProfileExists)), s1)
               else case generate_key E s1 of
                 (Inl e, s2) \<Rightarrow> (Done (Created (Inl e)), s2)
               | (Inr private, s2) \<Rightarrow>
                   let public = key_public (buffer s2 private);
                       (seed, s3) = alloc (key_seed (buffer s2 private)) s2;
                       (secret, s4) = alloc (std_encode (buffer s3 seed)) s3
                   in case env_ssh_public E public of
                        Inl msg \<Rightarrow> (Done (Created (Inl (Outside msg))), clear_identity private seed secret s4)
                      | Inr blob \<Rightarrow>
                          let line = trim_space (env_ssh_authorized_line E blob)
                          in case write_profile E (sp_name r) secret (identity_profile r line) cfg id s4 of
                               (Some e, s5) \<Rightarrow> (Done (Created (Inl e)), clear_identity private seed secret s5)
                             | (None, s5) \<Rightarrow>
                                 (Next (RecordCreated (identity_answer r line) private seed secret), s5)))"

fun begin_call :: "env \<Rightarrow> profile_call \<Rightarrow> service \<Rightarrow> phase \<times> service" where
  "begin_call E (CallStore r) s = begin_store E r s"
| "begin_call E (CallManage n) s = begin_manage E n s"
| "begin_call E (CallUpdate n r) s = begin_update E n r s"
| "begin_call E (CallDelete n) s = begin_delete E n s"
| "begin_call E (CallCreate r) s = begin_create E r s"

section \<open>From one section to the next\<close>

text \<open>
  \<open>RevealSecret\<close> is the last line of \<^verbatim>\<open>BeginProfileManagement\<close>, which copies the secret of the
  session into the response after it has released the state lock.
\<close>

fun next_phase :: "env \<Rightarrow> profile_job \<Rightarrow> service \<Rightarrow> phase \<times> service" where
  "next_phase E (RecordStored name a) s =
     (Done (Finished None),
      clear_bytes a (record_locked E ''profile_saved'' name [] [] [] ''Profile stored in Keychain'' s))"
| "next_phase E (OpenSession name secret token) s =
     (let (resp, s1) = open_management E name secret token s
      in (Next (RevealSecret secret token (mr_expires_at resp)), s1))"
| "next_phase E (RevealSecret secret token expires) s =
     (Done (Managed (Inr \<lparr>mr_management_token = token, mr_secret = buffer s secret, mr_expires_at = expires\<rparr>)), s)"
| "next_phase E (ConsumeSession name r cfg a) s =
     (case consume_management_session E name (pu_management_token r) s of
        (Some e, s1) \<Rightarrow> (Done (Finished (Some e)), clear_bytes a s1)
      | (None, s1) \<Rightarrow> (Next (WriteUpdate name r cfg a), s1))"
| "next_phase E (WriteUpdate name r cfg a) s =
     (case write_profile E name a (secret_profile (pu_env r) (pu_lease_seconds r)) cfg
         (During ''update profile'' name) s of
        (Some e, s1) \<Rightarrow> (Done (Finished (Some e)), clear_bytes a s1)
      | (None, s1) \<Rightarrow> (Next (PublishUpdate name a), s1))"
| "next_phase E (PublishUpdate name a) s =
     (Done (Finished None),
      clear_bytes a
        (record_locked E ''profile_updated'' name [] ''Key Session.app''
           ''Human profile management'' ''Profile updated in an approved management session''
           (clear_profile_leases_locked E name ''Profile changed'' s)))"
| "next_phase E (Forget name cfg) s = (Next (SaveDeletion name cfg), forget_profile E name s)"
| "next_phase E (SaveDeletion name cfg) s =
     (case save_config E (cfg\<lparr>cfg_profiles := go_del name (cfg_profiles cfg)\<rparr>) s of
        (Some e, s1) \<Rightarrow> (Done (Finished (Some e)), s1)
      | (None, s1) \<Rightarrow> (Next (RecordDeleted name), s1))"
| "next_phase E (RecordDeleted name) s =
     (Done (Finished None),
      record_locked E ''profile_removed'' name [] ''Key Session.app''
        ''Human profile management'' ''Profile removal approved with Touch ID'' s)"
| "next_phase E (RecordCreated answer private seed secret) s =
     (Done (Created (Inr answer)),
      clear_identity private seed secret
        (record_locked E ''profile_saved'' (pp_name answer) [] [] []
           ''SSH signing identity generated in Keychain; private key is not exportable through the API'' s))"

text \<open>The buffers an operation holds between two sections.\<close>

fun job_buffers :: "profile_job \<Rightarrow> nat list" where
  "job_buffers (RecordStored name a) = [a]"
| "job_buffers (OpenSession name secret token) = [secret]"
| "job_buffers (ConsumeSession name r cfg a) = [a]"
| "job_buffers (WriteUpdate name r cfg a) = [a]"
| "job_buffers (PublishUpdate name a) = [a]"
| "job_buffers (RecordCreated answer private seed secret) = [private, seed, secret]"
| "job_buffers _ = []"

fun phase_buffers :: "phase \<Rightarrow> nat list" where
  "phase_buffers (Done r) = []"
| "phase_buffers (Next j) = job_buffers j"

section \<open>To the end\<close>

text \<open>How many sections are still to come.\<close>

fun sections_left :: "profile_job \<Rightarrow> nat" where
  "sections_left (OpenSession name secret token) = 2"
| "sections_left (ConsumeSession name r cfg a) = 3"
| "sections_left (WriteUpdate name r cfg a) = 2"
| "sections_left (Forget name cfg) = 3"
| "sections_left (SaveDeletion name cfg) = 2"
| "sections_left _ = 1"

fun phase_rank :: "phase \<Rightarrow> nat" where
  "phase_rank (Done r) = 0"
| "phase_rank (Next j) = sections_left j"

lemma next_phase_rank: "phase_rank (fst (next_phase E j s)) < sections_left j"
  by (cases j) (simp_all add: case_prod_beta split: option.split)

function run_phase :: "env \<Rightarrow> phase \<Rightarrow> service \<Rightarrow> call_result \<times> service" where
  "run_phase E (Done r) s = (r, s)"
| "run_phase E (Next j) s = run_phase E (fst (next_phase E j s)) (snd (next_phase E j s))"
  by pat_completeness auto
termination
  by (relation "measure (\<lambda>(E, p, s). phase_rank p)") (simp_all add: case_prod_beta next_phase_rank)

definition run_call :: "env \<Rightarrow> profile_call \<Rightarrow> service \<Rightarrow> call_result \<times> service" where
  "run_call E c s = run_phase E (fst (begin_call E c s)) (snd (begin_call E c s))"

text \<open>The operations of \<open>Profiles\<close>, as one function of the call.\<close>

fun perform_call :: "env \<Rightarrow> profile_call \<Rightarrow> service \<Rightarrow> call_result \<times> service" where
  "perform_call E (CallStore r) s = (let (e, s1) = store_profile E r s in (Finished e, s1))"
| "perform_call E (CallManage n) s = (let (x, s1) = begin_profile_management E n s in (Managed x, s1))"
| "perform_call E (CallUpdate n r) s = (let (e, s1) = update_profile E n r s in (Finished e, s1))"
| "perform_call E (CallDelete n) s = (let (e, s1) = delete_profile E n s in (Finished e, s1))"
| "perform_call E (CallCreate r) s = (let (x, s1) = create_ssh_profile E r s in (Created x, s1))"

lemma perform_call_states:
  "snd (perform_call E (CallStore r) s) = snd (store_profile E r s)"
  "snd (perform_call E (CallManage n) s) = snd (begin_profile_management E n s)"
  "snd (perform_call E (CallUpdate n q) s) = snd (update_profile E n q s)"
  "snd (perform_call E (CallDelete n) s) = snd (delete_profile E n s)"
  "snd (perform_call E (CallCreate c) s) = snd (create_ssh_profile E c s)"
  by (simp_all add: case_prod_beta)

lemmas phase_splits = sum.split option.split

lemma store_in_phases: "run_call E (CallStore r) s = perform_call E (CallStore r) s"
  by (simp add: run_call_def begin_store_def store_profile_def store_secret_def write_profile_def
      Let_def case_prod_beta split: phase_splits)

lemma manage_in_phases: "run_call E (CallManage n) s = perform_call E (CallManage n) s"
  by (simp add: run_call_def begin_manage_def begin_profile_management_def open_management_def
      Let_def case_prod_beta split: phase_splits)

lemma update_in_phases: "run_call E (CallUpdate n r) s = perform_call E (CallUpdate n r) s"
  by (simp add: run_call_def begin_update_def update_profile_def update_checked_def update_secret_def
      write_profile_def Let_def case_prod_beta split: phase_splits)

lemma delete_in_phases: "run_call E (CallDelete n) s = perform_call E (CallDelete n) s"
  by (simp add: run_call_def begin_delete_def delete_profile_def Let_def case_prod_beta
      split: phase_splits)

lemma create_in_phases: "run_call E (CallCreate r) s = perform_call E (CallCreate r) s"
  by (simp add: run_call_def begin_create_def create_ssh_profile_def store_identity_def
      write_profile_def identity_profile_def identity_answer_def clear_identity_def
      Let_def case_prod_beta split: phase_splits)

lemma call_in_phases: "run_call E c s = perform_call E c s"
  by (cases c) (simp_all only: store_in_phases manage_in_phases update_in_phases delete_in_phases
      create_in_phases)

end
