(* ===== verification/Operation_Invariants.thy ===== *)
theory Operation_Invariants
  imports Profile_Phases "HOL-Library.Multiset"
begin

text \<open>
  Every operation keeps every invariant that its building blocks keep. \<open>inv F s\<close> speaks of a
  state in which the buffers at \<open>F\<close> are in flight: held by an operation that has not returned,
  but not by a lease or a management session. The operations that only read the configuration
  keep also what depends on the configuration on disk: \<open>kept_by_readers\<close> is the interface for
  them, and \<open>kept_by_operations\<close> extends it for those that write it.
\<close>

section \<open>The interface\<close>

locale kept_by_readers =
  fixes inv :: "nat list \<Rightarrow> service \<Rightarrow> bool"
  assumes primitives: "kept_by_primitives (inv F)"
    and inv_alloc: "inv F s \<Longrightarrow> alloc bs s = (a, s') \<Longrightarrow> inv (a # F) s'"
    and inv_clear: "inv (a # F) s \<Longrightarrow> inv F (clear_bytes a s)"
    and inv_reorder: "inv F s \<Longrightarrow> mset F = mset G \<Longrightarrow> inv G s"
    and inv_call: "inv F s \<Longrightarrow> inv F (next_call s)"
    and inv_effect: "inv F s \<Longrightarrow> inv F (log_effect e s)"
begin

sublocale base: kept_by_primitives "inv F" for F
  by (rule primitives)

lemmas steps = inv_clear inv_call inv_effect base.inv_record base.expire
  base.clear_consumer base.inv_clear_lease base.clear_profile base.expire_management
  base.inv_drop_management

lemmas split_results = sum.split option.split if_split

lemma allocs: "inv F s \<Longrightarrow> inv (fst (alloc bs s) # F) (snd (alloc bs s))"
  by (rule inv_alloc) simp_all

lemma clears_second: "inv (b # a # F) s \<Longrightarrow> inv (b # F) (clear_bytes a s)"
  by (rule inv_clear, erule inv_reorder) simp

lemma now: "inv F s \<Longrightarrow> inv F (snd (time_now E s))"
  by (simp add: time_now_def inv_call)

lemma expiring: "inv F s \<Longrightarrow> inv F (expire_now E s)"
  by (simp add: expire_now_def case_prod_beta now steps)

lemma loads: "inv F s \<Longrightarrow> inv F (snd (load_config E s))"
  by (simp add: load_config_def inv_call)

lemma capabilities: "inv F s \<Longrightarrow> inv F (snd (random_capability E pre s))"
  by (simp add: random_capability_def inv_call)

lemma identifiers: "inv F s \<Longrightarrow> inv F (snd (random_identifier E pre s))"
  by (simp add: random_identifier_def inv_call)

lemma keychain_stores: "inv F s \<Longrightarrow> inv F (snd (keychain_store E n b s))"
  by (simp add: keychain_store_def Let_def inv_call inv_effect)

lemma keychain_deletes: "inv F s \<Longrightarrow> inv F (snd (keychain_delete_with_approval E n s))"
  by (simp add: keychain_delete_with_approval_def Let_def inv_call inv_effect)

lemma keychain_fails:
  "inv F s \<Longrightarrow> fst (keychain_read E n m s) = Inl e \<Longrightarrow> inv F (snd (keychain_read E n m s))"
  by (simp add: keychain_read_def case_prod_beta inv_call inv_effect split: sum.splits)

lemma keychain_reads:
  "inv F s \<Longrightarrow> fst (keychain_read E n m s) = Inr a \<Longrightarrow> inv (a # F) (snd (keychain_read E n m s))"
  by (auto simp: keychain_read_def case_prod_beta allocs inv_call inv_effect split: sum.splits)

lemma key_fails:
  "inv F s \<Longrightarrow> fst (ssh_private_key E b s) = Inl e \<Longrightarrow> inv F (snd (ssh_private_key E b s))"
  by (auto simp: ssh_private_key_def case_prod_beta allocs inv_clear split: option.splits if_splits)

lemma key_made:
  "inv F s \<Longrightarrow> fst (ssh_private_key E b s) = Inr a \<Longrightarrow> inv (a # F) (snd (ssh_private_key E b s))"
  by (auto simp: ssh_private_key_def case_prod_beta allocs clears_second split: option.splits if_splits)

lemma ssh_secret: "inv F s \<Longrightarrow> inv F (snd (validate_ssh_secret E b x s))"
  by (simp add: validate_ssh_secret_def case_prod_beta key_fails key_made inv_clear
      split: split_results)

section \<open>Grants\<close>

lemma identity: "inv F s \<Longrightarrow> inv F (snd (check_identity E p a s))"
  by (simp add: check_identity_def ssh_secret)

lemma grant_begins: "inv F s \<Longrightarrow> inv F (snd (grant_begin E r s))"
  by (simp add: grant_begin_def grant_new_consumer_def grant_existing_consumer_def Let_def
      case_prod_beta now capabilities identifiers base.expire split: split_results)

lemma grant_read_fails:
  "inv F s \<Longrightarrow> fst (grant_read E gc n p d s) = Inl e \<Longrightarrow> inv F (snd (grant_read E gc n p d s))"
  by (auto simp: grant_read_def case_prod_beta Let_def keychain_fails keychain_reads identity
      identifiers now inv_clear split: sum.splits option.splits)

lemma grant_reads:
  "inv F s \<Longrightarrow> fst (grant_read E gc n p d s) = Inr g \<Longrightarrow>
     inv (gy_secret g # F) (snd (grant_read E gc n p d s))"
  by (auto simp: grant_read_def case_prod_beta Let_def keychain_reads identity
      identifiers now split: sum.splits option.splits)

lemma grant_refused:
  "inv F s \<Longrightarrow> fst (grant_approve E gc s) = Inl e \<Longrightarrow> inv F (snd (grant_approve E gc s))"
  by (auto simp: grant_approve_def case_prod_beta Let_def loads now grant_read_fails split: sum.splits)

lemma grant_approved:
  "inv F s \<Longrightarrow> fst (grant_approve E gc s) = Inr g \<Longrightarrow>
     inv (gy_secret g # F) (snd (grant_approve E gc s))"
  by (auto simp: grant_approve_def case_prod_beta Let_def loads now grant_reads split: sum.splits)

lemma grant_commit_refused:
  "inv (gy_secret g # F) s \<Longrightarrow> fst (grant_commit E g s) = Inl e \<Longrightarrow> inv F (snd (grant_commit E g s))"
  by (simp add: grant_commit_def Let_def base.expire inv_clear split: sum.splits)

section \<open>Consumers\<close>

lemma status: "inv F s \<Longrightarrow> inv F (snd (consumer_status E t s))"
  by (simp add: consumer_status_def Let_def case_prod_beta expiring split: sum.split)

lemma revoking: "inv F s \<Longrightarrow> inv F (snd (revoke_at E h c i d1 d2 s))"
  by (simp add: revoke_at_def steps split: option.split)

lemma revokes: "inv F s \<Longrightarrow> inv F (snd (revoke E r s))"
  by (simp add: revoke_def Let_def expiring revoking split: option.split)

lemma admin_revokes: "inv F s \<Longrightarrow> inv F (snd (admin_revoke E r s))"
  by (simp add: admin_revoke_def Let_def case_prod_beta expiring revoking split: option.split)

lemma execute_refused:
  "inv F s \<Longrightarrow> fst (execute_begin E r s) = Inl e \<Longrightarrow> inv F (snd (execute_begin E r s))"
  by (auto simp: execute_begin_def case_prod_beta Let_def expiring
      split: sum.splits option.splits if_splits)

lemma execute_begins:
  "inv F s \<Longrightarrow> fst (execute_begin E r s) = Inr x \<Longrightarrow>
     inv (xr_secret x # F) (snd (execute_begin E r s))"
  by (auto simp: execute_begin_def case_prod_beta Let_def expiring allocs
      split: sum.splits option.splits if_splits)

lemma execute_finishes: "inv (xr_secret x # F) s \<Longrightarrow> inv F (snd (execute_finish E x s))"
  by (simp add: execute_finish_def Let_def inv_clear inv_effect inv_call split: sum.split)

lemma executes: "inv F s \<Longrightarrow> inv F (snd (execute E r s))"
  by (simp add: execute_def case_prod_beta execute_refused execute_begins execute_finishes
      split: sum.split)

lemma ticks: "inv F s \<Longrightarrow> inv F (tick E s)"
  by (simp add: tick_def case_prod_beta now base.expire base.expire_management)

lemma snapshots: "inv F s \<Longrightarrow> inv F (snd (take_snapshot E s))"
  by (simp add: take_snapshot_def Let_def case_prod_beta now loads base.expire
      base.expire_management split: sum.split)

section \<open>Profiles\<close>

lemma ends_management: "inv F s \<Longrightarrow> inv F (snd (end_profile_management n t s))"
  by (simp add: end_profile_management_def base.inv_drop_management split: option.split)

lemma consumes_management: "inv F s \<Longrightarrow> inv F (snd (consume_management_session E n t s))"
  by (simp add: consume_management_session_def Let_def case_prod_beta now base.expire_management
      base.inv_drop_management split: option.split)

lemma authorizes_fails:
  "inv F s \<Longrightarrow> fst (authorize_profile_management E n r s) = Inl e \<Longrightarrow>
     inv F (snd (authorize_profile_management E n r s))"
  by (auto simp: authorize_profile_management_def case_prod_beta keychain_fails split: sum.splits)

lemma authorizes:
  "inv F s \<Longrightarrow> fst (authorize_profile_management E n r s) = Inr a \<Longrightarrow>
     inv (a # F) (snd (authorize_profile_management E n r s))"
  by (auto simp: authorize_profile_management_def case_prod_beta keychain_reads split: sum.splits)

lemma forgets: "inv F s \<Longrightarrow> inv F (forget_profile E n s)"
  using base.management_list [of F "clear_profile_leases_locked E n ''Profile removed'' s" "[]"]
  by (simp add: forget_profile_def Let_def base.clear_profile)

lemma generate_fails:
  "inv F s \<Longrightarrow> fst (generate_key E s) = Inl e \<Longrightarrow> inv F (snd (generate_key E s))"
  by (simp add: generate_key_def case_prod_beta inv_call split: sum.splits)

lemma generates:
  "inv F s \<Longrightarrow> fst (generate_key E s) = Inr a \<Longrightarrow> inv (a # F) (snd (generate_key E s))"
  by (auto simp: generate_key_def case_prod_beta inv_call allocs split: sum.splits)

lemma clears_identity: "inv (x # y # z # F) s \<Longrightarrow> inv F (clear_identity x y z s)"
  unfolding clear_identity_def
  by (intro inv_clear, erule inv_reorder) simp

section \<open>The first phase of an operation on profiles\<close>

lemma begins_manage:
  "inv F s \<Longrightarrow> inv (phase_buffers (fst (begin_manage E n s)) @ F) (snd (begin_manage E n s))"
  by (auto simp: begin_manage_def case_prod_beta loads authorizes_fails authorizes capabilities inv_clear
      split: split_results)

lemma begins_update:
  "inv F s \<Longrightarrow> inv (phase_buffers (fst (begin_update E n r s)) @ F) (snd (begin_update E n r s))"
  by (simp add: begin_update_def Let_def case_prod_beta loads allocs inv_clear split: split_results)

lemma begins_delete:
  "inv F s \<Longrightarrow> inv (phase_buffers (fst (begin_delete E n s)) @ F) (snd (begin_delete E n s))"
  by (simp add: begin_delete_def case_prod_beta loads keychain_deletes split: split_results)

section \<open>The agent\<close>

lemma lists_leases: "inv F s \<Longrightarrow> inv F (snd (list_leases E ls ks seen s))"
proof (induction ls arbitrary: ks seen s)
  case (Cons e ls)
  then show ?case
    by (cases e) (simp add: case_prod_beta key_fails key_made inv_clear split: sum.split)
qed simp

lemma lists_consumers: "inv F s \<Longrightarrow> inv F (snd (list_consumers E cs ks seen s))"
proof (induction cs arbitrary: ks seen s)
  case (Cons e cs)
  then show ?case
    by (cases e) (simp add: case_prod_beta lists_leases split: sum.split)
qed simp

lemma agent_lists: "inv F s \<Longrightarrow> inv F (snd (agent_list E s))"
  by (simp add: agent_list_def Let_def case_prod_beta expiring lists_consumers split: sum.split)

lemma signs_leases: "inv F s \<Longrightarrow> inv F (snd (sign_leases E pub bs ls s))"
proof (induction ls arbitrary: s)
  case (Cons e ls)
  then show ?case
    by (cases e) (simp add: case_prod_beta key_fails key_made inv_clear split: sum.split)
qed simp

lemma signs_consumers: "inv F s \<Longrightarrow> inv F (snd (sign_consumers E pub bs cs s))"
proof (induction cs arbitrary: s)
  case (Cons e cs)
  then show ?case
    by (cases e) (simp add: case_prod_beta signs_leases split: option.split)
qed simp

lemma agent_signs: "inv F s \<Longrightarrow> inv F (snd (agent_sign E W pub bs s))"
  by (simp add: agent_sign_def Let_def case_prod_beta expiring signs_consumers split: option.split)

end

section \<open>Operations that write the configuration\<close>

locale kept_by_operations = kept_by_readers +
  assumes inv_config: "inv F s \<Longrightarrow> inv F (s\<lparr>sv_config := d\<rparr>)"
begin

lemma saves: "inv F s \<Longrightarrow> inv F (snd (save_config E cfg s))"
  by (simp add: save_config_def Let_def inv_call inv_config)

lemma writes: "inv F s \<Longrightarrow> inv F (snd (write_profile E n a p cfg f s))"
  by (simp add: write_profile_def case_prod_beta keychain_stores saves split: option.split)

lemma begins_store:
  "inv F s \<Longrightarrow> inv (phase_buffers (fst (begin_store E r s)) @ F) (snd (begin_store E r s))"
  by (simp add: begin_store_def Let_def case_prod_beta loads allocs writes inv_clear split: split_results)

lemma begins_create:
  assumes "inv F s"
  shows "inv (phase_buffers (fst (begin_create E r s)) @ F) (snd (begin_create E r s))"
proof -
  have three: "inv (a # b # c # F) s \<Longrightarrow> inv (c # b # a # F) s" for a b c s
    by (erule inv_reorder) simp
  show ?thesis
    using assms
    by (auto simp: begin_create_def Let_def case_prod_beta loads generate_fails generates allocs writes
        three clears_identity split: split_results)
qed

lemma begins_call:
  "inv F s \<Longrightarrow> inv (phase_buffers (fst (begin_call E c s)) @ F) (snd (begin_call E c s))"
  by (cases c) (simp_all add: begins_store begins_manage begins_update begins_delete begins_create)

end

end
