(* ===== verification/Memory.thy ===== *)
theory Memory
  imports Operation_Invariants
begin

text \<open>
  Memory hygiene: at every moment each buffer that ever held a secret is either owned by exactly
  one lease, management session or running operation, or it is all zeros.
\<close>

section \<open>Clearing a buffer\<close>

lemma length_zero_from [simp]: "length (zero_from n bs) = length bs"
  by (induction n arbitrary: bs) simp_all

lemma zero_from_nth:
  "n \<le> length bs \<Longrightarrow> j < length bs \<Longrightarrow> zero_from n bs ! j = (if j < n then CHR 0x00 else bs ! j)"
  by (induction n arbitrary: bs) (auto simp: nth_list_update)

lemma zeroed_zero_from: "zeroed (zero_from (length bs) bs)"
  by (simp add: zeroed_def list_all_length zero_from_nth)

lemma clear_bytes_zeroes: "a < length (sv_heap s) \<Longrightarrow> zeroed (buffer (clear_bytes a s) a)"
  by (simp add: clear_bytes_def buffer_def zeroed_zero_from)

lemma clear_bytes_other: "b \<noteq> a \<Longrightarrow> buffer (clear_bytes a s) b = buffer s b"
  by (simp add: clear_bytes_def buffer_def)

lemma clear_bytes_length [simp]: "length (sv_heap (clear_bytes a s)) = length (sv_heap s)"
  by (simp add: clear_bytes_def)

section \<open>Who owns a buffer\<close>

definition lease_buffers :: "(digest, consumer_session) go_map \<Rightarrow> nat list" where
  "lease_buffers m = concat (map (\<lambda>e. map (\<lambda>l. al_secret (snd l)) (cs_leases (snd e))) m)"

definition owned :: "service \<Rightarrow> nat list" where
  "owned s = lease_buffers (sv_consumers s) @ map (\<lambda>e. ms_secret (snd e)) (sv_management s)"

definition memory_ok :: "nat list \<Rightarrow> service \<Rightarrow> bool" where
  "memory_ok F s \<longleftrightarrow>
     wf_state s \<and> distinct (owned s @ F) \<and> (\<forall>a \<in> set (owned s @ F). a < length (sv_heap s)) \<and>
     (\<forall>a < length (sv_heap s). a \<notin> set (owned s @ F) \<longrightarrow> zeroed (buffer s a))"

lemma memory_wf: "memory_ok F s \<Longrightarrow> wf_state s"
  by (simp add: memory_ok_def)

lemma memory_cong:
  assumes "memory_ok F s" and "wf_state s'" and "mset (owned s' @ G) = mset (owned s @ F)"
    and "sv_heap s' = sv_heap s"
  shows "memory_ok G s'"
proof -
  have "set (owned s' @ G) = set (owned s @ F)" "distinct (owned s' @ G) = distinct (owned s @ F)"
    using assms(3) by (rule mset_eq_setD, rule mset_eq_imp_distinct_iff)
  with assms show ?thesis unfolding memory_ok_def buffer_def by metis
qed

lemma memory_drop:
  assumes "memory_ok F s" and "wf_state s'" and "mset (owned s @ F) = add_mset a (mset (owned s' @ G))"
    and "sv_heap s' = sv_heap (clear_bytes a s)"
  shows "memory_ok G s'"
proof -
  have m: "mset (owned s @ F) = mset (a # owned s' @ G)" using assms(3) by simp
  have set: "set (owned s @ F) = insert a (set (owned s' @ G))"
    using mset_eq_setD [OF m] by simp
  have dist: "a \<notin> set (owned s' @ G)" "distinct (owned s' @ G)"
    using mset_eq_imp_distinct_iff [OF m] assms(1) by (auto simp: memory_ok_def)
  have a: "a < length (sv_heap s)" using assms(1) set by (auto simp: memory_ok_def)
  have "zeroed (buffer s' b)" if "b < length (sv_heap s')" "b \<notin> set (owned s' @ G)" for b
  proof (cases "b = a")
    case True
    then show ?thesis using clear_bytes_zeroes [OF a] assms(4) by (simp add: buffer_def)
  next
    case False
    then have "b \<notin> set (owned s @ F)" using that set by simp
    then have "zeroed (buffer s b)" using assms(1,4) that by (simp add: memory_ok_def)
    then show ?thesis using clear_bytes_other [OF False, of s] assms(4) by (simp add: buffer_def)
  qed
  then show ?thesis
    using assms(1,2,4) dist set by (auto simp: memory_ok_def)
qed

section \<open>The primitives\<close>

lemma lease_buffers_simps [simp]:
  "lease_buffers [] = []"
  "lease_buffers (e # m) = map (\<lambda>l. al_secret (snd l)) (cs_leases (snd e)) @ lease_buffers m"
  by (simp_all add: lease_buffers_def)

lemma filter_key_mset:
  assumes "wf_map m" and "go_get m k = Some v"
  shows "mset (map f m) = add_mset (f (k, v)) (mset (map f (filter (\<lambda>e. fst e \<noteq> k) m)))"
  using assms
proof (induction m)
  case (Cons e m)
  obtain k' v' where e: "e = (k', v')" by (cases e)
  show ?case
  proof (cases "k' = k")
    case True
    then have "k \<notin> fst ` set m" using Cons.prems e by simp
    then have "filter (\<lambda>e. fst e \<noteq> k) m = m" using delete_absent [of k m] by (simp add: delete_filter)
    then show ?thesis using True Cons.prems e by (simp del: mset_map mset_filter)
  next
    case False
    then show ?thesis using Cons e by simp
  qed
qed simp

lemma lease_buffers_remove:
  assumes "wf_map m" and "go_get m h = Some c" and "wf_map (cs_leases c)"
    and "go_get (cs_leases c) i = Some l"
  shows "mset (lease_buffers m) = add_mset (al_secret l) (mset (lease_buffers (at_key h (remove_lease i) m)))"
  using assms
proof (induction m)
  case (Cons e m)
  obtain k d where e: "e = (k, d)" by (cases e)
  show ?case
  proof (cases "k = h")
    case True
    then have "at_key h (remove_lease i) m = m" using Cons.prems(1) e by (simp add: at_key_absent)
    then show ?thesis
      using True Cons.prems e filter_key_mset [OF assms(3,4), of "\<lambda>l. al_secret (snd l)"] by simp
  next
    case False
    then show ?thesis using Cons e by simp
  qed
qed simp

lemma memory_clear_lease:
  assumes "memory_ok F s"
  shows "memory_ok F (clear_lease_locked h i s)"
proof (cases "go_get (leases_at s h) i")
  case None
  then show ?thesis using assms by (simp add: clear_lease_locked_def)
next
  case (Some l)
  have wf: "wf_state s" using assms by (simp add: memory_ok_def)
  obtain c where c: "go_get (sv_consumers s) h = Some c" "go_get (cs_leases c) i = Some l"
    using Some by (cases "go_get (sv_consumers s) h") (simp_all add: leases_at_def)
  then have "wf_map (cs_leases c)" using wf go_get_mem by (fastforce simp: wf_state_def)
  then have "mset (owned s @ F) = add_mset (al_secret l) (mset (owned (clear_lease_locked h i s) @ F))"
    using lease_buffers_remove [of "sv_consumers s" h c i l] c wf
    by (simp add: owned_def clear_lease_consumers frame wf_state_def)
  moreover have "sv_heap (clear_lease_locked h i s) = sv_heap (clear_bytes (al_secret l) s)"
    using Some by (simp add: clear_lease_locked_def Let_def frame)
  ultimately show ?thesis
    using assms wf_clear_lease [OF wf] by (blast intro: memory_drop)
qed

lemma memory_record: "memory_ok F s \<Longrightarrow> memory_ok F (record_locked E k p cid lab r d s)"
  by (simp add: memory_ok_def wf_record owned_def buffer_def frame)

lemma lease_buffers_delete: "leases_at s h = [] \<Longrightarrow> wf_state s \<Longrightarrow>
  lease_buffers (go_del h (sv_consumers s)) = lease_buffers (sv_consumers s)"
proof -
  have "lease_buffers (filter (\<lambda>e. fst e \<noteq> h) m) = lease_buffers m"
    if "\<And>c. (h, c) \<in> set m \<Longrightarrow> cs_leases c = []" for m
    using that by (induction m) force+
  moreover assume "leases_at s h = []" "wf_state s"
  ultimately show ?thesis
    by (force simp: delete_filter leases_at_def wf_state_def wf_map_get)
qed

lemma memory_drop_consumer:
  assumes "memory_ok F s" and "leases_at s h = []"
  shows "memory_ok F (drop_consumer h s)"
proof -
  have wf: "wf_state s" using assms by (simp add: memory_ok_def)
  have "owned (drop_consumer h s) = owned s"
    using lease_buffers_delete [OF assms(2) wf] by (simp add: owned_def frame) (simp add: drop_consumer_def)
  then show ?thesis
    by (intro memory_cong [OF assms(1) wf_drop_consumer [OF wf]]) (simp_all add: frame)
qed

lemma memory_drop_management:
  assumes "memory_ok F s" and "go_get (sv_management s) t = Some m"
  shows "memory_ok F (drop_management t m s)"
proof -
  have wf: "wf_state s" using assms by (simp add: memory_ok_def)
  have "mset (owned s @ F) = add_mset (ms_secret m) (mset (owned (drop_management t m s) @ F))"
    using filter_key_mset [of "sv_management s" t m "\<lambda>e. ms_secret (snd e)"] assms(2) wf
    by (simp add: owned_def frame drop_management_sessions delete_filter wf_state_def)
  then show ?thesis
    using assms wf_drop_management [OF wf]
    by (elim memory_drop) (simp_all add: drop_management_def Let_def)
qed

interpretation memory_kept: kept_by_primitives "memory_ok F" for F
  by unfold_locales
    (blast intro: memory_clear_lease memory_record memory_drop_consumer memory_drop_management
      memory_wf)+

section \<open>The operations\<close>

lemma memory_alloc:
  assumes ok: "memory_ok F s" and s': "alloc bs s = (a, s')"
  shows "memory_ok (a # F) s'"
proof -
  have a: "a = length (sv_heap s)" and h: "sv_heap s' = sv_heap s @ [bs]"
    and o: "owned s' = owned s" and w: "wf_state s' = wf_state s"
    using s' by (auto simp: alloc_def owned_def wf_state_def)
  have fresh: "a \<notin> set (owned s @ F)" using ok a by (auto simp: memory_ok_def)
  have "zeroed (buffer s' b)" if "b < length (sv_heap s')" "b \<notin> set (owned s' @ a # F)" for b
    using that ok h a o by (auto simp: memory_ok_def buffer_def nth_append)
  moreover have "\<forall>b \<in> set (owned s' @ a # F). b < length (sv_heap s')"
    using ok h a o by (auto simp: memory_ok_def less_Suc_eq)
  ultimately show ?thesis using ok fresh o w by (simp add: memory_ok_def)
qed

lemma memory_clear: "memory_ok (a # F) s \<Longrightarrow> memory_ok F (clear_bytes a s)"
  by (frule memory_wf, erule memory_drop [where a = a])
    (simp_all add: wf_state_def owned_def frame)

lemma memory_same:
  assumes "memory_ok F s" and "sv_consumers s' = sv_consumers s" and "sv_management s' = sv_management s"
    and "sv_heap s' = sv_heap s"
  shows "memory_ok F s'"
  using assms by (intro memory_cong [OF assms(1)]) (simp_all add: wf_state_def owned_def memory_ok_def)

interpretation memory: kept_by_operations memory_ok
proof unfold_locales
  show "memory_ok G s" if "memory_ok F s" "mset F = mset G" for F G s
    using that by (intro memory_cong [OF that(1)]) (simp_all add: memory_ok_def)
qed (rule memory_clear_lease memory_record memory_drop_consumer memory_drop_management memory_wf
    memory_alloc memory_clear; assumption | rule memory_same; simp add: frame log_effect_def)+

end
