(* ===== verification/Lease_Invariants.thy ===== *)
theory Lease_Invariants
  imports Memory
begin

text \<open>
  What holds of every consumer session the daemon keeps. A property of one session that
  survives the removal of a lease and the growth of the history is an invariant of all
  operations; only a grant adds sessions and leases, so only a grant has to establish it. Two
  properties are used: the consistency of a session with its leases, and that a human approved
  every lease on a prompt that named it.
\<close>

definition all_sessions :: "(effect list \<Rightarrow> digest \<Rightarrow> consumer_session \<Rightarrow> bool) \<Rightarrow> service \<Rightarrow> bool" where
  "all_sessions P s \<longleftrightarrow> wf_state s \<and> (\<forall>e \<in> set (sv_consumers s). P (sv_trace s) (fst e) (snd e))"

lemma wf_leases: "wf_state s \<Longrightarrow> go_get (sv_consumers s) h = Some c \<Longrightarrow> wf_map (cs_leases c)"
  by (auto simp: wf_state_def dest!: go_get_mem)

lemma wf_modify:
  assumes "wf_state s"
    and "\<And>c. go_get (sv_consumers s) h = Some c \<Longrightarrow> wf_map (cs_leases c) \<Longrightarrow> wf_map (cs_leases (f c))"
  shows "wf_state (modify_consumer h f s)"
proof -
  have "wf_map (cs_leases (snd e))" if e: "e \<in> set (at_key h f (sv_consumers s))" for e
  proof -
    obtain c where c: "(fst e, c) \<in> set (sv_consumers s)" "snd e = (if fst e = h then f c else c)"
      using iffD1 [OF at_key_mem e] by blast
    then have "go_get (sv_consumers s) (fst e) = Some c"
      using assms(1) by (simp add: wf_state_def wf_map_get)
    then show ?thesis using c assms(2) wf_leases [OF assms(1)] by auto
  qed
  then show ?thesis using assms(1) by (simp add: wf_state_def modify_consumers frame)
qed

lemma wf_put_lease: "wf_state s \<Longrightarrow> wf_state (put_lease h l a s)"
  by (simp add: put_lease_def wf_modify gm.wf_put)

lemma wf_put_consumer:
  "wf_state s \<Longrightarrow> wf_map (cs_leases c) \<Longrightarrow> go_get (sv_consumers s) h = None \<Longrightarrow> wf_state (put_consumer h c s)"
  by (auto simp: wf_state_def put_consumer_def gm.wf_put update_absent map_of_eq_None_iff wf_map_def
      simp del: update.simps)

section \<open>What a commit does\<close>

definition installed :: "grant_ready \<Rightarrow> consumer_session \<Rightarrow> consumer_session" where
  "installed g c = c\<lparr>cs_leases :=
     go_put (lease_id (gy_lease g)) \<lparr>al_metadata = gy_lease g, al_secret = gy_secret g\<rparr>
       (filter (\<lambda>e. lease_profile (al_metadata (snd e)) \<noteq> lease_profile (gy_lease g)) (cs_leases c))\<rparr>"

text \<open>The session that receives the lease: the new one, or the live one with the same identifier.\<close>

definition commit_session :: "env \<Rightarrow> grant_ready \<Rightarrow> service \<Rightarrow> consumer_session option" where
  "commit_session E g s =
     (let gc = gy_context g
      in case go_get (sv_consumers (expire_locked E (gy_now g) s)) (sha256 (gc_token gc)) of
           None \<Rightarrow> if gc_new gc then Some (new_session g) else None
         | Some c \<Rightarrow>
             if \<not> gc_new gc \<and> consumer_id (cs_metadata c) = gc_consumer_id gc then Some c else None)"

lemma install_wf: "wf_state s \<Longrightarrow> wf_state (install_lease E h g s)"
proof -
  assume "wf_state s"
  then have "wf_state (put_lease h l a (sweep_leases E h cid lab keep k d ls s))" for l a cid lab keep k d ls
    by (simp add: wf_put_lease wf_sweep)
  moreover have "wf_state (x\<lparr>sv_revision := v\<rparr>) = wf_state x" for x v by (simp add: wf_state_def)
  ultimately show ?thesis by (simp add: install_lease_def Let_def wf_record)
qed

lemma install_consumers:
  assumes "wf_state s"
  shows "sv_consumers (install_lease E h g s) = at_key h (installed g) (sv_consumers s)"
  using assms
  by (simp add: install_lease_def Let_def frame put_lease_def modify_consumers sweep_consumers
      at_key_twice comp_def installed_def [abs_def] keep_leases_def)

lemma start_wf: "wf_state s \<Longrightarrow> go_get (sv_consumers s) h = None \<Longrightarrow> wf_state (start_consumer E h g s)"
  by (simp add: start_consumer_def wf_record wf_put_consumer new_session_def Let_def)

lemma start_consumers: "sv_consumers (start_consumer E h g s) = go_put h (new_session g) (sv_consumers s)"
  by (simp add: start_consumer_def frame put_consumer_def)

lemma install_frame [frame]:
  "sv_management (install_lease E h g s) = sv_management s"
  "sv_config (install_lease E h g s) = sv_config s" "sv_trace (install_lease E h g s) = sv_trace s"
  by (simp_all add: install_lease_def Let_def frame put_lease_def)

lemma start_frame [frame]:
  "sv_management (start_consumer E h g s) = sv_management s"
  "sv_config (start_consumer E h g s) = sv_config s" "sv_trace (start_consumer E h g s) = sv_trace s"
  "sv_heap (start_consumer E h g s) = sv_heap s"
  by (simp_all add: start_consumer_def frame put_consumer_def)

lemma commit_target_at:
  "commit_target E g s = (case go_get (sv_consumers s) (sha256 (gc_token (gy_context g))) of
     None \<Rightarrow> if gc_new (gy_context g)
       then Inr (start_consumer E (sha256 (gc_token (gy_context g))) g s) else Inl CapabilityInvalid
   | Some c \<Rightarrow>
       if gc_new (gy_context g) then Inl CapabilityCollision
       else if consumer_id (cs_metadata c) \<noteq> gc_consumer_id (gy_context g) then Inl CapabilityInvalid
       else Inr s)"
  by (simp only: commit_target_def Let_def)

lemma commit_refused:
  assumes "commit_session E g s = None"
  shows "\<exists>e. grant_commit E g s = (Inl e, clear_bytes (gy_secret g) (expire_locked E (gy_now g) s))"
proof (cases "go_get (sv_consumers (expire_locked E (gy_now g) s)) (sha256 (gc_token (gy_context g)))")
  case None
  with assms show ?thesis
    by (simp add: grant_commit_def commit_target_at commit_session_def Let_def split: if_splits)
next
  case (Some c)
  with assms show ?thesis
    by (cases "gc_new (gy_context g)")
      (simp_all add: grant_commit_def commit_target_at commit_session_def Let_def split: if_splits)
qed

lemma commit_accepted:
  assumes "wf_state s" and "commit_session E g s = Some c"
  shows "\<exists>s2. commit_target E g (expire_locked E (gy_now g) s) = Inr s2 \<and> wf_state s2 \<and>
    go_get (sv_consumers s2) =
      (go_get (sv_consumers (expire_locked E (gy_now g) s)))(sha256 (gc_token (gy_context g)) \<mapsto> c) \<and>
    sv_trace s2 = sv_trace s"
proof -
  let ?s1 = "expire_locked E (gy_now g) s" let ?h = "sha256 (gc_token (gy_context g))"
  have wf: "wf_state ?s1" using assms(1) by (rule wf_kept.expire)
  show ?thesis
  proof (cases "go_get (sv_consumers ?s1) ?h")
    case None
    then have "gc_new (gy_context g)" "c = new_session g"
      using assms(2) by (simp_all add: commit_session_def Let_def split: if_splits)
    then show ?thesis
      using None start_wf [OF wf None] by (simp add: commit_target_at start_consumers gm.get_put frame)
  next
    case (Some d)
    then have "\<not> gc_new (gy_context g)" "consumer_id (cs_metadata c) = gc_consumer_id (gy_context g)" "c = d"
      using assms(2) by (simp_all add: commit_session_def Let_def split: if_splits)
    then show ?thesis using wf Some by (simp add: commit_target_at frame map_upd_triv)
  qed
qed

lemma commit_state:
  assumes "wf_state s" and "commit_session E g s = Some c"
  shows "\<exists>s2. snd (grant_commit E g s) = install_lease E (sha256 (gc_token (gy_context g))) g s2 \<and> wf_state s2 \<and>
    go_get (sv_consumers s2) =
      (go_get (sv_consumers (expire_locked E (gy_now g) s)))(sha256 (gc_token (gy_context g)) \<mapsto> c) \<and>
    sv_trace s2 = sv_trace s"
  using commit_accepted [OF assms] by (auto simp: grant_commit_def Let_def)

lemma commit_gets:
  assumes "wf_state s" and "commit_session E g s = Some c"
  shows "go_get (sv_consumers (snd (grant_commit E g s))) =
    (go_get (sv_consumers (expire_locked E (gy_now g) s)))
      (sha256 (gc_token (gy_context g)) \<mapsto> installed g c)"
  using commit_state [OF assms]
  by (elim exE conjE) (simp add: install_consumers at_key_get fun_eq_iff)

lemma wf_clear_bytes: "wf_state (clear_bytes a s) = wf_state s"
  by (simp add: wf_state_def frame)

lemma commit_keeps:
  assumes "wf_state s"
  shows "wf_state (snd (grant_commit E g s)) \<and> sv_trace (snd (grant_commit E g s)) = sv_trace s"
proof (cases "commit_session E g s")
  case None
  then show ?thesis
    using commit_refused [OF None] assms by (auto simp: wf_clear_bytes wf_kept.expire frame)
next
  case (Some c)
  then show ?thesis
    using commit_state [OF assms Some] by (elim exE conjE) (simp add: install_wf frame)
qed

locale session_property =
  fixes P :: "effect list \<Rightarrow> digest \<Rightarrow> consumer_session \<Rightarrow> bool"
  assumes P_remove: "P T h c \<Longrightarrow> P T h (remove_lease i c)"
    and P_history: "P T h c \<Longrightarrow> P (e # T) h c"
begin

abbreviation holds :: "service \<Rightarrow> bool" where
  "holds \<equiv> all_sessions P"

lemmas holds_def = all_sessions_def [of P]

lemma holds_wf: "holds s \<Longrightarrow> wf_state s"
  by (simp add: holds_def)

lemma holds_same:
  "holds s \<Longrightarrow> sv_consumers s' = sv_consumers s \<Longrightarrow> sv_management s' = sv_management s \<Longrightarrow>
     sv_trace s' = sv_trace s \<Longrightarrow> holds s'"
  by (simp add: holds_def wf_state_def)

lemma holds_clear_lease: "holds s \<Longrightarrow> holds (clear_lease_locked h i s)"
  by (fastforce simp: holds_def wf_clear_lease clear_lease_consumers at_key_mem frame intro: P_remove)

lemma holds_drop_consumer: "holds s \<Longrightarrow> holds (drop_consumer h s)"
  by (auto simp: holds_def wf_drop_consumer frame) (auto simp: drop_consumer_def delete_filter)

lemma holds_drop_management: "holds s \<Longrightarrow> holds (drop_management t m s)"
  by (simp add: holds_def wf_drop_management frame)

lemma holds_record: "holds s \<Longrightarrow> holds (record_locked E k p cid lab r d s)"
  by (erule holds_same) (simp_all add: frame)

lemma holds_effect: "holds s \<Longrightarrow> holds (log_effect e s)"
  by (auto simp: holds_def log_effect_def wf_state_def intro: P_history)

lemma holds_get: "holds s \<Longrightarrow> go_get (sv_consumers s) h = Some c \<Longrightarrow> P (sv_trace s) h c"
  by (auto simp: holds_def dest!: go_get_mem)

sublocale loops: kept_by_primitives holds
  by unfold_locales
    (blast intro: holds_clear_lease holds_drop_consumer holds_drop_management holds_record holds_wf)+

sublocale ops: kept_by_operations "\<lambda>F. holds"
proof unfold_locales
  show "holds s'" if "holds s" "alloc bs s = (a, s')" for s bs a s'
    using that by (auto simp: alloc_def intro: holds_same)
qed (rule holds_clear_lease holds_drop_consumer holds_drop_management holds_record holds_effect
    loops.inv_wf; assumption | erule holds_same; simp add: frame)+

text \<open>A grant has to bring the property for the session it installs.\<close>

lemma holds_iff:
  "holds s \<longleftrightarrow> wf_state s \<and> (\<forall>h c. go_get (sv_consumers s) h = Some c \<longrightarrow> P (sv_trace s) h c)"
proof -
  have "(\<forall>e \<in> set (sv_consumers s). P (sv_trace s) (fst e) (snd e)) \<longleftrightarrow>
      (\<forall>h c. (h, c) \<in> set (sv_consumers s) \<longrightarrow> P (sv_trace s) h c)"
    by force
  moreover have "(h, c) \<in> set (sv_consumers s) \<longleftrightarrow> go_get (sv_consumers s) h = Some c" if "wf_state s" for h c
    using that by (simp add: wf_state_def wf_map_get)
  ultimately show ?thesis unfolding holds_def by blast
qed

lemma holds_commit:
  assumes "holds s"
    and "\<And>c. commit_session E g s = Some c \<Longrightarrow> gc_new (gy_context g) \<or> P (sv_trace s) (sha256 (gc_token (gy_context g))) c \<Longrightarrow>
      P (sv_trace s) (sha256 (gc_token (gy_context g))) (installed g c)"
  shows "holds (snd (grant_commit E g s))"
proof -
  let ?s1 = "expire_locked E (gy_now g) s"
  have wf: "wf_state s" using assms(1) by (rule holds_wf)
  have h1: "holds ?s1" using assms(1) by (rule loops.expire)
  show ?thesis
  proof (cases "commit_session E g s")
    case None
    obtain e where "grant_commit E g s = (Inl e, clear_bytes (gy_secret g) ?s1)"
      using commit_refused [OF None] by blast
    then show ?thesis using h1 by (simp add: ops.inv_clear)
  next
    case (Some c)
    have "gc_new (gy_context g) \<or> P (sv_trace s) (sha256 (gc_token (gy_context g))) c"
      using Some holds_get [OF h1] by (auto simp: commit_session_def Let_def frame split: option.splits if_splits)
    then have "P (sv_trace s) (sha256 (gc_token (gy_context g))) (installed g c)" using assms(2) Some by blast
    then show ?thesis
      using holds_get [OF h1] commit_gets [OF wf Some]
      by (simp add: holds_iff commit_keeps [OF wf] frame)
  qed
qed

end

end
