(* ===== verification/Consent.thy ===== *)
theory Consent
  imports Lease_Invariants
begin

text \<open>
  The two properties of sessions: a lease carries the identity of its consumer, does not outlive
  it, lasts at most a day and is the only one of its profile (\<open>session_consistent\<close>); and a human
  approved it on a prompt that named the consumer, the profile, the reason and the duration
  (\<open>session_approved\<close>). Both are established by \<open>grant\<close> and kept by every operation.
\<close>

section \<open>The properties\<close>

definition lease_consistent :: "consumer \<Rightarrow> gostring \<times> active_lease \<Rightarrow> bool" where
  "lease_consistent con e \<longleftrightarrow>
     (let m = al_metadata (snd e)
      in lease_id m = fst e \<and> lease_consumer_id m = consumer_id con \<and>
         lease_consumer_label m = consumer_label con \<and>
         lease_expires_at m \<le> consumer_expires_at con \<and>
         lease_expires_at m \<le> lease_granted_at m + sint maximum_lease)"

definition lease_profiles :: "consumer_session \<Rightarrow> gostring list" where
  "lease_profiles c = map (\<lambda>e. lease_profile (al_metadata (snd e))) (cs_leases c)"

definition session_consistent :: "effect list \<Rightarrow> digest \<Rightarrow> consumer_session \<Rightarrow> bool" where
  "session_consistent T h c \<longleftrightarrow>
     (\<forall>e \<in> set (cs_leases c). lease_consistent (cs_metadata c) e) \<and> distinct (lease_profiles c)"

definition approval_message :: "consumer \<Rightarrow> lease \<Rightarrow> duration \<Rightarrow> gostring" where
  "approval_message con m d =
     grant_approval_message (consumer_label con) (lease_profile m) (lease_reason m) d @
     (if lease_kind m = ''ssh'' then ssh_notice else [])"

definition lease_approved :: "effect list \<Rightarrow> consumer \<Rightarrow> lease \<Rightarrow> bool" where
  "lease_approved T con m \<longleftrightarrow>
     (\<exists>d. in_bounds minimum_lease maximum_lease d \<and>
        lease_expires_at m \<le> lease_granted_at m + sint d \<and>
        KeychainRead (lease_profile m) (approval_message con m d) True \<in> set T)"

definition session_approved :: "effect list \<Rightarrow> digest \<Rightarrow> consumer_session \<Rightarrow> bool" where
  "session_approved T h c \<longleftrightarrow>
     (\<forall>e \<in> set (cs_leases c). lease_approved T (cs_metadata c) (al_metadata (snd e)))"

text \<open>A pending grant still speaks of the session under its capability, if that session is there.\<close>

definition context_matches :: "grant_context \<Rightarrow> effect list \<Rightarrow> digest \<Rightarrow> consumer_session \<Rightarrow> bool" where
  "context_matches gc T h c \<longleftrightarrow>
     (h = sha256 (gc_token gc) \<and> \<not> gc_new gc \<and> consumer_id (cs_metadata c) = gc_consumer_id gc \<longrightarrow>
        consumer_label (cs_metadata c) = gc_consumer_label gc \<and>
        consumer_expires_at (cs_metadata c) = gc_consumer_expires_at gc)"

interpretation consistency: session_property session_consistent
  by unfold_locales
    (auto simp: session_consistent_def lease_profiles_def distinct_map_filter)

interpretation approval: session_property session_approved
  by unfold_locales (fastforce simp: session_approved_def lease_approved_def)+

interpretation context_of: session_property "context_matches gc" for gc
  by unfold_locales (simp_all add: context_matches_def)

section \<open>What an approval returns\<close>

lemma alloc_frame [frame]:
  "sv_consumers (snd (alloc b s)) = sv_consumers s" "sv_trace (snd (alloc b s)) = sv_trace s"
  "sv_management (snd (alloc b s)) = sv_management s" "sv_config (snd (alloc b s)) = sv_config s"
  by (simp_all add: alloc_def)

lemma now_frame [frame]:
  "sv_consumers (snd (time_now E s)) = sv_consumers s" "sv_trace (snd (time_now E s)) = sv_trace s"
  "sv_management (snd (time_now E s)) = sv_management s" "sv_config (snd (time_now E s)) = sv_config s"
  by (simp_all add: time_now_def frame)

lemma random_frame [frame]:
  "sv_consumers (snd (random_identifier E p s)) = sv_consumers s"
  "sv_trace (snd (random_identifier E p s)) = sv_trace s"
  "sv_config (snd (random_identifier E p s)) = sv_config s"
  "sv_management (snd (random_identifier E p s)) = sv_management s"
  "sv_consumers (snd (random_capability E p s)) = sv_consumers s"
  "sv_trace (snd (random_capability E p s)) = sv_trace s"
  "sv_config (snd (random_capability E p s)) = sv_config s"
  "sv_management (snd (random_capability E p s)) = sv_management s"
  by (simp_all add: random_identifier_def random_capability_def frame)

lemma load_frame [frame]:
  "sv_consumers (snd (load_config E s)) = sv_consumers s" "sv_trace (snd (load_config E s)) = sv_trace s"
  "sv_management (snd (load_config E s)) = sv_management s" "sv_config (snd (load_config E s)) = sv_config s"
  by (simp_all add: load_config_def frame)

lemma ssh_key_frame [frame]:
  "sv_consumers (snd (ssh_private_key E b s)) = sv_consumers s"
  "sv_trace (snd (ssh_private_key E b s)) = sv_trace s"
  "sv_management (snd (ssh_private_key E b s)) = sv_management s"
  "sv_config (snd (ssh_private_key E b s)) = sv_config s"
  by (simp_all add: ssh_private_key_def case_prod_beta frame split: option.split)

lemma identity_frame [frame]:
  "sv_consumers (snd (check_identity E p a s)) = sv_consumers s"
  "sv_trace (snd (check_identity E p a s)) = sv_trace s"
  "sv_management (snd (check_identity E p a s)) = sv_management s"
  "sv_config (snd (check_identity E p a s)) = sv_config s"
  by (simp_all add: check_identity_def validate_ssh_secret_def case_prod_beta frame split: sum.split)

lemma keychain_read_frame [frame]:
  "sv_consumers (snd (keychain_read E n m s)) = sv_consumers s"
  "sv_management (snd (keychain_read E n m s)) = sv_management s"
  "sv_config (snd (keychain_read E n m s)) = sv_config s"
  by (simp_all add: keychain_read_def case_prod_beta frame log_effect_def split: sum.split)

lemma keychain_read_trace:
  "sv_trace (snd (keychain_read E n m s)) =
     KeychainRead n m (\<not> is_err (fst (keychain_read E n m s))) # sv_trace s"
  by (simp add: keychain_read_def case_prod_beta frame log_effect_def split: sum.split)

lemma grant_read_frame [frame]:
  "sv_consumers (snd (grant_read E gc n p d s)) = sv_consumers s"
  "sv_management (snd (grant_read E gc n p d s)) = sv_management s"
  "sv_config (snd (grant_read E gc n p d s)) = sv_config s"
  by (simp_all add: grant_read_def case_prod_beta Let_def frame split: sum.split option.split)

lemma grant_approve_frame [frame]:
  "sv_consumers (snd (grant_approve E gc s)) = sv_consumers s"
  "sv_management (snd (grant_approve E gc s)) = sv_management s"
  "sv_config (snd (grant_approve E gc s)) = sv_config s"
  by (simp_all add: grant_approve_def case_prod_beta Let_def frame split: sum.split)

text \<open>What a grant that was approved says about its lease.\<close>

definition ready_ok :: "grant_ready \<Rightarrow> effect list \<Rightarrow> bool" where
  "ready_ok g T \<longleftrightarrow>
     (let gc = gy_context g; l = gy_lease g
      in lease_consumer_id l = gc_consumer_id gc \<and> lease_consumer_label l = gc_consumer_label gc \<and>
         lease_granted_at l = gy_now g \<and> lease_reason l = gr_reason (gc_request gc) \<and>
         lease_profile l = gr_profile (gc_request gc) \<and>
         (\<exists>d p. in_bounds minimum_lease maximum_lease d \<and> profile_kind p = lease_kind l \<and>
            lease_expires_at l = min_time (time_add (gy_now g) d) (gc_consumer_expires_at gc) \<and>
            KeychainRead (lease_profile l) (grant_message gc (lease_profile l) p d) True \<in> set T))"

lemma grant_read_ready:
  assumes "fst (grant_read E gc n p d s) = Inr g" and "in_bounds minimum_lease maximum_lease d"
    and "n = gr_profile (gc_request gc)"
  shows "gy_context g = gc \<and> ready_ok g (sv_trace (snd (grant_read E gc n p d s)))"
proof -
  have ok: "\<not> is_err (fst (keychain_read E n (grant_message gc n p d) s))"
    using assms(1) by (auto simp: grant_read_def case_prod_beta split: sum.splits)
  have "sv_trace (snd (grant_read E gc n p d s)) =
      sv_trace (snd (keychain_read E n (grant_message gc n p d) s))"
    by (simp add: grant_read_def case_prod_beta Let_def frame split: sum.split option.split)
  then have "KeychainRead n (grant_message gc n p d) True \<in> set (sv_trace (snd (grant_read E gc n p d s)))"
    using ok by (simp add: keychain_read_trace)
  then show ?thesis
    using assms by (auto simp: grant_read_def case_prod_beta Let_def ready_ok_def
        split: sum.splits option.splits intro!: exI [of _ d] exI [of _ p])
qed

lemma grant_approve_steps:
  assumes "fst (grant_approve E gc s) = Inr g"
  obtains p d s1 where "in_bounds minimum_lease maximum_lease d"
    and "grant_approve E gc s = grant_read E gc (gr_profile (gc_request gc)) p d s1"
proof -
  have bounds: "in_bounds minimum_lease maximum_lease d" if "requested_duration r p = Inr d" for r p d
    using that by (auto simp: requested_duration_def Let_def in_bounds_def split: if_splits)
  have cap: "in_bounds minimum_lease maximum_lease d"
    if "capped_duration rem a = Inr d" "in_bounds minimum_lease maximum_lease a" for rem a d
    using that by (auto simp: capped_duration_def in_bounds_def split: if_splits)
  let ?s1 = "snd (load_config E s)" let ?s2 = "snd (time_now E ?s1)"
  obtain cfg p asked d where steps: "fst (load_config E s) = Inr cfg"
    "resolve cfg (gr_profile (gc_request gc)) = Inr (gr_profile (gc_request gc), p)"
    "requested_duration (gc_request gc) p = Inr asked"
    "capped_duration (time_sub (gc_consumer_expires_at gc) (fst (time_now E ?s1))) asked = Inr d"
    using assms by (auto simp: grant_approve_def case_prod_beta Let_def resolve_Inr split: sum.splits)
  then have "grant_approve E gc s = grant_read E gc (gr_profile (gc_request gc)) p d ?s2"
    by (simp add: grant_approve_def case_prod_beta Let_def)
  then show thesis using that bounds cap steps by blast
qed

lemma grant_approve_ready:
  assumes "fst (grant_approve E gc s) = Inr g"
  shows "gy_context g = gc \<and> ready_ok g (sv_trace (snd (grant_approve E gc s)))"
proof -
  obtain p d s1 where "in_bounds minimum_lease maximum_lease d"
    "grant_approve E gc s = grant_read E gc (gr_profile (gc_request gc)) p d s1"
    using assms by (rule grant_approve_steps)
  with grant_read_ready [of E gc _ p d s1 g] assms show ?thesis by simp
qed

section \<open>A grant establishes them\<close>

lemma update_subset: "set (AList.update k v m) \<subseteq> insert (k, v) (set m)"
  by (induction m) auto

lemma update_distinct_map:
  "distinct (map f m) \<Longrightarrow> f (k, v) \<notin> f ` set m \<Longrightarrow> distinct (map f (AList.update k v m))"
proof (induction m)
  case (Cons e m)
  then show ?case using update_subset [of k v m] by (cases e) auto
qed simp

lemma installed_lease:
  "e \<in> set (cs_leases (installed g c)) \<Longrightarrow>
     e = (lease_id (gy_lease g), \<lparr>al_metadata = gy_lease g, al_secret = gy_secret g\<rparr>) \<or>
     e \<in> set (cs_leases c) \<and> lease_profile (al_metadata (snd e)) \<noteq> lease_profile (gy_lease g)"
  using update_subset unfolding installed_def by fastforce

lemma installed_profiles: "distinct (lease_profiles c) \<Longrightarrow> distinct (lease_profiles (installed g c))"
  unfolding lease_profiles_def installed_def
  by simp (rule update_distinct_map, auto simp: distinct_map_filter)

lemma installed_metadata [simp]: "cs_metadata (installed g c) = cs_metadata c"
  by (simp add: installed_def)

text \<open>The session a commit chooses has the identity the context promises.\<close>

lemma commit_session_identity:
  assumes "all_sessions (context_matches (gy_context g)) s" and "commit_session E g s = Some c"
  shows "consumer_id (cs_metadata c) = gc_consumer_id (gy_context g) \<and>
    consumer_label (cs_metadata c) = gc_consumer_label (gy_context g) \<and>
    consumer_expires_at (cs_metadata c) = gc_consumer_expires_at (gy_context g)"
proof (cases "gc_new (gy_context g)")
  case True
  then have "c = new_session g"
    using assms(2) by (auto simp: commit_session_def Let_def split: option.splits)
  then show ?thesis by (simp add: new_session_def Let_def)
next
  case False
  let ?s1 = "expire_locked E (gy_now g) s"
  have "go_get (sv_consumers ?s1) (sha256 (gc_token (gy_context g))) = Some c"
    "consumer_id (cs_metadata c) = gc_consumer_id (gy_context g)"
    using False assms(2) by (auto simp: commit_session_def Let_def split: option.splits if_splits)
  then show ?thesis
    using context_of.holds_get [OF context_of.loops.expire [OF assms(1)]] False
    by (simp add: context_matches_def)
qed

lemma commit_consistent:
  assumes "all_sessions session_consistent s" and "all_sessions (context_matches (gy_context g)) s"
    and "ready_ok g T"
  shows "all_sessions session_consistent (snd (grant_commit E g s))"
proof (rule consistency.holds_commit [OF assms(1)])
  fix c assume c: "commit_session E g s = Some c"
    and old: "gc_new (gy_context g) \<or>
      session_consistent (sv_trace s) (sha256 (gc_token (gy_context g))) c"
  have old': "session_consistent (sv_trace s) (sha256 (gc_token (gy_context g))) c"
  proof (cases "gc_new (gy_context g)")
    case True
    then have "c = new_session g" using c by (auto simp: commit_session_def Let_def split: option.splits)
    then show ?thesis by (simp add: session_consistent_def lease_profiles_def new_session_def Let_def)
  qed (use old in simp)
  obtain d where d: "in_bounds minimum_lease maximum_lease d"
    "lease_expires_at (gy_lease g) = min_time (time_add (gy_now g) d) (gc_consumer_expires_at (gy_context g))"
    using assms(3) by (auto simp: ready_ok_def Let_def)
  have "lease_consistent (cs_metadata c)
      (lease_id (gy_lease g), \<lparr>al_metadata = gy_lease g, al_secret = gy_secret g\<rparr>)"
    using commit_session_identity [OF assms(2) c] assms(3) d min_time_le
    by (auto simp: lease_consistent_def Let_def ready_ok_def in_bounds_def time_add_def min_time_def)
  then show "session_consistent (sv_trace s) (sha256 (gc_token (gy_context g))) (installed g c)"
    using old' installed_lease [of _ g c] installed_profiles [of c g]
    by (auto simp: session_consistent_def)
qed

lemma commit_approved:
  assumes "all_sessions session_approved s" and "all_sessions (context_matches (gy_context g)) s"
    and "ready_ok g (sv_trace s)"
  shows "all_sessions session_approved (snd (grant_commit E g s))"
proof (rule approval.holds_commit [OF assms(1)])
  fix c assume c: "commit_session E g s = Some c"
    and old: "gc_new (gy_context g) \<or>
      session_approved (sv_trace s) (sha256 (gc_token (gy_context g))) c"
  have old': "session_approved (sv_trace s) (sha256 (gc_token (gy_context g))) c"
  proof (cases "gc_new (gy_context g)")
    case True
    then have "c = new_session g" using c by (auto simp: commit_session_def Let_def split: option.splits)
    then show ?thesis by (simp add: session_approved_def new_session_def Let_def)
  qed (use old in simp)
  obtain d p where d: "in_bounds minimum_lease maximum_lease d" "profile_kind p = lease_kind (gy_lease g)"
    "lease_expires_at (gy_lease g) = min_time (time_add (gy_now g) d) (gc_consumer_expires_at (gy_context g))"
    "KeychainRead (lease_profile (gy_lease g)) (grant_message (gy_context g) (lease_profile (gy_lease g)) p d) True
      \<in> set (sv_trace s)"
    using assms(3) by (auto simp: ready_ok_def Let_def)
  have "grant_message (gy_context g) (lease_profile (gy_lease g)) p d =
      approval_message (cs_metadata c) (gy_lease g) d"
    using commit_session_identity [OF assms(2) c] assms(3) d(2)
    by (simp add: grant_message_def approval_message_def ready_ok_def Let_def)
  then have "lease_approved (sv_trace s) (cs_metadata c) (gy_lease g)"
    using d assms(3) min_time_le unfolding lease_approved_def
    by (intro exI [of _ d]) (auto simp: ready_ok_def Let_def time_add_def min_time_def)
  then show "session_approved (sv_trace s) (sha256 (gc_token (gy_context g))) (installed g c)"
    using old' installed_lease [of _ g c] by (fastforce simp: session_approved_def)
qed

end
