(* ===== verification/Secrets.thy ===== *)
theory Secrets
  imports Consent
begin

text \<open>
  The two operations that give a secret to an owner keep memory hygiene: a commit moves the
  buffer in flight to the lease, opening a management session moves it to the session. Both
  need the random key they insert under to be unused.
\<close>

lemma memory_put_consumer:
  assumes "memory_ok F s" and "go_get (sv_consumers s) h = None" and "cs_leases c = []"
  shows "memory_ok F (put_consumer h c s)"
proof -
  have "h \<notin> fst ` set (sv_consumers s)" using assms(2) by (simp add: map_of_eq_None_iff)
  then have "sv_consumers (put_consumer h c s) = sv_consumers s @ [(h, c)]"
    by (simp add: put_consumer_def update_absent)
  then have "owned (put_consumer h c s) = owned s"
    using assms(3) by (simp add: owned_def lease_buffers_def) (simp add: put_consumer_def)
  then show ?thesis
    using wf_put_consumer [OF memory_wf [OF assms(1)], of c h] assms
    by (intro memory_cong [OF assms(1)]) (simp_all add: put_consumer_def)
qed

lemma lease_buffers_put:
  assumes "wf_map m" and "go_get m h = Some c" and "go_get (cs_leases c) i = None"
  shows "mset (lease_buffers (at_key h (\<lambda>c. c\<lparr>cs_leases := go_put i l (cs_leases c)\<rparr>) m)) =
    add_mset (al_secret l) (mset (lease_buffers m))"
  using assms
proof (induction m)
  case (Cons e m)
  obtain k d where e: "e = (k, d)" by (cases e)
  show ?case
  proof (cases "k = h")
    case True
    then have "i \<notin> fst ` set (cs_leases d)" using Cons.prems e by (simp add: map_of_eq_None_iff)
    then show ?thesis using True Cons.prems(1) e by (simp add: at_key_absent update_absent)
  next
    case False
    then show ?thesis using Cons e by simp
  qed
qed simp

lemma memory_put_lease:
  assumes "memory_ok (a # F) s" and "go_get (sv_consumers s) h = Some c"
    and "go_get (cs_leases c) (lease_id l) = None"
  shows "memory_ok F (put_lease h l a s)"
proof -
  have "wf_map (sv_consumers s)" using memory_wf [OF assms(1)] by (simp add: wf_state_def)
  then have "mset (owned (put_lease h l a s)) = add_mset a (mset (owned s))"
    using lease_buffers_put [OF _ assms(2,3), of "\<lparr>al_metadata = l, al_secret = a\<rparr>"]
    by (simp add: owned_def put_lease_def modify_consumers frame)
  then show ?thesis
    using wf_put_lease [OF memory_wf [OF assms(1)]]
    by (intro memory_cong [OF assms(1)]) (simp_all add: put_lease_def frame)
qed

lemma memory_install:
  assumes ok: "memory_ok (gy_secret g # F) s" and c: "go_get (sv_consumers s) h = Some c"
    and free: "go_get (cs_leases c) (lease_id (gy_lease g)) = None"
  shows "memory_ok F (install_lease E h g s)"
proof -
  let ?keep = "\<lambda>x. lease_profile (al_metadata x) \<noteq> lease_profile (gy_lease g)"
  let ?s1 = "sweep_leases E h (gc_consumer_id (gy_context g)) (gc_consumer_label (gy_context g)) ?keep ''revoked''
      ''Replaced by a newer lease for this consumer and profile'' (leases_at s h) s"
  have 1: "memory_ok (gy_secret g # F) ?s1" using ok by (rule memory_kept.sweep)
  have 2: "go_get (sv_consumers ?s1) h = Some (keep_leases ?keep c)"
    using c memory_wf [OF ok] by (simp add: sweep_consumers at_key_get)
  have "go_get (filter (\<lambda>e. ?keep (snd e)) (cs_leases c)) (lease_id (gy_lease g)) = None"
    using free by (auto simp: map_of_eq_None_iff)
  then have 3: "memory_ok F (put_lease h (gy_lease g) (gy_secret g) ?s1)"
    using memory_put_lease [OF 1 2] by simp
  have "memory_ok F (s\<lparr>sv_revision := v\<rparr>)" if "memory_ok F s" for s v
    using that by (rule memory_same) simp_all
  then show ?thesis
    using 3 by (simp add: install_lease_def Let_def memory_record)
qed

lemma memory_commit:
  assumes ok: "memory_ok (gy_secret g # F) s"
    and free: "\<And>c. commit_session E g s = Some c \<Longrightarrow> go_get (cs_leases c) (lease_id (gy_lease g)) = None"
  shows "memory_ok F (snd (grant_commit E g s))"
proof (cases "commit_session E g s")
  case None
  obtain e where "fst (grant_commit E g s) = Inl e" using commit_refused [OF None] by (metis fst_conv)
  then show ?thesis using memory.grant_commit_refused [OF ok] by blast
next
  case (Some c)
  let ?h = "sha256 (gc_token (gy_context g))" let ?s1 = "expire_locked E (gy_now g) s"
  have 1: "memory_ok (gy_secret g # F) ?s1" using ok by (rule memory_kept.expire)
  obtain s2 where s2: "commit_target E g ?s1 = Inr s2" "go_get (sv_consumers s2) ?h = Some c"
    using commit_accepted [OF memory_wf [OF ok] Some] by (auto simp: fun_upd_def)
  have "s2 = start_consumer E ?h g ?s1 \<and> go_get (sv_consumers ?s1) ?h = None \<or> s2 = ?s1"
    using s2(1) by (auto simp: commit_target_at split: option.splits if_splits)
  then have "memory_ok (gy_secret g # F) s2"
    using 1 by (auto simp: start_consumer_def new_session_def Let_def intro!: memory_record memory_put_consumer)
  then have "memory_ok F (install_lease E ?h g s2)"
    using s2(2) free [OF Some] by (rule memory_install)
  then show ?thesis using s2(1) by (simp add: grant_commit_def Let_def)
qed

lemma memory_put_management:
  assumes "memory_ok (a # F) s" and "go_get (sv_management s) t = None"
  shows "memory_ok F (put_management t \<lparr>ms_profile = n, ms_secret = a, ms_expires_at = x\<rparr> s)"
proof -
  have "t \<notin> fst ` set (sv_management s)" using assms(2) by (simp add: map_of_eq_None_iff)
  then have m: "sv_management (put_management t \<lparr>ms_profile = n, ms_secret = a, ms_expires_at = x\<rparr> s) =
      sv_management s @ [(t, \<lparr>ms_profile = n, ms_secret = a, ms_expires_at = x\<rparr>)]"
    by (simp add: put_management_def update_absent)
  have "wf_state (put_management t \<lparr>ms_profile = n, ms_secret = a, ms_expires_at = x\<rparr> s)"
    using memory_wf [OF assms(1)] by (simp add: wf_state_def put_management_def gm.wf_put)
  then show ?thesis
    using m by (intro memory_cong [OF assms(1)]) (simp_all add: owned_def, simp_all add: put_management_def)
qed

lemma memory_open:
  assumes ok: "memory_ok (a # F) s" and free: "go_get (sv_management s) t = None"
  shows "memory_ok F (snd (open_management E n a t s))"
proof -
  let ?s2 = "snd (time_now E (snd (time_now E s)))" let ?t2 = "fst (time_now E (snd (time_now E s)))"
  let ?s3 = "expire_management_sessions_locked ?t2 ?s2"
  have 2: "memory_ok (a # F) ?s2" using ok by (intro memory.now)
  then have 3: "memory_ok (a # F) ?s3" by (rule memory_kept.expire_management)
  have "sv_management ?s3 = filter (\<lambda>e. ?t2 < ms_expires_at (snd e)) (sv_management s)"
    using expire_management_eq [OF memory_wf [OF 2]] by (simp add: frame)
  then have "go_get (sv_management ?s3) t = None" using free by (auto simp: map_of_eq_None_iff)
  then show ?thesis
    using memory_put_management [OF 3] by (simp add: open_management_def Let_def case_prod_beta memory_record)
qed

section \<open>Owned buffers keep their contents\<close>

definition keeps_contents :: "nat list \<Rightarrow> nat \<Rightarrow> bytes \<Rightarrow> service \<Rightarrow> bool" where
  "keeps_contents F a bs s \<longleftrightarrow> memory_ok F s \<and> (a \<in> set (owned s @ F) \<longrightarrow> buffer s a = bs)"

lemma cleared_not_owned:
  assumes "mset (owned s @ F) = add_mset b (mset (owned s' @ F))" and "memory_ok F s"
  shows "b \<notin> set (owned s' @ F)" and "set (owned s') \<subseteq> set (owned s)"
proof -
  have m: "mset (owned s @ F) = mset (b # owned s' @ F)" using assms(1) by simp
  show "b \<notin> set (owned s' @ F)"
    using mset_eq_imp_distinct_iff [OF m] assms(2) by (simp add: memory_ok_def)
  have "mset (owned s) = add_mset b (mset (owned s'))" using assms(1) by simp
  then show "set (owned s') \<subseteq> set (owned s)" by (metis set_mset_add_mset_insert set_mset_mset subset_insertI)
qed

lemma clear_lease_owned:
  assumes "wf_state s" and "go_get (leases_at s h) i = Some l"
  shows "mset (owned s) = add_mset (al_secret l) (mset (owned (clear_lease_locked h i s)))"
proof -
  obtain c where c: "go_get (sv_consumers s) h = Some c" "go_get (cs_leases c) i = Some l"
    using assms(2) by (cases "go_get (sv_consumers s) h") (simp_all add: leases_at_def)
  then show ?thesis
    using lease_buffers_remove [of "sv_consumers s" h c i l] wf_leases [OF assms(1)] assms(1)
    by (simp add: owned_def clear_lease_consumers frame wf_state_def)
qed

lemma drop_management_owned:
  assumes "wf_state s" and "go_get (sv_management s) t = Some m"
  shows "mset (owned s) = add_mset (ms_secret m) (mset (owned (drop_management t m s)))"
  using filter_key_mset [of "sv_management s" t m "\<lambda>e. ms_secret (snd e)"] assms
  by (simp add: owned_def frame drop_management_sessions delete_filter wf_state_def)

lemma keeps_clear_lease:
  assumes "keeps_contents F a bs s"
  shows "keeps_contents F a bs (clear_lease_locked h i s)"
proof (cases "go_get (leases_at s h) i")
  case None
  then show ?thesis using assms by (simp add: clear_lease_locked_def)
next
  case (Some l)
  let ?s = "clear_lease_locked h i s"
  have ok: "memory_ok F s" using assms by (simp add: keeps_contents_def)
  have "mset (owned s @ F) = add_mset (al_secret l) (mset (owned ?s @ F))"
    using clear_lease_owned [OF memory_wf [OF ok] Some] by simp
  note o = cleared_not_owned [OF this ok]
  have "buffer ?s a = buffer s a" if "a \<noteq> al_secret l"
    using that Some by (simp add: clear_lease_locked_def Let_def buffer_def frame)
      (simp add: clear_bytes_def)
  then show ?thesis
    using assms o memory_clear_lease [OF ok] by (auto simp: keeps_contents_def)
qed

lemma keeps_drop_management:
  assumes "keeps_contents F a bs s" and "go_get (sv_management s) t = Some m"
  shows "keeps_contents F a bs (drop_management t m s)"
proof -
  let ?s = "drop_management t m s"
  have ok: "memory_ok F s" using assms by (simp add: keeps_contents_def)
  have "mset (owned s @ F) = add_mset (ms_secret m) (mset (owned ?s @ F))"
    using drop_management_owned [OF memory_wf [OF ok] assms(2)] by simp
  note o = cleared_not_owned [OF this ok]
  have "buffer ?s a = buffer s a" if "a \<noteq> ms_secret m"
    using that by (simp add: drop_management_def Let_def buffer_def clear_bytes_def)
  then show ?thesis
    using assms o memory_drop_management [OF ok] by (auto simp: keeps_contents_def)
qed

lemma drop_consumer_owned:
  "wf_state s \<Longrightarrow> leases_at s h = [] \<Longrightarrow> owned (drop_consumer h s) = owned s"
  using lease_buffers_delete [of s h] by (simp add: owned_def frame) (simp add: drop_consumer_def)

lemma keeps_drop_consumer:
  "keeps_contents F a bs s \<Longrightarrow> leases_at s h = [] \<Longrightarrow> keeps_contents F a bs (drop_consumer h s)"
  using drop_consumer_owned [OF memory_wf] memory_drop_consumer [of F s h]
  by (auto simp: keeps_contents_def buffer_def frame)

lemma keeps_record: "keeps_contents F a bs s \<Longrightarrow> keeps_contents F a bs (record_locked E k p cid lab r d s)"
  by (simp add: keeps_contents_def memory_record owned_def buffer_def frame)

lemma keeps_wf: "keeps_contents F a bs s \<Longrightarrow> wf_state s"
  by (auto simp: keeps_contents_def intro: memory_wf)

interpretation contents_kept: kept_by_primitives "keeps_contents F a bs" for F a bs
  by unfold_locales
    (blast intro: keeps_clear_lease keeps_drop_management keeps_drop_consumer keeps_record keeps_wf)+

lemma lease_owned:
  "go_get (sv_consumers s) h = Some c \<Longrightarrow> go_get (cs_leases c) i = Some l \<Longrightarrow> al_secret l \<in> set (owned s)"
  by (force simp: owned_def lease_buffers_def dest: go_get_mem)

text \<open>Expiry leaves the secret of a lease that is still there as it was.\<close>

lemma expire_contents:
  assumes "memory_ok F s" and "go_get (sv_consumers (expire_locked E now s)) h = Some c"
    and "go_get (cs_leases c) i = Some l"
  shows "buffer (expire_locked E now s) (al_secret l) = buffer s (al_secret l)"
  using contents_kept.expire [of F "al_secret l" "buffer s (al_secret l)" s E now] assms(1)
    lease_owned [OF assms(2,3)]
  by (simp add: keeps_contents_def)

text \<open>So does the buffer of an operation in flight.\<close>

lemma in_flight_contents:
  assumes "memory_ok (a # F) s"
  shows "buffer (expire_management_sessions_locked now s) a = buffer s a"
    and "go_get (sv_management s) t = Some m \<Longrightarrow> buffer (drop_management t m s) a = buffer s a"
proof -
  have "keeps_contents (a # F) a (buffer s a) s" using assms by (simp add: keeps_contents_def)
  then show "buffer (expire_management_sessions_locked now s) a = buffer s a"
    using contents_kept.expire_management [of "a # F" a "buffer s a" s now] by (simp add: keeps_contents_def)
  assume "go_get (sv_management s) t = Some m"
  then show "buffer (drop_management t m s) a = buffer s a"
    using keeps_drop_management [of "a # F" a "buffer s a" s t m] assms by (simp add: keeps_contents_def)
qed

end
