(* ===== verification/Access.thy ===== *)
theory Access
  imports Secrets
begin

text \<open>
  Who can reach what: the decision each operation on consumers makes, stated on the state
  before it, and its effect on the sessions of everybody else.
\<close>

section \<open>The state after expiry\<close>

lemma expire_now_eq: "expire_now E s = expire_locked E (env_clock E (sv_calls s)) (next_call s)"
  by (simp add: expire_now_def time_now_def)

lemma wf_next_call [simp]: "wf_state (next_call s) = wf_state s"
  by (simp add: wf_state_def frame)

text \<open>The session a capability opens now, with the leases that are live now.\<close>

definition live_session :: "env \<Rightarrow> service \<Rightarrow> digest \<Rightarrow> consumer_session option" where
  "live_session E s h =
     (let now = env_clock E (sv_calls s)
      in case go_get (sv_consumers s) h of
           None \<Rightarrow> None
         | Some c \<Rightarrow> if consumer_live now c then Some (keep_leases (lease_live now) c) else None)"

lemma expire_now_get:
  "wf_state s \<Longrightarrow> go_get (sv_consumers (expire_now E s)) h = live_session E s h"
  by (simp add: expire_now_eq expire_get frame live_session_def Let_def)

lemma expire_now_frame [frame]:
  "sv_management (expire_now E s) = sv_management s" "sv_config (expire_now E s) = sv_config s"
  "sv_trace (expire_now E s) = sv_trace s"
  by (simp_all add: expire_now_eq frame)

lemma wf_expire_now: "wf_state s \<Longrightarrow> wf_state (expire_now E s)"
  by (simp add: expire_now_eq wf_kept.expire)

lemma memory_next_call: "memory_ok F s \<Longrightarrow> memory_ok F (next_call s)"
  by (rule memory_same) (simp_all add: frame)

lemma keep_leases_get:
  "wf_map (cs_leases c) \<Longrightarrow> go_get (cs_leases (keep_leases P c)) i =
     (case go_get (cs_leases c) i of None \<Rightarrow> None | Some l \<Rightarrow> if P l then Some l else None)"
  using map_of_map_filter [of "cs_leases c" "\<lambda>l. l" P i] by simp

lemma expire_now_contents:
  assumes "memory_ok F s" and "live_session E s h = Some c" and "go_get (cs_leases c) i = Some l"
  shows "buffer (expire_now E s) (al_secret l) = buffer s (al_secret l)"
  using expire_contents [OF memory_next_call [OF assms(1)]] assms(2,3)
    expire_now_get [OF memory_wf [OF assms(1)], of E h]
  by (simp add: expire_now_eq) (simp add: buffer_def frame)

section \<open>Execute\<close>

text \<open>Which answer a request gets: the lease it may use, or the error.\<close>

definition exec_decision :: "env \<Rightarrow> exec_request \<Rightarrow> service \<Rightarrow> error + active_lease" where
  "exec_decision E r s =
     (if er_arguments r = [] then Inl ExecNoProgram
      else if trim_space (er_lease_id r) = [] then Inl LeaseIdRequired
      else if \<not> in_bounds second (30 * minute) (seconds (er_timeout_seconds r)) then Inl ExecTimeoutRange
      else if trim_space (er_consumer_token r) = [] then Inl CapabilityRequired
      else case live_session E s (sha256 (trim_space (er_consumer_token r))) of
        None \<Rightarrow> Inl CapabilityInvalid
      | Some c \<Rightarrow>
          (case go_get (cs_leases c) (er_lease_id r) of
             None \<Rightarrow> Inl LeaseUnavailable
           | Some l \<Rightarrow> if lease_kind (al_metadata l) = ''ssh'' then Inl ExecSSH else Inr l))"

lemma execute_begin_decision:
  assumes "memory_ok F s"
  shows "case exec_decision E r s of
    Inl e \<Rightarrow> fst (execute_begin E r s) = Inl e
  | Inr l \<Rightarrow> \<exists>x s1. execute_begin E r s = (Inr x, s1) \<and> xr_request x = r \<and>
      xr_env x = lease_env (al_metadata l) \<and> xr_timeout x = seconds (er_timeout_seconds r) \<and>
      buffer s1 (xr_secret x) = buffer s (al_secret l) \<and> sv_trace s1 = sv_trace s"
proof (cases "exec_decision E r s")
  case (Inl e)
  then show ?thesis
    using expire_now_get [OF memory_wf [OF assms]]
    by (auto simp: exec_decision_def execute_begin_def Let_def in_bounds_def consumer_for_token_locked_def
        case_prod_beta split: option.splits if_splits)
next
  case (Inr l)
  then obtain c where c: "live_session E s (sha256 (trim_space (er_consumer_token r))) = Some c"
    "go_get (cs_leases c) (er_lease_id r) = Some l"
    by (auto simp: exec_decision_def Let_def split: option.splits if_splits)
  then have "buffer (expire_now E s) (al_secret l) = buffer s (al_secret l)"
    by (rule expire_now_contents [OF assms])
  then show ?thesis
    using Inr c expire_now_get [OF memory_wf [OF assms]]
    by (auto simp: exec_decision_def execute_begin_def Let_def in_bounds_def consumer_for_token_locked_def
        case_prod_beta alloc_def frame split: option.splits if_splits) (simp_all add: buffer_def)
qed

lemma execute_refused_trace [frame]: "sv_trace (snd (execute_begin E r s)) = sv_trace s"
  by (simp add: execute_begin_def Let_def case_prod_beta alloc_def frame split: sum.split option.split)

text \<open>The command the lease and the request determine.\<close>

definition exec_command :: "env \<Rightarrow> exec_request \<Rightarrow> bytes \<Rightarrow> gostring \<Rightarrow> child_command" where
  "exec_command E r secret var =
     \<lparr>cc_program = hd (er_arguments r), cc_arguments = tl (er_arguments r),
      cc_directory = er_working_directory r,
      cc_environment = with_environment (minimal_environment (env_environ E)) var secret,
      cc_timeout = seconds (er_timeout_seconds r)\<rparr>"

lemma effective_timeout_in_bounds: "in_bounds second (30 * minute) t \<Longrightarrow> effective_timeout t = t"
  by (simp add: effective_timeout_def in_bounds_def)

lemma execute_finish_trace:
  assumes "er_arguments (xr_request x) \<noteq> []" and "in_bounds second (30 * minute) (xr_timeout x)"
    and "xr_timeout x = seconds (er_timeout_seconds (xr_request x))"
  shows "sv_trace (snd (execute_finish E x s)) =
    ChildRun (exec_command E (xr_request x) (buffer s (xr_secret x)) (xr_env x)) # sv_trace s"
  using assms
  by (cases "er_arguments (xr_request x)")
    (simp_all add: execute_finish_def Let_def prepare_command_def exec_command_def frame
      log_effect_def effective_timeout_in_bounds)

section \<open>Revoking\<close>

lemma delete_at_key: "go_del h (at_key h f m) = go_del h m"
  by (induction m) (auto simp: delete_filter)

lemma clear_consumer_consumers:
  "wf_state s \<Longrightarrow> sv_consumers (clear_consumer_locked E h c d s) = go_del h (sv_consumers s)"
  by (simp add: clear_consumer_locked_def Let_def frame drop_consumer_def sweep_consumers delete_at_key)

text \<open>The sessions after revoking at one hash: everybody else keeps what is live.\<close>

definition revoked_session ::
  "digest \<Rightarrow> gostring \<Rightarrow> (digest \<Rightarrow> consumer_session option) \<Rightarrow> digest \<Rightarrow> consumer_session option" where
  "revoked_session h i sessions =
     sessions(h := (if i = [] then None else map_option (remove_lease i) (sessions h)))"

definition may_revoke :: "gostring \<Rightarrow> consumer_session option \<Rightarrow> bool" where
  "may_revoke i session =
     (case session of None \<Rightarrow> False | Some c \<Rightarrow> i = [] \<or> go_get (cs_leases c) i \<noteq> None)"

lemma revoke_at_spec:
  assumes "wf_state s" and "go_get (sv_consumers s) h = Some c"
  shows "fst (revoke_at E h c i d1 d2 s) = may_revoke i (Some c)"
    and "go_get (sv_consumers (snd (revoke_at E h c i d1 d2 s))) =
      revoked_session h i (go_get (sv_consumers s))"
proof -
  have ls: "leases_at s h = cs_leases c" using assms(2) by (rule leases_at_get)
  show "fst (revoke_at E h c i d1 d2 s) = may_revoke i (Some c)"
    by (auto simp: revoke_at_def may_revoke_def split: option.split)
  show "go_get (sv_consumers (snd (revoke_at E h c i d1 d2 s))) =
      revoked_session h i (go_get (sv_consumers s))"
  proof (cases "i = []")
    case True
    then show ?thesis
      using assms by (simp add: revoke_at_def revoked_session_def clear_consumer_consumers gm.get_del fun_eq_iff)
  next
    case False
    show ?thesis
    proof (cases "go_get (cs_leases c) i")
      case None
      then have "remove_lease i c = c" by (simp add: remove_absent_lease map_of_eq_None_iff)
      then show ?thesis
        using False None assms(2) by (simp add: revoke_at_def revoked_session_def fun_eq_iff)
    next
      case (Some l)
      then show ?thesis
        using False assms
        by (simp add: revoke_at_def revoked_session_def frame clear_lease_consumers at_key_get fun_eq_iff)
    qed
  qed
qed

lemma revoke_sessions:
  assumes "wf_state s"
  shows "fst (revoke E r s) =
      may_revoke (rr_lease_id r) (live_session E s (sha256 (trim_space (rr_consumer_token r))))"
    and "go_get (sv_consumers (snd (revoke E r s))) =
      revoked_session (sha256 (trim_space (rr_consumer_token r))) (rr_lease_id r) (live_session E s)"
proof -
  let ?h = "sha256 (trim_space (rr_consumer_token r))"
  have get: "go_get (sv_consumers (expire_now E s)) = live_session E s"
    using expire_now_get [OF assms] by (simp add: fun_eq_iff)
  show "fst (revoke E r s) = may_revoke (rr_lease_id r) (live_session E s ?h)"
    using revoke_at_spec(1) [OF wf_expire_now [OF assms]] get
    by (auto simp: revoke_def Let_def may_revoke_def [of _ None] split: option.split)
  show "go_get (sv_consumers (snd (revoke E r s))) =
      revoked_session ?h (rr_lease_id r) (live_session E s)"
  proof (cases "live_session E s ?h")
    case None
    then show ?thesis
      using get by (simp add: revoke_def Let_def revoked_session_def fun_upd_idem)
  next
    case (Some c)
    then show ?thesis
      using get revoke_at_spec(2) [OF wf_expire_now [OF assms], of E ?h c]
      by (simp add: revoke_def Let_def)
  qed
qed

lemma consumer_by_id_Some:
  "consumer_by_id i m = Some (h, c) \<Longrightarrow> (h, c) \<in> set m \<and> consumer_id (cs_metadata c) = i"
  by (induction i m rule: consumer_by_id.induct) (auto split: if_splits)

lemma consumer_by_id_None:
  "consumer_by_id i m = None \<longleftrightarrow> (\<forall>e \<in> set m. consumer_id (cs_metadata (snd e)) \<noteq> i)"
  by (induction i m rule: consumer_by_id.induct) auto

text \<open>An administrator reaches a session by its public identifier, never by a capability.\<close>

lemma admin_revoke_sessions:
  assumes "wf_state s"
  shows "(\<exists>h c. live_session E s h = Some c \<and> consumer_id (cs_metadata c) = ar_consumer_id r \<and>
      fst (admin_revoke E r s) = may_revoke (ar_lease_id r) (Some c) \<and>
      go_get (sv_consumers (snd (admin_revoke E r s))) = revoked_session h (ar_lease_id r) (live_session E s)) \<or>
    (\<forall>h c. live_session E s h = Some c \<longrightarrow> consumer_id (cs_metadata c) \<noteq> ar_consumer_id r) \<and>
      \<not> fst (admin_revoke E r s) \<and> go_get (sv_consumers (snd (admin_revoke E r s))) = live_session E s"
proof -
  let ?s1 = "expire_now E s"
  have wf: "wf_state ?s1" using assms by (rule wf_expire_now)
  have get: "go_get (sv_consumers ?s1) = live_session E s"
    using expire_now_get [OF assms] by (simp add: fun_eq_iff)
  show ?thesis
  proof (cases "consumer_by_id (ar_consumer_id r) (sv_consumers ?s1)")
    case None
    then have "\<forall>h c. live_session E s h = Some c \<longrightarrow> consumer_id (cs_metadata c) \<noteq> ar_consumer_id r"
      using get by (auto simp: consumer_by_id_None dest!: go_get_mem simp flip: get)
    then show ?thesis using None get by (simp add: admin_revoke_def Let_def)
  next
    case (Some e)
    obtain h c where e: "e = (h, c)" by (cases e)
    have "live_session E s h = Some c" "consumer_id (cs_metadata c) = ar_consumer_id r"
      using consumer_by_id_Some [OF Some [unfolded e]] wf by (auto simp: wf_state_def wf_map_get simp flip: get)
    then show ?thesis
      using Some e get revoke_at_spec [OF wf, of h c] by (auto simp: admin_revoke_def Let_def)
  qed
qed

text \<open>A status query shows the live leases of the session of its capability.\<close>

definition status_decision :: "env \<Rightarrow> gostring \<Rightarrow> service \<Rightarrow> error + consumer_status_response" where
  "status_decision E token s =
     (if trim_space token = [] then Inl CapabilityRequired
      else case live_session E s (sha256 (trim_space token)) of
        None \<Rightarrow> Inl CapabilityInvalid
      | Some c \<Rightarrow> Inr \<lparr>csr_consumer = public_consumer c\<rparr>)"

lemma consumer_status_spec:
  assumes "wf_state s"
  shows "fst (consumer_status E token s) = status_decision E token s"
    and "go_get (sv_consumers (snd (consumer_status E token s))) = live_session E s"
  using expire_now_get [OF assms, of E]
  by (simp_all add: consumer_status_def status_decision_def consumer_for_token_locked_def Let_def
      fun_eq_iff split: option.split)

end
