(* ===== verification/Samples.thy ===== *)
theory Samples
  imports Access
begin

text \<open>
  A concrete environment and two concrete states, at which the properties with hypotheses are
  applied: a daemon with one consumer that holds one lease, and a daemon that has just started.
\<close>

text \<open>The Keychain refuses a call whose message, as a C string, is empty; otherwise the human approves.\<close>

definition sample_keychain :: "gostring \<Rightarrow> gostring + bytes" where
  "sample_keychain message =
     (if takeWhile (\<lambda>c. c \<noteq> CHR 0x00) message = []
      then Inl ''macOS Keychain operation failed: invalid profile or approval message''
      else Inr ''s3cret'')"

definition sample_env :: env where
  "sample_env =
     \<lparr>env_clock = (\<lambda>i. int i), env_random = (\<lambda>i n. Inr (replicate n (char_of (i mod 256)))),
      env_keychain_read = (\<lambda>i account. sample_keychain),
      env_keychain_store = (\<lambda>i account secret. if secret = [] then Some ''secret is empty'' else None),
      env_keychain_delete = (\<lambda>i account message. case sample_keychain message of Inl e \<Rightarrow> Some e | Inr x \<Rightarrow> None),
      env_read_fault = (\<lambda>i. None), env_write_fault = (\<lambda>i j. None),
      env_child = (\<lambda>i c. \<lparr>co_writes = [(Stdout, ''ok'')], co_deadline = False, co_error = None\<rparr>),
      env_environ = [''HOME=/Users/a'', ''EDITOR=vi''], env_url_password = (\<lambda>u. None),
      env_public_of_seed = (\<lambda>seed. seed), env_ssh_public = Inr, env_ssh_authorized_line = (\<lambda>b. b),
      env_ssh_signer = (\<lambda>key. Inr (drop 32 key)), env_ssh_sign = (\<lambda>key bs. Inr bs)\<rparr>"

definition sample_lease :: lease where
  "sample_lease =
     \<lparr>lease_kind = [], lease_id = ''lease_1'', lease_consumer_id = ''consumer_1'',
      lease_consumer_label = ''agent'', lease_profile = ''api'', lease_env = ''API_TOKEN'',
      lease_reason = ''deploy'', lease_granted_at = 0, lease_expires_at = 600000000000\<rparr>"

definition sample_consumer :: consumer where
  "sample_consumer =
     \<lparr>consumer_id = ''consumer_1'', consumer_label = ''agent'', consumer_created_at = 0,
      consumer_expires_at = 86400000000000, consumer_leases = []\<rparr>"

definition sample_session :: consumer_session where
  "sample_session =
     \<lparr>cs_metadata = sample_consumer,
      cs_leases = [(''lease_1'', \<lparr>al_metadata = sample_lease, al_secret = 0\<rparr>)]\<rparr>"

definition sample_profiles :: "(gostring, profile) go_map" where
  "sample_profiles =
     [(''api'', \<lparr>profile_kind = [], profile_public_key = [], profile_env = ''API_TOKEN'',
                profile_lease_seconds = 600\<rparr>)]"

definition sample_config :: config_disk where
  "sample_config =
     \<lparr>target = Some \<lparr>file_contents = Whole (Some sample_profiles), file_mode = owner_only\<rparr>,
      temporary = None\<rparr>"

definition empty_service :: service where
  "empty_service =
     \<lparr>sv_consumers = [], sv_management = [], sv_events = [], sv_revision = 1, sv_instance_id = ''d'',
      sv_version = ''1.0.0'', sv_started_at = 0, sv_config = sample_config,
      sv_audit = \<lparr>target = None, temporary = None\<rparr>, sv_heap = [], sv_calls = 0, sv_trace = []\<rparr>"

definition sample_management :: management_session where
  "sample_management = \<lparr>ms_profile = ''api'', ms_secret = 1, ms_expires_at = 300000000000\<rparr>"

definition sample_service :: service where
  "sample_service = empty_service
     \<lparr>sv_consumers := [(sha256 ''ksc_a'', sample_session)],
      sv_management := [(''ksm_a'', sample_management)], sv_heap := [''s3cret'', ''other'']\<rparr>"

lemmas sample_defs = sample_env_def sample_lease_def sample_consumer_def sample_session_def
  sample_profiles_def sample_config_def empty_service_def sample_management_def sample_service_def

lemma sample_env_simps [simp]:
  "env_clock sample_env i = int i" "env_random sample_env i n = Inr (replicate n (char_of (i mod 256)))"
  "env_keychain_read sample_env i a m = sample_keychain m" "b \<noteq> [] \<Longrightarrow> env_keychain_store sample_env i a b = None"
  "env_keychain_delete sample_env i a m = (case sample_keychain m of Inl e \<Rightarrow> Some e | Inr x \<Rightarrow> None)"
  "env_read_fault sample_env i = None"
  "env_write_fault sample_env i j = None" "env_url_password sample_env u = None"
  "env_public_of_seed sample_env b = b" "env_ssh_public sample_env b = Inr b"
  "env_ssh_authorized_line sample_env b = b" "env_ssh_signer sample_env b = Inr (drop 32 b)"
  "env_ssh_sign sample_env b x = Inr x"
  by (simp_all add: sample_env_def)

lemma sample_keychain_approves [simp]:
  "c \<noteq> CHR 0x00 \<Longrightarrow> sample_keychain (c # m) = Inr ''s3cret''"
  "sample_keychain (grant_approval_message l p r d) = Inr ''s3cret''"
  "sample_keychain (grant_approval_message l p r d @ m) = Inr ''s3cret''"
  by (simp_all add: sample_keychain_def grant_approval_message_def)

lemma empty_service_simps [simp]:
  "sv_consumers empty_service = []" "sv_management empty_service = []" "sv_events empty_service = []"
  "sv_config empty_service = sample_config" "sv_heap empty_service = []" "sv_calls empty_service = 0"
  "sv_trace empty_service = []" "sv_revision empty_service = 1"
  by (simp_all add: empty_service_def)

lemma sample_wf: "wf_state sample_service"
  by (simp add: wf_state_def sample_defs)

lemma sample_memory: "memory_ok [] sample_service"
  by (simp add: memory_ok_def sample_wf owned_def) (auto simp: sample_defs less_Suc_eq)

lemma sample_trim: "trim_space ''ksc_a'' = ''ksc_a''" "trim_space ''lease_1'' = ''lease_1''"
  "trim_space ''deploy'' = ''deploy''" "trim_space ''agent'' = ''agent''"
  by (simp_all add: trim_space_graphic graphic_def)

definition sample_exec :: exec_request where
  "sample_exec =
     \<lparr>er_consumer_token = ''ksc_a'', er_lease_id = ''lease_1'', er_arguments = [''ls'', ''-l''],
      er_working_directory = ''/tmp'', er_timeout_seconds = 60\<rparr>"

lemma sample_live: "live_session sample_env sample_service (sha256 ''ksc_a'') = Some sample_session"
  by (simp add: live_session_def sample_defs consumer_live_def lease_live_def keep_leases_def)

lemma sample_decision:
  "exec_decision sample_env sample_exec sample_service = Inr \<lparr>al_metadata = sample_lease, al_secret = 0\<rparr>"
proof -
  have "in_bounds second (30 * minute) (seconds 60)"
    by (simp add: in_bounds_def seconds_def minute_def second_def)
  then show ?thesis
    by (simp add: exec_decision_def sample_exec_def sample_trim sample_live)
      (simp add: sample_session_def sample_lease_def)
qed

lemma sample_buffer: "buffer sample_service 0 = ''s3cret''"
  by (simp add: buffer_def sample_service_def)

lemma sample_trace: "sv_trace sample_service = []"
  by (simp add: sample_service_def empty_service_def)

lemma sample_lease_env: "lease_env sample_lease = ''API_TOKEN''"
  by (simp add: sample_lease_def)

lemma sample_session_id: "consumer_id (cs_metadata sample_session) = ''consumer_1''"
  by (simp add: sample_session_def sample_consumer_def)

text \<open>Nothing fails in the sample environment.\<close>

lemma run_ops_no_fault: "fst (run_ops (\<lambda>i. None) i ops d) = None"
  by (induction ops arbitrary: i d) simp_all

lemma sample_save: "fst (save_config sample_env cfg s) = None"
proof -
  have "env_write_fault sample_env i = (\<lambda>j. None)" for i by (simp add: fun_eq_iff)
  then show ?thesis
    by (simp add: save_config_def config_save_def replace_file_def Let_def run_ops_no_fault)
qed

lemma sample_read: "sv_config s = sample_config \<Longrightarrow> load_config sample_env s = (Inr \<lparr>cfg_profiles = sample_profiles\<rparr>, next_call s)"
  by (simp add: load_config_def config_load_def sample_config_def)

lemma sample_profile_valid: "validate_profile ''api'' ''API_TOKEN'' 900 = None"
proof -
  have "profile_name_pattern ''api''" "validate_environment ''API_TOKEN'' = None"
    by code_simp+
  then show ?thesis by (simp add: validate_profile_None in_bounds_def seconds_def second_def)
qed

end
