(* ===== verification/Access_Properties.thy ===== *)
theory Access_Properties
  imports Samples
begin

text \<open>The properties of the operations on consumers, leases and children.\<close>

text \<open>C1: execute_uses_lease.
  \<^verbatim>\<open>Execute\<close> starts a child exactly when the capability opens a live session whose live lease
  has the requested identifier and is not an SSH lease, and then runs the requested program
  once, with the allowlisted environment and the secret of that very lease in the variable the
  lease names. In every other case nothing is run and the error says why.\<close>

theorem execute_uses_lease:
  assumes "memory_ok F s"
  shows "case exec_decision E r s of
    Inl e \<Rightarrow> fst (execute E r s) = Inl e \<and> sv_trace (snd (execute E r s)) = sv_trace s
  | Inr l \<Rightarrow> \<not> is_err (fst (execute E r s)) \<and>
      sv_trace (snd (execute E r s)) =
        ChildRun (exec_command E r (buffer s (al_secret l)) (lease_env (al_metadata l))) # sv_trace s"
proof (cases "exec_decision E r s")
  case (Inl e)
  then have "fst (execute_begin E r s) = Inl e"
    using execute_begin_decision [OF assms, of E r] by simp
  then show ?thesis
    using Inl by (simp add: execute_def case_prod_beta execute_refused_trace)
next
  case (Inr l)
  then obtain x s1 where x: "execute_begin E r s = (Inr x, s1)" "xr_request x = r"
    "xr_env x = lease_env (al_metadata l)" "xr_timeout x = seconds (er_timeout_seconds r)"
    "buffer s1 (xr_secret x) = buffer s (al_secret l)" "sv_trace s1 = sv_trace s"
    using execute_begin_decision [OF assms, of E r] by auto
  moreover have "er_arguments r \<noteq> []" "in_bounds second (30 * minute) (seconds (er_timeout_seconds r))"
    using Inr by (auto simp: exec_decision_def split: if_splits)
  ultimately show ?thesis
    using Inr execute_finish_trace [of x E s1] by (simp add: execute_def case_prod_beta)
qed

theorem execute_uses_lease_witness:
  "\<not> is_err (fst (execute sample_env sample_exec sample_service)) \<and>
   sv_trace (snd (execute sample_env sample_exec sample_service)) =
     [ChildRun (exec_command sample_env sample_exec ''s3cret'' ''API_TOKEN'')]"
  using execute_uses_lease [OF sample_memory, of sample_env sample_exec]
  by (simp add: sample_decision sample_buffer sample_trace sample_lease_env)

text \<open>C22: revoke_own_session.
  \<^verbatim>\<open>Revoke\<close> acts on the one session its capability opens: with a lease identifier it removes
  that lease, without one it ends the session, and it answers whether there was anything to
  revoke. The sessions of all other capabilities are what expiry alone makes of them.\<close>

theorem revoke_own_session:
  assumes "wf_state s"
  shows "fst (revoke E r s) =
      may_revoke (rr_lease_id r) (live_session E s (sha256 (trim_space (rr_consumer_token r)))) \<and>
    go_get (sv_consumers (snd (revoke E r s))) =
      revoked_session (sha256 (trim_space (rr_consumer_token r))) (rr_lease_id r) (live_session E s)"
  using revoke_sessions [OF assms] by simp

theorem revoke_own_session_witness:
  "let r = \<lparr>rr_consumer_token = ''ksc_a'', rr_lease_id = ''lease_1''\<rparr>
   in fst (revoke sample_env r sample_service) \<and>
      map_option cs_leases (go_get (sv_consumers (snd (revoke sample_env r sample_service))) (sha256 ''ksc_a'')) =
        Some []"
  using revoke_own_session [OF sample_wf, of sample_env "\<lparr>rr_consumer_token = ''ksc_a'', rr_lease_id = ''lease_1''\<rparr>"]
  by (simp add: sample_trim sample_live may_revoke_def revoked_session_def)
    (simp add: sample_session_def)

text \<open>\<^verbatim>\<open>AdminRevoke\<close> acts on one live session with the given public identifier, if there is one, in
  the same way, and answers whether it revoked anything; all other sessions are what expiry
  alone makes of them.\<close>

theorem admin_revoke_by_identifier:
  assumes "wf_state s"
  shows "(\<exists>h c. live_session E s h = Some c \<and> consumer_id (cs_metadata c) = ar_consumer_id r \<and>
      fst (admin_revoke E r s) = may_revoke (ar_lease_id r) (Some c) \<and>
      go_get (sv_consumers (snd (admin_revoke E r s))) = revoked_session h (ar_lease_id r) (live_session E s)) \<or>
    (\<forall>h c. live_session E s h = Some c \<longrightarrow> consumer_id (cs_metadata c) \<noteq> ar_consumer_id r) \<and>
      \<not> fst (admin_revoke E r s) \<and> go_get (sv_consumers (snd (admin_revoke E r s))) = live_session E s"
  using assms by (rule admin_revoke_sessions)

theorem admin_revoke_by_identifier_witness:
  "fst (admin_revoke sample_env \<lparr>ar_consumer_id = ''consumer_1'', ar_lease_id = []\<rparr> sample_service)"
  using admin_revoke_by_identifier
    [OF sample_wf, of sample_env "\<lparr>ar_consumer_id = ''consumer_1'', ar_lease_id = []\<rparr>"]
    sample_live sample_session_id
  by (fastforce simp: may_revoke_def)

text \<open>Expiring at a time keeps exactly the sessions that are live then, each with exactly its live
  leases and unchanged metadata, and removes everything else.\<close>

theorem expiry_is_a_filter:
  assumes "wf_state s"
  shows "sv_consumers (expire_locked E now s) =
    map (\<lambda>(h, c). (h, keep_leases (lease_live now) c))
      (filter (\<lambda>e. consumer_live now (snd e)) (sv_consumers s))"
  using assms by (rule expire_consumers_eq)

theorem expiry_is_a_filter_witness:
  "sv_consumers (expire_locked sample_env 600000000000 sample_service) =
     [(sha256 ''ksc_a'', sample_session\<lparr>cs_leases := []\<rparr>)] \<and>
   sv_consumers (expire_locked sample_env 86400000000000 sample_service) = []"
  using expiry_is_a_filter [OF sample_wf, of sample_env]
  by (simp add: sample_defs keep_leases_def lease_live_def consumer_live_def)

text \<open>After \<^verbatim>\<open>Close\<close> there is no session left, and every buffer that ever held a secret is zero,
  the buffers of operations still in flight excepted.\<close>

theorem close_zeroes_everything:
  assumes "memory_ok F s"
  shows "sv_consumers (close_service s) = [] \<and> sv_management (close_service s) = [] \<and>
    (\<forall>a < length (sv_heap (close_service s)). a \<in> set F \<or> zeroed (buffer (close_service s) a))"
proof -
  have e: "sv_consumers (close_service s) = []" "sv_management (close_service s) = []"
    using close_empties [OF memory_wf [OF assms]] by simp_all
  have "memory_ok F (close_service s)" using assms by (rule memory_kept.close)
  then show ?thesis using e by (auto simp: memory_ok_def owned_def)
qed

theorem close_zeroes_everything_witness:
  "sv_consumers (close_service sample_service) = [] \<and> sv_management (close_service sample_service) = [] \<and>
   list_all (\<lambda>a. zeroed (buffer (close_service sample_service) a)) [0..<length (sv_heap (close_service sample_service))]"
  using close_zeroes_everything [OF sample_memory] by (simp add: list_all_iff)

end
