(* ===== verification/Daemon_System.thy ===== *)
theory Daemon_System
  imports Access Profile_Phases
begin

text \<open>
  The daemon as a transition system. HTTP handlers and agent connections run concurrently; the
  state lock makes each locked section atomic and \<^verbatim>\<open>profileMu\<close> serialises the operations on
  profiles. A step is one locked section: an operation that has only one, a phase of a grant or
  of an execution, or a phase of an operation on profiles. A grant that was begun waits for
  \<^verbatim>\<open>profileMu\<close>; at most one operation holds it, a grant between its prompt and its commit or a
  \<open>profile_job\<close>. \<open>shuffled\<close> steps reorder the maps, as Go may at every loop.
\<close>

section \<open>Operations in one step\<close>

datatype request =
    Status gostring | Revoke revoke_request | AdminRevoke admin_revoke_request | Snapshot
  | EndManagement gostring gostring | AgentList | AgentSign public_key bytes | Tick | Close

fun perform :: "env \<Rightarrow> ssh_wire \<Rightarrow> request \<Rightarrow> service \<Rightarrow> service" where
  "perform E W (Status t) s = snd (consumer_status E t s)"
| "perform E W (Revoke r) s = snd (revoke E r s)"
| "perform E W (AdminRevoke r) s = snd (admin_revoke E r s)"
| "perform E W Snapshot s = snd (take_snapshot E s)"
| "perform E W (EndManagement n t) s = snd (end_profile_management n t s)"
| "perform E W AgentList s = snd (agent_list E s)"
| "perform E W (AgentSign k bs) s = snd (agent_sign E W k bs s)"
| "perform E W Tick s = tick E s"
| "perform E W Close s = close_service s"

section \<open>The system\<close>

record system =
  sys_service :: service
  sys_waiting :: "grant_context list"
  sys_ready :: "grant_ready option"
  sys_job :: "profile_job option"
  sys_running :: "exec_running list"

definition in_flight :: "system \<Rightarrow> nat list" where
  "in_flight S =
     (case sys_ready S of None \<Rightarrow> [] | Some g \<Rightarrow> [gy_secret g]) @
     (case sys_job S of None \<Rightarrow> [] | Some j \<Rightarrow> job_buffers j) @ map xr_secret (sys_running S)"

definition profile_lock_free :: "system \<Rightarrow> bool" where
  "profile_lock_free S \<longleftrightarrow> sys_ready S = None \<and> sys_job S = None"

text \<open>
  Random identifiers do not repeat: a new management token is not in use, a new lease
  identifier is not in use in its session, and no waiting grant names a consumer that is
  only being created.
\<close>

fun fresh_job :: "profile_job \<Rightarrow> service \<Rightarrow> bool" where
  "fresh_job (OpenSession name secret token) s = (go_get (sv_management s) token = None)"
| "fresh_job _ s = True"

definition fresh_grant :: "env \<Rightarrow> grant_ready \<Rightarrow> system \<Rightarrow> bool" where
  "fresh_grant E g S \<longleftrightarrow>
     (case commit_session E g (sys_service S) of
        None \<Rightarrow> True
      | Some c \<Rightarrow> go_get (cs_leases c) (lease_id (gy_lease g)) = None) \<and>
     (gc_new (gy_context g) \<longrightarrow>
        (\<forall>gc \<in> set (sys_waiting S). gc_consumer_id gc \<noteq> gc_consumer_id (gy_context g)))"

text \<open>The same maps in another order.\<close>

definition reordered_session :: "consumer_session \<Rightarrow> consumer_session \<Rightarrow> bool" where
  "reordered_session c c' \<longleftrightarrow>
     cs_metadata c' = cs_metadata c \<and> mset (cs_leases c') = mset (cs_leases c)"

inductive reordered :: "service \<Rightarrow> service \<Rightarrow> bool" where
  consumers: "mset m = mset (sv_consumers s) \<Longrightarrow> reordered s (s\<lparr>sv_consumers := m\<rparr>)"
| leases: "mset ls = mset (leases_at s h) \<Longrightarrow>
    reordered s (modify_consumer h (\<lambda>c. c\<lparr>cs_leases := ls\<rparr>) s)"
| management: "mset m = mset (sv_management s) \<Longrightarrow> reordered s (s\<lparr>sv_management := m\<rparr>)"

inductive step :: "env \<Rightarrow> ssh_wire \<Rightarrow> system \<Rightarrow> system \<Rightarrow> bool" for E W where
  operation: "step E W S (S\<lparr>sys_service := perform E W r (sys_service S)\<rparr>)"
| call_starts: "\<lbrakk>profile_lock_free S; begin_call E c (sys_service S) = (Next j, s)\<rbrakk> \<Longrightarrow>
    step E W S (S\<lparr>sys_service := s, sys_job := Some j\<rparr>)"
| call_refused: "\<lbrakk>profile_lock_free S; begin_call E c (sys_service S) = (Done x, s)\<rbrakk> \<Longrightarrow>
    step E W S (S\<lparr>sys_service := s\<rparr>)"
| call_continues: "\<lbrakk>sys_job S = Some j; fresh_job j (sys_service S);
    next_phase E j (sys_service S) = (Next j', s)\<rbrakk> \<Longrightarrow>
    step E W S (S\<lparr>sys_service := s, sys_job := Some j'\<rparr>)"
| call_returns: "\<lbrakk>sys_job S = Some j; fresh_job j (sys_service S);
    next_phase E j (sys_service S) = (Done x, s)\<rbrakk> \<Longrightarrow>
    step E W S (S\<lparr>sys_service := s, sys_job := None\<rparr>)"
| grant_starts: "grant_begin E r (sys_service S) = (Inr gc, s) \<Longrightarrow>
    step E W S (S\<lparr>sys_service := s, sys_waiting := gc # sys_waiting S\<rparr>)"
| grant_rejected: "grant_begin E r (sys_service S) = (Inl e, s) \<Longrightarrow>
    step E W S (S\<lparr>sys_service := s\<rparr>)"
| approved: "\<lbrakk>profile_lock_free S; sys_waiting S = before @ gc # after;
    grant_approve E gc (sys_service S) = (Inr g, s)\<rbrakk> \<Longrightarrow>
    step E W S (S\<lparr>sys_service := s, sys_waiting := before @ after, sys_ready := Some g\<rparr>)"
| refused: "\<lbrakk>profile_lock_free S; sys_waiting S = before @ gc # after;
    grant_approve E gc (sys_service S) = (Inl e, s)\<rbrakk> \<Longrightarrow>
    step E W S (S\<lparr>sys_service := s, sys_waiting := before @ after\<rparr>)"
| committed: "\<lbrakk>sys_ready S = Some g; fresh_grant E g S\<rbrakk> \<Longrightarrow>
    step E W S (S\<lparr>sys_service := snd (grant_commit E g (sys_service S)), sys_ready := None\<rparr>)"
| child_starts: "execute_begin E r (sys_service S) = (Inr x, s) \<Longrightarrow>
    step E W S (S\<lparr>sys_service := s, sys_running := x # sys_running S\<rparr>)"
| child_refused: "execute_begin E r (sys_service S) = (Inl e, s) \<Longrightarrow>
    step E W S (S\<lparr>sys_service := s\<rparr>)"
| child_ends: "sys_running S = before @ x # after \<Longrightarrow>
    step E W S (S\<lparr>sys_service := snd (execute_finish E x (sys_service S)),
                  sys_running := before @ after\<rparr>)"
| shuffled: "reordered (sys_service S) s \<Longrightarrow> step E W S (S\<lparr>sys_service := s\<rparr>)"

inductive_cases step_cases: "step E W S S'"

definition initial :: "service \<Rightarrow> system" where
  "initial s = \<lparr>sys_service = s, sys_waiting = [], sys_ready = None, sys_job = None, sys_running = []\<rparr>"

definition starts :: "env \<Rightarrow> service \<Rightarrow> bool" where
  "starts E s \<longleftrightarrow> (\<exists>cfg aud fault i v t. new_service E cfg aud fault i v t = Inr s)"

inductive reachable :: "env \<Rightarrow> ssh_wire \<Rightarrow> system \<Rightarrow> bool" for E W where
  start: "starts E s \<Longrightarrow> reachable E W (initial s)"
| more: "reachable E W S \<Longrightarrow> step E W S S' \<Longrightarrow> reachable E W S'"

end
