(* ===== verification/System_Invariants.thy ===== *)
theory System_Invariants
  imports Daemon_System
begin

text \<open>
  The invariants of the running daemon: an interface for invariants that every single-step
  operation keeps, its instances for memory, sessions and the history, and the invariant of
  the whole system by induction over the reachable states.
\<close>

section \<open>Reordering keeps maps well-formed\<close>

lemma wf_map_mset: "mset m = mset m' \<Longrightarrow> wf_map m = wf_map m'"
  unfolding wf_map_def by (metis mset_map distinct_count_atmost_1 mset_eq_imp_distinct_iff)

lemma wf_map_mset_get:
  assumes "wf_map m" and "mset m = mset m'"
  shows "go_get m' = go_get m"
proof
  fix k
  have "wf_map m'" "set m' = set m" using assms wf_map_mset mset_eq_setD by metis+
  then show "go_get m' k = go_get m k"
    using assms(1) by (metis wf_map_get not_Some_eq)
qed

lemma wf_reordered:
  assumes wf: "wf_state s" and r: "reordered s s'"
  shows "wf_state s'"
  using r
proof cases
  case (consumers m)
  then show ?thesis
    using wf wf_map_mset [OF consumers(2)] mset_eq_setD [OF consumers(2)] by (simp add: wf_state_def)
next
  case (leases ls h)
  have "wf_state (modify_consumer h (\<lambda>c. c\<lparr>cs_leases := ls\<rparr>) s)"
  proof (rule wf_modify [OF wf])
    fix c assume "go_get (sv_consumers s) h = Some c" "wf_map (cs_leases c)"
    then show "wf_map (cs_leases (c\<lparr>cs_leases := ls\<rparr>))"
      using wf_map_mset [OF leases(2)] by (simp add: leases_at_def)
  qed
  then show ?thesis using leases by simp
next
  case (management m)
  then show ?thesis using wf wf_map_mset [OF management(2)] by (simp add: wf_state_def)
qed

section \<open>The interface\<close>

text \<open>Two phases write the configuration and one opens a management session; the others do neither.\<close>

fun writes_config :: "profile_job \<Rightarrow> bool" where
  "writes_config (WriteUpdate name r cfg a) = True"
| "writes_config (SaveDeletion name cfg) = True"
| "writes_config _ = False"

fun opens_session :: "profile_job \<Rightarrow> bool" where
  "opens_session (OpenSession name secret token) = True"
| "opens_session _ = False"

context kept_by_readers
begin

lemma performs: "inv F s \<Longrightarrow> inv F (perform E W r s)"
  by (cases r) (simp_all add: status revokes admin_revokes snapshots ends_management agent_lists agent_signs ticks base.close)

lemma consumes:
  "inv (a # F) s \<Longrightarrow> inv (phase_buffers (fst (next_phase E (ConsumeSession n r cfg a) s)) @ F)
     (snd (next_phase E (ConsumeSession n r cfg a) s))"
  by (simp add: case_prod_beta consumes_management inv_clear split: option.split)

lemma continues_reading:
  assumes "inv (job_buffers j @ F) s" and "\<not> opens_session j" and "\<not> writes_config j"
  shows "inv (phase_buffers (fst (next_phase E j s)) @ F) (snd (next_phase E j s))"
  using assms
proof (cases j)
  case (ConsumeSession n r cfg a)
  then show ?thesis using consumes assms by simp
qed (simp_all add: case_prod_beta inv_clear base.inv_record base.clear_profile forgets clears_identity)

end

context kept_by_operations
begin

lemma writes_update:
  "inv (a # F) s \<Longrightarrow> inv (phase_buffers (fst (next_phase E (WriteUpdate n r cfg a) s)) @ F)
     (snd (next_phase E (WriteUpdate n r cfg a) s))"
  by (simp add: case_prod_beta writes inv_clear split: option.split)

lemma saves_deletion:
  "inv F s \<Longrightarrow> inv (phase_buffers (fst (next_phase E (SaveDeletion n cfg) s)) @ F)
     (snd (next_phase E (SaveDeletion n cfg) s))"
  by (simp add: case_prod_beta saves split: option.split)

lemma continues_closed:
  assumes "inv (job_buffers j @ F) s" and "\<not> opens_session j"
  shows "inv (phase_buffers (fst (next_phase E j s)) @ F) (snd (next_phase E j s))"
proof (cases "writes_config j")
  case True
  then show ?thesis
    using assms(1) writes_update saves_deletion by (cases j) (simp_all del: next_phase.simps)
next
  case False
  show ?thesis using assms False by (rule continues_reading)
qed

end

locale kept_by_daemon = kept_by_operations inv
  for inv :: "nat list \<Rightarrow> service \<Rightarrow> bool" +
  assumes inv_put_management: "inv (a # F) s \<Longrightarrow> go_get (sv_management s) t = None \<Longrightarrow>
      inv F (put_management t \<lparr>ms_profile = n, ms_secret = a, ms_expires_at = x\<rparr> s)"
    and inv_reordered: "inv F s \<Longrightarrow> reordered s s' \<Longrightarrow> inv F s'"
begin

lemma opens:
  assumes "inv (a # F) s" and "go_get (sv_management s) t = None"
  shows "inv F (snd (open_management E n a t s))"
proof -
  let ?s2 = "snd (time_now E (snd (time_now E s)))" let ?t2 = "fst (time_now E (snd (time_now E s)))"
  let ?s3 = "expire_management_sessions_locked ?t2 ?s2"
  have 2: "inv (a # F) ?s2" using assms(1) by (intro now)
  then have 3: "inv (a # F) ?s3" by (rule base.expire_management)
  have "sv_management ?s3 = filter (\<lambda>e. ?t2 < ms_expires_at (snd e)) (sv_management s)"
    using expire_management_eq [OF base.inv_wf [OF 2]] by (simp add: frame)
  then have "go_get (sv_management ?s3) t = None" using assms(2) by (auto simp: map_of_eq_None_iff)
  then show ?thesis
    using inv_put_management [OF 3]
    by (simp add: open_management_def Let_def case_prod_beta base.inv_record)
qed

text \<open>A phase keeps the invariant, with the buffers the next one needs in flight.\<close>

lemma continues:
  assumes "inv (job_buffers j @ F) s" and "fresh_job j s"
  shows "inv (phase_buffers (fst (next_phase E j s)) @ F) (snd (next_phase E j s))"
proof (cases "opens_session j")
  case True
  then show ?thesis using assms by (cases j) (simp_all add: case_prod_beta opens)
next
  case False
  show ?thesis using assms(1) False by (rule continues_closed)
qed

end

section \<open>The instances\<close>

lemma lease_buffers_mset:
  "mset (lease_buffers m) = sum_mset (image_mset (\<lambda>e. mset (map (\<lambda>l. al_secret (snd l)) (cs_leases (snd e)))) (mset m))"
  by (induction m) simp_all

lemma memory_reordered: "memory_ok F s \<Longrightarrow> reordered s s' \<Longrightarrow> memory_ok F s'"
proof -
  assume ok: "memory_ok F s" and r: "reordered s s'"
  from r have "mset (owned s') = mset (owned s)" if "wf_state s"
    using that
  proof cases
    case (consumers m)
    then show ?thesis by (simp add: owned_def lease_buffers_mset)
  next
    case (leases ls h)
    have "mset (lease_buffers (at_key h (\<lambda>c. c\<lparr>cs_leases := ls\<rparr>) m)) = mset (lease_buffers m)"
      if "\<And>c. (h, c) \<in> set m \<Longrightarrow> mset ls = mset (cs_leases c)" for m
      using that by (induction m) force+
    moreover have "mset ls = mset (cs_leases c)" if "(h, c) \<in> set (sv_consumers s)" for c
      using that leases \<open>wf_state s\<close> by (simp add: leases_at_def wf_state_def wf_map_get)
    ultimately show ?thesis
      using leases by (simp add: owned_def modify_consumers frame)
  next
    case (management m)
    then show ?thesis by (simp add: owned_def)
  qed
  then show ?thesis
    using ok wf_reordered [OF memory_wf [OF ok] r] r
    by (intro memory_cong [OF ok]) (auto simp: memory_wf elim!: reordered.cases simp: frame)
qed

interpretation memory_daemon: kept_by_daemon memory_ok
  by unfold_locales (auto intro: memory_put_management memory_reordered)

text \<open>A property of sessions that does not depend on the order of the leases.\<close>

locale order_free = session_property +
  assumes P_order: "P T h c \<Longrightarrow> reordered_session c c' \<Longrightarrow> P T h c'"
begin

lemma holds_reordered:
  assumes "holds s" and "reordered s s'"
  shows "holds s'"
proof -
  have wf: "wf_state s'" using holds_wf [OF assms(1)] assms(2) by (rule wf_reordered)
  have "P (sv_trace s') h c'" if c': "go_get (sv_consumers s') h = Some c'" for h c'
    using assms(2)
  proof cases
    case (consumers m)
    then show ?thesis
      using c' holds_get [OF assms(1)] wf_map_mset_get [of "sv_consumers s" m] holds_wf [OF assms(1)]
      by (simp add: wf_state_def)
  next
    case (leases ls k)
    show ?thesis
    proof (cases "h = k")
      case True
      then obtain c where c: "go_get (sv_consumers s) h = Some c" "c' = c\<lparr>cs_leases := ls\<rparr>"
        using c' leases by (auto simp: modify_consumers at_key_get)
      then have "reordered_session c c'"
        using leases True by (simp add: reordered_session_def leases_at_def)
      then show ?thesis
        using P_order [OF holds_get [OF assms(1) c(1)]] leases by (simp add: frame)
    next
      case False
      then show ?thesis
        using c' leases holds_get [OF assms(1)] by (simp add: modify_consumers at_key_get frame)
    qed
  next
    case (management m)
    then show ?thesis using c' holds_get [OF assms(1)] by simp
  qed
  then show ?thesis using wf by (simp add: holds_iff)
qed

sublocale daemon: kept_by_daemon "\<lambda>F. holds"
proof unfold_locales
  show "holds (put_management t \<lparr>ms_profile = n, ms_secret = a, ms_expires_at = x\<rparr> s)" if "holds s" for t n a x s
    using that by (auto simp: holds_def put_management_def wf_state_def gm.wf_put)
qed (rule holds_reordered)

end

lemma reordered_leases_set:
  "reordered_session c c' \<Longrightarrow> set (cs_leases c') = set (cs_leases c)"
  unfolding reordered_session_def by (metis mset_eq_setD)

lemma reordered_profiles:
  "reordered_session c c' \<Longrightarrow> distinct (lease_profiles c') = distinct (lease_profiles c)"
  unfolding reordered_session_def lease_profiles_def by (metis mset_map mset_eq_imp_distinct_iff)

lemma consistent_order:
  assumes "session_consistent T h c" and "reordered_session c c'"
  shows "session_consistent T h c'"
proof -
  have "cs_metadata c' = cs_metadata c" using assms(2) by (simp add: reordered_session_def)
  then show ?thesis
    using assms(1) unfolding session_consistent_def
    by (simp add: reordered_leases_set [OF assms(2)] reordered_profiles [OF assms(2)])
qed

lemma approved_order:
  assumes "session_approved T h c" and "reordered_session c c'"
  shows "session_approved T h c'"
proof -
  have "cs_metadata c' = cs_metadata c" using assms(2) by (simp add: reordered_session_def)
  then show ?thesis
    using assms(1) unfolding session_approved_def by (simp only: reordered_leases_set [OF assms(2)])
qed

interpretation consistency_daemon: order_free session_consistent
  by unfold_locales (rule consistent_order)

interpretation approval_daemon: order_free session_approved
  by unfold_locales (rule approved_order)

interpretation context_daemon: order_free "context_matches gc" for gc
  by unfold_locales (simp_all add: context_matches_def reordered_session_def)

text \<open>The history only grows.\<close>

definition remembers :: "effect set \<Rightarrow> service \<Rightarrow> bool" where
  "remembers T s \<longleftrightarrow> wf_state s \<and> T \<subseteq> set (sv_trace s)"

lemma remembers_same:
  "remembers T s \<Longrightarrow> sv_consumers s' = sv_consumers s \<Longrightarrow> sv_management s' = sv_management s \<Longrightarrow>
     sv_trace s' = sv_trace s \<Longrightarrow> remembers T s'"
  by (simp add: remembers_def wf_state_def)

lemma remembers_steps:
  "remembers T s \<Longrightarrow> remembers T (clear_lease_locked h i s)"
  "remembers T s \<Longrightarrow> remembers T (record_locked E k p cid lab r d s)"
  "remembers T s \<Longrightarrow> remembers T (drop_consumer h s)"
  "remembers T s \<Longrightarrow> remembers T (drop_management t m s)"
  "remembers T s \<Longrightarrow> remembers T (log_effect e s)"
  "remembers T s \<Longrightarrow> wf_state s"
  by (auto simp: remembers_def frame wf_clear_lease wf_record wf_drop_consumer wf_drop_management)
    (auto simp: log_effect_def wf_state_def)

lemma remembers_put_management:
  "remembers T s \<Longrightarrow> remembers T (put_management t m s)"
  by (simp add: remembers_def put_management_def wf_state_def gm.wf_put)

lemma remembers_reordered: "remembers T s \<Longrightarrow> reordered s s' \<Longrightarrow> remembers T s'"
  using wf_reordered [of s s'] by (auto simp: remembers_def frame elim!: reordered.cases)

interpretation history: kept_by_primitives "remembers T" for T
  by unfold_locales (blast intro: remembers_steps)+

interpretation history_daemon: kept_by_daemon "\<lambda>F. remembers T" for T
proof unfold_locales
  show "remembers T s'" if "remembers T s" "alloc bs s = (a, s')" for s bs a s'
    using that by (auto simp: alloc_def intro: remembers_same)
qed (rule remembers_steps remembers_put_management; assumption
    | erule remembers_reordered; assumption | erule remembers_same; simp add: frame)+

section \<open>The invariant of the system\<close>

definition ready_matches :: "system \<Rightarrow> bool" where
  "ready_matches S \<longleftrightarrow>
     (case sys_ready S of
        None \<Rightarrow> True
      | Some g \<Rightarrow> ready_ok g (sv_trace (sys_service S)) \<and>
          all_sessions (context_matches (gy_context g)) (sys_service S))"

definition system_ok :: "system \<Rightarrow> bool" where
  "system_ok S \<longleftrightarrow>
     memory_ok (in_flight S) (sys_service S) \<and>
     all_sessions session_consistent (sys_service S) \<and>
     all_sessions session_approved (sys_service S) \<and>
     (\<forall>gc \<in> set (sys_waiting S). all_sessions (context_matches gc) (sys_service S)) \<and>
     ready_matches S"

lemma ready_ok_mono: "ready_ok g T \<Longrightarrow> set T \<subseteq> set T' \<Longrightarrow> ready_ok g T'"
  unfolding ready_ok_def Let_def by blast

text \<open>A change of the service that every invariant of the interface survives.\<close>

definition harmless :: "service \<Rightarrow> service \<Rightarrow> bool" where
  "harmless s s' \<longleftrightarrow>
     (all_sessions session_consistent s \<longrightarrow> all_sessions session_consistent s') \<and>
     (all_sessions session_approved s \<longrightarrow> all_sessions session_approved s') \<and>
     (\<forall>gc. all_sessions (context_matches gc) s \<longrightarrow> all_sessions (context_matches gc) s') \<and>
     (wf_state s \<longrightarrow> set (sv_trace s) \<subseteq> set (sv_trace s'))"

lemma system_ok_harmless:
  assumes ok: "system_ok S" and h: "harmless (sys_service S) s" and mem: "memory_ok (in_flight S') s"
    and s: "sys_service S' = s" and w: "set (sys_waiting S') \<subseteq> set (sys_waiting S)"
    and r: "sys_ready S' = sys_ready S"
  shows "system_ok S'"
proof -
  have wf: "wf_state (sys_service S)" using ok memory_wf unfolding system_ok_def by blast
  have "ready_matches S'"
  proof (cases "sys_ready S")
    case None
    then show ?thesis using r by (simp add: ready_matches_def)
  next
    case (Some g)
    have "ready_ok g (sv_trace (sys_service S))" "all_sessions (context_matches (gy_context g)) (sys_service S)"
      using ok Some unfolding system_ok_def ready_matches_def by simp_all
    then have "ready_ok g (sv_trace s)" "all_sessions (context_matches (gy_context g)) s"
      using h wf ready_ok_mono unfolding harmless_def by blast+
    then show ?thesis using r s Some by (simp add: ready_matches_def)
  qed
  moreover have "all_sessions session_consistent s" "all_sessions session_approved s"
    using ok h unfolding system_ok_def harmless_def by blast+
  moreover have "\<forall>gc \<in> set (sys_waiting S'). all_sessions (context_matches gc) s"
    using ok h w unfolding system_ok_def harmless_def by blast
  ultimately show ?thesis using mem s unfolding system_ok_def by simp
qed

lemma remembers_all: "wf_state s \<Longrightarrow> remembers (set (sv_trace s)) s"
  by (simp add: remembers_def)

lemma trace_grows: "(remembers (set (sv_trace s)) s \<Longrightarrow> remembers (set (sv_trace s)) s') \<Longrightarrow>
  wf_state s \<Longrightarrow> set (sv_trace s) \<subseteq> set (sv_trace s')"
  using remembers_all [of s] by (simp add: remembers_def)

text \<open>What every invariant of the interface survives is harmless.\<close>

lemma harmlessI:
  assumes "all_sessions session_consistent s \<Longrightarrow> all_sessions session_consistent s'"
    and "all_sessions session_approved s \<Longrightarrow> all_sessions session_approved s'"
    and "\<And>gc. all_sessions (context_matches gc) s \<Longrightarrow> all_sessions (context_matches gc) s'"
    and "remembers (set (sv_trace s)) s \<Longrightarrow> remembers (set (sv_trace s)) s'"
  shows "harmless s s'"
  using assms trace_grows [of s s'] unfolding harmless_def by blast

lemma harmless_perform: "harmless s (perform E W r s)"
  by (rule harmlessI)
    (erule consistency.ops.performs approval.ops.performs
      context_of.ops.performs history_daemon.performs)+

lemma harmless_begin_call: "harmless s (snd (begin_call E c s))"
  by (rule harmlessI)
    (erule consistency.ops.begins_call approval.ops.begins_call context_of.ops.begins_call
      history_daemon.begins_call)+

lemma harmless_next_phase: "fresh_job j s \<Longrightarrow> harmless s (snd (next_phase E j s))"
  by (rule harmlessI)
    (erule consistency_daemon.daemon.continues approval_daemon.daemon.continues
      context_daemon.daemon.continues history_daemon.continues; assumption)+

lemma harmless_begin: "harmless s (snd (grant_begin E r s))"
  by (rule harmlessI)
    (erule consistency.ops.grant_begins approval.ops.grant_begins context_of.ops.grant_begins
      history_daemon.grant_begins)+

lemma harmless_approve: "harmless s (snd (grant_approve E gc s))"
proof (cases "fst (grant_approve E gc s)")
  case (Inl e)
  then show ?thesis
    by (intro harmlessI)
      (erule consistency.ops.grant_refused approval.ops.grant_refused context_of.ops.grant_refused
        history_daemon.grant_refused; assumption)+
next
  case (Inr g)
  then show ?thesis
    by (intro harmlessI)
      (erule consistency.ops.grant_approved approval.ops.grant_approved context_of.ops.grant_approved
        history_daemon.grant_approved; assumption)+
qed

lemma harmless_execute_begin: "harmless s (snd (execute_begin E r s))"
proof (cases "fst (execute_begin E r s)")
  case (Inl e)
  then show ?thesis
    by (intro harmlessI)
      (erule consistency.ops.execute_refused approval.ops.execute_refused
        context_of.ops.execute_refused history_daemon.execute_refused; assumption)+
next
  case (Inr g)
  then show ?thesis
    by (intro harmlessI)
      (erule consistency.ops.execute_begins approval.ops.execute_begins
        context_of.ops.execute_begins history_daemon.execute_begins; assumption)+
qed

lemma harmless_execute_finish: "harmless s (snd (execute_finish E x s))"
  by (rule harmlessI)
    (erule consistency.ops.execute_finishes approval.ops.execute_finishes
      context_of.ops.execute_finishes history_daemon.execute_finishes)+

lemma harmless_reordered: "reordered s s' \<Longrightarrow> harmless s s'"
  by (rule harmlessI)
    (erule consistency_daemon.holds_reordered approval_daemon.holds_reordered
      context_daemon.holds_reordered remembers_reordered; assumption)+

section \<open>Every reachable state\<close>

lemma consumer_for_token_Inr:
  "consumer_for_token_locked t s = Inr (h, c) \<longleftrightarrow>
     t \<noteq> [] \<and> h = sha256 t \<and> go_get (sv_consumers s) h = Some c"
  by (auto simp: consumer_for_token_locked_def split: option.splits)

lemma new_consumer_context:
  "fst (grant_new_consumer E r now s) = Inr gc \<Longrightarrow> gc_new gc"
  by (auto simp: grant_new_consumer_def Let_def case_prod_beta split: sum.splits option.splits if_splits)

lemma existing_consumer_context:
  assumes "fst (grant_existing_consumer E r t now s) = Inr gc"
  obtains c where "snd (grant_existing_consumer E r t now s) = expire_locked E now s"
    and "go_get (sv_consumers (expire_locked E now s)) (sha256 (gc_token gc)) = Some c"
    and "gc_consumer_label gc = consumer_label (cs_metadata c)"
    and "gc_consumer_expires_at gc = consumer_expires_at (cs_metadata c)"
proof (cases "consumer_for_token_locked t (expire_locked E now s)")
  case (Inl e)
  then show thesis using assms by (simp add: grant_existing_consumer_def Let_def split: if_splits)
next
  case (Inr p)
  obtain h c where "p = (h, c)" by (cases p)
  then have c: "consumer_for_token_locked t (expire_locked E now s) = Inr (h, c)" using Inr by simp
  then have "t \<noteq> []" "h = sha256 t" "go_get (sv_consumers (expire_locked E now s)) (sha256 t) = Some c"
    by (auto simp: consumer_for_token_Inr)
  then show thesis
    using c assms by (intro that [of c]) (auto simp: grant_existing_consumer_def Let_def split: if_splits)
qed

lemma begin_context:
  assumes "memory_ok F s" and "fst (grant_begin E r s) = Inr gc"
  shows "all_sessions (context_matches gc) (snd (grant_begin E r s))"
proof -
  let ?s' = "snd (grant_begin E r s)"
  have wf: "wf_state ?s'" using memory.grant_begins [OF assms(1)] by (rule memory_wf)
  have "context_matches gc (sv_trace ?s') h c" if c: "go_get (sv_consumers ?s') h = Some c" for h c
  proof (cases "gc_new gc")
    case True
    then show ?thesis by (simp add: context_matches_def)
  next
    case False
    let ?s1 = "snd (time_now E s)" let ?now = "fst (time_now E s)"
    let ?x = "grant_existing_consumer E (trim_request r) (trim_space (gr_consumer_token (trim_request r))) ?now ?s1"
    have x: "grant_begin E r s = ?x"
      using False assms(2) new_consumer_context
      by (auto simp: grant_begin_def Let_def case_prod_beta split: option.splits if_splits)
    then have "fst ?x = Inr gc" using assms(2) by simp
    then obtain d where "snd ?x = expire_locked E ?now ?s1"
      "go_get (sv_consumers (expire_locked E ?now ?s1)) (sha256 (gc_token gc)) = Some d"
      "gc_consumer_label gc = consumer_label (cs_metadata d)"
      "gc_consumer_expires_at gc = consumer_expires_at (cs_metadata d)"
      by (rule existing_consumer_context)
    then show ?thesis using c x by (auto simp: context_matches_def)
  qed
  then show ?thesis using wf by (simp add: context_of.holds_iff)
qed

lemma harmless_context:
  "harmless s s' \<Longrightarrow> all_sessions (context_matches gc) s \<Longrightarrow> all_sessions (context_matches gc) s'"
  by (simp add: harmless_def)

lemma system_service:
  assumes "system_ok S" and "harmless (sys_service S) s" and "memory_ok (in_flight S) s"
  shows "system_ok (S\<lparr>sys_service := s\<rparr>)"
  using assms by (intro system_ok_harmless [OF assms(1)]) (auto simp: in_flight_def)

lemma system_grant_starts:
  assumes ok: "system_ok S" and g: "grant_begin E r (sys_service S) = (Inr gc, s)"
  shows "system_ok (S\<lparr>sys_service := s, sys_waiting := gc # sys_waiting S\<rparr>)"
proof -
  have s: "s = snd (grant_begin E r (sys_service S))" using g by simp
  have mem: "memory_ok (in_flight S) (sys_service S)" using ok by (simp add: system_ok_def)
  have "system_ok (S\<lparr>sys_service := s\<rparr>)"
    unfolding s by (rule system_service [OF ok harmless_begin memory.grant_begins [OF mem]])
  moreover have "all_sessions (context_matches gc) s"
    using begin_context [OF mem, of E r gc] g by simp
  ultimately show ?thesis
    by (simp add: system_ok_def ready_matches_def in_flight_def split: option.splits)
qed

lemma system_approved:
  assumes ok: "system_ok S" and r: "profile_lock_free S" and w: "sys_waiting S = before @ gc # after"
    and g: "grant_approve E gc (sys_service S) = (Inr g, s)"
  shows "system_ok (S\<lparr>sys_service := s, sys_waiting := before @ after, sys_ready := Some g\<rparr>)"
proof -
  let ?s = "sys_service S"
  have s: "s = snd (grant_approve E gc ?s)" using g by simp
  have h: "harmless ?s s" unfolding s by (rule harmless_approve)
  have mem: "memory_ok (in_flight S) ?s" using ok by (simp add: system_ok_def)
  have "in_flight S = map xr_secret (sys_running S)" "sys_job S = None"
    using r by (simp_all add: in_flight_def profile_lock_free_def)
  moreover from this(1) have "memory_ok (gy_secret g # map xr_secret (sys_running S)) s"
    using memory.grant_approved [OF mem, of E gc g] g by simp
  moreover have "gy_context g = gc" "ready_ok g (sv_trace s)"
    using grant_approve_ready [of E gc ?s g] g by simp_all
  moreover have "all_sessions (context_matches gc') s" if "gc' \<in> set (sys_waiting S)" for gc'
    using ok that by (auto simp: system_ok_def intro: harmless_context [OF h])
  moreover have "all_sessions session_consistent s \<and> all_sessions session_approved s"
    using ok h unfolding system_ok_def harmless_def by blast
  ultimately show ?thesis
    using w by (simp add: system_ok_def in_flight_def ready_matches_def)
qed

lemma system_refused:
  assumes ok: "system_ok S" and r: "profile_lock_free S" and w: "sys_waiting S = before @ gc # after"
    and g: "grant_approve E gc (sys_service S) = (Inl e, s)"
  shows "system_ok (S\<lparr>sys_service := s, sys_waiting := before @ after\<rparr>)"
proof (rule system_ok_harmless [OF ok])
  have mem: "memory_ok (in_flight S) (sys_service S)" using ok by (simp add: system_ok_def)
  show "harmless (sys_service S) s" using harmless_approve [of "sys_service S" E gc] g by simp
  show "memory_ok (in_flight (S\<lparr>sys_service := s, sys_waiting := before @ after\<rparr>)) s"
    using memory.grant_refused [OF mem, of E gc e] g by (simp add: in_flight_def)
qed (use w in auto)

text \<open>A commit does not disturb the grants that wait.\<close>

lemma commit_other_context:
  assumes "all_sessions (context_matches gc) s"
    and "gc_new (gy_context g) \<longrightarrow> gc_consumer_id gc \<noteq> gc_consumer_id (gy_context g)"
  shows "all_sessions (context_matches gc) (snd (grant_commit E g s))"
proof (rule context_of.holds_commit [OF assms(1)])
  fix c assume c: "commit_session E g s = Some c"
    and old: "gc_new (gy_context g) \<or> context_matches gc (sv_trace s) (sha256 (gc_token (gy_context g))) c"
  show "context_matches gc (sv_trace s) (sha256 (gc_token (gy_context g))) (installed g c)"
  proof (cases "gc_new (gy_context g)")
    case True
    then have "c = new_session g" using c by (auto simp: commit_session_def Let_def split: option.splits)
    then show ?thesis using True assms(2) by (simp add: context_matches_def new_session_def Let_def)
  qed (use old in \<open>simp add: context_matches_def\<close>)
qed

lemma system_committed:
  assumes ok: "system_ok S" and r: "sys_ready S = Some g" and fresh: "fresh_grant E g S"
  shows "system_ok (S\<lparr>sys_service := snd (grant_commit E g (sys_service S)), sys_ready := None\<rparr>)"
proof -
  let ?s = "sys_service S" let ?s' = "snd (grant_commit E g ?s)"
  let ?F = "in_flight (S\<lparr>sys_ready := None\<rparr>)"
  have mem: "memory_ok (gy_secret g # ?F) ?s"
    using ok r by (simp add: system_ok_def in_flight_def)
  have g: "ready_ok g (sv_trace ?s)" "all_sessions (context_matches (gy_context g)) ?s"
    using ok r by (simp_all add: system_ok_def ready_matches_def)
  have "memory_ok ?F ?s'"
    using mem by (rule memory_commit) (use fresh in \<open>auto simp: fresh_grant_def\<close>)
  moreover have "all_sessions session_consistent ?s'" "all_sessions session_approved ?s'"
    using ok g by (auto simp: system_ok_def intro: commit_consistent commit_approved)
  moreover have "all_sessions (context_matches gc) ?s'" if "gc \<in> set (sys_waiting S)" for gc
    using ok fresh that by (intro commit_other_context) (auto simp: system_ok_def fresh_grant_def)
  ultimately show ?thesis by (simp add: system_ok_def in_flight_def ready_matches_def)
qed

lemma system_running:
  assumes "system_ok S" and "harmless (sys_service S) s"
    and "memory_ok (in_flight (S\<lparr>sys_running := xs\<rparr>)) s"
  shows "system_ok (S\<lparr>sys_service := s, sys_running := xs\<rparr>)"
  using assms by (intro system_ok_harmless [OF assms(1)]) (auto simp: in_flight_def)

lemma system_child_starts:
  assumes ok: "system_ok S" and x: "execute_begin E r (sys_service S) = (Inr x, s)"
  shows "system_ok (S\<lparr>sys_service := s, sys_running := x # sys_running S\<rparr>)"
proof (rule system_running [OF ok])
  have mem: "memory_ok (in_flight S) (sys_service S)" using ok by (simp add: system_ok_def)
  have "memory_ok (xr_secret x # in_flight S) s"
    using memory.execute_begins [OF mem, of E r x] x by simp
  then show "memory_ok (in_flight (S\<lparr>sys_running := x # sys_running S\<rparr>)) s"
    by (rule memory.inv_reorder) (simp add: in_flight_def)
  show "harmless (sys_service S) s" using harmless_execute_begin [of "sys_service S" E r] x by simp
qed

lemma system_child_ends:
  assumes ok: "system_ok S" and w: "sys_running S = before @ x # after"
  shows "system_ok (S\<lparr>sys_service := snd (execute_finish E x (sys_service S)), sys_running := before @ after\<rparr>)"
proof (rule system_running [OF ok])
  have mem: "memory_ok (in_flight S) (sys_service S)" using ok by (simp add: system_ok_def)
  have "memory_ok (xr_secret x # in_flight (S\<lparr>sys_running := before @ after\<rparr>)) (sys_service S)"
    using mem by (rule memory.inv_reorder) (simp add: in_flight_def w)
  then show "memory_ok (in_flight (S\<lparr>sys_running := before @ after\<rparr>)) (snd (execute_finish E x (sys_service S)))"
    by (rule memory.execute_finishes)
qed (rule harmless_execute_finish)

text \<open>A phase of an operation on profiles hands its buffers to the next one.\<close>

lemma system_job:
  assumes "system_ok S" and "harmless (sys_service S) s"
    and "memory_ok (in_flight (S\<lparr>sys_job := j\<rparr>)) s"
  shows "system_ok (S\<lparr>sys_service := s, sys_job := j\<rparr>)"
  using assms by (intro system_ok_harmless [OF assms(1)]) (auto simp: in_flight_def)

lemma phase_in_flight:
  "mset (phase_buffers p @ in_flight (S\<lparr>sys_job := None\<rparr>)) =
     mset (in_flight (S\<lparr>sys_job := (case p of Done x \<Rightarrow> None | Next j \<Rightarrow> Some j)\<rparr>))"
  by (cases p) (simp_all add: in_flight_def)

lemma system_call_begins:
  assumes ok: "system_ok S" and free: "profile_lock_free S" and b: "begin_call E c (sys_service S) = (p, s)"
  shows "system_ok (S\<lparr>sys_service := s, sys_job := (case p of Done x \<Rightarrow> None | Next j \<Rightarrow> Some j)\<rparr>)"
proof (rule system_job [OF ok])
  have "in_flight (S\<lparr>sys_job := None\<rparr>) = in_flight S"
    using free by (simp add: in_flight_def profile_lock_free_def)
  then have "memory_ok (in_flight (S\<lparr>sys_job := None\<rparr>)) (sys_service S)"
    using ok by (simp add: system_ok_def)
  from memory.begins_call [OF this, of E c]
  show "memory_ok (in_flight (S\<lparr>sys_job := (case p of Done x \<Rightarrow> None | Next j \<Rightarrow> Some j)\<rparr>)) s"
    using b phase_in_flight by (auto intro: memory.inv_reorder)
  show "harmless (sys_service S) s" using harmless_begin_call [of "sys_service S" E c] b by simp
qed

lemma system_call_continues:
  assumes ok: "system_ok S" and j: "sys_job S = Some j" and fresh: "fresh_job j (sys_service S)"
    and n: "next_phase E j (sys_service S) = (p, s)"
  shows "system_ok (S\<lparr>sys_service := s, sys_job := (case p of Done x \<Rightarrow> None | Next j \<Rightarrow> Some j)\<rparr>)"
proof (rule system_job [OF ok])
  have "memory_ok (in_flight S) (sys_service S)" using ok by (simp add: system_ok_def)
  moreover have "S\<lparr>sys_job := Some j\<rparr> = S" using j by (cases S) simp
  then have "mset (in_flight S) = mset (job_buffers j @ in_flight (S\<lparr>sys_job := None\<rparr>))"
    using phase_in_flight [of "Next j" S] by simp
  ultimately have "memory_ok (job_buffers j @ in_flight (S\<lparr>sys_job := None\<rparr>)) (sys_service S)"
    by (rule memory.inv_reorder)
  from memory_daemon.continues [OF this fresh, of E]
  show "memory_ok (in_flight (S\<lparr>sys_job := (case p of Done x \<Rightarrow> None | Next j \<Rightarrow> Some j)\<rparr>)) s"
    using n phase_in_flight by (auto intro: memory.inv_reorder)
  show "harmless (sys_service S) s" using harmless_next_phase [OF fresh, of E] n by simp
qed

lemma system_step:
  assumes ok: "system_ok S" and step: "step E W S S'"
  shows "system_ok S'"
proof -
  have mem: "memory_ok (in_flight S) (sys_service S)" using ok by (simp add: system_ok_def)
  show ?thesis
    using step
  proof cases
    case (operation r)
    then show ?thesis
      using system_service [OF ok harmless_perform memory.performs [OF mem]] by simp
  next
    case (call_starts c j s)
    then show ?thesis using system_call_begins [OF ok] by fastforce
  next
    case (call_refused c x s)
    moreover from this have "S\<lparr>sys_service := s, sys_job := None\<rparr> = S\<lparr>sys_service := s\<rparr>"
      by (cases S) (simp add: profile_lock_free_def)
    ultimately show ?thesis using system_call_begins [OF ok, of E c "Done x" s] by simp
  next
    case (call_continues j j' s)
    then show ?thesis using system_call_continues [OF ok, of j E "Next j'" s] by simp
  next
    case (call_returns j x s)
    then show ?thesis using system_call_continues [OF ok, of j E "Done x" s] by simp
  next
    case (grant_starts r gc s)
    then show ?thesis using system_grant_starts [OF ok] by simp
  next
    case (grant_rejected r e s)
    then show ?thesis
      using system_service [OF ok harmless_begin memory.grant_begins [OF mem], of E r] by simp
  next
    case (approved before gc after g s)
    then show ?thesis using system_approved [OF ok] by simp
  next
    case (refused before gc after e s)
    then show ?thesis using system_refused [OF ok] by simp
  next
    case (committed g)
    then show ?thesis using system_committed [OF ok] by simp
  next
    case (child_starts r x s)
    then show ?thesis using system_child_starts [OF ok] by simp
  next
    case (child_refused r e s)
    then show ?thesis
      using system_service [OF ok, of s] harmless_execute_begin [of "sys_service S" E r]
        memory.execute_refused [OF mem, of E r e] by simp
  next
    case (child_ends before x after)
    then show ?thesis using system_child_ends [OF ok] by simp
  next
    case (shuffled s)
    then show ?thesis
      using system_service [OF ok harmless_reordered memory_reordered [OF mem]] by simp
  qed
qed

lemma system_start:
  assumes "starts E s"
  shows "system_ok (initial s)"
proof -
  obtain cfg aud fault i v t where n: "new_service E cfg aud fault i v t = Inr s"
    using assms by (auto simp: starts_def)
  then have e: "sv_consumers s = []" "sv_management s = []" "sv_heap s = []"
    by (cases "audit_load fault aud"; force simp: new_service_def)+
  then have "wf_state s" by (simp add: wf_state_def)
  then show ?thesis
    using e by (simp add: system_ok_def initial_def memory_ok_def owned_def in_flight_def
        all_sessions_def ready_matches_def)
qed

lemma system_reachable: "reachable E W S \<Longrightarrow> system_ok S"
  by (induction rule: reachable.induct) (auto intro: system_start system_step)

end
