(* ===== verification/Sample_Run.thy ===== *)
theory Sample_Run
  imports Samples System_Invariants
begin

text \<open>A run of the daemon from its start to its first lease, for the properties of reachable states.\<close>

definition sample_request :: grant_request where
  "sample_request =
     \<lparr>gr_profile = ''api'', gr_consumer_token = [], gr_consumer_label = ''agent'',
      gr_consumer_duration_seconds = 0, gr_reason = ''deploy'', gr_duration_seconds = 600\<rparr>"

lemma sample_prompts:
  "validate_prompt_field ''reason'' ''deploy'' 240 = None"
  "validate_prompt_field ''consumer label'' ''agent'' 80 = None"
  by (rule prompt_ascii; simp)+

lemma sample_default_duration:
  "seconds 0 = 0" "validate_consumer_duration default_consumer_duration = None"
  by (simp_all add: seconds_def validate_consumer_duration_def)

lemma sample_request_simps [simp]:
  "gr_profile sample_request = ''api''" "gr_consumer_token sample_request = []"
  "gr_consumer_label sample_request = ''agent''" "gr_consumer_duration_seconds sample_request = 0"
  "gr_reason sample_request = ''deploy''" "gr_duration_seconds sample_request = 600"
  by (simp_all add: sample_request_def)

definition sample_context :: grant_context where
  "sample_context =
     \<lparr>gc_request = sample_request, gc_new = True, gc_token = ''ksc_'' @ raw_url_encode (replicate 32 (char_of (1 :: nat))),
      gc_consumer_id = ''consumer_'' @ raw_url_encode (replicate 16 (char_of (2 :: nat))),
      gc_consumer_label = ''agent'', gc_consumer_expires_at = 86400000000000\<rparr>"

lemma sample_context_simps [simp]:
  "gc_request sample_context = sample_request" "gc_new sample_context"
  "gc_consumer_label sample_context = ''agent''" "gc_consumer_expires_at sample_context = 86400000000000"
  by (simp_all add: sample_context_def)

lemma sample_trim_request: "trim_request sample_request = sample_request"
  by (simp add: trim_request_def sample_trim)

lemma sample_begin:
  "grant_begin sample_env sample_request empty_service =
     (Inr sample_context, empty_service\<lparr>sv_calls := 3\<rparr>)"
  by (simp add: grant_begin_def sample_trim_request grant_new_consumer_def Let_def time_now_def
      random_capability_def random_identifier_def next_call_def sample_context_def time_add_def
      sample_prompts sample_default_duration numeral_2_eq_2)

definition sample_message :: gostring where
  "sample_message = grant_approval_message ''agent'' ''api'' ''deploy'' (seconds 600)"

definition sample_ready :: grant_ready where
  "sample_ready =
     \<lparr>gy_context = sample_context,
      gy_lease =
        \<lparr>lease_kind = [], lease_id = ''lease_'' @ raw_url_encode (replicate 16 (char_of (6 :: nat))),
         lease_consumer_id = gc_consumer_id sample_context, lease_consumer_label = ''agent'',
         lease_profile = ''api'', lease_env = ''API_TOKEN'', lease_reason = ''deploy'',
         lease_granted_at = 7, lease_expires_at = 600000000007\<rparr>,
      gy_secret = 0, gy_now = 7\<rparr>"

definition sample_approved :: service where
  "sample_approved = empty_service
     \<lparr>sv_calls := 8, sv_heap := [''s3cret''], sv_trace := [KeychainRead ''api'' sample_message True]\<rparr>"

lemma sample_load:
  "load_config sample_env (empty_service\<lparr>sv_calls := 3\<rparr>) =
     (Inr \<lparr>cfg_profiles = sample_profiles\<rparr>, empty_service\<lparr>sv_calls := 4\<rparr>)"
  by (simp add: load_config_def config_load_def next_call_def) (simp add: sample_config_def)

lemma sample_durations:
  "requested_duration sample_request
     \<lparr>profile_kind = [], profile_public_key = [], profile_env = ''API_TOKEN'', profile_lease_seconds = 600\<rparr> =
     Inr (seconds 600)"
  "capped_duration (time_sub 86400000000000 4) (seconds 600) = Inr (seconds 600)"
proof -
  have s: "sint (seconds 600) = 600000000000" "seconds 600 \<noteq> 0"
    by (simp_all add: seconds_def second_def)
  then show "requested_duration sample_request
     \<lparr>profile_kind = [], profile_public_key = [], profile_env = ''API_TOKEN'', profile_lease_seconds = 600\<rparr> =
     Inr (seconds 600)"
    by (simp add: requested_duration_def Let_def)
  show "capped_duration (time_sub 86400000000000 4) (seconds 600) = Inr (seconds 600)"
    using s by (simp add: capped_duration_def sint_time_sub)
qed

lemma sample_approve:
  "grant_approve sample_env sample_context (empty_service\<lparr>sv_calls := 3\<rparr>) = (Inr sample_ready, sample_approved)"
proof -
  have "grant_approve sample_env sample_context (empty_service\<lparr>sv_calls := 3\<rparr>) =
      grant_read sample_env sample_context ''api''
        \<lparr>profile_kind = [], profile_public_key = [], profile_env = ''API_TOKEN'', profile_lease_seconds = 600\<rparr>
        (seconds 600) (empty_service\<lparr>sv_calls := 5\<rparr>)"
    by (simp add: grant_approve_def sample_load resolve_def sample_profiles_def sample_durations
        time_now_def next_call_def)
  moreover have "time_add 7 (seconds 600) = 600000000007"
    by (simp add: time_add_def seconds_def second_def)
  ultimately show ?thesis
    by (simp add: grant_read_def keychain_read_def check_identity_def random_identifier_def
        alloc_def log_effect_def next_call_def time_now_def grant_message_def Let_def
        sample_ready_def sample_approved_def sample_message_def min_time_def)
qed

definition sample_system :: system where
  "sample_system = initial (snd (grant_commit sample_env sample_ready sample_approved))"

lemma sample_commit_session:
  "commit_session sample_env sample_ready sample_approved = Some (new_session sample_ready)"
  by (simp add: commit_session_def expire_locked_def sample_approved_def sample_ready_def)

lemma sample_approved_wf: "wf_state sample_approved"
  by (simp add: wf_state_def sample_approved_def)

text \<open>The state between the prompt and the commit.\<close>

definition sample_pending :: system where
  "sample_pending = initial empty_service\<lparr>sys_service := sample_approved, sys_ready := Some sample_ready\<rparr>"

lemma sample_pending_reachable: "reachable sample_env W sample_pending"
proof -
  let ?s0 = "empty_service" let ?s3 = "empty_service\<lparr>sv_calls := 3\<rparr>"
  let ?S1 = "initial ?s0\<lparr>sys_service := ?s3, sys_waiting := [sample_context]\<rparr>"
  have "new_service sample_env sample_config \<lparr>target = None, temporary = None\<rparr> None ''d'' ''1.0.0'' 0 = Inr ?s0"
    by (simp add: new_service_def audit_load_def empty_service_def)
  then have "reachable sample_env W (initial ?s0)" by (intro reachable.start) (unfold starts_def, blast)
  moreover have "step sample_env W (initial ?s0) ?S1"
    using step.grant_starts [of sample_env sample_request "initial ?s0" sample_context ?s3] sample_begin
    by (simp add: initial_def)
  moreover have "step sample_env W ?S1 sample_pending"
    using step.approved [of ?S1 "[]" sample_context "[]" sample_env sample_ready sample_approved] sample_approve
    by (simp add: initial_def profile_lock_free_def sample_pending_def)
  ultimately show ?thesis by (meson reachable.more)
qed

lemma sample_commits: "step sample_env W sample_pending sample_system"
proof -
  have "fresh_grant sample_env sample_ready sample_pending"
    by (simp add: fresh_grant_def sample_commit_session new_session_def Let_def initial_def sample_pending_def)
  then show ?thesis
    using step.committed [of sample_pending sample_ready sample_env]
    by (simp add: sample_pending_def sample_system_def initial_def)
qed

lemma sample_reachable: "reachable sample_env W sample_system"
  using sample_pending_reachable sample_commits by (rule reachable.more)

text \<open>The reachable state holds the lease.\<close>

lemma sample_granted:
  "go_get (sv_consumers (sys_service sample_system)) (sha256 (gc_token sample_context)) =
     Some (installed sample_ready (new_session sample_ready))"
  using commit_gets [OF sample_approved_wf sample_commit_session]
  by (simp add: sample_system_def initial_def sample_ready_def)

lemma sample_granted_leases:
  "cs_leases (installed sample_ready (new_session sample_ready)) =
     [(lease_id (gy_lease sample_ready), \<lparr>al_metadata = gy_lease sample_ready, al_secret = 0\<rparr>)]"
  by (simp add: installed_def new_session_def Let_def) (simp add: sample_ready_def)

lemma sample_calls: "sv_calls (sys_service sample_system) = 14"
proof -
  let ?h = "sha256 (gc_token sample_context)"
  let ?s = "start_consumer sample_env ?h sample_ready sample_approved"
  have e: "expire_locked sample_env t sample_approved = sample_approved" for t
    by (simp add: expire_locked_def sample_approved_def)
  have g: "gy_context sample_ready = sample_context" by (simp add: sample_ready_def)
  have target: "commit_target sample_env sample_ready sample_approved = Inr ?s"
    by (simp add: commit_target_at g) (simp add: sample_approved_def g)
  have calls: "sv_calls ?s = 11"
    by (simp add: start_consumer_def frame put_consumer_def) (simp add: sample_approved_def)
  have leases: "leases_at ?s ?h = []"
    by (simp add: leases_at_def start_consumers new_session_def Let_def) (simp add: sample_approved_def)
  have "sv_calls (install_lease sample_env ?h sample_ready ?s) = 14"
    by (simp add: install_lease_def Let_def frame leases calls put_lease_def)
  then show ?thesis
    by (simp add: sample_system_def initial_def grant_commit_def Let_def e target g)
qed

definition sample_child :: exec_request where
  "sample_child =
     \<lparr>er_consumer_token = gc_token sample_context, er_lease_id = lease_id (gy_lease sample_ready),
      er_arguments = [''ls''], er_working_directory = [], er_timeout_seconds = 60\<rparr>"

lemma sample_encoded:
  "raw_url_encode (replicate 32 (char_of (1 :: nat))) \<noteq> [] \<and>
   graphic (last (raw_url_encode (replicate 32 (char_of (1 :: nat)))))"
  "raw_url_encode (replicate 16 (char_of (6 :: nat))) \<noteq> [] \<and>
   graphic (last (raw_url_encode (replicate 16 (char_of (6 :: nat)))))"
  by code_simp+

lemma sample_child_trim:
  "trim_space (gc_token sample_context) = gc_token sample_context"
  "trim_space (lease_id (gy_lease sample_ready)) = lease_id (gy_lease sample_ready)"
  using sample_encoded
  by (auto intro!: trim_space_graphic simp: sample_context_def sample_ready_def)
    (simp_all add: graphic_def)

lemma sample_child_decision:
  "exec_decision sample_env sample_child (sys_service sample_system) =
     Inr \<lparr>al_metadata = gy_lease sample_ready, al_secret = 0\<rparr>"
proof -
  have b: "in_bounds second (30 * minute) (seconds 60)"
    by (simp add: in_bounds_def seconds_def minute_def second_def)
  have n: "gc_token sample_context \<noteq> []" "lease_id (gy_lease sample_ready) \<noteq> []"
    "lease_kind (gy_lease sample_ready) = []" "lease_expires_at (gy_lease sample_ready) = 600000000007"
    by (simp_all add: sample_context_def sample_ready_def)
  have c: "consumer_expires_at (cs_metadata (installed sample_ready (new_session sample_ready))) = 86400000000000"
    by (simp add: installed_def new_session_def Let_def) (simp add: sample_ready_def)
  then have "live_session sample_env (sys_service sample_system) (sha256 (gc_token sample_context)) =
      Some (installed sample_ready (new_session sample_ready))"
    by (simp add: live_session_def sample_granted sample_calls consumer_live_def)
      (rule keep_leases_all, simp add: sample_granted_leases lease_live_def n)
  then show ?thesis
    by (simp add: exec_decision_def sample_child_def sample_child_trim b n sample_granted_leases)
qed

end
