(* ===== verification/System_Properties.thy ===== *)
theory System_Properties
  imports Sample_Run Access_Properties
begin

text \<open>
  What holds in every state the daemon can reach, whatever requests arrive, in whatever order
  they interleave, whatever the outside answers and in whatever order the maps are visited.
\<close>

text \<open>C2: every_lease_was_approved.
  Every lease in a reachable state was approved by the human: the Keychain was read for its
  profile with a prompt that named its consumer, profile, reason and a duration within the
  lease limits, the read succeeded, and the lease ends no later than that duration after it was
  granted.\<close>

theorem every_lease_was_approved:
  assumes "reachable E W S" and "go_get (sv_consumers (sys_service S)) h = Some c"
    and "(i, l) \<in> set (cs_leases c)"
  shows "lease_approved (sv_trace (sys_service S)) (cs_metadata c) (al_metadata l)"
proof -
  have "all_sessions session_approved (sys_service S)"
    using system_reachable [OF assms(1)] by (simp add: system_ok_def)
  then have "session_approved (sv_trace (sys_service S)) h c"
    using assms(2) by (rule approval.holds_get)
  then show ?thesis using assms(3) by (force simp: session_approved_def)
qed

theorem every_lease_was_approved_witness:
  "lease_approved (sv_trace (sys_service sample_system))
     (cs_metadata (installed sample_ready (new_session sample_ready))) (gy_lease sample_ready)"
  using every_lease_was_approved [OF sample_reachable sample_granted] sample_granted_leases by force

text \<open>C14: leases_stay_within_limits.
  Every lease in a reachable state carries the identifier it is stored under and the identity of
  its consumer, ends no later than the consumer session and at most 24 hours after it was
  granted, and no consumer holds two leases of one profile.\<close>

theorem leases_stay_within_limits:
  assumes "reachable E W S" and "go_get (sv_consumers (sys_service S)) h = Some c"
  shows "(\<forall>e \<in> set (cs_leases c). lease_consistent (cs_metadata c) e) \<and> distinct (lease_profiles c)"
proof -
  have "all_sessions session_consistent (sys_service S)"
    using system_reachable [OF assms(1)] by (simp add: system_ok_def)
  then have "session_consistent (sv_trace (sys_service S)) h c"
    using assms(2) by (rule consistency.holds_get)
  then show ?thesis by (simp add: session_consistent_def)
qed

theorem leases_stay_within_limits_witness:
  "lease_consistent (cs_metadata (installed sample_ready (new_session sample_ready)))
     (lease_id (gy_lease sample_ready), \<lparr>al_metadata = gy_lease sample_ready, al_secret = 0\<rparr>)"
  using leases_stay_within_limits [OF sample_reachable sample_granted] sample_granted_leases by force

text \<open>C5: secrets_are_owned_or_zero.
  In every reachable state each buffer that ever held a secret belongs to exactly one lease,
  management session or operation in flight, or holds only zeros.\<close>

theorem secrets_are_owned_or_zero:
  assumes "reachable E W S"
  shows "distinct (owned (sys_service S) @ in_flight S) \<and>
    (\<forall>a < length (sv_heap (sys_service S)).
       a \<in> set (owned (sys_service S) @ in_flight S) \<or> zeroed (buffer (sys_service S) a))"
proof -
  have "memory_ok (in_flight S) (sys_service S)"
    using system_reachable [OF assms] by (simp add: system_ok_def)
  then show ?thesis unfolding memory_ok_def by blast
qed

theorem secrets_are_owned_or_zero_witness:
  "distinct (owned (sys_service sample_system) @ in_flight sample_system) \<and>
   list_all (\<lambda>a. a \<in> set (owned (sys_service sample_system) @ in_flight sample_system) \<or>
       zeroed (buffer (sys_service sample_system) a)) [0..<length (sv_heap (sys_service sample_system))]"
  using secrets_are_owned_or_zero [OF sample_reachable] by (simp add: list_all_iff)

end
