(* ===== verification/Redaction.thy ===== *)
theory Redaction
  imports Execution
begin

text \<open>
  What the executor guarantees: the bounded buffer keeps a prefix of what the child wrote, the
  environment of the child is the allowlist and the one approved variable, and no sensitive
  value that shares nothing with the marker is left in the returned text.
\<close>

section \<open>The buffer keeps a prefix\<close>

definition written :: "stream \<Rightarrow> (stream \<times> bytes) list \<Rightarrow> bytes" where
  "written which writes = concat (map snd (filter (\<lambda>w. fst w = which) writes))"

text \<open>The buffer after a stream \<open>w\<close> has been written to it: the reference for \<open>bb_write\<close>.\<close>

definition buffer_of :: "nat \<Rightarrow> bytes \<Rightarrow> bounded_buffer" where
  "buffer_of limit w =
     \<lparr>bb_contents = take limit w, bb_remaining = limit - length w, bb_truncated = limit < length w\<rparr>"

lemma bb_write_buffer_of: "snd (bb_write c (buffer_of limit w)) = buffer_of limit (w @ c)"
  by (auto simp: bb_write_def buffer_of_def Let_def)

lemma capture_buffer_of:
  "capture which writes (buffer_of limit w) = buffer_of limit (w @ written which writes)"
  by (induction writes arbitrary: w)
    (auto simp: capture_def written_def bb_write_buffer_of)

lemma capture_new:
  "capture which writes (new_bounded_buffer limit) = buffer_of limit (written which writes)"
  using capture_buffer_of [of which writes limit "[]"]
  by (simp add: buffer_of_def new_bounded_buffer_def)

section \<open>The environment\<close>

lemma inherit_loop_eq:
  "inherit_loop env acc b =
     (acc @ filter (\<lambda>v. \<exists>n. variable_name v = Some n \<and> n \<in> set inherited_environment_names) env,
      b \<or> (\<exists>v \<in> set env. variable_name v = Some ''PATH''))"
proof (induction env arbitrary: acc b)
  case (Cons v rest)
  have path: "''PATH'' \<in> set inherited_environment_names"
    by (simp add: inherited_environment_names_def)
  show ?case
    by (cases "variable_name v") (use Cons path in auto)
qed simp

lemma minimal_environment_eq:
  "minimal_environment env =
     filter (\<lambda>v. \<exists>n. variable_name v = Some n \<and> n \<in> set inherited_environment_names) env @
     (if \<exists>v \<in> set env. variable_name v = Some ''PATH'' then [] else [default_path])"
  by (simp add: minimal_environment_def inherit_loop_eq)

lemma variable_name_append:
  assumes "CHR ''='' \<notin> set n"
  shows "variable_name (n @ ''='' @ v) = Some n"
proof -
  have "str_index (n @ CHR ''='' # v) ''='' = Some (length n)"
    using assms by (induction n) (simp_all add: str_index.simps)
  then show ?thesis by (simp add: variable_name_def cut_def)
qed

lemma default_path_name: "variable_name default_path = Some ''PATH''"
proof -
  have "default_path = ''PATH'' @ ''='' @ drop 5 default_path"
    by (simp add: default_path_def)
  then show ?thesis
    using variable_name_append [of "''PATH''" "drop 5 default_path"] by simp
qed

lemma variable_name_prefix:
  assumes "variable_name v = Some n"
  shows "has_prefix v (n @ ''='')"
proof -
  from assms obtain rest where "cut v ''='' = (n, rest, True)"
    by (auto simp: variable_name_def split: prod.splits if_splits)
  then have "v = n @ ''='' @ rest" by (rule cut_found)
  then show ?thesis by simp
qed

lemma path_inherited: "''PATH'' \<in> set inherited_environment_names"
  by (simp add: inherited_environment_names_def)

lemma minimal_environment_allowed:
  "v \<in> set (minimal_environment env) \<Longrightarrow>
     \<exists>n. variable_name v = Some n \<and> n \<in> set inherited_environment_names"
  using default_path_name path_inherited by (auto simp: minimal_environment_eq split: if_splits)

lemma minimal_environment_path:
  "\<exists>v \<in> set (minimal_environment env). variable_name v = Some ''PATH''"
  using default_path_name path_inherited by (auto simp: minimal_environment_eq)

lemma with_environment_unique:
  "filter (\<lambda>v. has_prefix v (name @ ''='')) (with_environment env name value) = [name @ ''='' @ value]"
  by (simp add: with_environment_def filter_False)

section \<open>Redaction removes every occurrence\<close>

text \<open>
  A value is apart from a text when it is not empty, neither begins nor ends with one of its
  characters, and does not contain it: then replacing something by the text cannot make a new
  occurrence of the value.
\<close>

definition apart :: "gostring \<Rightarrow> gostring \<Rightarrow> bool" where
  "apart v m \<longleftrightarrow> v \<noteq> [] \<and> m \<noteq> [] \<and> hd v \<notin> set m \<and> last v \<notin> set m \<and> \<not> sublist m v"

lemma apart_across:
  assumes "apart v m" and sub: "sublist v (x @ m @ y)"
  shows "sublist v x \<or> sublist v y"
proof -
  have ap: "v \<noteq> []" "m \<noteq> []" "hd v \<notin> set m" "last v \<notin> set m" "\<not> sublist m v"
    using assms(1) by (auto simp: apart_def)
  from sub consider "sublist v x" | "sublist v (m @ y)"
    | v1 v2 where "v = v1 @ v2" "suffix v1 x" "prefix v2 (m @ y)"
    by (auto simp: sublist_append [of v x])
  then show ?thesis
  proof cases
    case 2
    then consider "sublist v m" | "sublist v y"
      | v1 v2 where "v = v1 @ v2" "suffix v1 m" "prefix v2 y"
      by (auto simp: sublist_append [of v m])
    then show ?thesis
    proof cases
      case 1
      then have "hd v \<in> set m" using ap(1) hd_in_set set_mono_sublist by blast
      with ap show ?thesis by blast
    next
      case 3
      then show ?thesis
        using ap(1,3) by (cases v1) (auto dest: set_mono_suffix)
    qed simp
  next
    case 3
    show ?thesis
    proof (cases "v1 = [] \<or> v2 = []")
      case True
      then show ?thesis
      proof
        assume "v1 = []"
        with 3 ap have "prefix v (m @ y)" by simp
        then have "hd v = hd m" using ap(1,2) by (auto simp: prefix_def hd_append dest: arg_cong [of _ _ hd])
        with ap show ?thesis by simp
      qed (use 3 in auto)
    next
      case False
      from 3(3) consider "prefix v2 m" | r where "v2 = m @ r"
        by (auto simp: prefix_append)
      then show ?thesis
      proof cases
        case 1
        then have "last v2 \<in> set m"
          using False set_mono_prefix [of v2 m] last_in_set [of v2] by blast
        with 3(1) False ap show ?thesis by simp
      next
        case 2
        with 3(1) have "v = v1 @ m @ r" by simp
        then have "sublist m v" by (auto simp: sublist_def)
        with ap show ?thesis by simp
      qed
    qed
  qed simp
qed

text \<open>Replacing anything else does not bring back a value that is gone.\<close>

lemma replace_all_keeps_clean:
  assumes "apart v m" and "w \<noteq> []"
  shows "\<not> sublist v (u @ t) \<Longrightarrow> \<not> sublist v (u @ replace_all w m t)"
proof (induction t arbitrary: u rule: measure_induct_rule [of length])
  case (less t)
  show ?case
  proof (cases "prefix w t")
    case True
    then obtain t' where t: "t = w @ t'" by (auto simp: prefix_def)
    then have clean: "\<not> sublist v u" "\<not> sublist v t'"
      using less.prems by (auto simp: sublist_append)
    have "\<not> sublist v (replace_all w m t')"
      using less.IH [of t' "[]"] clean(2) t assms(2) by simp
    moreover have "replace_all w m t = m @ replace_all w m t'"
      using t assms(2) by (simp add: replace_all_match)
    ultimately show ?thesis
      using apart_across [OF assms(1)] clean(1) by metis
  next
    case False
    show ?thesis
    proof (cases t)
      case Nil
      with less.prems show ?thesis by simp
    next
      case (Cons c cs)
      with less.IH [of cs "u @ [c]"] less.prems False assms(2)
      show ?thesis by (simp add: replace_all_step)
    qed
  qed
qed

text \<open>Replacing the value itself removes it.\<close>

lemma replace_all_removes_from:
  assumes "apart v m"
  shows "\<forall>i < length u. \<not> prefix v (drop i (u @ t)) \<Longrightarrow> \<not> sublist v (u @ replace_all v m t)"
proof (induction t arbitrary: u rule: measure_induct_rule [of length])
  case (less t)
  have ne: "v \<noteq> []" using assms by (simp add: apart_def)
  have not_u: "\<not> sublist v u"
  proof
    assume "sublist v u"
    then obtain p s where "u = p @ v @ s" by (auto simp: sublist_def)
    with less.prems ne show False by (auto dest: spec [of _ "length p"])
  qed
  show ?case
  proof (cases "prefix v t")
    case True
    then obtain t' where t: "t = v @ t'" by (auto simp: prefix_def)
    have "\<not> sublist v (replace_all v m t')"
      using less.IH [of t' "[]"] t ne by simp
    moreover have "replace_all v m t = m @ replace_all v m t'"
      using t ne by (simp add: replace_all_match)
    ultimately show ?thesis
      using apart_across [OF assms] not_u by metis
  next
    case False
    show ?thesis
    proof (cases t)
      case Nil
      with not_u show ?thesis by simp
    next
      case (Cons c cs)
      have "\<forall>i < length (u @ [c]). \<not> prefix v (drop i ((u @ [c]) @ cs))"
        using less.prems False Cons by (auto simp: less_Suc_eq)
      with less.IH [of cs "u @ [c]"] False Cons ne
      show ?thesis by (simp add: replace_all_step)
    qed
  qed
qed

lemma replace_all_removes: "apart v m \<Longrightarrow> \<not> sublist v (replace_all v m t)"
  using replace_all_removes_from [of v m "[]" t] by simp

lemma redact_keeps_clean:
  "apart v redaction_marker \<Longrightarrow> \<not> sublist v t \<Longrightarrow> \<not> sublist v (redact t vs)"
proof (induction vs arbitrary: t)
  case (Cons w vs)
  let ?t = "if w \<noteq> [] then replace_all w redaction_marker t else t"
  have "\<not> sublist v ?t"
    using replace_all_keeps_clean [OF Cons.prems(1), of w "[]" t] Cons.prems(2) by simp
  with Cons show ?case by (simp add: redact_def)
qed (simp add: redact_def)

lemma redact_removes:
  "v \<in> set vs \<Longrightarrow> apart v redaction_marker \<Longrightarrow> \<not> sublist v (redact t vs)"
proof (induction vs arbitrary: t)
  case (Cons w vs)
  show ?case
  proof (cases "v = w")
    case True
    then have "w \<noteq> []" using Cons.prems by (auto simp: apart_def)
    then have "redact t (w # vs) = redact (replace_all w redaction_marker t) vs"
      by (simp add: redact_def)
    with True Cons.prems show ?thesis
      using redact_keeps_clean replace_all_removes by metis
  next
    case False
    with Cons show ?thesis by (simp add: redact_def)
  qed
qed simp

lemma redact_absent: "\<forall>v \<in> set vs. v \<noteq> [] \<longrightarrow> \<not> sublist v t \<Longrightarrow> redact t vs = t"
  by (induction vs arbitrary: t) (auto simp: redact_def replace_all_absent)

end
