(* ===== verification/Execution_Properties.thy ===== *)
theory Execution_Properties
  imports Redaction Config Base64
begin

text \<open>The properties of the executor, of the validators and of the files.\<close>

section \<open>Running a child\<close>

text \<open>C18: output_is_redacted.
  For every outcome of the child, a sensitive value that shares no boundary character with the
  marker does not occur in the standard output or the standard error that is returned, unless
  the run timed out, whose message is fixed.\<close>

theorem output_is_redacted:
  assumes "v \<in> set (values_to_redact url_password secret)" and "apart v redaction_marker"
    and "\<not> (co_error out \<noteq> None \<and> co_deadline out)"
  shows "\<not> sublist v (cres_stdout (command_outcome url_password limit secret t out)) \<and>
    \<not> sublist v (cres_stderr (command_outcome url_password limit secret t out))"
  using assms by (auto simp: command_outcome_def Let_def redact_removes split: option.split run_error.split)

theorem output_is_redacted_witness:
  "\<not> sublist ''hunter2'' (cres_stdout (command_outcome (\<lambda>u. None) 1048576 ''hunter2'' minute
     \<lparr>co_writes = [(Stdout, ''pw hunter2'')], co_deadline = False, co_error = None\<rparr>))"
  using output_is_redacted [of "''hunter2''" "\<lambda>u. None" "''hunter2''"
      "\<lparr>co_writes = [(Stdout, ''pw hunter2'')], co_deadline = False, co_error = None\<rparr>" 1048576 minute]
  by (simp add: values_to_redact_def apart_def redaction_marker_def sublist_code)

text \<open>When the child does not time out, what is returned for its standard output is the redaction of
  the first bytes it wrote, at most the limit, followed by the notice exactly when it wrote
  more; the split of the output into writes does not matter.\<close>

theorem captured_output_is_a_prefix:
  assumes "\<not> (co_error out \<noteq> None \<and> co_deadline out)"
  shows "cres_stdout (command_outcome url_password limit secret t out) =
    redact (take limit (written Stdout (co_writes out)) @
        (if limit < length (written Stdout (co_writes out)) then truncation_notice else []))
      (values_to_redact url_password secret)"
  using assms
  by (auto simp: command_outcome_def Let_def capture_new buffer_of_def bb_string_def
      split: option.split run_error.split)

theorem captured_output_is_a_prefix_witness:
  "cres_stdout (command_outcome (\<lambda>u. None) 4 ''hunter2'' minute
     \<lparr>co_writes = [(Stdout, ''ab''), (Stderr, ''x''), (Stdout, ''cde'')], co_deadline = False, co_error = None\<rparr>) =
   redact (''abcd'' @ truncation_notice) [''hunter2'']"
  using captured_output_is_a_prefix [of "\<lparr>co_writes = [(Stdout, ''ab''), (Stderr, ''x''), (Stdout, ''cde'')],
      co_deadline = False, co_error = None\<rparr>" "\<lambda>u. None" 4 "''hunter2''" minute]
  by (simp add: written_def values_to_redact_def)

text \<open>Redaction sees only the captured prefix: a secret that straddles the capture limit is returned
  up to the limit, without a marker.\<close>

theorem truncation_can_split_a_secret:
  assumes "limit < length pad + length secret" and "secret \<noteq> []"
    and "\<not> sublist secret (take limit (pad @ secret) @ truncation_notice)"
  shows "cres_stdout (command_outcome (\<lambda>u. None) limit secret t
      \<lparr>co_writes = [(Stdout, pad @ secret)], co_deadline = False, co_error = None\<rparr>) =
    pad' @ take (limit - length pad) secret @ truncation_notice \<longleftrightarrow> pad' = take limit pad"
proof -
  have "redact (take limit (pad @ secret) @ truncation_notice) [secret] =
      take limit (pad @ secret) @ truncation_notice"
    using assms(3) by (intro redact_absent) simp
  then show ?thesis
    using assms(1)
    by (auto simp: command_outcome_def Let_def capture_new buffer_of_def bb_string_def written_def
        values_to_redact_def)
qed

theorem truncation_can_split_a_secret_witness:
  "cres_stdout (command_outcome (\<lambda>u. None) 5 ''hunter2'' minute
     \<lparr>co_writes = [(Stdout, ''pw hunter2'')], co_deadline = False, co_error = None\<rparr>) =
   ''pw '' @ ''hu'' @ truncation_notice"
  using truncation_can_split_a_secret [of 5 "''pw ''" "''hunter2''" minute "''pw ''"]
  by (simp add: truncation_notice_def sublist_code)

lemma inherited_name:
  assumes "CHR ''='' \<notin> set n"
  shows "variable_name v = Some n \<longleftrightarrow> has_prefix v (n @ ''='')"
proof
  assume "has_prefix v (n @ ''='')"
  then obtain rest where "v = n @ ''='' @ rest" by (auto simp: prefix_def)
  then show "variable_name v = Some n" using variable_name_append [OF assms, of rest] by simp
qed (rule variable_name_prefix)

lemma inherited_names_clean: "n \<in> set inherited_environment_names \<Longrightarrow> CHR ''='' \<notin> set n"
  by (auto simp: inherited_environment_names_def)

lemma minimal_environment_by_prefix:
  "minimal_environment env =
     filter (\<lambda>v. list_ex (\<lambda>n. has_prefix v (n @ ''='')) inherited_environment_names) env @
     (if list_ex (\<lambda>v. has_prefix v ''PATH='') env then [] else [default_path])"
  using inherited_name [OF inherited_names_clean] inherited_name [of "''PATH''"]
  by (auto simp: minimal_environment_eq list_ex_iff intro!: filter_cong)

text \<open>C19: child_environment_is_minimal.
  The environment of the child is made of all entries of the daemon's environment for a variable of
  the allowlist, in their order, followed by the default path when none of them is for the path;
  from these every entry of the approved variable is dropped, and one entry for it, which holds
  the secret, comes last. The child is the program that was asked for with its arguments, in the
  directory that was asked for.\<close>

theorem child_environment_is_minimal:
  assumes "prepare_command os_environ secret var arguments dir t = Inr command"
  shows "cc_environment command =
      filter (\<lambda>v. \<not> has_prefix v (var @ ''=''))
        (filter (\<lambda>v. list_ex (\<lambda>n. has_prefix v (n @ ''='')) inherited_environment_names) os_environ @
         (if list_ex (\<lambda>v. has_prefix v ''PATH='') os_environ then [] else [default_path])) @
      [var @ ''='' @ secret] \<and>
    inherited_environment_names =
      [''COLORTERM'', ''HOME'', ''LANG'', ''LC_ALL'', ''LC_CTYPE'', ''LOGNAME'', ''NO_COLOR'', ''PATH'',
       ''SHELL'', ''TEMP'', ''TERM'', ''TMP'', ''TMPDIR'', ''TZ'', ''USER''] \<and>
    cc_program command # cc_arguments command = arguments \<and> cc_directory command = dir"
proof -
  have "cc_environment command = with_environment (minimal_environment os_environ) var secret"
    "cc_program command # cc_arguments command = arguments" "cc_directory command = dir"
    using assms by (cases arguments; auto simp: prepare_command_def)+
  then show ?thesis
    by (simp add: with_environment_def Let_def minimal_environment_by_prefix) (simp add: inherited_environment_names_def)
qed

theorem child_environment_is_minimal_witness:
  "\<exists>command. prepare_command [''EDITOR=vi'', ''HOME=/u'', ''API=old''] ''s'' ''API'' [''ls''] ''/tmp'' minute = Inr command \<and>
     cc_environment command = [''HOME=/u'', default_path, ''API=s'']"
proof -
  let ?e = "[''EDITOR=vi'', ''HOME=/u'', ''API=old'']"
  obtain command where c: "prepare_command ?e ''s'' ''API'' [''ls''] ''/tmp'' minute = Inr command"
    by (simp add: prepare_command_def)
  have "\<not> has_prefix default_path ''API=''" by code_simp
  then show ?thesis
    using child_environment_is_minimal [OF c] c by (simp add: inherited_environment_names_def)
qed

section \<open>Validation\<close>

text \<open>A prompt field is accepted exactly when it is not empty, has at most the allowed number of
  characters and neither one of its characters nor one of its bytes is a control character, so
  that it cannot break a line of the prompt.\<close>

theorem prompt_fields_are_printable:
  "validate_prompt_field name v n = None \<longleftrightarrow>
     v \<noteq> [] \<and> length (runes v) \<le> n \<and> \<not> list_ex (\<lambda>r. r < 32 \<or> r = 127) (runes v) \<and>
     \<not> list_ex (\<lambda>c. byte_of c < (32 :: nat) \<or> byte_of c = (127 :: nat)) v"
  using prompt_accepted_bytes [of name v n]
  by (auto simp: validate_prompt_field_def list_ex_iff not_less not_le)

text \<open>For lease defaults that are a number of seconds the 64-bit duration can hold, a profile is
  accepted exactly when its name matches the pattern, its variable is accepted and the default
  is between one minute and 24 hours.\<close>

theorem profile_limits:
  assumes "\<bar>sint n\<bar> \<le> 9223372036"
  shows "validate_profile name var n = None \<longleftrightarrow>
    profile_name_pattern name \<and> validate_environment var = None \<and> 60 \<le> sint n \<and> sint n \<le> 86400"
  using assms by (auto simp: validate_profile_None in_bounds_def sint_seconds_exact)

theorem profile_limits_witness:
  "(validate_profile ''api'' ''API_TOKEN'' 600 = None) =
     (profile_name_pattern ''api'' \<and> validate_environment ''API_TOKEN'' = None)"
  using profile_limits [of 600 "''api''" "''API_TOKEN''"] by simp

text \<open>The product of seconds and nanoseconds wraps: a default of two to the power 55 plus 60 seconds,
  more than a billion years, passes the check for 24 hours.\<close>

theorem huge_default_is_accepted:
  "validate_profile ''api'' ''API_TOKEN'' 36028797018964028 = None \<and>
   sint (36028797018964028 :: int64) = 36028797018964028 \<and> sint (seconds 36028797018964028) = 60000000000"
proof -
  have s: "sint (seconds 36028797018964028) = 60000000000"
    by (simp add: seconds_def second_def)
  have "profile_name_pattern ''api''" "validate_environment ''API_TOKEN'' = None"
    by code_simp+
  then show ?thesis using s by (simp add: validate_profile_None in_bounds_def)
qed

section \<open>Files\<close>

text \<open>A configuration whose save reports success is what the next load returns.\<close>

theorem config_save_then_load:
  assumes "config_save fault cfg d = (None, d')"
  shows "config_load None d' = Inr cfg"
  using assms by (rule config_save_success)

theorem config_save_then_load_witness:
  "config_load None (snd (config_save (\<lambda>i. None) \<lparr>cfg_profiles = []\<rparr> \<lparr>target = None, temporary = None\<rparr>)) =
     Inr \<lparr>cfg_profiles = []\<rparr>"
proof (rule config_save_then_load)
  show "config_save (\<lambda>i. None) \<lparr>cfg_profiles = []\<rparr> \<lparr>target = None, temporary = None\<rparr> =
      (None, snd (config_save (\<lambda>i. None) \<lparr>cfg_profiles = []\<rparr> \<lparr>target = None, temporary = None\<rparr>))"
    by (simp add: config_save_def replace_file_def config_save_ops_def Let_def)
qed

text \<open>C40: config_file_survives_crashes.
  Wherever the process is killed during a save, the configuration file holds either what it
  held before or the complete new configuration with owner-only permissions.\<close>

theorem config_file_survives_crashes:
  "target (crash_after k (config_save_ops (Some (cfg_profiles cfg))) d) \<in>
     {target d, Some (new_file (Some (cfg_profiles cfg)))}"
  by (rule config_writer.crash_target)

text \<open>The text in which an SSH seed is stored decodes to the seed again.\<close>

theorem seed_survives_the_keychain:
  "std_decode (std_encode seed) = Some seed"
  by (rule std_decode_encode)

end
