(* ===== verification/Profile_Properties.thy ===== *)
theory Profile_Properties
  imports Samples
begin

text \<open>The properties of the operations on profiles and of management sessions.\<close>

section \<open>Frames of the operations\<close>

lemma save_frame [frame]:
  "sv_consumers (snd (save_config E cfg s)) = sv_consumers s"
  "sv_management (snd (save_config E cfg s)) = sv_management s"
  "sv_trace (snd (save_config E cfg s)) = sv_trace s"
  by (simp_all add: save_config_def Let_def frame)

lemma keychain_store_frame [frame]:
  "sv_consumers (snd (keychain_store E n b s)) = sv_consumers s"
  "sv_management (snd (keychain_store E n b s)) = sv_management s"
  "sv_config (snd (keychain_store E n b s)) = sv_config s"
  by (simp_all add: keychain_store_def Let_def frame log_effect_def)

lemma keychain_store_ok:
  "fst (keychain_store E n b s) = None \<Longrightarrow> b \<noteq> [] \<and>
     sv_trace (snd (keychain_store E n b s)) = KeychainStore n b True # sv_trace s"
  by (simp add: keychain_store_def Let_def frame log_effect_def split: if_splits)

lemma keychain_delete_frame [frame]:
  "sv_consumers (snd (keychain_delete_with_approval E n s)) = sv_consumers s"
  "sv_management (snd (keychain_delete_with_approval E n s)) = sv_management s"
  "sv_config (snd (keychain_delete_with_approval E n s)) = sv_config s"
  by (simp_all add: keychain_delete_with_approval_def Let_def frame log_effect_def)

lemma save_ok:
  "fst (save_config E cfg s) = None \<Longrightarrow> config_load None (sv_config (snd (save_config E cfg s))) = Inr cfg"
  using config_save_success [of "env_write_fault E (sv_calls s)" cfg "sv_config s"]
  by (simp add: save_config_def Let_def frame) (metis prod.collapse)

lemma wf_frame:
  "wf_state (snd (save_config E cfg s)) = wf_state s"
  "wf_state (snd (keychain_store E n b s)) = wf_state s"
  "wf_state (snd (keychain_delete_with_approval E n s)) = wf_state s"
  "wf_state (snd (load_config E s)) = wf_state s"
  "wf_state (snd (alloc b s)) = wf_state s"
  "wf_state (snd (time_now E s)) = wf_state s"
  by (simp_all add: wf_state_def frame)

section \<open>Authorization to manage\<close>

text \<open>The session a management token stands for, at a time.\<close>

definition managed :: "service \<Rightarrow> time \<Rightarrow> gostring \<Rightarrow> gostring \<Rightarrow> bool" where
  "managed s now name token \<longleftrightarrow>
     (case go_get (sv_management s) token of
        None \<Rightarrow> False
      | Some m \<Rightarrow> ms_profile m = name \<and> now < ms_expires_at m)"

lemma expire_management_get:
  "wf_state s \<Longrightarrow> go_get (sv_management (expire_management_sessions_locked now s)) t =
     (case go_get (sv_management s) t of None \<Rightarrow> None
      | Some m \<Rightarrow> if now < ms_expires_at m then Some m else None)"
  using map_of_map_filter [of "sv_management s" "\<lambda>m. m" "\<lambda>m. now < ms_expires_at m" t]
  by (simp add: expire_management_eq wf_state_def)

lemma consume_result:
  assumes "wf_state s"
  shows "fst (consume_management_session E name token s) =
    (if managed s (env_clock E (sv_calls s)) name token then None else Some ManagementMissing)"
  using assms
  by (simp add: consume_management_session_def time_now_def managed_def Let_def frame
      expire_management_get wf_next_call split: option.split)

lemma consume_frame [frame]:
  "sv_consumers (snd (consume_management_session E n t s)) = sv_consumers s"
  "sv_config (snd (consume_management_session E n t s)) = sv_config s"
  "sv_trace (snd (consume_management_session E n t s)) = sv_trace s"
  by (simp_all add: consume_management_session_def Let_def case_prod_beta frame
      expire_management_sessions_locked_def split: option.split)

lemma sweep_management_calls: "sv_calls (sweep_management keep ms s) = sv_calls s"
  by (induction ms arbitrary: s) (auto simp: frame)

lemma consume_gone:
  assumes "wf_state s" and "fst (consume_management_session E name token s) = None"
  shows "go_get (sv_management (snd (consume_management_session E name token s))) token = None"
  using assms(2)
  by (auto simp: consume_management_session_def Let_def case_prod_beta drop_management_sessions gm.get_del
      split: option.splits if_splits)

lemma wf_consume: "wf_state s \<Longrightarrow> wf_state (snd (consume_management_session E n t s))"
  by (simp add: consume_management_session_def Let_def case_prod_beta wf_drop_management
      wf_kept.expire_management wf_frame split: option.split)

section \<open>Updating\<close>

lemma forgotten_profile:
  assumes "wf_state s" and "go_get (sv_consumers (clear_profile_leases_locked E n d s)) h = Some c"
  shows "\<forall>e \<in> set (cs_leases c). lease_profile (al_metadata (snd e)) \<noteq> n"
proof -
  let ?keep = "\<lambda>l. lease_profile (al_metadata l) \<noteq> n"
  have "(h, c) \<in> set (map (\<lambda>(h, c). (h, keep_leases ?keep c)) (sv_consumers s))"
    using go_get_mem [OF assms(2)] by (simp add: clear_profile_consumers [OF assms(1)])
  then show ?thesis by auto
qed

text \<open>No consumer holds a lease of the profile.\<close>

definition no_lease_of :: "gostring \<Rightarrow> service \<Rightarrow> bool" where
  "no_lease_of n s \<longleftrightarrow> (\<forall>e \<in> set (sv_consumers s). n \<notin> set (lease_profiles (snd e)))"

lemma clear_profile_no_lease: "wf_state s \<Longrightarrow> no_lease_of n (clear_profile_leases_locked E n d s)"
  by (auto simp: no_lease_of_def clear_profile_consumers lease_profiles_def)

lemma no_lease_record: "no_lease_of n (record_locked E k p cid lab r d s) = no_lease_of n s"
  by (simp add: no_lease_of_def frame)

lemma no_lease_frame: "sv_consumers s' = sv_consumers s \<Longrightarrow> no_lease_of n s' = no_lease_of n s"
  by (simp add: no_lease_of_def)

lemma update_secret_ok:
  assumes "wf_state s" and "fst (update_secret E n r cfg a s) = None"
  shows "no_lease_of n (snd (update_secret E n r cfg a s))"
    and "config_load None (sv_config (snd (update_secret E n r cfg a s))) =
      Inr (put_profile n (secret_profile (pu_env r) (pu_lease_seconds r)) cfg)"
    and "sv_trace (snd (update_secret E n r cfg a s)) = KeychainStore n (buffer s a) True # sv_trace s"
    and "sv_management (snd (update_secret E n r cfg a s)) = sv_management s"
proof -
  let ?s1 = "snd (keychain_store E n (buffer s a) s)"
  let ?cfg = "put_profile n (secret_profile (pu_env r) (pu_lease_seconds r)) cfg"
  have k: "fst (keychain_store E n (buffer s a) s) = None" and c: "fst (save_config E ?cfg ?s1) = None"
    using assms(2) by (auto simp: update_secret_def case_prod_beta split: option.splits)
  then have eq: "snd (update_secret E n r cfg a s) =
      record_locked E ''profile_updated'' n [] ''Key Session.app'' ''Human profile management''
        ''Profile updated in an approved management session''
        (clear_profile_leases_locked E n ''Profile changed'' (snd (save_config E ?cfg ?s1)))"
    by (simp add: update_secret_def case_prod_beta)
  show "no_lease_of n (snd (update_secret E n r cfg a s))"
    unfolding eq no_lease_record by (rule clear_profile_no_lease) (simp add: wf_frame assms(1))
  show "config_load None (sv_config (snd (update_secret E n r cfg a s))) = Inr ?cfg"
    unfolding eq using save_ok [OF c] by (simp add: frame)
  show "sv_trace (snd (update_secret E n r cfg a s)) = KeychainStore n (buffer s a) True # sv_trace s"
    unfolding eq using keychain_store_ok [OF k] by (simp add: frame)
  show "sv_management (snd (update_secret E n r cfg a s)) = sv_management s"
    unfolding eq by (simp add: frame)
qed

lemma clear_bytes_no_lease: "no_lease_of n (clear_bytes a s) = no_lease_of n s"
  by (rule no_lease_frame) (simp add: frame)

lemma alloc_buffer: "buffer (snd (alloc bs s)) (fst (alloc bs s)) = bs"
  by (simp add: alloc_def buffer_def)

lemma load_buffer: "buffer (snd (load_config E s)) a = buffer s a"
  by (simp add: load_config_def buffer_def frame)

lemma now_buffer: "buffer (snd (time_now E s)) a = buffer s a"
  by (simp add: time_now_def buffer_def frame)

lemma consume_buffer:
  assumes "memory_ok (a # F) s"
  shows "buffer (snd (consume_management_session E n t s)) a = buffer s a"
proof -
  let ?s2 = "expire_management_sessions_locked (fst (time_now E s)) (snd (time_now E s))"
  have 1: "memory_ok (a # F) (snd (time_now E s))" using assms by (rule memory.now)
  have 2: "memory_ok (a # F) ?s2" using 1 by (rule memory_kept.expire_management)
  have "buffer ?s2 a = buffer s a" using in_flight_contents(1) [OF 1] by (simp add: now_buffer)
  then show ?thesis
    using in_flight_contents(2) [OF 2]
    by (simp add: consume_management_session_def Let_def case_prod_beta split: option.split)
qed

text \<open>C23: update_needs_a_management_session.
  \<^verbatim>\<open>UpdateProfile\<close> succeeds only with a management token of that profile that has not expired; it
  then has stored exactly the given secret, saved exactly the given metadata for a profile that is
  not an SSH identity, removed every lease of the profile, and used the token up.\<close>

theorem update_needs_a_management_session:
  assumes "memory_ok F s" and "fst (update_profile E n r s) = None"
  shows "managed s (env_clock E (Suc (sv_calls s))) n (pu_management_token r) \<and>
    go_get (sv_management (snd (update_profile E n r s))) (pu_management_token r) = None \<and>
    no_lease_of n (snd (update_profile E n r s)) \<and>
    sv_trace (snd (update_profile E n r s)) = KeychainStore n (pu_secret r) True # sv_trace s \<and>
    (\<exists>cfg. fst (load_config E s) = Inr cfg \<and> kind_of cfg n \<noteq> ''ssh'' \<and>
      config_load None (sv_config (snd (update_profile E n r s))) =
        Inr (put_profile n (secret_profile (pu_env r) (pu_lease_seconds r)) cfg))"
proof -
  let ?s1 = "snd (alloc (pu_secret r) s)" let ?a = "fst (alloc (pu_secret r) s)"
  let ?s2 = "snd (load_config E ?s1)" let ?s3 = "snd (consume_management_session E n (pu_management_token r) ?s2)"
  have ok1: "memory_ok (?a # F) ?s1" using assms(1) by (rule memory.allocs)
  then have ok2: "memory_ok (?a # F) ?s2" by (rule memory.loads)
  have wf3: "wf_state ?s3" by (rule wf_consume) (rule memory_wf [OF ok2])
  obtain cfg where cfg: "fst (load_config E ?s1) = Inr cfg" "kind_of cfg n \<noteq> ''ssh''"
    "fst (consume_management_session E n (pu_management_token r) ?s2) = None"
    "fst (update_secret E n r cfg ?a ?s3) = None"
    and eq: "snd (update_profile E n r s) = clear_bytes ?a (snd (update_secret E n r cfg ?a ?s3))"
    using assms(2)
    by (auto simp: update_profile_def update_checked_def case_prod_beta Let_def
        split: option.splits sum.splits if_splits)
  have b: "buffer ?s3 ?a = pu_secret r"
    using consume_buffer [OF ok2] by (simp add: load_buffer alloc_buffer)
  have calls: "sv_calls ?s2 = Suc (sv_calls s)" and same: "sv_management ?s2 = sv_management s"
    "sv_trace ?s2 = sv_trace s" "fst (load_config E ?s1) = fst (load_config E s)"
    by (simp_all add: load_config_def alloc_def frame)
  have "managed ?s2 (env_clock E (Suc (sv_calls s))) n (pu_management_token r)"
    using cfg(3) consume_result [OF memory_wf [OF ok2]] calls by (simp split: if_splits)
  then have "managed s (env_clock E (Suc (sv_calls s))) n (pu_management_token r)"
    by (simp add: managed_def same)
  then show ?thesis
    using cfg same b update_secret_ok [OF wf3 cfg(4)] consume_gone [OF memory_wf [OF ok2] cfg(3)]
    unfolding eq by (simp add: frame clear_bytes_no_lease)
qed

definition sample_update :: profile_update_request where
  "sample_update =
     \<lparr>pu_env = ''API_TOKEN'', pu_lease_seconds = 900, pu_secret = ''n3w'', pu_management_token = ''ksm_a''\<rparr>"

lemma sample_update_ok: "fst (update_profile sample_env ''api'' sample_update sample_service) = None"
proof -
  let ?s1 = "snd (alloc ''n3w'' sample_service)" let ?a = "fst (alloc ''n3w'' sample_service)"
  have s: "pu_env sample_update = ''API_TOKEN''" "pu_lease_seconds sample_update = 900"
    "pu_secret sample_update = ''n3w''" "pu_management_token sample_update = ''ksm_a''"
    by (simp_all add: sample_update_def)
  have cfg: "sv_config ?s1 = sample_config" by (simp add: frame) (simp add: sample_service_def)
  have kind: "go_get sample_profiles ''api'' \<noteq> None" "kind_of \<lparr>cfg_profiles = sample_profiles\<rparr> ''api'' = []"
    by (simp_all add: sample_profiles_def kind_of_def)
  have wf: "wf_state (next_call ?s1)" using sample_wf by (simp add: wf_next_call wf_frame)
  have "managed (next_call ?s1) (env_clock sample_env (sv_calls (next_call ?s1))) ''api'' ''ksm_a''"
    by (simp add: managed_def frame alloc_def) (simp add: sample_service_def sample_management_def)
  then have consumed: "fst (consume_management_session sample_env ''api'' ''ksm_a'' (next_call ?s1)) = None"
    using consume_result [OF wf] by simp
  have b: "buffer (snd (consume_management_session sample_env ''api'' ''ksm_a'' (next_call ?s1))) ?a = ''n3w''"
    using consume_buffer [of ?a "[]" "next_call ?s1"] memory.inv_call [OF memory.allocs [OF sample_memory]]
    by (simp add: buffer_def frame alloc_def)
  have "fst (update_secret sample_env ''api'' sample_update cfg ?a s) = None" if "buffer s ?a = ''n3w''" for s cfg
    using that by (simp add: update_secret_def case_prod_beta keychain_store_def Let_def sample_save)
  then show ?thesis
    using consumed b
    by (simp add: update_profile_def s sample_profile_valid Let_def case_prod_beta update_checked_def
        alloc_buffer bad_secret_def sample_read [OF cfg] kind split: option.split)
qed

theorem update_needs_a_management_session_witness:
  "no_lease_of ''api'' (snd (update_profile sample_env ''api'' sample_update sample_service)) \<and>
   sv_trace (snd (update_profile sample_env ''api'' sample_update sample_service)) =
     [KeychainStore ''api'' ''n3w'' True]"
  using update_needs_a_management_session [OF sample_memory sample_update_ok]
  by (simp add: sample_update_def sample_trace)

text \<open>Without a live management session of the profile, an update touches neither the Keychain nor
  the configuration nor any lease.\<close>

theorem unauthorized_update_changes_nothing:
  assumes "wf_state s" and "\<not> managed s (env_clock E (Suc (sv_calls s))) n (pu_management_token r)"
  shows "fst (update_profile E n r s) \<noteq> None \<and>
    sv_trace (snd (update_profile E n r s)) = sv_trace s \<and>
    sv_config (snd (update_profile E n r s)) = sv_config s \<and>
    sv_consumers (snd (update_profile E n r s)) = sv_consumers s"
proof -
  let ?s1 = "snd (alloc (pu_secret r) s)" let ?a = "fst (alloc (pu_secret r) s)"
  let ?s2 = "snd (load_config E ?s1)"
  have wf: "wf_state ?s2" using assms(1) by (simp add: wf_frame)
  have "sv_calls ?s2 = Suc (sv_calls s)" by (simp add: load_config_def alloc_def frame)
  then have no: "fst (consume_management_session E n (pu_management_token r) ?s2) \<noteq> None"
    using assms(2) consume_result [OF wf] by (simp add: managed_def frame)
  then show ?thesis
    by (auto simp: update_profile_def update_checked_def case_prod_beta Let_def frame
        split: option.split sum.split)
qed

theorem unauthorized_update_changes_nothing_witness:
  "sv_trace (snd (update_profile sample_env ''db'' sample_update sample_service)) = []"
proof -
  have "\<not> managed sample_service (env_clock sample_env (Suc (sv_calls sample_service))) ''db''
      (pu_management_token sample_update)"
    by (simp add: managed_def sample_update_def) (simp add: sample_service_def sample_management_def)
  then show ?thesis
    using unauthorized_update_changes_nothing [OF sample_wf] by (simp add: sample_trace)
qed

text \<open>When saving the configuration fails during an authorized update, the new secret is already in
  the Keychain, while every lease of the profile keeps the old secret.\<close>

theorem failed_save_leaves_old_leases:
  assumes "fst (keychain_store E n (buffer s a) s) = None"
    and "fst (save_config E (put_profile n (secret_profile (pu_env r) (pu_lease_seconds r)) cfg)
      (snd (keychain_store E n (buffer s a) s))) = Some e"
  shows "fst (update_secret E n r cfg a s) = Some e \<and>
    KeychainStore n (buffer s a) True \<in> set (sv_trace (snd (update_secret E n r cfg a s))) \<and>
    sv_consumers (snd (update_secret E n r cfg a s)) = sv_consumers s"
  using assms keychain_store_ok [OF assms(1)] by (simp add: update_secret_def case_prod_beta frame)

theorem failed_save_leaves_old_leases_witness:
  "sv_consumers (snd (update_secret (sample_env\<lparr>env_write_fault := \<lambda>i j. Some ''disk full''\<rparr>) ''api''
     sample_update \<lparr>cfg_profiles = sample_profiles\<rparr> 0 sample_service)) = sv_consumers sample_service"
proof -
  let ?E = "sample_env\<lparr>env_write_fault := \<lambda>i j. Some ''disk full''\<rparr>"
  have "fst (keychain_store ?E ''api'' (buffer sample_service 0) sample_service) = None"
    by (simp add: keychain_store_def sample_buffer Let_def)
  moreover have "fst (save_config ?E cfg s) = Some (Outside ''disk full'')" for cfg s
    by (simp add: save_config_def config_save_def replace_file_def config_save_ops_def Let_def)
  ultimately show ?thesis using failed_save_leaves_old_leases by blast
qed

section \<open>Deleting\<close>

lemma forget_profile_state:
  assumes "wf_state s"
  shows "no_lease_of n (forget_profile E n s)"
    and "sv_management (forget_profile E n s) = filter (\<lambda>e. ms_profile (snd e) \<noteq> n) (sv_management s)"
    and "sv_trace (forget_profile E n s) = sv_trace s" and "sv_config (forget_profile E n s) = sv_config s"
proof -
  let ?s1 = "clear_profile_leases_locked E n ''Profile removed'' s"
  have "no_lease_of n ?s1" using assms by (rule clear_profile_no_lease)
  then show "no_lease_of n (forget_profile E n s)"
    by (simp add: forget_profile_def Let_def no_lease_of_def frame)
  show "sv_management (forget_profile E n s) = filter (\<lambda>e. ms_profile (snd e) \<noteq> n) (sv_management s)"
    using sweep_management_list [of ?s1 "[]" "sv_management ?s1"] wf_kept.clear_profile [OF assms]
    by (simp add: forget_profile_def Let_def frame)
  show "sv_trace (forget_profile E n s) = sv_trace s" "sv_config (forget_profile E n s) = sv_config s"
    by (simp_all add: forget_profile_def Let_def frame)
qed

text \<open>C34: delete_needs_approval.
  For a configured profile, \<^verbatim>\<open>DeleteProfile\<close> asks the human exactly once, to remove the Keychain item
  of that profile, with no other call to the Keychain. Refused, it changes neither
  leases nor management sessions nor the configuration. Approved, no consumer holds a lease of
  the profile and no management session for it is left, even when saving the configuration
  fails; and when it succeeds the profile is gone from the configuration.\<close>

theorem delete_needs_approval:
  assumes "wf_state s" and "fst (load_config E s) = Inr cfg" and "go_get (cfg_profiles cfg) n \<noteq> None"
  shows "sv_trace (snd (delete_profile E n s)) =
      KeychainDelete n (''Permanently remove the Key Session profile '' @ n @ '' and its stored secret.'')
        (fst (keychain_delete_with_approval E n (snd (load_config E s))) = None) # sv_trace s \<and>
    (case fst (keychain_delete_with_approval E n (snd (load_config E s))) of
    Some e \<Rightarrow> fst (delete_profile E n s) = Some (During ''delete profile'' n e) \<and>
      sv_consumers (snd (delete_profile E n s)) = sv_consumers s \<and>
      sv_management (snd (delete_profile E n s)) = sv_management s \<and>
      sv_config (snd (delete_profile E n s)) = sv_config s
  | None \<Rightarrow> no_lease_of n (snd (delete_profile E n s)) \<and>
      list_all (\<lambda>e. ms_profile (snd e) \<noteq> n) (sv_management (snd (delete_profile E n s))) \<and>
      (fst (delete_profile E n s) \<noteq> None \<or>
        config_load None (sv_config (snd (delete_profile E n s))) =
          Inr (cfg\<lparr>cfg_profiles := go_del n (cfg_profiles cfg)\<rparr>)))"
proof -
  let ?d = "keychain_delete_with_approval E n (snd (load_config E s))"
  let ?cfg = "cfg\<lparr>cfg_profiles := go_del n (cfg_profiles cfg)\<rparr>"
  let ?f = "forget_profile E n (snd ?d)"
  have wf: "wf_state (snd ?d)" using assms(1) by (simp add: wf_frame)
  have eq: "delete_profile E n s = (case fst ?d of
      Some e \<Rightarrow> (Some (During ''delete profile'' n e), snd ?d)
    | None \<Rightarrow> (case save_config E ?cfg ?f of
        (Some e, s3) \<Rightarrow> (Some e, s3)
      | (None, s3) \<Rightarrow> (None, record_locked E ''profile_removed'' n [] ''Key Session.app''
          ''Human profile management'' ''Profile removal approved with Touch ID'' s3)))"
    using assms(2,3) by (auto simp: delete_profile_def case_prod_beta)
  have asked: "sv_trace (snd ?d) =
      KeychainDelete n (''Permanently remove the Key Session profile '' @ n @ '' and its stored secret.'')
        (fst ?d = None) # sv_trace s"
    by (simp add: keychain_delete_with_approval_def Let_def log_effect_def frame)
  show ?thesis
  proof (cases "fst ?d")
    case (Some e)
    then show ?thesis using asked by (simp add: eq frame)
  next
    case None
    then show ?thesis
      using forget_profile_state [OF wf] save_ok [of E ?cfg ?f] asked
      by (auto simp: eq case_prod_beta frame no_lease_of_def list_all_iff split: option.split)
  qed
qed

theorem delete_needs_approval_witness:
  "no_lease_of ''api'' (snd (delete_profile sample_env ''api'' sample_service)) \<and>
   list_all (\<lambda>e. ms_profile (snd e) \<noteq> ''api'') (sv_management (snd (delete_profile sample_env ''api'' sample_service)))"
proof -
  have "sv_config sample_service = sample_config" by (simp add: sample_service_def)
  then have "fst (load_config sample_env sample_service) = Inr \<lparr>cfg_profiles = sample_profiles\<rparr>"
    by (simp add: sample_read)
  moreover have "go_get (cfg_profiles \<lparr>cfg_profiles = sample_profiles\<rparr>) ''api'' \<noteq> None"
    by (simp add: sample_profiles_def)
  moreover have "fst (keychain_delete_with_approval sample_env ''api'' s) = None" for s
    by (simp add: keychain_delete_with_approval_def Let_def)
  ultimately show ?thesis using delete_needs_approval [OF sample_wf, of sample_env _ "''api''"] by simp
qed

section \<open>Management sessions\<close>

text \<open>Consuming a management session succeeds exactly when the token stands for a session of that
  profile that has not expired, and whatever the outcome, the same token cannot be consumed for
  that profile afterwards, at any later time.\<close>

theorem management_token_is_single_use:
  assumes "wf_state s" and "monotone_clock E"
  shows "(fst (consume_management_session E n t s) = None \<longleftrightarrow> managed s (env_clock E (sv_calls s)) n t) \<and>
    fst (consume_management_session E n t (snd (consume_management_session E n t s))) = Some ManagementMissing"
proof -
  let ?s1 = "snd (consume_management_session E n t s)"
  have wf: "wf_state ?s1" using assms(1) by (rule wf_consume)
  have calls: "sv_calls s \<le> sv_calls ?s1"
    by (simp add: consume_management_session_def Let_def case_prod_beta expire_management_sessions_locked_def
        sweep_management_calls frame time_now_def split: option.split)
  have "\<not> managed ?s1 (env_clock E (sv_calls ?s1)) n t"
  proof (cases "managed s (env_clock E (sv_calls s)) n t")
    case True
    then have "go_get (sv_management ?s1) t = None"
      using consume_gone [OF assms(1)] consume_result [OF assms(1)] by simp
    then show ?thesis by (simp add: managed_def)
  next
    case False
    have "env_clock E (sv_calls s) \<le> env_clock E (sv_calls ?s1)"
      using assms(2) calls by (simp add: monotone_clock_def)
    moreover have "go_get (sv_management ?s1) t =
        go_get (sv_management (expire_management_sessions_locked (env_clock E (sv_calls s)) (next_call s))) t"
      using False consume_result [OF assms(1), of E n t]
      by (auto simp: consume_management_session_def Let_def time_now_def split: option.splits if_splits)
    ultimately show ?thesis
      using False expire_management_get [of "next_call s" "env_clock E (sv_calls s)" t] assms(1)
      by (auto simp: managed_def wf_next_call frame split: option.splits if_splits)
  qed
  then show ?thesis using consume_result [OF assms(1)] consume_result [OF wf] by simp
qed

theorem management_token_is_single_use_witness:
  "fst (consume_management_session sample_env ''api'' ''ksm_a''
     (snd (consume_management_session sample_env ''api'' ''ksm_a'' sample_service))) = Some ManagementMissing"
  using management_token_is_single_use [OF sample_wf, of sample_env "''api''" "''ksm_a''"]
  by (simp add: monotone_clock_def)

text \<open>\<^verbatim>\<open>BeginProfileManagement\<close> returns a secret only for a configured profile that is not an SSH
  identity, after the human approved a prompt that says the profile will be revealed; the
  session it opens expires five minutes after the approval. Refused, it opens none.\<close>

theorem management_reveals_after_approval:
  assumes "fst (begin_profile_management E n s) = Inr resp"
  shows "KeychainRead n (''Reveal and manage the Key Session profile '' @ n @
        ''. Open the human profile editor and view or change its password.'') True
      \<in> set (sv_trace (snd (begin_profile_management E n s))) \<and>
    (\<exists>cfg t. fst (load_config E s) = Inr cfg \<and> go_get (cfg_profiles cfg) n \<noteq> None \<and>
      kind_of cfg n \<noteq> ''ssh'' \<and> mr_expires_at resp = env_clock E t + 300000000000 \<and>
      (\<exists>a. go_get (sv_management (snd (begin_profile_management E n s))) (mr_management_token resp) =
        Some \<lparr>ms_profile = n, ms_secret = a, ms_expires_at = mr_expires_at resp\<rparr>))"
proof -
  let ?why = "''Open the human profile editor and view or change its password.''"
  let ?s1 = "snd (load_config E s)" let ?s2 = "snd (authorize_profile_management E n ?why ?s1)"
  let ?s3 = "snd (random_capability E ''ksm_'' ?s2)"
  obtain cfg a t where c: "fst (load_config E s) = Inr cfg" "go_get (cfg_profiles cfg) n \<noteq> None"
    "kind_of cfg n \<noteq> ''ssh''" "fst (authorize_profile_management E n ?why ?s1) = Inr a"
    and eq: "begin_profile_management E n s =
      (Inr (fst (open_management E n a t ?s3)), snd (open_management E n a t ?s3))"
    using assms by (auto simp: begin_profile_management_def case_prod_beta Let_def
        split: sum.splits if_splits)
  have "sv_trace ?s3 = KeychainRead n (''Reveal and manage the Key Session profile '' @ n @ ''. '' @ ?why) True # sv_trace s"
    using c(4) by (auto simp: authorize_profile_management_def case_prod_beta keychain_read_trace frame
        split: sum.splits)
  then have "KeychainRead n (''Reveal and manage the Key Session profile '' @ n @ ''. '' @ ?why) True
      \<in> set (sv_trace (snd (open_management E n a t ?s3)))"
    by (simp add: open_management_def Let_def case_prod_beta frame put_management_def
        expire_management_sessions_locked_def)
  moreover have "go_get (sv_management (snd (open_management E n a t ?s3))) t =
      Some \<lparr>ms_profile = n, ms_secret = a, ms_expires_at = mr_expires_at (fst (open_management E n a t ?s3))\<rparr>"
    by (simp add: open_management_def Let_def case_prod_beta frame put_management_def gm.put_same)
  moreover have "mr_management_token (fst (open_management E n a t ?s3)) = t"
    "mr_expires_at (fst (open_management E n a t ?s3)) = env_clock E (sv_calls ?s3) + 300000000000"
    by (simp_all add: open_management_def Let_def case_prod_beta time_now_def time_add_def)
  moreover have "resp = fst (open_management E n a t ?s3)" using assms eq by simp
  ultimately show ?thesis using c by (auto simp: eq)
qed

theorem management_reveals_after_approval_witness:
  "\<exists>resp t. fst (begin_profile_management sample_env ''api'' empty_service) = Inr resp \<and>
     mr_expires_at resp = env_clock sample_env t + 300000000000"
proof -
  have "is_err (fst (begin_profile_management sample_env ''api'' empty_service)) = False"
    by (simp add: begin_profile_management_def sample_read case_prod_beta sample_profiles_def kind_of_def
        authorize_profile_management_def keychain_read_def random_capability_def Let_def)
  then obtain resp where "fst (begin_profile_management sample_env ''api'' empty_service) = Inr resp"
    by (auto simp: not_is_err_iff)
  then show ?thesis using management_reveals_after_approval by blast
qed

text \<open>\<^verbatim>\<open>StoreProfile\<close> over an SSH identity fails without touching the Keychain or the configuration,
  and \<^verbatim>\<open>CreateSSHProfile\<close> over any existing profile does too.\<close>

theorem ssh_profiles_are_never_overwritten:
  assumes "fst (load_config E s) = Inr cfg"
  shows "(kind_of cfg (pr_name r) = ''ssh'' \<longrightarrow>
      fst (store_profile E r s) = Some SSHOverwrite \<and> sv_trace (snd (store_profile E r s)) = sv_trace s \<and>
      sv_config (snd (store_profile E r s)) = sv_config s) \<and>
    (go_get (cfg_profiles cfg) (sp_name q) \<noteq> None \<longrightarrow>
      is_err (fst (create_ssh_profile E q s)) \<and> sv_trace (snd (create_ssh_profile E q s)) = sv_trace s \<and>
      sv_config (snd (create_ssh_profile E q s)) = sv_config s)"
  using assms by (auto simp: store_profile_def create_ssh_profile_def case_prod_beta frame split: option.split)

theorem ssh_profiles_are_never_overwritten_witness:
  "is_err (fst (create_ssh_profile sample_env \<lparr>sp_name = ''api'', sp_lease_seconds = 600\<rparr> empty_service))"
  using ssh_profiles_are_never_overwritten
    [of sample_env empty_service "\<lparr>cfg_profiles = sample_profiles\<rparr>" _ "\<lparr>sp_name = ''api'', sp_lease_seconds = 600\<rparr>"]
  by (simp add: sample_read sample_profiles_def)

end
