(* ===== verification/Grant_Properties.thy ===== *)
theory Grant_Properties
  imports Sample_Run
begin

text \<open>The properties of the approval prompt, of grants, of the journal and of snapshots.\<close>

section \<open>The prompt\<close>

lemma split_at_newline:
  assumes "x @ CHR 0x0A # y = x' @ CHR 0x0A # y'" and "CHR 0x0A \<notin> set x" and "CHR 0x0A \<notin> set x'"
  shows "x = x' \<and> y = y'"
  using assms
proof (induction x arbitrary: x')
  case Nil
  then show ?case by (cases x') auto
next
  case (Cons c x)
  then show ?case by (cases x') auto
qed

lemma show_int_no_newline: "CHR 0x0A \<notin> set (show_int i)"
proof -
  have "CHR 0x0A \<notin> set (show_nat n)" for n
    using show_nat_digits [of n] by (auto simp: list_all_iff is_digit_def)
  then show ?thesis by (auto simp: show_int_def)
qed

lemma friendly_no_newline: "CHR 0x0A \<notin> set (friendly_duration d)"
  by (simp add: friendly_duration_def Let_def show_int_no_newline)

text \<open>C35: prompt_is_unambiguous.
  Two approval prompts are the same text only when they name the same consumer, profile,
  displayed duration and reason, provided that labels and profile names have no line break,
  which validation guarantees.\<close>

theorem prompt_is_unambiguous:
  assumes "grant_approval_message c p r d = grant_approval_message c' p' r' d'"
    and "CHR 0x0A \<notin> set c" and "CHR 0x0A \<notin> set c'" and "CHR 0x0A \<notin> set p" and "CHR 0x0A \<notin> set p'"
  shows "c = c' \<and> p = p' \<and> r = r' \<and> friendly_duration d = friendly_duration d'"
proof -
  let ?rest = "\<lambda>p d r. ''Profile: '' @ p @ newline @ ''Lease: '' @ friendly_duration d @ newline @ newline @ ''Reason: '' @ r"
  let ?rest2 = "\<lambda>d r. ''Lease: '' @ friendly_duration d @ newline @ newline @ ''Reason: '' @ r"
  have 1: "c = c' \<and> CHR 0x0A # ?rest p d r = CHR 0x0A # ?rest p' d' r'"
    using assms(1-3) by (intro split_at_newline) (simp_all add: grant_approval_message_def newline_def)
  have 2: "''Profile: '' @ p = ''Profile: '' @ p' \<and> ?rest2 d r = ?rest2 d' r'"
    using 1 assms(4,5) by (intro split_at_newline) (simp_all add: newline_def)
  have "''Lease: '' @ friendly_duration d = ''Lease: '' @ friendly_duration d' \<and>
      CHR 0x0A # ''Reason: '' @ r = CHR 0x0A # ''Reason: '' @ r'"
    using 2 friendly_no_newline by (intro split_at_newline) (simp_all add: newline_def)
  then show ?thesis using 1 2 by simp
qed

theorem prompt_is_unambiguous_witness:
  "grant_approval_message ''agent'' ''api'' ''deploy'' minute \<noteq>
   grant_approval_message ''agent'' ''api'' ''delete'' minute"
  using prompt_is_unambiguous [of "''agent''" "''api''" "''deploy''" minute "''agent''" "''api''" "''delete''" minute]
  by auto

section \<open>Grants\<close>

text \<open>A commit that succeeds answers with exactly the approved lease, stores it with the secret that
  was read, in the session under the hash of the capability, drops the other leases of that
  profile there, leaves every other session as expiry alone would, and returns the capability
  only to a new consumer.\<close>

theorem commit_installs_the_lease:
  assumes "wf_state s" and "fst (grant_commit E g s) = Inr resp"
  shows "\<exists>c. commit_session E g s = Some c \<and>
    go_get (sv_consumers (snd (grant_commit E g s))) =
      (go_get (sv_consumers (expire_locked E (gy_now g) s)))
        (sha256 (gc_token (gy_context g)) \<mapsto> installed g c) \<and>
    go_get (cs_leases (installed g c)) (lease_id (gy_lease g)) =
      Some \<lparr>al_metadata = gy_lease g, al_secret = gy_secret g\<rparr> \<and>
    gresp_lease resp = gy_lease g \<and> gresp_consumer resp = public_consumer (installed g c) \<and>
    gresp_consumer_token resp = (if gc_new (gy_context g) then gc_token (gy_context g) else [])"
proof (cases "commit_session E g s")
  case None
  then show ?thesis using commit_refused [of E g s] assms(2) by auto
next
  case (Some c)
  note gets = commit_gets [OF assms(1) Some]
  have resp: "resp = grant_response_of g (snd (grant_commit E g s))"
    using assms(2) by (auto simp: grant_commit_def Let_def split: sum.splits)
  have at: "go_get (sv_consumers (snd (grant_commit E g s))) (sha256 (gc_token (gy_context g))) = Some (installed g c)"
    unfolding gets by simp
  have "go_get (cs_leases (installed g c)) (lease_id (gy_lease g)) =
      Some \<lparr>al_metadata = gy_lease g, al_secret = gy_secret g\<rparr>"
    by (simp add: installed_def gm.put_same)
  moreover have "gresp_lease resp = gy_lease g" "gresp_consumer resp = public_consumer (installed g c)"
    "gresp_consumer_token resp = (if gc_new (gy_context g) then gc_token (gy_context g) else [])"
    using at by (simp_all add: resp grant_response_of_def Let_def)
  ultimately show ?thesis using Some gets by blast
qed

theorem commit_installs_the_lease_witness:
  "\<exists>resp. fst (grant_commit sample_env sample_ready sample_approved) = Inr resp \<and>
     gresp_lease resp = gy_lease sample_ready"
proof -
  obtain s2 where "commit_target sample_env sample_ready
      (expire_locked sample_env (gy_now sample_ready) sample_approved) = Inr s2"
    using commit_accepted [OF sample_approved_wf sample_commit_session] by blast
  then obtain resp where "fst (grant_commit sample_env sample_ready sample_approved) = Inr resp"
    by (simp add: grant_commit_def Let_def)
  then show ?thesis using commit_installs_the_lease [OF sample_approved_wf] by blast
qed

text \<open>An approved grant names the identity and the reason of its request, was confirmed on the prompt
  for that profile, label and reason, and ends at the earlier of the approved duration after the
  grant and the end of the consumer session; the approved duration is between one minute and
  24 hours.\<close>

theorem approval_bounds_the_lease:
  assumes "fst (grant_approve E gc s) = Inr g"
  shows "gy_context g = gc \<and> ready_ok g (sv_trace (snd (grant_approve E gc s)))"
  using assms by (rule grant_approve_ready)

theorem approval_bounds_the_lease_witness:
  "ready_ok sample_ready (sv_trace sample_approved)"
  using approval_bounds_the_lease [of sample_env sample_context "empty_service\<lparr>sv_calls := 3\<rparr>" sample_ready]
  by (simp add: sample_approve)

text \<open>A grant is refused before the human is asked when the requested or default duration is outside
  one minute to 24 hours, or when less than a minute of the consumer session is left; otherwise
  the duration shown is the smaller of the two.\<close>

theorem short_sessions_get_no_lease:
  "requested_duration r p =
     (let d = (if seconds (gr_duration_seconds r) = 0 then seconds (profile_lease_seconds p)
               else seconds (gr_duration_seconds r))
      in if in_bounds minimum_lease maximum_lease d then Inr d else Inl LeaseDurationRange) \<and>
   capped_duration left d =
     (if sint left < 60000000000 then Inl ConsumerExpiring
      else Inr (if sint left < sint d then left else d)) \<and>
   (case capped_duration left d of Inl e \<Rightarrow> True | Inr x \<Rightarrow> sint x = min (sint left) (sint d))"
  by (auto simp: requested_duration_def capped_duration_def Let_def in_bounds_def)

section \<open>Using a granted lease\<close>

lemma start_memory:
  assumes "memory_ok F s" and "commit_target E g s = Inr s2"
  shows "memory_ok F s2 \<and> sv_heap s2 = sv_heap s"
proof -
  let ?h = "sha256 (gc_token (gy_context g))"
  have "s2 = start_consumer E ?h g s \<and> go_get (sv_consumers s) ?h = None \<or> s2 = s"
    using assms(2) by (auto simp: commit_target_at split: option.splits if_splits)
  then show ?thesis
    using assms(1)
    by (auto simp: start_consumer_def new_session_def Let_def frame put_consumer_def [of _ _ s]
        intro!: memory_record memory_put_consumer [unfolded put_consumer_def])
qed

text \<open>A commit that succeeds leaves the secret of the lease as the human released it.\<close>

lemma commit_contents:
  assumes ok: "memory_ok (gy_secret g # F) s" and c: "commit_session E g s = Some c"
  shows "buffer (snd (grant_commit E g s)) (gy_secret g) = buffer s (gy_secret g)"
proof -
  let ?a = "gy_secret g" let ?bs = "buffer s ?a" let ?s1 = "expire_locked E (gy_now g) s"
  obtain s2 where s2: "commit_target E g ?s1 = Inr s2"
    using commit_accepted [OF memory_wf [OF ok] c] by blast
  have "keeps_contents (?a # F) ?a ?bs s" using ok by (simp add: keeps_contents_def)
  then have 1: "keeps_contents (?a # F) ?a ?bs ?s1" by (rule contents_kept.expire)
  then have "keeps_contents (?a # F) ?a ?bs s2"
    using start_memory [OF _ s2, of "?a # F"] by (simp add: keeps_contents_def buffer_def)
  note 2 = contents_kept.sweep [OF this]
  have "buffer (install_lease E h g s2) ?a = ?bs" for h
    using 2 [of E h] by (simp add: install_lease_def Let_def buffer_def keeps_contents_def put_lease_def frame)
  then show ?thesis using s2 by (simp add: grant_commit_def Let_def)
qed

lemma installed_live:
  assumes "commit_session E g s = Some c" and "wf_state s"
    and "now < lease_expires_at (gy_lease g)"
  shows "go_get (cs_leases (keep_leases (lease_live now) (installed g c))) (lease_id (gy_lease g)) =
    Some \<lparr>al_metadata = gy_lease g, al_secret = gy_secret g\<rparr>"
proof -
  have "wf_map (cs_leases (installed g c))"
    using commit_keeps [OF assms(2), of E g] commit_gets [OF assms(2,1)]
    by (intro wf_leases [of "snd (grant_commit E g s)"]) auto
  moreover have "go_get (cs_leases (installed g c)) (lease_id (gy_lease g)) =
      Some \<lparr>al_metadata = gy_lease g, al_secret = gy_secret g\<rparr>"
    by (simp add: installed_def gm.put_same)
  ultimately show ?thesis
    using assms(3) by (simp only: keep_leases_get) (simp add: lease_live_def)
qed

text \<open>
  C12: granted_lease_can_be_used. Right after a commit that succeeded, whose lease identifier its
  session did not hold yet, and before the lease or its session ends, the holder of the capability
  can run a program through a lease that is not for an SSH identity: the execution is not refused,
  the child runs once, and its variable holds the very secret the human released. Through an SSH
  lease nothing can be run: the execution is refused for that reason, and no child runs.
\<close>

theorem granted_lease_can_be_used:
  assumes "memory_ok (gy_secret g # F) s" and "commit_session E g s = Some c"
    and "go_get (cs_leases c) (lease_id (gy_lease g)) = None"
    and "snd (grant_commit E g s) = s1" and "env_clock E (sv_calls s1) < lease_expires_at (gy_lease g)"
    and "env_clock E (sv_calls s1) < consumer_expires_at (cs_metadata c)"
    and "trim_space (er_consumer_token x) = gc_token (gy_context g)" and "gc_token (gy_context g) \<noteq> []"
    and "er_lease_id x = lease_id (gy_lease g)" and "trim_space (lease_id (gy_lease g)) \<noteq> []"
    and "er_arguments x \<noteq> []" and "in_bounds second (30 * minute) (seconds (er_timeout_seconds x))"
  shows "if lease_kind (gy_lease g) = ''ssh''
    then fst (execute E x s1) = Inl ExecSSH \<and> sv_trace (snd (execute E x s1)) = sv_trace s
    else \<exists>out. fst (execute E x s1) = Inr out \<and>
      sv_trace (snd (execute E x s1)) =
        ChildRun (exec_command E x (buffer s (gy_secret g)) (lease_env (gy_lease g))) # sv_trace s"
proof -
  let ?l = "\<lparr>al_metadata = gy_lease g, al_secret = gy_secret g\<rparr>"
  have wf: "wf_state s" using assms(1) by (rule memory_wf)
  have "memory_ok F (snd (grant_commit E g s))"
    by (rule memory_commit [OF assms(1)]) (use assms(2,3) in simp)
  then have ok: "memory_ok F s1" using assms(4) by simp
  have "live_session E s1 (sha256 (gc_token (gy_context g))) =
      Some (keep_leases (lease_live (env_clock E (sv_calls s1))) (installed g c))"
    using commit_gets [OF wf assms(2)] assms(4,6) by (simp add: live_session_def consumer_live_def)
  then have decision: "exec_decision E x s1 = (if lease_kind (gy_lease g) = ''ssh'' then Inl ExecSSH else Inr ?l)"
    using installed_live [OF assms(2) wf assms(5)] assms(7-12)
    by (simp add: exec_decision_def)
  have before: "buffer s1 (gy_secret g) = buffer s (gy_secret g)" "sv_trace s1 = sv_trace s"
    using commit_contents [OF assms(1,2)] commit_keeps [OF wf, of E g] assms(4) by auto
  show ?thesis
  proof (cases "lease_kind (gy_lease g) = ''ssh''")
    case True
    then have "fst (execute_begin E x s1) = Inl ExecSSH"
      using decision execute_begin_decision [OF ok, of E x] by simp
    then show ?thesis using True before by (simp add: execute_def case_prod_beta execute_refused_trace)
  next
    case False
    then obtain y s2 where "execute_begin E x s1 = (Inr y, s2)" "xr_request y = x"
      "xr_env y = lease_env (gy_lease g)" "xr_timeout y = seconds (er_timeout_seconds x)"
      "buffer s2 (xr_secret y) = buffer s1 (gy_secret g)" "sv_trace s2 = sv_trace s1"
      using decision execute_begin_decision [OF ok, of E x] by auto
    then show ?thesis
      using False before execute_finish_trace [of y E s2] assms(11,12) by (simp add: execute_def case_prod_beta)
  qed
qed

theorem granted_lease_can_be_used_witness:
  "\<exists>out. fst (execute sample_env sample_child (sys_service sample_system)) = Inr out"
proof -
  have memory: "memory_ok (gy_secret sample_ready # []) sample_approved"
    by (simp add: memory_ok_def sample_approved_wf owned_def)
      (simp add: sample_approved_def sample_ready_def lease_buffers_def buffer_def)
  have s1: "snd (grant_commit sample_env sample_ready sample_approved) = sys_service sample_system"
    by (simp add: sample_system_def initial_def)
  have lease: "env_clock sample_env (sv_calls (sys_service sample_system)) < lease_expires_at (gy_lease sample_ready)"
    "lease_kind (gy_lease sample_ready) \<noteq> ''ssh''"
    by (simp_all add: sample_calls) (simp_all add: sample_ready_def)
  have session: "go_get (cs_leases (new_session sample_ready)) (lease_id (gy_lease sample_ready)) = None"
    "env_clock sample_env (sv_calls (sys_service sample_system)) <
       consumer_expires_at (cs_metadata (new_session sample_ready))"
    by (simp_all add: sample_calls new_session_def Let_def) (simp add: sample_ready_def)
  have request: "trim_space (er_consumer_token sample_child) = gc_token (gy_context sample_ready)"
    "gc_token (gy_context sample_ready) \<noteq> []" "er_lease_id sample_child = lease_id (gy_lease sample_ready)"
    "trim_space (lease_id (gy_lease sample_ready)) \<noteq> []" "er_arguments sample_child \<noteq> []"
    using sample_child_trim by (simp_all add: sample_child_def) (simp_all add: sample_ready_def sample_context_def)
  have timeout: "in_bounds second (30 * minute) (seconds (er_timeout_seconds sample_child))"
    by (simp add: sample_child_def in_bounds_def seconds_def minute_def second_def)
  show ?thesis
    using granted_lease_can_be_used [OF memory sample_commit_session session(1) s1 lease(1) session(2)
        request(1-5) timeout] lease(2) by auto
qed

section \<open>The journal\<close>

text \<open>Recording appends exactly one event, keeps at most the newest 200, counts the revision up, and
  leaves the journal file as it was or holding exactly the events in memory.\<close>

theorem journal_is_bounded:
  "\<exists>ev. event_kind ev = k \<and> event_profile ev = p \<and> event_reason ev = r \<and>
     sv_events (record_locked E k p cid lab r d s) = last_events (sv_events s @ [ev]) \<and>
     length (sv_events (record_locked E k p cid lab r d s)) = min 200 (Suc (length (sv_events s))) \<and>
     last (sv_events (record_locked E k p cid lab r d s)) = ev \<and>
     sv_revision (record_locked E k p cid lab r d s) = sv_revision s + 1 \<and>
     target (sv_audit (record_locked E k p cid lab r d s)) \<in>
       {target (sv_audit s), Some (new_file (sv_events (record_locked E k p cid lab r d s)))}"
proof -
  have twice: "last_events (last_events evs) = last_events evs" for evs
    by (simp add: last_events_def)
  have len: "length (last_events evs) = min 200 (length evs)" for evs
    by (simp add: last_events_def maximum_audit_events_def)
  have last: "last (last_events (evs @ [e])) = e" for evs e
    by (simp add: last_events_def maximum_audit_events_def)
  show ?thesis
    using audit_writer.replace_atomic
    by (fastforce simp: record_locked_def Let_def time_now_def frame len last audit_save_def twice)
qed

end

