(* ===== verification/Agent_Properties.thy ===== *)
theory Agent_Properties
  imports Samples
begin

text \<open>The properties of SSH identities and of the signing agent.\<close>

section \<open>The stored seed\<close>

text \<open>A state whose older buffers are all as they were.\<close>

definition extends :: "service \<Rightarrow> service \<Rightarrow> bool" where
  "extends s s' \<longleftrightarrow>
     length (sv_heap s) \<le> length (sv_heap s') \<and> (\<forall>a < length (sv_heap s). buffer s' a = buffer s a) \<and>
     sv_consumers s' = sv_consumers s"

lemma extends_refl: "extends s s"
  by (simp add: extends_def)

lemma extends_trans: "extends s s' \<Longrightarrow> extends s' s'' \<Longrightarrow> extends s s''"
  by (auto simp: extends_def)

lemma extends_clear: "extends s s' \<Longrightarrow> length (sv_heap s) \<le> a \<Longrightarrow> extends s (clear_bytes a s')"
  by (auto simp: extends_def frame clear_bytes_other)

lemma extends_alloc: "extends s s' \<Longrightarrow> extends s (snd (alloc bs s'))"
  by (auto simp: extends_def alloc_def buffer_def nth_append)

text \<open>The private key the stored text of a seed stands for.\<close>

definition stored_key :: "env \<Rightarrow> bytes \<Rightarrow> error + bytes" where
  "stored_key E secret =
     (case std_decode secret of
        None \<Rightarrow> Inl SSHSeedInvalid
      | Some out \<Rightarrow> if length out \<noteq> 32 then Inl SSHSeedInvalid else Inr (new_key_from_seed E out))"

lemma ssh_private_key_result:
  "case stored_key E secret of
     Inl e \<Rightarrow> fst (ssh_private_key E secret s) = Inl e
   | Inr key \<Rightarrow> \<exists>a. fst (ssh_private_key E secret s) = Inr a \<and> length (sv_heap s) \<le> a \<and>
       buffer (snd (ssh_private_key E secret s)) a = key"
  by (auto simp: stored_key_def ssh_private_key_def case_prod_beta seed_size_def clear_bytes_other
      alloc_def buffer_def nth_append decode_buffer_prefix split: option.split)
    (simp add: clear_bytes_def nth_append, metis decode_buffer_prefix)

lemma ssh_private_key_extends: "extends s (snd (ssh_private_key E secret s))"
  by (auto simp: ssh_private_key_def case_prod_beta alloc_def split: option.split
      intro!: extends_clear) (auto simp: extends_def buffer_def nth_append)

text \<open>An SSH secret is accepted exactly when it is the base64 text of a 32-byte seed whose public
  key, written as an authorized-keys line, is the configured one; the text produced for a new
  identity decodes to its seed.\<close>

theorem ssh_secret_must_match:
  "fst (validate_ssh_secret E secret expected s) = None \<longleftrightarrow>
     (\<exists>seed blob. std_decode secret = Some seed \<and> length seed = 32 \<and>
        env_ssh_public E (drop 32 (new_key_from_seed E seed)) = Inr blob \<and>
        trim_space (env_ssh_authorized_line E blob) = expected)"
  using ssh_private_key_result [of E secret s]
  by (auto simp: validate_ssh_secret_def case_prod_beta stored_key_def key_public_def seed_size_def
      split: option.splits sum.splits if_splits)

section \<open>Signing\<close>

lemma sign_leases_extends: "extends s0 s \<Longrightarrow> extends s0 (snd (sign_leases E pub bs ls s))"
proof (induction ls arbitrary: s)
  case (Cons e ls)
  obtain i l where e: "e = (i, l)" by (cases e)
  let ?k = "ssh_private_key E (buffer s (al_secret l)) s"
  have k: "extends s0 (snd ?k)" using Cons.prems ssh_private_key_extends by (rule extends_trans)
  have c: "extends s0 (clear_bytes a (snd ?k))" if "fst ?k = Inr a" for a
  proof -
    have "length (sv_heap s) \<le> a"
      using ssh_private_key_result [of E "buffer s (al_secret l)" s] that by (auto split: sum.splits)
    then have "length (sv_heap s0) \<le> a" using Cons.prems by (simp add: extends_def)
    then show ?thesis using k by (intro extends_clear)
  qed
  show ?case using Cons k c e by (simp add: case_prod_beta split: sum.split)
qed simp

text \<open>A lease can answer for a key: its secret is a seed whose signer has that public key.\<close>

definition answers :: "env \<Rightarrow> service \<Rightarrow> public_key \<Rightarrow> active_lease \<Rightarrow> bytes \<Rightarrow> bool" where
  "answers E s pub l key \<longleftrightarrow>
     lease_kind (al_metadata l) = ''ssh'' \<and> stored_key E (buffer s (al_secret l)) = Inr key \<and>
     env_ssh_signer E key = Inr (pk_blob pub)"

lemma sign_leases_signed:
  assumes "extends s0 s" and "\<forall>e \<in> set ls. al_secret (snd e) < length (sv_heap s0)"
    and "fst (sign_leases E pub bs ls s) = Some (Inr sig)"
  shows "\<exists>e \<in> set ls. \<exists>key. answers E s0 pub (snd e) key \<and> env_ssh_sign E key bs = Inr sig"
  using assms
proof (induction ls arbitrary: s)
  case (Cons e ls)
  obtain i l where e: "e = (i, l)" by (cases e)
  let ?k = "ssh_private_key E (buffer s (al_secret l)) s"
  have same: "buffer s (al_secret l) = buffer s0 (al_secret l)"
    using Cons.prems(1,2) e by (simp add: extends_def)
  show ?case
  proof (cases "lease_kind (al_metadata l) = ''ssh''")
    case False
    then show ?thesis using Cons e by (auto simp: case_prod_beta)
  next
    case True
    show ?thesis
    proof (cases "fst ?k")
      case (Inl x)
      then show ?thesis using Cons.prems(3) e True by (simp add: case_prod_beta)
    next
      case (Inr a)
      then obtain key where key: "stored_key E (buffer s0 (al_secret l)) = Inr key"
        "buffer (snd ?k) a = key" "length (sv_heap s) \<le> a"
        using ssh_private_key_result [of E "buffer s (al_secret l)" s] same by (auto split: sum.splits)
      show ?thesis
      proof (cases "env_ssh_signer E key = Inr (pk_blob pub)")
        case True': True
        then have "env_ssh_sign E key bs = Inr sig"
          using Cons.prems(3) e True Inr key by (auto simp: case_prod_beta split: sum.splits)
        then show ?thesis using True True' key e by (auto simp: answers_def)
      next
        case False
        have "length (sv_heap s0) \<le> a" using Cons.prems(1) key(3) by (simp add: extends_def)
        then have "extends s0 (clear_bytes a (snd ?k))"
          using Cons.prems(1) ssh_private_key_extends by (intro extends_clear) (rule extends_trans)
        moreover have "fst (sign_leases E pub bs ls (clear_bytes a (snd ?k))) = Some (Inr sig)"
          using Cons.prems(3) e True Inr key False by (auto simp: case_prod_beta split: sum.splits if_splits)
        ultimately show ?thesis using Cons.IH Cons.prems(2) by force
      qed
    qed
  qed
qed simp

lemma sign_consumers_signed:
  assumes "extends s0 s" and "\<forall>c \<in> set cs. \<forall>e \<in> set (cs_leases (snd c)). al_secret (snd e) < length (sv_heap s0)"
    and "fst (sign_consumers E pub bs cs s) = Some (Inr sig)"
  shows "\<exists>c \<in> set cs. \<exists>e \<in> set (cs_leases (snd c)). \<exists>key.
    answers E s0 pub (snd e) key \<and> env_ssh_sign E key bs = Inr sig"
  using assms
proof (induction cs arbitrary: s)
  case (Cons c cs)
  obtain h d where c: "c = (h, d)" by (cases c)
  show ?case
  proof (cases "fst (sign_leases E pub bs (cs_leases d) s)")
    case None
    then have "fst (sign_consumers E pub bs cs (snd (sign_leases E pub bs (cs_leases d) s))) = Some (Inr sig)"
      using Cons.prems(3) c by (simp add: case_prod_beta)
    then show ?thesis
      using Cons.IH [OF sign_leases_extends [OF Cons.prems(1)]] Cons.prems(2) by force
  next
    case (Some r)
    then have "fst (sign_leases E pub bs (cs_leases d) s) = Some (Inr sig)"
      using Cons.prems(3) c by (simp add: case_prod_beta)
    then show ?thesis
      using sign_leases_signed [OF Cons.prems(1)] Cons.prems(2) c by force
  qed
qed simp

text \<open>The lease that signs, in the state after expiry.\<close>

lemma agent_sign_lease:
  assumes "memory_ok F s" and "fst (agent_sign E W pub bs s) = Inr sig"
  shows "\<exists>c \<in> set (sv_consumers (expire_now E s)). \<exists>e \<in> set (cs_leases (snd c)). \<exists>key.
    answers E (expire_now E s) pub (snd e) key \<and> env_ssh_sign E key bs = Inr sig"
proof -
  let ?s1 = "expire_now E s"
  have ok: "memory_ok F ?s1" using assms(1) by (rule memory.expiring)
  have sig: "fst (sign_consumers E pub bs (sv_consumers ?s1) ?s1) = Some (Inr sig)"
    using assms(2) by (auto simp: agent_sign_def Let_def case_prod_beta split: if_splits option.splits)
  have "al_secret (snd e) < length (sv_heap ?s1)"
    if "c \<in> set (sv_consumers ?s1)" "e \<in> set (cs_leases (snd c))" for c e
  proof -
    have "al_secret (snd e) \<in> set (owned ?s1)"
      using that by (force simp: owned_def lease_buffers_def)
    then show ?thesis using ok by (simp add: memory_ok_def)
  qed
  then show ?thesis using sign_consumers_signed [OF extends_refl _ sig] by blast
qed

text \<open>C26: agent_signs_only_with_a_live_lease.
  The agent returns a signature only for a well-formed SSH public-key authentication request,
  made with the key of a seed that a live SSH lease of some live session holds, and whose public
  key is the requested one.\<close>

theorem agent_signs_only_with_a_live_lease:
  assumes "memory_ok F s" and "fst (agent_sign E W pub bs s) = Inr sig"
  shows "ssh_authentication_request W pub bs \<and>
    (\<exists>h c i l key. live_session E s h = Some c \<and> go_get (cs_leases c) i = Some l \<and>
       answers E s pub l key \<and> env_ssh_sign E key bs = Inr sig)"
proof -
  let ?s1 = "expire_now E s"
  have req: "ssh_authentication_request W pub bs"
    using assms(2) by (auto simp: agent_sign_def split: if_splits)
  have wf: "wf_state ?s1" using memory.expiring [OF assms(1)] by (rule memory_wf)
  obtain c e key where c: "c \<in> set (sv_consumers ?s1)" "e \<in> set (cs_leases (snd c))"
    and a: "answers E ?s1 pub (snd e) key" "env_ssh_sign E key bs = Inr sig"
    using agent_sign_lease [OF assms] by blast
  have get: "go_get (sv_consumers ?s1) (fst c) = Some (snd c)"
    using c(1) wf by (simp add: wf_state_def flip: wf_map_get)
  then have "wf_map (cs_leases (snd c))" using wf_leases [OF wf] by blast
  then have "go_get (cs_leases (snd c)) (fst e) = Some (snd e)"
    using c(2) by (simp flip: wf_map_get)
  moreover have live: "live_session E s (fst c) = Some (snd c)"
    using get expire_now_get [OF memory_wf [OF assms(1)]] by simp
  moreover have "answers E s pub (snd e) key"
    using a(1) expire_now_contents [OF assms(1) live calculation(1)] by (simp add: answers_def)
  ultimately show ?thesis using req a(2) by blast
qed

definition sample_seed :: bytes where
  "sample_seed = replicate 32 (CHR ''k'')"

definition sample_public :: public_key where
  "sample_public = \<lparr>pk_type = key_algo_ed25519, pk_blob = sample_seed\<rparr>"

definition sample_wire :: ssh_wire where
  "sample_wire =
     \<lparr>sw_unmarshal_request = (\<lambda>bs. Some
        \<lparr>aq_session = replicate 16 (CHR ''s''), aq_message = 50, aq_user = ''git'', aq_service = ''ssh-connection'',
         aq_method = ''publickey'', aq_signature = True, aq_algorithm = key_algo_ed25519,
         aq_key = sample_seed, aq_rest = []\<rparr>),
      sw_unmarshal_bound = (\<lambda>bs. None), sw_parses_public_key = (\<lambda>bs. False)\<rparr>"

definition sample_ssh_service :: service where
  "sample_ssh_service = empty_service
     \<lparr>sv_consumers := [(sha256 ''ksc_a'', sample_session
         \<lparr>cs_leases := [(''lease_1'', \<lparr>al_metadata = sample_lease\<lparr>lease_kind := ''ssh''\<rparr>, al_secret = 0\<rparr>)]\<rparr>)],
      sv_heap := [std_encode sample_seed]\<rparr>"

lemma sample_ssh_memory: "memory_ok [] sample_ssh_service"
  by (simp add: memory_ok_def owned_def wf_state_def sample_ssh_service_def)

lemma sample_ssh_expire:
  "sv_consumers (expire_now sample_env sample_ssh_service) = sv_consumers sample_ssh_service"
  "buffer (expire_now sample_env sample_ssh_service) 0 = std_encode sample_seed"
proof -
  have wf: "wf_state (next_call sample_ssh_service)" using sample_ssh_memory by (simp add: memory_wf)
  show c: "sv_consumers (expire_now sample_env sample_ssh_service) = sv_consumers sample_ssh_service"
    using expire_consumers_eq [OF wf] by (simp add: expire_now_eq frame)
      (simp add: sample_ssh_service_def keep_leases_def lease_live_def consumer_live_def sample_lease_def
        sample_session_def sample_consumer_def)
  have "live_session sample_env sample_ssh_service (sha256 ''ksc_a'') =
      go_get (sv_consumers sample_ssh_service) (sha256 ''ksc_a'')"
    using expire_now_get [of sample_ssh_service sample_env "sha256 ''ksc_a''"] c sample_ssh_memory
    by (simp add: memory_wf)
  then have "live_session sample_env sample_ssh_service (sha256 ''ksc_a'') = Some (sample_session
      \<lparr>cs_leases := [(''lease_1'', \<lparr>al_metadata = sample_lease\<lparr>lease_kind := ''ssh''\<rparr>, al_secret = 0\<rparr>)]\<rparr>)"
    by (simp add: sample_ssh_service_def)
  then have "buffer (expire_now sample_env sample_ssh_service) 0 = buffer sample_ssh_service 0"
    using expire_now_contents [OF sample_ssh_memory, of sample_env "sha256 ''ksc_a''" _ "''lease_1''"
        "\<lparr>al_metadata = sample_lease\<lparr>lease_kind := ''ssh''\<rparr>, al_secret = 0\<rparr>"] by simp
  then show "buffer (expire_now sample_env sample_ssh_service) 0 = std_encode sample_seed"
    by (simp add: buffer_def sample_ssh_service_def)
qed

lemma sample_ssh_signed:
  "fst (agent_sign sample_env sample_wire sample_public ''data'' sample_ssh_service) = Inr ''data''"
proof -
  let ?s = "expire_now sample_env sample_ssh_service"
  have req: "ssh_authentication_request sample_wire sample_public ''data''"
    by (simp add: ssh_authentication_request_def sample_wire_def sample_public_def)
  have "stored_key sample_env (std_encode sample_seed) = Inr (sample_seed @ sample_seed)"
    by (simp add: stored_key_def std_decode_encode new_key_from_seed_def) (simp add: sample_seed_def)
  then obtain a where a: "fst (ssh_private_key sample_env (std_encode sample_seed) ?s) = Inr a"
    "buffer (snd (ssh_private_key sample_env (std_encode sample_seed) ?s)) a = sample_seed @ sample_seed"
    using ssh_private_key_result [of sample_env "std_encode sample_seed" ?s] by auto
  have d: "drop 32 (sample_seed @ sample_seed) = sample_seed" by (simp add: sample_seed_def)
  have cs: "sv_consumers sample_ssh_service = [(sha256 ''ksc_a'', sample_session
      \<lparr>cs_leases := [(''lease_1'', \<lparr>al_metadata = sample_lease\<lparr>lease_kind := ''ssh''\<rparr>, al_secret = 0\<rparr>)]\<rparr>)]"
    by (simp add: sample_ssh_service_def)
  have pk: "pk_blob sample_public = sample_seed" by (simp add: sample_public_def)
  have "fst (sign_consumers sample_env sample_public ''data'' (sv_consumers ?s) ?s) = Some (Inr ''data'')"
    unfolding sample_ssh_expire(1) cs
    using a d pk sample_ssh_expire(2) by (simp add: case_prod_beta del: drop_append)
  then show ?thesis using req by (simp add: agent_sign_def Let_def case_prod_beta)
qed

theorem agent_signs_only_with_a_live_lease_witness:
  "\<exists>h c i l key. live_session sample_env sample_ssh_service h = Some c \<and> go_get (cs_leases c) i = Some l \<and>
     answers sample_env sample_ssh_service sample_public l key"
  using agent_signs_only_with_a_live_lease [OF sample_ssh_memory sample_ssh_signed] by blast

end
