(* ===== verification/Version.thy ===== *)
theory Version
  imports Atomic_File "HOL-Library.Product_Lexorder"
begin

text \<open>
  \<^verbatim>\<open>internal/updatecheck/checker.go\<close>: parsing and comparing release versions, the update cache
  and the check itself. The HTTP client, \<^verbatim>\<open>url.Parse\<close> and JSON are parameters: the reply of the
  release service, the scheme and host of a URL, and the decoded contents of the cache file.
\<close>

section \<open>Parsing\<close>

record semantic_version =
  sem_core :: "int \<times> int \<times> int"
  sem_prerelease :: gostring

text \<open>The text before the first occurrence of a byte, and the text after it, if it occurs.\<close>

definition split_first :: "char \<Rightarrow> gostring \<Rightarrow> gostring \<times> gostring" where
  "split_first c s = (let (before, after, found) = cut s [c] in (before, after))"

definition rune_digit :: "nat \<Rightarrow> bool" where
  "rune_digit r \<longleftrightarrow> 48 \<le> r \<and> r \<le> 57"

definition rune_allowed :: "nat \<Rightarrow> bool" where
  "rune_allowed r \<longleftrightarrow> rune_digit r \<or> 65 \<le> r \<and> r \<le> 90 \<or> 97 \<le> r \<and> r \<le> 122 \<or> r = 45"

definition leading_zero :: "gostring \<Rightarrow> bool" where
  "leading_zero s \<longleftrightarrow> length s > 1 \<and> hd s = CHR ''0''"

definition valid_identifier :: "gostring \<Rightarrow> bool" where
  "valid_identifier s \<longleftrightarrow>
     s \<noteq> [] \<and> list_all rune_allowed (runes s) \<and>
     \<not> (list_all rune_digit (runes s) \<and> leading_zero s)"

definition valid_prerelease :: "gostring \<Rightarrow> bool" where
  "valid_prerelease p \<longleftrightarrow> p = [] \<or> list_all valid_identifier (split_on (CHR ''.'') p)"

definition parse_core :: "gostring \<Rightarrow> int option" where
  "parse_core part =
     (if part = [] \<or> leading_zero part then None
      else case atoi part of None \<Rightarrow> None | Some n \<Rightarrow> if n < 0 then None else Some n)"

definition parse_trimmed :: "gostring \<Rightarrow> semantic_version option" where
  "parse_trimmed v =
     (let without_build = fst (split_first (CHR ''+'') v);
          (core, pre) = split_first (CHR ''-'') without_build
      in case map parse_core (split_on (CHR ''.'') core) of
           [Some a, Some b, Some c] \<Rightarrow>
             if valid_prerelease pre then Some \<lparr>sem_core = (a, b, c), sem_prerelease = pre\<rparr> else None
         | _ \<Rightarrow> None)"

definition parse_version :: "gostring \<Rightarrow> semantic_version option" where
  "parse_version v = parse_trimmed (trim_prefix (trim_space v) ''v'')"

lemma parse_version_graphic:
  "s \<noteq> [] \<Longrightarrow> graphic (hd s) \<Longrightarrow> graphic (last s) \<Longrightarrow> parse_version s = parse_trimmed (trim_prefix s ''v'')"
  by (simp add: parse_version_def trim_space_graphic)

section \<open>Comparing\<close>

definition numeric_identifier :: "gostring \<Rightarrow> int option" where
  "numeric_identifier s = (if s = [] \<or> leading_zero s then None else atoi s)"

fun compare_identifiers :: "gostring list \<Rightarrow> gostring list \<Rightarrow> int" where
  "compare_identifiers (l # ls) (r # rs) =
     (case (numeric_identifier l, numeric_identifier r) of
        (Some m, Some n) \<Rightarrow>
          if m \<noteq> n then (if m > n then 1 else - 1)
          else if l \<noteq> r then (if l > r then 1 else - 1)
          else compare_identifiers ls rs
      | (Some m, None) \<Rightarrow> - 1
      | (None, Some n) \<Rightarrow> 1
      | (None, None) \<Rightarrow>
          if l \<noteq> r then (if l > r then 1 else - 1) else compare_identifiers ls rs)"
| "compare_identifiers (l # ls) [] = 1"
| "compare_identifiers [] rs = - 1"

definition compare_prerelease :: "gostring \<Rightarrow> gostring \<Rightarrow> int" where
  "compare_prerelease left right =
     (if left = right then 0
      else if left = [] then 1
      else if right = [] then - 1
      else compare_identifiers (split_on (CHR ''.'') left) (split_on (CHR ''.'') right))"

fun compare_cores :: "int list \<Rightarrow> int list \<Rightarrow> int" where
  "compare_cores (l # ls) (r # rs) = (if l > r then 1 else if l < r then - 1 else compare_cores ls rs)"
| "compare_cores _ _ = 0"

definition core_list :: "semantic_version \<Rightarrow> int list" where
  "core_list v = (case sem_core v of (a, b, c) \<Rightarrow> [a, b, c])"

definition compare_versions :: "gostring \<Rightarrow> gostring \<Rightarrow> int" where
  "compare_versions left right =
     (case (parse_version left, parse_version right) of
        (Some l, Some r) \<Rightarrow>
          if compare_cores (core_list l) (core_list r) \<noteq> 0 then compare_cores (core_list l) (core_list r)
          else compare_prerelease (sem_prerelease l) (sem_prerelease r)
      | _ \<Rightarrow> 0)"

section \<open>The order behind the comparison\<close>

text \<open>A three-way comparison that agrees with a linear order of keys.\<close>

definition three_way :: "'a::linorder \<Rightarrow> 'a \<Rightarrow> int" where
  "three_way x y = (if x > y then 1 else if x = y then 0 else - 1)"

lemma three_way_laws:
  "three_way y x = - three_way x y"
  "three_way x y = 0 \<longleftrightarrow> x = y"
  "three_way x y > 0 \<longleftrightarrow> x > y"
  by (auto simp: three_way_def)

type_synonym identifier_key = "bool \<times> int \<times> gostring"
type_synonym version_key = "int \<times> int \<times> int \<times> bool \<times> identifier_key list"

definition identifier_key :: "gostring \<Rightarrow> identifier_key" where
  "identifier_key s =
     (case numeric_identifier s of Some n \<Rightarrow> (False, n, s) | None \<Rightarrow> (True, 0, s))"

definition version_key :: "semantic_version \<Rightarrow> version_key" where
  "version_key v =
     (case sem_core v of (a, b, c) \<Rightarrow>
        (a, b, c, sem_prerelease v = [], map identifier_key (split_on (CHR ''.'') (sem_prerelease v))))"

lemma identifier_key_eq [simp]: "identifier_key l = identifier_key r \<longleftrightarrow> l = r"
  by (auto simp: identifier_key_def split: option.splits)

lemma three_way_Cons:
  "three_way (x # xs) (y # ys) = (if x > y then 1 else if x = y then three_way xs ys else - 1)"
  by (auto simp: three_way_def)

lemma three_way_Pair:
  "three_way (x, xs) (y, ys) = (if x > y then 1 else if x = y then three_way xs ys else - 1)"
  by (auto simp: three_way_def)

lemma three_way_self [simp]: "three_way x x = 0"
  by (simp add: three_way_def)

lemma compare_identifiers_key:
  "ls \<noteq> rs \<Longrightarrow> compare_identifiers ls rs = three_way (map identifier_key ls) (map identifier_key rs)"
proof (induction ls rs rule: compare_identifiers.induct)
  case (1 l ls r rs)
  have "identifier_key l > identifier_key r \<longleftrightarrow>
      (case (numeric_identifier l, numeric_identifier r) of
         (Some m, Some n) \<Rightarrow> m > n \<or> m = n \<and> l > r | (Some m, None) \<Rightarrow> False
       | (None, Some n) \<Rightarrow> True | (None, None) \<Rightarrow> l > r)"
    by (auto simp: identifier_key_def split: option.splits)
  with 1 show ?case
    by (auto simp: three_way_Cons simp del: less_prod_simp split: option.splits)
qed (auto simp: three_way_def)

lemma split_on_eq: "split_on sep s = split_on sep t \<longleftrightarrow> s = t"
  by (metis join_split)

lemma compare_prerelease_key:
  "compare_prerelease p q =
     three_way (p = [], map identifier_key (split_on (CHR ''.'') p))
       (q = [], map identifier_key (split_on (CHR ''.'') q))"
proof (cases "p = q \<or> p = [] \<or> q = []")
  case True
  then show ?thesis by (auto simp: compare_prerelease_def three_way_def)
next
  case False
  then show ?thesis
    by (simp add: compare_prerelease_def three_way_Pair compare_identifiers_key split_on_eq)
qed

lemma map_identifier_key_eq: "map identifier_key ls = map identifier_key rs \<longleftrightarrow> ls = rs"
  by (simp add: inj_map_eq_map inj_def)

lemma version_key_eq: "version_key v = version_key w \<longleftrightarrow> v = w"
proof
  assume "version_key v = version_key w"
  then have "sem_core v = sem_core w" "sem_prerelease v = sem_prerelease w"
    by (auto simp: version_key_def map_identifier_key_eq split_on_eq split: prod.splits)
  then show "v = w" by simp
qed simp

lemma compare_versions_key:
  assumes "parse_version l = Some v" and "parse_version r = Some w"
  shows "compare_versions l r = three_way (version_key v) (version_key w)"
proof -
  obtain a b c where v: "sem_core v = (a, b, c)" by (cases "sem_core v")
  obtain a' b' c' where w: "sem_core w = (a', b', c')" by (cases "sem_core w")
  show ?thesis
    by (simp add: compare_versions_def assms core_list_def v w version_key_def three_way_Pair
        compare_prerelease_key)
qed

end
