(* ===== verification/Update_Check.thy ===== *)
theory Update_Check
  imports Version
begin

text \<open>
  \<^verbatim>\<open>Checker.Check\<close> with its cache. The cache file is a disk of decoded \<^verbatim>\<open>cachedRelease\<close> values: a
  file that was only partly written does not decode. What the release service replies and what
  \<^verbatim>\<open>url.Parse\<close> makes of a URL are fields of \<open>checker\<close>, as are the two readings of the clock.
\<close>

definition default_release_page :: gostring where
  "default_release_page = ''https://github.com/theronburger/key-session/releases/latest''"

definition cache_lifetime :: duration where "cache_lifetime = 24 * hour"

record update_result =
  ur_current_version :: gostring
  ur_latest_version :: gostring
  ur_update_available :: bool
  ur_release_url :: gostring
  ur_checked_at :: time

record cached_release =
  cach_latest_version :: gostring
  cach_release_url :: gostring
  cach_checked_at :: time

record github_release =
  gh_tag_name :: gostring
  gh_html_url :: gostring
  gh_draft :: bool

text \<open>The reply of the release service: no connection, or a status and the decoded body.\<close>

datatype reply = Unreachable gostring | Replied nat "github_release option"

record checker =
  chk_cache_age_at :: time
  chk_received_at :: time
  chk_reply :: reply
  chk_url :: "gostring \<Rightarrow> (gostring \<times> gostring) option"
  chk_fault :: "nat \<Rightarrow> gostring option"

datatype update_error =
    NotARelease gostring | NoReply gostring | UnexpectedStatus nat | Undecodable
  | InvalidRelease | InvalidVersion gostring | CacheFailed gostring

definition result_for :: "gostring \<Rightarrow> cached_release \<Rightarrow> update_result" where
  "result_for current cached =
     \<lparr>ur_current_version = current, ur_latest_version = cach_latest_version cached,
      ur_update_available = (compare_versions (cach_latest_version cached) current > 0),
      ur_release_url = cach_release_url cached, ur_checked_at = cach_checked_at cached\<rparr>"

text \<open>\<^verbatim>\<open>IsZero\<close> holds of the first instant of year 1.\<close>

definition zero_time :: time where
  "zero_time = - 62135596800 * 10 ^ 9"

definition read_cache :: "cached_release disk \<Rightarrow> cached_release option" where
  "read_cache d =
     (case target d of
        None \<Rightarrow> None
      | Some f \<Rightarrow>
          (case file_contents f of
             Part x \<Rightarrow> None
           | Whole cached \<Rightarrow>
               if parse_version (cach_latest_version cached) = None \<or> cach_checked_at cached = zero_time
               then None else Some cached))"

definition cache_fresh :: "time \<Rightarrow> cached_release \<Rightarrow> bool" where
  "cache_fresh now cached \<longleftrightarrow>
     (let age = time_sub now (cach_checked_at cached)
      in 0 \<le> sint age \<and> dur_less age cache_lifetime)"

definition write_cache :: "(nat \<Rightarrow> gostring option) \<Rightarrow> cached_release \<Rightarrow> cached_release disk \<Rightarrow>
    gostring option \<times> cached_release disk" where
  "write_cache fault cached d = replace_file fault (write_cache_ops cached) d"

text \<open>The release page of a reply, unless it is not an \<^verbatim>\<open>https\<close> page of \<^verbatim>\<open>github.com\<close>.\<close>

definition trusted_url :: "(gostring \<Rightarrow> (gostring \<times> gostring) option) \<Rightarrow> gostring \<Rightarrow> bool" where
  "trusted_url parse url \<longleftrightarrow> parse url = Some (''https'', ''github.com'')"

definition release_page :: "(gostring \<Rightarrow> (gostring \<times> gostring) option) \<Rightarrow> gostring \<Rightarrow> gostring" where
  "release_page parse url = (if trusted_url parse url then url else default_release_page)"

text \<open>The checks on a decoded release; the version without its \<^verbatim>\<open>v\<close>.\<close>

definition accept_release :: "github_release \<Rightarrow> update_error + gostring" where
  "accept_release release =
     (let latest = trim_prefix (trim_space (gh_tag_name release)) ''v''
      in if gh_draft release \<or> latest = [] then Inl InvalidRelease
         else if parse_version latest = None then Inl (InvalidVersion (gh_tag_name release))
         else Inr latest)"

definition fetch_release :: "checker \<Rightarrow> update_error + cached_release" where
  "fetch_release K =
     (case chk_reply K of
        Unreachable msg \<Rightarrow> Inl (NoReply msg)
      | Replied status body \<Rightarrow>
          if status \<noteq> 200 then Inl (UnexpectedStatus status)
          else case body of
            None \<Rightarrow> Inl Undecodable
          | Some release \<Rightarrow>
              (case accept_release release of
                 Inl e \<Rightarrow> Inl e
               | Inr latest \<Rightarrow>
                   Inr \<lparr>cach_latest_version = latest,
                        cach_release_url = release_page (chk_url K) (gh_html_url release),
                        cach_checked_at = chk_received_at K\<rparr>))"

definition check_online :: "checker \<Rightarrow> gostring \<Rightarrow> cached_release disk \<Rightarrow>
    (update_error + update_result) \<times> cached_release disk" where
  "check_online K current d =
     (case fetch_release K of
        Inl e \<Rightarrow> (Inl e, d)
      | Inr cached \<Rightarrow>
          (case write_cache (chk_fault K) cached d of
             (Some msg, d') \<Rightarrow> (Inl (CacheFailed msg), d')
           | (None, d') \<Rightarrow> (Inr (result_for current cached), d')))"

definition check :: "checker \<Rightarrow> gostring \<Rightarrow> bool \<Rightarrow> cached_release disk \<Rightarrow>
    (update_error + update_result) \<times> cached_release disk" where
  "check K current force d =
     (if parse_version current = None then (Inl (NotARelease current), d)
      else case (if force then None else read_cache d) of
        Some cached \<Rightarrow>
          if cache_fresh (chk_cache_age_at K) cached then (Inr (result_for current cached), d)
          else check_online K current d
      | None \<Rightarrow> check_online K current d)"

section \<open>What a result rests on\<close>

definition usable_cache :: "checker \<Rightarrow> bool \<Rightarrow> cached_release disk \<Rightarrow> cached_release option" where
  "usable_cache K force d =
     (if force then None
      else case read_cache d of
        Some cached \<Rightarrow> if cache_fresh (chk_cache_age_at K) cached then Some cached else None
      | None \<Rightarrow> None)"

lemma check_cases:
  "check K current force d =
     (if parse_version current = None then (Inl (NotARelease current), d)
      else case usable_cache K force d of
        Some cached \<Rightarrow> (Inr (result_for current cached), d)
      | None \<Rightarrow> check_online K current d)"
  by (simp add: check_def usable_cache_def split: option.split)

lemma check_online_result:
  assumes "check_online K current d = (Inr res, d')"
  shows "\<exists>cached. fetch_release K = Inr cached \<and> res = result_for current cached \<and>
       target d' = Some (new_file cached)"
proof (cases "fetch_release K")
  case (Inr cached)
  let ?w = "write_cache (chk_fault K) cached d"
  from assms Inr have "fst ?w = None" "snd ?w = d'" "res = result_for current cached"
    by (auto simp: check_online_def split: prod.splits option.splits)
  with Inr cache_writer.replace_success [of "chk_fault K" cached d] show ?thesis
    by (auto simp: write_cache_def)
qed (use assms in \<open>simp add: check_online_def\<close>)

lemma check_online_target:
  "target (snd (check_online K current d)) = target d \<or>
     (\<exists>cached. fetch_release K = Inr cached \<and> target (snd (check_online K current d)) = Some (new_file cached))"
proof (cases "fetch_release K")
  case (Inr cached)
  then show ?thesis
    using cache_writer.replace_atomic [of "chk_fault K" cached d]
    by (simp add: check_online_def write_cache_def case_prod_beta split: option.split)
qed (simp add: check_online_def)

lemma accepted_parses: "accept_release release = Inr latest \<Longrightarrow> parse_version latest \<noteq> None"
  by (auto simp: accept_release_def Let_def split: if_splits)

lemma fetch_accepted:
  "fetch_release K = Inr cached \<Longrightarrow> \<exists>release. chk_reply K = Replied 200 (Some release) \<and>
     \<not> gh_draft release \<and> cach_latest_version cached = trim_prefix (trim_space (gh_tag_name release)) ''v'' \<and>
     parse_version (cach_latest_version cached) \<noteq> None \<and>
     cach_release_url cached = release_page (chk_url K) (gh_html_url release)"
  by (auto simp: fetch_release_def accept_release_def Let_def
      split: reply.splits if_splits option.splits sum.splits)

lemma fetched_at: "fetch_release K = Inr cached \<Longrightarrow> cach_checked_at cached = chk_received_at K"
  by (auto simp: fetch_release_def split: reply.splits if_splits option.splits sum.splits)

lemma read_cache_parses:
  "read_cache d = Some cached \<Longrightarrow> parse_version (cach_latest_version cached) \<noteq> None"
  by (auto simp: read_cache_def split: option.splits contents.splits if_splits)

lemma cache_fresh_age:
  "cache_fresh now cached \<longleftrightarrow>
     0 \<le> now - cach_checked_at cached \<and> now - cach_checked_at cached < 24 * 3600 * 10 ^ 9"
proof -
  have "sint cache_lifetime = 24 * 3600 * 10 ^ 9"
    by (simp add: cache_lifetime_def hour_def minute_def second_def)
  then show ?thesis
    by (auto simp: cache_fresh_def Let_def sint_time_sub)
qed

text \<open>A cache file whose URL is the release page or a page of \<^verbatim>\<open>github.com\<close>.\<close>

definition good_url :: "(gostring \<Rightarrow> (gostring \<times> gostring) option) \<Rightarrow> gostring \<Rightarrow> bool" where
  "good_url parse url \<longleftrightarrow> url = default_release_page \<or> trusted_url parse url"

definition good_cache :: "(gostring \<Rightarrow> (gostring \<times> gostring) option) \<Rightarrow> cached_release disk \<Rightarrow> bool" where
  "good_cache parse d \<longleftrightarrow>
     (case target d of
        None \<Rightarrow> True
      | Some f \<Rightarrow> (case file_contents f of Part x \<Rightarrow> True | Whole c \<Rightarrow> good_url parse (cach_release_url c)))"

lemma fetched_url: "fetch_release K = Inr cached \<Longrightarrow> good_url (chk_url K) (cach_release_url cached)"
  by (auto dest!: fetch_accepted simp: good_url_def release_page_def)

lemma read_cache_url:
  "good_cache parse d \<Longrightarrow> read_cache d = Some cached \<Longrightarrow> good_url parse (cach_release_url cached)"
  by (auto simp: good_cache_def read_cache_def split: option.splits contents.splits if_splits)

lemma usable_cache_read: "usable_cache K force d = Some cached \<Longrightarrow> read_cache d = Some cached"
  by (auto simp: usable_cache_def split: if_splits option.splits)

end
