(* ===== verification/Update_Properties.thy ===== *)
theory Update_Properties
  imports Update_Check
begin

text \<open>Properties of the update check.\<close>

text \<open>
  C38: version_order. On valid versions \<^verbatim>\<open>compareVersions\<close> is a linear order: swapping the
  arguments negates the result, only versions with the same core and pre-release compare equal,
  and "newer" is transitive.
\<close>

theorem version_order:
  assumes "parse_version a = Some u" and "parse_version b = Some v" and "parse_version c = Some w"
  shows "compare_versions b a = - compare_versions a b \<and>
    (compare_versions a b = 0 \<longleftrightarrow> u = v) \<and> compare_versions a b \<in> {- 1, 0, 1} \<and>
    (compare_versions a b > 0 \<and> compare_versions b c > 0 \<longrightarrow> compare_versions a c > 0)"
proof -
  note keys = compare_versions_key [OF assms(1,2)] compare_versions_key [OF assms(2,1)]
    compare_versions_key [OF assms(1,3)] compare_versions_key [OF assms(2,3)]
  have "compare_versions b a = - compare_versions a b"
    unfolding keys by (rule three_way_laws(1))
  moreover have "compare_versions a b = 0 \<longleftrightarrow> u = v"
    unfolding keys three_way_laws(2) by (rule version_key_eq)
  moreover have "compare_versions a b > 0 \<and> compare_versions b c > 0 \<longrightarrow> compare_versions a c > 0"
    unfolding keys three_way_laws(3) by (blast intro: less_trans)
  moreover have "compare_versions a b \<in> {- 1, 0, 1}"
    unfolding keys by (simp add: three_way_def)
  ultimately show ?thesis by simp
qed

theorem version_order_witness:
  "compare_versions ''1.0.0-rc.2'' ''v1.0.0'' = - compare_versions ''v1.0.0'' ''1.0.0-rc.2'' \<and>
   compare_versions ''v1.0.0'' ''1.0.0-alpha.1'' > 0"
proof -
  have valid: "parse_version ''v1.0.0'' = Some \<lparr>sem_core = (1, 0, 0), sem_prerelease = []\<rparr>"
    "parse_version ''1.0.0-rc.2'' = Some \<lparr>sem_core = (1, 0, 0), sem_prerelease = ''rc.2''\<rparr>"
    "parse_version ''1.0.0-alpha.1'' = Some \<lparr>sem_core = (1, 0, 0), sem_prerelease = ''alpha.1''\<rparr>"
    by (simp add: parse_version_graphic graphic_def, code_simp)+
  have "compare_versions ''v1.0.0'' ''1.0.0-rc.2'' > 0 \<and> compare_versions ''1.0.0-rc.2'' ''1.0.0-alpha.1'' > 0"
    unfolding compare_versions_def valid by code_simp
  with version_order [OF valid] show ?thesis by blast
qed

text \<open>The release a check may take from the cache: the check is not forced, the file was written to its
  end, with a version and a time, and that time is at most 24 hours ago and not in the future.\<close>

definition release_at_hand :: "checker \<Rightarrow> bool \<Rightarrow> cached_release disk \<Rightarrow> cached_release \<Rightarrow> bool" where
  "release_at_hand K force d cached \<longleftrightarrow>
     \<not> force \<and> map_option file_contents (target d) = Some (Whole cached) \<and>
     parse_version (cach_latest_version cached) \<noteq> None \<and> cach_checked_at cached \<noteq> zero_time \<and>
     0 \<le> chk_cache_age_at K - cach_checked_at cached \<and>
     chk_cache_age_at K - cach_checked_at cached < 24 * 3600 * 10 ^ 9"

lemma usable_cache_iff: "usable_cache K force d = Some cached \<longleftrightarrow> release_at_hand K force d cached"
  by (auto simp: usable_cache_def release_at_hand_def read_cache_def cache_fresh_age
      split: option.splits contents.splits if_splits)


definition release_service :: checker where
  "release_service =
     \<lparr>chk_cache_age_at = 5, chk_received_at = 7,
      chk_reply = Replied 200 (Some \<lparr>gh_tag_name = ''v2.0.1'', gh_html_url = ''http://evil'', gh_draft = False\<rparr>),
      chk_url = (\<lambda>u. if u = ''http://evil'' then Some (''http'', ''evil'') else None),
      chk_fault = (\<lambda>i. None)\<rparr>"

lemma release_service_versions:
  "parse_version ''1.9.0'' = Some \<lparr>sem_core = (1, 9, 0), sem_prerelease = []\<rparr>"
  "parse_version ''2.0.1'' = Some \<lparr>sem_core = (2, 0, 1), sem_prerelease = []\<rparr>"
  by (simp add: parse_version_graphic graphic_def, code_simp)+

lemma release_service_check:
  "\<exists>res d'. check release_service ''1.9.0'' True \<lparr>target = None, temporary = None\<rparr> = (Inr res, d') \<and>
     ur_update_available res \<and> ur_latest_version res = ''2.0.1''"
proof -
  have "trim_space ''v2.0.1'' = ''v2.0.1''"
    by (simp add: trim_space_graphic graphic_def)
  then have fetched: "fetch_release release_service =
      Inr \<lparr>cach_latest_version = ''2.0.1'', cach_release_url = default_release_page, cach_checked_at = 7\<rparr>"
    by (simp add: fetch_release_def release_service_def accept_release_def trim_prefix_def
        release_service_versions release_page_def trusted_url_def)
  have "compare_versions ''2.0.1'' ''1.9.0'' > 0"
    unfolding compare_versions_def release_service_versions by code_simp
  with fetched show ?thesis
    by (simp add: check_def release_service_versions check_online_def write_cache_def replace_file_def
        write_cache_ops_def) (simp add: release_service_def result_for_def)
qed


text \<open>
  The URL a check reports and the URL it leaves in the cache are the
  project's release page or an \<^verbatim>\<open>https\<close> URL of \<^verbatim>\<open>github.com\<close>, whatever the service replies and
  whichever write of the cache fails, provided the cache held such a URL before.
\<close>

theorem release_url_is_trusted:
  assumes "good_cache (chk_url K) d" and "check K current force d = (r, d')"
  shows "good_cache (chk_url K) d' \<and>
    (case r of Inr res \<Rightarrow> good_url (chk_url K) (ur_release_url res) | Inl e \<Rightarrow> True)"
proof
  have "good_cache (chk_url K) (snd (check_online K current d))"
    using check_online_target [of K current d] assms(1) fetched_url [of K]
    by (auto simp: good_cache_def new_file_def)
  then show "good_cache (chk_url K) d'"
    using assms by (auto simp: check_cases split: option.splits if_splits)
  show "case r of Inr res \<Rightarrow> good_url (chk_url K) (ur_release_url res) | Inl e \<Rightarrow> True"
  proof (cases r)
    case (Inr res)
    then show ?thesis
      using assms check_online_result [of K current d res d'] fetched_url [of K]
        usable_cache_read [of K force d] read_cache_url [OF assms(1)]
      by (auto simp: check_cases result_for_def split: option.splits if_splits)
  qed simp
qed

theorem release_url_is_trusted_witness:
  "\<exists>res d'. check release_service ''1.9.0'' True \<lparr>target = None, temporary = None\<rparr> = (Inr res, d') \<and>
     good_url (chk_url release_service) (ur_release_url res) \<and> good_cache (chk_url release_service) d'"
proof -
  let ?d = "\<lparr>target = None, temporary = None\<rparr>"
  let ?r = "check release_service ''1.9.0'' True ?d"
  obtain res d' where r: "?r = (Inr res, d')"
    using release_service_check by blast
  have "good_cache (chk_url release_service) ?d" by (simp add: good_cache_def)
  from release_url_is_trusted [OF this r] r show ?thesis by simp
qed

text \<open>
  Against the order of semantic versions, an identifier that is a hyphen and a number counts as a
  negative number and sorts before 3, and a bare hyphen after the core is accepted as a release.
\<close>

theorem hyphenated_number_sorts_first:
  "compare_versions ''1.0.0--5'' ''1.0.0-3'' = - 1 \<and>
   parse_version ''1.2.3-'' = Some \<lparr>sem_core = (1, 2, 3), sem_prerelease = []\<rparr>"
proof -
  have v: "parse_version ''1.0.0--5'' = Some \<lparr>sem_core = (1, 0, 0), sem_prerelease = ''-5''\<rparr>"
    "parse_version ''1.0.0-3'' = Some \<lparr>sem_core = (1, 0, 0), sem_prerelease = ''3''\<rparr>"
    "parse_version ''1.2.3-'' = Some \<lparr>sem_core = (1, 2, 3), sem_prerelease = []\<rparr>"
    by (simp add: parse_version_graphic graphic_def, code_simp)+
  have "compare_prerelease ''-5'' ''3'' = - 1" by code_simp
  then show ?thesis using v by (simp add: compare_versions_def core_list_def)
qed

end
