(* ===== verification/Go_Paths.thy ===== *)
theory Go_Paths
  imports Go_Numbers
begin

text \<open>
  \<^verbatim>\<open>filepath.Join\<close> and \<^verbatim>\<open>filepath.Clean\<close> on Unix, the answers of \<^verbatim>\<open>os.Lstat\<close>, and octal
  printing of permissions.
\<close>

section \<open>Joining\<close>

text \<open>The elements of a cleaned path, in reverse: empty ones and \<open>.\<close> vanish, \<open>..\<close> undoes one.\<close>

fun clean_parts :: "bool \<Rightarrow> gostring list \<Rightarrow> gostring list \<Rightarrow> gostring list" where
  "clean_parts rooted acc [] = rev acc"
| "clean_parts rooted acc (p # ps) =
     (if p = [] \<or> p = ''.'' then clean_parts rooted acc ps
      else if p = ''..'' then
        (case acc of
           a # as \<Rightarrow> if a = ''..'' then clean_parts rooted (p # acc) ps else clean_parts rooted as ps
         | [] \<Rightarrow> if rooted then clean_parts rooted [] ps else clean_parts rooted [p] ps)
      else clean_parts rooted (p # acc) ps)"

definition path_clean :: "gostring \<Rightarrow> gostring" where
  "path_clean s =
     (let rooted = has_prefix s ''/'';
          t = (if rooted then ''/'' else []) @ join_with ''/'' (clean_parts rooted [] (split_on (CHR ''/'') s))
      in if t = [] then ''.'' else t)"

definition path_join :: "gostring list \<Rightarrow> gostring" where
  "path_join elems =
     (let parts = dropWhile (\<lambda>e. e = []) elems
      in if parts = [] then [] else path_clean (join_with ''/'' parts))"

text \<open>The elements of a path: what lies between its separators, without empty ones.\<close>

definition path_parts :: "gostring \<Rightarrow> gostring list" where
  "path_parts s = filter (\<lambda>p. p \<noteq> []) (split_on (CHR ''/'') s)"

definition plain_part :: "gostring \<Rightarrow> bool" where
  "plain_part p \<longleftrightarrow> p \<noteq> [] \<and> p \<noteq> ''.'' \<and> p \<noteq> ''..'' \<and> CHR ''/'' \<notin> set p"

lemma clean_parts_plain:
  "list_all (\<lambda>p. p = [] \<or> plain_part p) ps \<Longrightarrow>
     clean_parts rooted acc ps = rev acc @ filter (\<lambda>p. p \<noteq> []) ps"
  by (induction ps arbitrary: acc) (auto simp: plain_part_def)

section \<open>File information\<close>

datatype file_kind = Regular | Directory | Symlink | Socket | OtherFile

datatype lstat = NotThere gostring | LstatFails gostring | Found file_kind nat

text \<open>\<open>NotThere\<close> is an error \<^verbatim>\<open>os.IsNotExist\<close> recognises; \<open>Found\<close> has the permission bits.\<close>

fun show_octal :: "nat \<Rightarrow> gostring" where
  "show_octal n = (if n < 8 then [digit_char n] else show_octal (n div 8) @ [digit_char (n mod 8)])"

declare show_octal.simps [simp del]

text \<open>\<^verbatim>\<open>%04o\<close>.\<close>

definition octal4 :: "nat \<Rightarrow> gostring" where
  "octal4 n = (let d = show_octal n in replicate (4 - length d) (CHR ''0'') @ d)"

definition mode_dir :: nat where "mode_dir = 448" \<comment> \<open>0700\<close>
definition mode_file :: nat where "mode_file = 384" \<comment> \<open>0600\<close>

lemma octal_modes: "octal4 mode_dir = ''0700''" "octal4 mode_file = ''0600''"
  by code_simp+

end
