(* ===== verification/Doctor.thy ===== *)
theory Doctor
  imports Go_Paths Contract
begin

text \<open>
  \<^verbatim>\<open>Service.Doctor\<close> and \<^verbatim>\<open>privatePathCheck\<close>: the report on the files of the daemon. The user's
  configuration directory and \<^verbatim>\<open>os.Lstat\<close> are parameters.
\<close>

record runtime_paths =
  rp_directory :: gostring
  rp_descriptor :: gostring
  rp_lock :: gostring

definition default_runtime_paths :: "gostring + gostring \<Rightarrow> gostring + runtime_paths" where
  "default_runtime_paths config_dir =
     (case config_dir of
        Inl msg \<Rightarrow> Inl (''locate application support: '' @ msg)
      | Inr root \<Rightarrow>
          let directory = path_join [root, ''key-session'', ''runtime'']
          in Inr \<lparr>rp_directory = directory,
                  rp_descriptor = path_join [directory, ''endpoint.json''],
                  rp_lock = path_join [directory, ''daemon.lock'']\<rparr>)"

definition private_path_check ::
  "(gostring \<Rightarrow> lstat) \<Rightarrow> gostring \<Rightarrow> gostring \<Rightarrow> bool \<Rightarrow> nat \<Rightarrow> bool \<Rightarrow> gostring \<Rightarrow> doctor_check" where
  "private_path_check stat name path directory mode missing_is_info missing_detail =
     (let check = (\<lambda>status detail. \<lparr>dc_name = name, dc_status = status, dc_detail = detail\<rparr>)
      in case stat path of
           NotThere msg \<Rightarrow>
             if missing_is_info then check ''info'' missing_detail else check ''fail'' msg
         | LstatFails msg \<Rightarrow> check ''fail'' msg
         | Found kind perm \<Rightarrow>
             if directory \<and> kind \<noteq> Directory \<or> \<not> directory \<and> kind \<noteq> Regular then
               check ''fail'' (''Expected an owner-only regular '' @ (if directory then ''directory'' else ''file''))
             else if perm \<noteq> mode then
               check ''fail'' (''Expected '' @ octal4 mode @ '', found '' @ octal4 perm)
             else check ''pass'' (''Protected with mode '' @ octal4 mode))"

definition doctor :: "(gostring \<Rightarrow> lstat) \<Rightarrow> gostring + gostring \<Rightarrow> gostring \<Rightarrow> gostring \<Rightarrow> doctor_report" where
  "doctor stat config_dir config_path audit_path =
     (let check = (\<lambda>n st d. \<lparr>dc_name = n, dc_status = st, dc_detail = d\<rparr>);
          fixed =
            [check ''Daemon'' ''pass'' ''Authenticated loopback API is responding'',
             check ''Consumer isolation'' ''info''
               ''Exec and consumer revocation require an in-memory consumer capability and exact lease ID''];
          runtime =
            (case default_runtime_paths config_dir of
               Inl msg \<Rightarrow> [check ''Runtime directory'' ''fail'' msg]
             | Inr paths \<Rightarrow>
                 [private_path_check stat ''Runtime directory'' (rp_directory paths) True mode_dir False [],
                  private_path_check stat ''Endpoint descriptor'' (rp_descriptor paths) False mode_file False []]);
          files =
            [private_path_check stat ''Configuration'' config_path False mode_file True ''No profiles configured yet'',
             private_path_check stat ''Audit journal'' audit_path False mode_file True ''No audit events recorded yet'',
             check ''Approval policy'' ''info''
               ''Key Session requires biometrics-only LocalAuthentication before each Keychain read''];
          checks = fixed @ runtime @ files
      in \<lparr>dr_healthy = \<not> list_ex (\<lambda>c. dc_status c = ''fail'') checks, dr_checks = checks\<rparr>)"

lemma private_path_check_fails:
  "dc_status (private_path_check stat name path directory mode missing detail) = ''fail'' \<longleftrightarrow>
     \<not> (stat path = Found (if directory then Directory else Regular) mode \<or>
        missing \<and> (\<exists>msg. stat path = NotThere msg))"
  by (cases "stat path") (auto simp: private_path_check_def)

end
