(* ===== verification/Startup.thy ===== *)
theory Startup
  imports Doctor
begin

text \<open>
  Starting the daemon: the lock file of \<^verbatim>\<open>acquireLock\<close> and the probe of
  \<^verbatim>\<open>descriptorConfirmsDaemon\<close>. Outside the program are the processes that are alive, the files,
  \<^verbatim>\<open>url.Parse\<close> and the answer of the endpoint.
\<close>

section \<open>Does the descriptor belong to a running daemon?\<close>

text \<open>The fields of a parsed URL the code reads, and the reply to a handshake.\<close>

record parsed_url =
  url_scheme :: gostring
  url_hostname :: gostring
  url_port :: gostring
  url_path :: gostring

record probe =
  pb_lstat :: lstat
  pb_descriptor :: "runtime_descriptor option" \<comment> \<open>\<^verbatim>\<open>ReadFile\<close> and \<^verbatim>\<open>Unmarshal\<close>; \<open>None\<close> when either fails\<close>
  pb_url :: "gostring \<Rightarrow> parsed_url option"
  pb_reply :: "gostring \<Rightarrow> gostring \<Rightarrow> (nat \<times> handshake option) option"
    \<comment> \<open>of the URL and the \<open>Authorization\<close> header; \<open>None\<close> when the request fails\<close>

definition loopback_endpoint :: "parsed_url option \<Rightarrow> bool" where
  "loopback_endpoint u \<longleftrightarrow>
     (case u of
        None \<Rightarrow> False
      | Some u \<Rightarrow> url_scheme u = ''http'' \<and> url_hostname u = ''127.0.0.1'' \<and> url_port u \<noteq> [] \<and> url_path u = [])"

text \<open>The request the probe sends, if it sends one, with the descriptor it rests on.\<close>

definition probe_request :: "probe \<Rightarrow> int \<Rightarrow> (runtime_descriptor \<times> gostring \<times> gostring) option" where
  "probe_request P pid =
     (if pb_lstat P \<noteq> Found Regular mode_file then None
      else case pb_descriptor P of
        None \<Rightarrow> None
      | Some d \<Rightarrow>
          if rd_pid d \<noteq> pid \<or> rd_token d = [] \<or> rd_daemon_instance_id d = [] then None
          else if \<not> loopback_endpoint (pb_url P (rd_endpoint d)) then None
          else Some (d, rd_endpoint d @ ''/handshake'', ''Bearer '' @ rd_token d))"

definition descriptor_confirms_daemon :: "probe \<Rightarrow> int \<Rightarrow> bool" where
  "descriptor_confirms_daemon P pid =
     (case probe_request P pid of
        None \<Rightarrow> False
      | Some (d, url, authorization) \<Rightarrow>
          (case pb_reply P url authorization of
             None \<Rightarrow> False
           | Some (status, body) \<Rightarrow>
               if status \<noteq> 200 then False
               else case body of
                 None \<Rightarrow> False
               | Some h \<Rightarrow> hs_schema_version h = schema_version \<and>
                           hs_daemon_instance_id h = rd_daemon_instance_id d))"

section \<open>The lock\<close>

record lock_file =
  lf_payload :: gostring
  lf_modified :: time

record lock_world =
  lw_create_error :: "gostring option" \<comment> \<open>of \<^verbatim>\<open>OpenFile\<close>, other than that the file exists\<close>
  lw_lstat_fails :: bool
  lw_read_fails :: bool
  lw_remove_error :: "gostring option"
  lw_now :: time
  lw_pid :: int
  lw_alive :: "int \<Rightarrow> bool" \<comment> \<open>\<^verbatim>\<open>Kill(pid, 0)\<close> succeeds\<close>
  lw_probe :: probe

datatype lock_error = CreateLock gostring | AlreadyRunning int | RemoveStale gostring

definition lock_grace :: duration where "lock_grace = 5 * second"

definition young_lock :: "lock_world \<Rightarrow> lock_file \<Rightarrow> bool" where
  "young_lock K f \<longleftrightarrow> \<not> lw_lstat_fails K \<and> dur_less (time_sub (lw_now K) (lf_modified f)) lock_grace"

text \<open>The process identifier of a daemon the lock file shows to be running.\<close>

definition running_owner :: "lock_world \<Rightarrow> lock_file \<Rightarrow> int option" where
  "running_owner K f =
     (if lw_read_fails K then None
      else case atoi (trim_space (lf_payload f)) of
        None \<Rightarrow> None
      | Some pid \<Rightarrow>
          if pid > 0 \<and> lw_alive K pid \<and> (young_lock K f \<or> descriptor_confirms_daemon (lw_probe K) pid)
          then Some pid else None)"

text \<open>
  The recursion of \<^verbatim>\<open>acquireLock\<close>, with fuel. The lock file is the state; nobody else touches
  it between the calls.
\<close>

fun acquire_lock :: "nat \<Rightarrow> lock_world \<Rightarrow> lock_file option \<Rightarrow> (lock_error + unit) option \<times> lock_file option" where
  "acquire_lock 0 K f = (None, f)"
| "acquire_lock (Suc n) K f =
     (case lw_create_error K of
        Some msg \<Rightarrow> (Some (Inl (CreateLock msg)), f)
      | None \<Rightarrow>
          (case f of
             None \<Rightarrow>
               (Some (Inr ()), Some \<lparr>lf_payload = show_int (lw_pid K) @ [CHR 0x0A], lf_modified = lw_now K\<rparr>)
           | Some file \<Rightarrow>
               (case running_owner K file of
                  Some pid \<Rightarrow> (Some (Inl (AlreadyRunning pid)), f)
                | None \<Rightarrow>
                    (case lw_remove_error K of
                       Some msg \<Rightarrow> (Some (Inl (RemoveStale msg)), f)
                     | None \<Rightarrow> acquire_lock n K None))))"

lemma confirms_request:
  "descriptor_confirms_daemon P pid \<Longrightarrow> probe_request P pid \<noteq> None"
  by (auto simp: descriptor_confirms_daemon_def split: option.splits)

lemma acquire_lock_fuel: "acquire_lock (Suc (Suc n)) K f = acquire_lock 2 K f"
  by (auto simp: numeral_2_eq_2 split: option.split)

end
