(* ===== verification/Agent_Files.thy ===== *)
theory Agent_Files
  imports Go_Paths Atomic_File Sha256
begin

text \<open>
  The files \<^verbatim>\<open>internal/agentconnections/manager.go\<close> reads and replaces: the configuration file of
  a coding agent, which only its owner may write, and the directory tree of the bundled skill.
\<close>

definition maximum_file_bytes :: nat where
  "maximum_file_bytes = 2 * 1024 * 1024"

section \<open>Private files\<close>

text \<open>What opening a path without following links finds, and what \<^verbatim>\<open>Stat\<close> says of it.\<close>

record open_file =
  of_kind :: file_kind
  of_mode :: nat
  of_uid :: nat
  of_contents :: bytes

datatype file_at = Absent | Unopenable gostring | Opened open_file

text \<open>\<^verbatim>\<open>mode & 0o022 != 0\<close>: bit 4 or bit 1.\<close>

definition writable_by_others :: "nat \<Rightarrow> bool" where
  "writable_by_others mode \<longleftrightarrow> (mode div 16) mod 2 = 1 \<or> (mode div 2) mod 2 = 1"

definition read_private_file :: "nat \<Rightarrow> file_at \<Rightarrow> gostring + bytes option" where
  "read_private_file euid f =
     (case f of
        Absent \<Rightarrow> Inr None
      | Unopenable msg \<Rightarrow> Inl msg
      | Opened info \<Rightarrow>
          if of_kind info \<noteq> Regular \<or> writable_by_others (of_mode info) \<or> of_uid info \<noteq> euid \<or>
             length (of_contents info) > maximum_file_bytes
          then Inl ''unsafe private file'' else Inr (Some (of_contents info)))"

text \<open>\<^verbatim>\<open>bytes.Equal\<close>, for which a nil slice is empty.\<close>

definition same_bytes :: "bytes option \<Rightarrow> bytes option \<Rightarrow> bool" where
  "same_bytes a b \<longleftrightarrow> (case a of None \<Rightarrow> [] | Some x \<Rightarrow> x) = (case b of None \<Rightarrow> [] | Some x \<Rightarrow> x)"

definition owned_file :: "nat \<Rightarrow> bytes \<Rightarrow> file_at" where
  "owned_file euid bs =
     Opened \<lparr>of_kind = Regular, of_mode = mode_file, of_uid = euid, of_contents = bs\<rparr>"

text \<open>
  \<open>restore_private_file\<close> replaces the file only while it holds what the caller expects. The
  first call of \<open>restore_ops\<close> is \<^verbatim>\<open>validateOwnedDirectory\<close>; \<open>remove_error\<close> is an error of \<^verbatim>\<open>Remove\<close>
  other than that the file does not exist.
\<close>

definition restore_private_file ::
  "nat \<Rightarrow> (nat \<Rightarrow> gostring option) \<Rightarrow> gostring option \<Rightarrow> bytes option \<Rightarrow> bytes option \<Rightarrow> file_at \<Rightarrow>
   gostring option \<times> file_at" where
  "restore_private_file euid fault remove_error expected payload f =
     (case read_private_file euid f of
        Inl msg \<Rightarrow> (Some msg, f)
      | Inr current \<Rightarrow>
          if \<not> same_bytes current expected then (Some ''private file changed concurrently'', f)
          else case payload of
            None \<Rightarrow> (case remove_error of Some msg \<Rightarrow> (Some msg, f) | None \<Rightarrow> (None, Absent))
          | Some bs \<Rightarrow>
              let r = replace_file fault (restore_ops bs) \<lparr>target = None, temporary = None\<rparr>
              in (fst r, if target (snd r) = None then f else owned_file euid bs))"

section \<open>Directory trees\<close>

text \<open>
  \<^verbatim>\<open>Link b\<close> is a symbolic link, \<open>b\<close> tells whether it leads to a directory; the entries of a
  directory are in the order \<^verbatim>\<open>WalkDir\<close> visits them.
\<close>

datatype node = File bytes | Dir "(gostring \<times> node) list" | Link bool | Special

definition is_directory :: "node option \<Rightarrow> bool" where
  "is_directory n =
     (case n of Some (Dir es) \<Rightarrow> True | Some (Link b) \<Rightarrow> b | _ \<Rightarrow> False)"

definition child :: "gostring \<Rightarrow> gostring \<Rightarrow> gostring" where
  "child p k = (if p = ''.'' then k else p @ ''/'' @ k)"

text \<open>The walk of \<^verbatim>\<open>treeHash\<close>: the regular files with their relative paths; a link, a special file or a large file is an error.\<close>

fun files_at :: "gostring \<Rightarrow> node \<Rightarrow> (gostring \<times> bytes) list option"
  and files_in :: "gostring \<Rightarrow> (gostring \<times> node) list \<Rightarrow> (gostring \<times> bytes) list option" where
  "files_at p (File b) = (if length b > maximum_file_bytes then None else Some [(p, b)])"
| "files_at p (Dir es) = files_in p es"
| "files_at p (Link b) = None"
| "files_at p Special = None"
| "files_in p [] = Some []"
| "files_in p (e # es) =
     (case files_at (child p (fst e)) (snd e) of
        None \<Rightarrow> None
      | Some xs \<Rightarrow> (case files_in p es of None \<Rightarrow> None | Some ys \<Rightarrow> Some (xs @ ys)))"

definition file_frame :: "gostring \<times> bytes \<Rightarrow> bytes" where
  "file_frame e = fst e @ [CHR 0x00] @ snd e @ [CHR 0x00]"

definition tree_bytes :: "node \<Rightarrow> bytes option" where
  "tree_bytes n = map_option (\<lambda>fs. concat (map file_frame (sort_key fst fs))) (files_at ''.'' n)"

definition hex_digit :: "nat \<Rightarrow> char" where
  "hex_digit d = (if d < 10 then digit_char d else char_of (87 + d))"

definition hex_encode :: "digest \<Rightarrow> gostring" where
  "hex_encode ws = concat (map (\<lambda>w. [hex_digit (unat w div 16), hex_digit (unat w mod 16)]) ws)"

definition tree_hash :: "node \<Rightarrow> gostring option" where
  "tree_hash n = map_option (\<lambda>bs. hex_encode (sha256 bs)) (tree_bytes n)"

text \<open>The walk of \<^verbatim>\<open>copyTree\<close>, which recreates every directory and every regular file.\<close>

fun copy_tree :: "node \<Rightarrow> node option"
  and copy_entries :: "(gostring \<times> node) list \<Rightarrow> (gostring \<times> node) list option" where
  "copy_tree (File b) = (if length b > maximum_file_bytes then None else Some (File b))"
| "copy_tree (Dir es) = map_option Dir (copy_entries es)"
| "copy_tree (Link b) = None"
| "copy_tree Special = None"
| "copy_entries [] = Some []"
| "copy_entries (e # es) =
     (case copy_tree (snd e) of
        None \<Rightarrow> None
      | Some n \<Rightarrow> map_option (\<lambda>ns. (fst e, n) # ns) (copy_entries es))"

lemma copy_tree_same:
  "copy_tree n = Some m \<Longrightarrow> m = n"
  "copy_entries es = Some fs \<Longrightarrow> fs = es"
  by (induction n and es arbitrary: m and fs rule: copy_tree_copy_entries.induct)
    (auto split: if_splits option.splits)

lemma copy_tree_files:
  "files_at p n = None \<longleftrightarrow> copy_tree n = None"
  "files_in p es = None \<longleftrightarrow> copy_entries es = None"
  by (induction p n and p es rule: files_at_files_in.induct)
    (auto split: option.split)

section \<open>Installing the skill\<close>

record skill_store =
  sk_installed :: "node option"
  sk_backup :: "node option"

text \<open>
  \<open>fault i\<close> makes the \<open>i\<close>-th system call fail. A file system error while copying counts as the
  failure of call 3; whatever was staged is removed at the end.
\<close>

definition first_fault :: "(nat \<Rightarrow> gostring option) \<Rightarrow> nat list \<Rightarrow> gostring option" where
  "first_fault fault calls = (case List.map_filter fault calls of [] \<Rightarrow> None | msg # _ \<Rightarrow> Some msg)"

definition replace_skill ::
  "(nat \<Rightarrow> gostring option) \<Rightarrow> node \<Rightarrow> node \<Rightarrow> skill_store \<Rightarrow> gostring option \<times> skill_store" where
  "replace_skill fault old staged st =
     (if tree_hash old = None then (Some ''unsafe skill directory'', st)
      else case fault 5 of
        Some msg \<Rightarrow> (Some msg, st)
      | None \<Rightarrow>
          (case fault 6 of
             Some msg \<Rightarrow>
               (Some msg,
                if fault 7 = None then st else st\<lparr>sk_installed := None, sk_backup := Some old\<rparr>)
           | None \<Rightarrow>
               (case fault 8 of
                  Some msg \<Rightarrow> (Some msg, st\<lparr>sk_installed := Some staged, sk_backup := Some old\<rparr>)
                | None \<Rightarrow> (None, st\<lparr>sk_installed := Some staged\<rparr>))))"

definition install_skill ::
  "(nat \<Rightarrow> gostring option) \<Rightarrow> node option \<Rightarrow> skill_store \<Rightarrow> gostring option \<times> skill_store" where
  "install_skill fault source st =
     (if \<not> is_directory source then (Some ''skill source is unavailable'', st)
      else case first_fault fault [0, 1, 2, 3] of
        Some msg \<Rightarrow> (Some msg, st)
      | None \<Rightarrow>
          (case copy_tree (the source) of
             None \<Rightarrow> (Some ''skill contains an unsupported file'', st)
           | Some staged \<Rightarrow>
               (case sk_installed st of
                  None \<Rightarrow>
                    (case fault 4 of
                       Some msg \<Rightarrow> (Some msg, st)
                     | None \<Rightarrow> (None, st\<lparr>sk_installed := Some staged\<rparr>))
                | Some old \<Rightarrow> replace_skill fault old staged st)))"

end
