(* ===== verification/Agent_Manager.thy ===== *)
theory Agent_Manager
  imports Agent_Files
begin

text \<open>
  \<^verbatim>\<open>internal/agentconnections/manager.go\<close>: inspecting and repairing the connection of a coding
  agent, which is an MCP entry in the agent's configuration and an installed skill. The agent's
  own command line program, the file system's errors, other processes that write the
  configuration, and JSON are outside.
\<close>

section \<open>What is outside\<close>

record run_request =
  rq_executable :: gostring
  rq_arguments :: "gostring list"
  rq_environment :: "gostring list"

datatype run_outcome = RunFails gostring | Exited int bytes

record codex_server =
  cx_name :: gostring
  cx_enabled :: bool
  cx_type :: gostring
  cx_command :: gostring
  cx_args :: "gostring list"
  cx_env_vars :: "gostring list"
  cx_cwd :: gostring

text \<open>A decoded JSON value, Go's \<^verbatim>\<open>any\<close>.\<close>

datatype json =
    JNull | JBool bool | JNumber gostring | JString gostring
  | JArray "json list" | JObject "(gostring \<times> json) list"

text \<open>
  \<open>ag_interfere n\<close> is what other processes did to the configuration file before call \<open>n\<close>;
  \<open>ag_run n\<close> is the agent's program, which may change the file as well.
\<close>

record agent_env =
  ag_euid :: nat
  ag_environ :: "gostring list"
  ag_stat :: "gostring \<Rightarrow> lstat"
  ag_source :: "node option"
  ag_interfere :: "nat \<Rightarrow> file_at \<Rightarrow> file_at"
  ag_run :: "nat \<Rightarrow> run_request \<Rightarrow> file_at \<Rightarrow> run_outcome \<times> file_at"
  ag_restore_fault :: "nat \<Rightarrow> nat \<Rightarrow> gostring option"
  ag_remove_error :: "nat \<Rightarrow> gostring option"
  ag_skill_fault :: "nat \<Rightarrow> nat \<Rightarrow> gostring option"
  ag_codex_servers :: "bytes \<Rightarrow> codex_server list option"
  ag_json :: "bytes \<Rightarrow> json option"

record agent_paths =
  ap_helper :: gostring
  ap_skill_source :: gostring
  ap_codex :: gostring
  ap_codex_config :: gostring
  ap_codex_root :: gostring
  ap_codex_skill :: gostring
  ap_claude :: gostring
  ap_claude_config :: gostring
  ap_claude_skill :: gostring

text \<open>One agent: its configuration file, its skill, the calls made so far and the programs run.\<close>

record agent_state =
  as_config :: file_at
  as_skill :: skill_store
  as_calls :: nat
  as_runs :: "run_request list"

section \<open>Calls\<close>

definition server_name :: gostring where "server_name = ''key-session''"
definition state_connected :: gostring where "state_connected = ''connected''"
definition state_missing :: gostring where "state_missing = ''missing''"
definition state_needs_repair :: gostring where "state_needs_repair = ''needs_repair''"
definition state_unavailable :: gostring where "state_unavailable = ''unavailable''"
definition state_refused :: gostring where "state_refused = ''refused''"

lemmas state_names = state_connected_def state_missing_def state_needs_repair_def
  state_unavailable_def state_refused_def

definition read_config :: "agent_env \<Rightarrow> agent_state \<Rightarrow> (gostring + bytes option) \<times> agent_state" where
  "read_config A h =
     (let f = ag_interfere A (as_calls h) (as_config h)
      in (read_private_file (ag_euid A) f, h\<lparr>as_config := f, as_calls := Suc (as_calls h)\<rparr>))"

definition restore_config ::
  "agent_env \<Rightarrow> bytes option \<Rightarrow> bytes option \<Rightarrow> agent_state \<Rightarrow> gostring option \<times> agent_state" where
  "restore_config A expected payload h =
     (let n = as_calls h;
          r = restore_private_file (ag_euid A) (ag_restore_fault A n) (ag_remove_error A n) expected payload
                (ag_interfere A n (as_config h))
      in (fst r, h\<lparr>as_config := snd r, as_calls := Suc n\<rparr>))"

text \<open>\<^verbatim>\<open>filepath.Dir\<close>: the path up to its last separator, cleaned.\<close>

definition path_dir :: "gostring \<Rightarrow> gostring" where
  "path_dir p = path_clean (rev (dropWhile (\<lambda>c. c \<noteq> CHR ''/'') (rev p)))"

definition allowed_variables :: "gostring list" where
  "allowed_variables = [''HOME'', ''USER'', ''LOGNAME'', ''TMPDIR'', ''LANG'', ''LC_ALL'', ''LC_CTYPE'']"

definition variable_allowed :: "gostring list \<Rightarrow> gostring \<Rightarrow> bool" where
  "variable_allowed names v = (case cut v ''='' of (name, _, found) \<Rightarrow> found \<and> name \<in> set names)"

definition command_environment :: "gostring list \<Rightarrow> gostring \<Rightarrow> (gostring \<times> gostring) list \<Rightarrow> gostring list" where
  "command_environment os_environ executable overrides =
     filter (variable_allowed allowed_variables) os_environ @
     [''PATH='' @ join_with '':'' [path_dir executable, ''/opt/homebrew/bin'', ''/usr/local/bin'',
        ''/usr/bin'', ''/bin'', ''/usr/sbin'', ''/sbin'']] @
     map (\<lambda>(name, value). name @ ''='' @ value) overrides"

definition run_agent ::
  "agent_env \<Rightarrow> gostring \<Rightarrow> gostring list \<Rightarrow> (gostring \<times> gostring) list \<Rightarrow> agent_state \<Rightarrow>
   run_outcome \<times> agent_state" where
  "run_agent A executable args overrides h =
     (let q = \<lparr>rq_executable = executable, rq_arguments = args,
               rq_environment = command_environment (ag_environ A) executable overrides\<rparr>;
          (out, f) = ag_run A (as_calls h) q (as_config h)
      in (out, h\<lparr>as_config := f, as_calls := Suc (as_calls h), as_runs := q # as_runs h\<rparr>))"

definition run_mutation ::
  "agent_env \<Rightarrow> gostring \<Rightarrow> gostring list \<Rightarrow> (gostring \<times> gostring) list \<Rightarrow> agent_state \<Rightarrow>
   gostring option \<times> agent_state" where
  "run_mutation A executable args overrides h =
     (case run_agent A executable args overrides h of
        (RunFails msg, h1) \<Rightarrow> (Some msg, h1)
      | (Exited code out, h1) \<Rightarrow>
          (if code \<noteq> 0 then Some (''agent command exited with status '' @ show_int code) else None, h1))"

text \<open>\<^verbatim>\<open>isExecutable\<close>: a regular file with one of the three execute bits.\<close>

definition is_executable :: "lstat \<Rightarrow> bool" where
  "is_executable l =
     (case l of
        Found kind mode \<Rightarrow> kind = Regular \<and> (mode mod 2 = 1 \<or> (mode div 8) mod 2 = 1 \<or> (mode div 64) mod 2 = 1)
      | _ \<Rightarrow> False)"

section \<open>The standard paths\<close>

text \<open>Outside: the home directory, the executable, \<^verbatim>\<open>EvalSymlinks\<close> and \<^verbatim>\<open>Stat\<close>.\<close>

record path_world =
  pw_home :: "gostring + gostring"
  pw_executable :: "gostring + gostring"
  pw_resolve :: "gostring \<Rightarrow> gostring + gostring"
  pw_stat :: "gostring \<Rightarrow> lstat"

fun find_executable :: "path_world \<Rightarrow> gostring list \<Rightarrow> gostring" where
  "find_executable K [] = []"
| "find_executable K (candidate # candidates) =
     (case pw_resolve K candidate of
        Inl msg \<Rightarrow> find_executable K candidates
      | Inr resolved \<Rightarrow>
          if is_executable (pw_stat K resolved) then path_clean candidate else find_executable K candidates)"

definition skill_name :: gostring where "skill_name = ''using-keys''"

definition paths_in :: "path_world \<Rightarrow> gostring \<Rightarrow> gostring \<Rightarrow> agent_paths" where
  "paths_in K home helper =
     (let codex_root = path_join [home, ''.codex'']
      in \<lparr>ap_helper = helper,
          ap_skill_source = path_join [path_join [path_dir (path_dir helper), ''Resources''], ''skills'', skill_name],
          ap_codex = find_executable K
            [''/Applications/ChatGPT.app/Contents/Resources/codex'', path_join [home, ''.local'', ''bin'', ''codex''],
             ''/opt/homebrew/bin/codex'', ''/usr/local/bin/codex''],
          ap_codex_config = path_join [codex_root, ''config.toml''],
          ap_codex_root = codex_root,
          ap_codex_skill = path_join [codex_root, ''skills'', skill_name],
          ap_claude = find_executable K
            [path_join [home, ''.local'', ''bin'', ''claude''], ''/opt/homebrew/bin/claude'', ''/usr/local/bin/claude''],
          ap_claude_config = path_join [home, ''.claude.json''],
          ap_claude_skill = path_join [path_join [home, ''.claude''], ''skills'', skill_name]\<rparr>)"

definition standard_paths :: "path_world \<Rightarrow> gostring + agent_paths" where
  "standard_paths K =
     (case pw_home K of
        Inl msg \<Rightarrow> Inl msg
      | Inr home \<Rightarrow>
          (case pw_executable K of
             Inl msg \<Rightarrow> Inl msg
           | Inr executable \<Rightarrow>
               (case pw_resolve K executable of
                  Inl msg \<Rightarrow> Inl msg
                | Inr helper \<Rightarrow> Inr (paths_in K home helper))))"

text \<open>Whatever is found is one of the candidates and leads to an executable file.\<close>

lemma found_executable:
  "find_executable K cs = p \<Longrightarrow> p \<noteq> [] \<Longrightarrow>
     \<exists>c resolved. c \<in> set cs \<and> p = path_clean c \<and> pw_resolve K c = Inr resolved \<and> is_executable (pw_stat K resolved)"
  by (induction cs) (auto split: sum.splits if_splits)

section \<open>Inspecting the MCP entry\<close>

definition helper_unavailable :: "gostring \<times> gostring" where
  "helper_unavailable = (state_unavailable, ''The installed Key Session helper is unavailable.'')"

definition mcp_connected :: "gostring \<times> gostring" where
  "mcp_connected = (state_connected, ''MCP uses the installed helper with no stored credential.'')"

definition mcp_inexact :: "gostring \<times> gostring" where
  "mcp_inexact = (state_needs_repair, ''The MCP entry does not use the exact installed helper.'')"

definition mcp_missing :: "gostring \<times> gostring" where
  "mcp_missing = (state_missing, ''MCP is not connected.'')"

definition unsafe_config :: "gostring \<Rightarrow> gostring \<times> gostring" where
  "unsafe_config name =
     (state_refused, name @ '' configuration must be an owner-controlled regular file that is not group- or world-writable.'')"

fun codex_entry :: "gostring \<Rightarrow> codex_server list \<Rightarrow> gostring \<times> gostring" where
  "codex_entry helper [] = mcp_missing"
| "codex_entry helper (server # servers) =
     (if cx_name server \<noteq> server_name then codex_entry helper servers
      else if cx_enabled server \<and> cx_type server = ''stdio'' \<and> cx_command server = helper \<and>
              cx_args server = [''mcp''] \<and> length (cx_env_vars server) = 0 \<and> cx_cwd server = []
      then mcp_connected else mcp_inexact)"

definition codex_overrides :: "agent_paths \<Rightarrow> (gostring \<times> gostring) list" where
  "codex_overrides P = [(''CODEX_HOME'', ap_codex_root P)]"

definition inspect_codex_mcp :: "agent_env \<Rightarrow> agent_paths \<Rightarrow> agent_state \<Rightarrow> (gostring \<times> gostring) \<times> agent_state" where
  "inspect_codex_mcp A P h =
     (if \<not> is_executable (ag_stat A (ap_helper P)) then (helper_unavailable, h)
      else case read_config A h of
        (Inl msg, h1) \<Rightarrow> (unsafe_config ''Codex'', h1)
      | (Inr contents, h1) \<Rightarrow>
          (case run_agent A (ap_codex P) [''mcp'', ''list'', ''--json''] (codex_overrides P) h1 of
             (RunFails msg, h2) \<Rightarrow> ((state_refused, ''Codex MCP configuration could not be inspected safely.''), h2)
           | (Exited code out, h2) \<Rightarrow>
               if code \<noteq> 0 then ((state_refused, ''Codex MCP configuration could not be inspected safely.''), h2)
               else case ag_codex_servers A out of
                 None \<Rightarrow> ((state_refused, ''Codex returned an unsupported MCP configuration.''), h2)
               | Some servers \<Rightarrow> (codex_entry (ap_helper P) servers, h2)))"

text \<open>\<^verbatim>\<open>stringSlice\<close>, with \<open>None\<close> for a value that is not an array of strings.\<close>

fun strings_of :: "json list \<Rightarrow> gostring list option" where
  "strings_of [] = Some []"
| "strings_of (JString s # js) = map_option (\<lambda>ss. s # ss) (strings_of js)"
| "strings_of (_ # js) = None"

definition string_slice :: "json option \<Rightarrow> gostring list option" where
  "string_slice v = (case v of Some (JArray js) \<Rightarrow> strings_of js | _ \<Rightarrow> None)"

definition environment_empty :: "json option \<Rightarrow> bool" where
  "environment_empty v =
     (case v of None \<Rightarrow> True | Some JNull \<Rightarrow> True | Some (JObject m) \<Rightarrow> m = [] | Some _ \<Rightarrow> False)"

definition claude_entry :: "gostring \<Rightarrow> json \<Rightarrow> gostring \<times> gostring" where
  "claude_entry helper entry =
     (case entry of
        JObject server \<Rightarrow>
          let arguments = (case string_slice (go_get server ''args'') of None \<Rightarrow> [] | Some a \<Rightarrow> a)
          in if go_get server ''type'' = Some (JString ''stdio'') \<and>
                go_get server ''command'' = Some (JString helper) \<and>
                arguments = [''mcp''] \<and> environment_empty (go_get server ''env'')
             then mcp_connected else mcp_inexact
      | _ \<Rightarrow> (state_needs_repair, ''The MCP entry has an unsupported shape.''))"

definition claude_config :: "gostring \<Rightarrow> json option \<Rightarrow> gostring \<times> gostring" where
  "claude_config helper parsed =
     (case (case parsed of Some (JObject root) \<Rightarrow> Some root | Some JNull \<Rightarrow> Some [] | _ \<Rightarrow> None) of
        None \<Rightarrow> (state_refused, ''Claude Code configuration is not valid JSON.'')
      | Some root \<Rightarrow>
          (case go_get root ''mcpServers'' of
             None \<Rightarrow> mcp_missing
           | Some (JObject servers) \<Rightarrow>
               (case go_get servers server_name of
                  None \<Rightarrow> mcp_missing
                | Some entry \<Rightarrow> claude_entry helper entry)
           | Some _ \<Rightarrow> (state_refused, ''Claude Code uses an unsupported MCP configuration shape.'')))"

definition inspect_claude_mcp :: "agent_env \<Rightarrow> agent_paths \<Rightarrow> agent_state \<Rightarrow> (gostring \<times> gostring) \<times> agent_state" where
  "inspect_claude_mcp A P h =
     (if \<not> is_executable (ag_stat A (ap_helper P)) then (helper_unavailable, h)
      else case read_config A h of
        (Inl msg, h1) \<Rightarrow> (unsafe_config ''Claude Code'', h1)
      | (Inr None, h1) \<Rightarrow> (mcp_missing, h1)
      | (Inr (Some payload), h1) \<Rightarrow> (claude_config (ap_helper P) (ag_json A payload), h1))"

definition inspect_skill :: "node option \<Rightarrow> node option \<Rightarrow> gostring \<times> gostring" where
  "inspect_skill source installed =
     (if \<not> is_directory source then (state_unavailable, ''The bundled using-keys skill is unavailable.'')
      else case installed of
        None \<Rightarrow> (state_missing, ''The using-keys skill is not installed.'')
      | Some tree \<Rightarrow>
          (case (tree_hash (the source), tree_hash tree) of
             (Some a, Some b) \<Rightarrow>
               if a \<noteq> b then (state_needs_repair, ''The using-keys skill is out of date.'')
               else (state_connected, ''The using-keys skill is current.'')
           | _ \<Rightarrow> (state_refused, ''The using-keys skill directory is unsafe.'')))"

end
