(* ===== verification/Agent_Repair.thy ===== *)
theory Agent_Repair
  imports Agent_Manager Contract
begin

text \<open>The report on an agent and its repair: \<^verbatim>\<open>combined\<close>, \<^verbatim>\<open>repairCodex\<close>, \<^verbatim>\<open>repairClaude\<close>, \<^verbatim>\<open>Inspect\<close>, \<^verbatim>\<open>Repair\<close>.\<close>

section \<open>The report\<close>

definition combined ::
  "gostring \<Rightarrow> gostring \<Rightarrow> gostring \<times> gostring \<Rightarrow> gostring \<times> gostring \<Rightarrow> agent_connection" where
  "combined host name mcp skill =
     (let states = [fst mcp, fst skill];
          state = (if state_refused \<in> set states then state_refused
                   else if state_unavailable \<in> set states then state_unavailable
                   else if state_needs_repair \<in> set states then state_needs_repair
                   else if state_missing \<in> set states then state_missing
                   else state_connected)
      in \<lparr>ac_host = host, ac_display_name = name, ac_state = state, ac_mcp_state = fst mcp,
          ac_skill_state = fst skill, ac_detail = trim_space (snd mcp @ '' '' @ snd skill),
          ac_can_repair = (state = state_missing \<or> state = state_needs_repair)\<rparr>)"

definition uniform_report :: "gostring \<Rightarrow> gostring \<Rightarrow> gostring \<Rightarrow> gostring \<Rightarrow> agent_connection" where
  "uniform_report state host name detail =
     \<lparr>ac_host = host, ac_display_name = name, ac_state = state, ac_mcp_state = state,
      ac_skill_state = state, ac_detail = detail, ac_can_repair = False\<rparr>"

abbreviation unavailable_report :: "gostring \<Rightarrow> gostring \<Rightarrow> gostring \<Rightarrow> agent_connection" where
  "unavailable_report \<equiv> uniform_report state_unavailable"

abbreviation refused_report :: "gostring \<Rightarrow> gostring \<Rightarrow> gostring \<Rightarrow> agent_connection" where
  "refused_report \<equiv> uniform_report state_refused"

definition inspect_codex :: "agent_env \<Rightarrow> agent_paths \<Rightarrow> agent_state \<Rightarrow> agent_connection \<times> agent_state" where
  "inspect_codex A P h =
     (if ap_codex P = []
      then (unavailable_report ''codex'' ''Codex'' ''Codex is not installed in a known location.'', h)
      else let (mcp, h1) = inspect_codex_mcp A P h
           in (combined ''codex'' ''Codex'' mcp (inspect_skill (ag_source A) (sk_installed (as_skill h1))), h1))"

definition inspect_claude :: "agent_env \<Rightarrow> agent_paths \<Rightarrow> agent_state \<Rightarrow> agent_connection \<times> agent_state" where
  "inspect_claude A P h =
     (if ap_claude P = []
      then (unavailable_report ''claude'' ''Claude Code'' ''Claude Code is not installed in a known location.'', h)
      else let (mcp, h1) = inspect_claude_mcp A P h
           in (combined ''claude'' ''Claude Code'' mcp (inspect_skill (ag_source A) (sk_installed (as_skill h1))), h1))"

section \<open>Repairing the MCP entry\<close>

text \<open>What \<^verbatim>\<open>repairCodexMCP\<close> and \<^verbatim>\<open>repairClaudeMCP\<close> differ in.\<close>

record repair_plan =
  rp_label :: gostring
  rp_executable :: gostring
  rp_overrides :: "(gostring \<times> gostring) list"
  rp_remove :: "gostring list"
  rp_add :: "gostring list"

definition codex_plan :: "agent_paths \<Rightarrow> repair_plan" where
  "codex_plan P =
     \<lparr>rp_label = ''codex'', rp_executable = ap_codex P, rp_overrides = codex_overrides P,
      rp_remove = [''mcp'', ''remove'', server_name],
      rp_add = [''mcp'', ''add'', server_name, ''--'', ap_helper P, ''mcp'']\<rparr>"

definition claude_plan :: "agent_paths \<Rightarrow> repair_plan" where
  "claude_plan P =
     \<lparr>rp_label = ''claude code'', rp_executable = ap_claude P, rp_overrides = [],
      rp_remove = [''mcp'', ''remove'', server_name, ''--scope'', ''user''],
      rp_add = [''mcp'', ''add'', ''--scope'', ''user'', server_name, ''--'', ap_helper P, ''mcp'']\<rparr>"

datatype repair_error =
    UnsafeToRepair | ChangedDuringRepair | RemoveRefused | UnsafeAfterRemove
  | AddRefusedUntouched | AddRefusedRestored

fun repair_message :: "gostring \<Rightarrow> repair_error \<Rightarrow> gostring" where
  "repair_message label UnsafeToRepair = label @ '' configuration is not safe to repair''"
| "repair_message label ChangedDuringRepair =
     label @ '' configuration changed during repair; no changes were made''"
| "repair_message label RemoveRefused = label @ '' refused to remove the outdated MCP entry''"
| "repair_message label UnsafeAfterRemove =
     label @ '' configuration became unsafe after removing the outdated MCP entry''"
| "repair_message label AddRefusedUntouched =
     label @ '' refused the MCP connection; a concurrent configuration change was left untouched''"
| "repair_message label AddRefusedRestored =
     label @ '' refused the MCP connection; its prior configuration was restored''"

text \<open>Adding the entry, and restoring the configuration when the agent's program refuses.\<close>

definition add_entry ::
  "agent_env \<Rightarrow> repair_plan \<Rightarrow> bytes option \<Rightarrow> bytes option \<Rightarrow> agent_state \<Rightarrow>
   repair_error option \<times> agent_state" where
  "add_entry A plan expected original h =
     (case run_mutation A (rp_executable plan) (rp_add plan) (rp_overrides plan) h of
        (None, h1) \<Rightarrow> (None, h1)
      | (Some msg, h1) \<Rightarrow>
          (case restore_config A expected original h1 of
             (Some e, h2) \<Rightarrow> (Some AddRefusedUntouched, h2)
           | (None, h2) \<Rightarrow> (Some AddRefusedRestored, h2)))"

definition remove_then_add ::
  "agent_env \<Rightarrow> repair_plan \<Rightarrow> bytes option \<Rightarrow> agent_state \<Rightarrow> repair_error option \<times> agent_state" where
  "remove_then_add A plan original h =
     (case run_mutation A (rp_executable plan) (rp_remove plan) (rp_overrides plan) h of
        (Some msg, h1) \<Rightarrow> (Some RemoveRefused, h1)
      | (None, h1) \<Rightarrow>
          (case read_config A h1 of
             (Inl msg, h2) \<Rightarrow> (Some UnsafeAfterRemove, h2)
           | (Inr expected, h2) \<Rightarrow> add_entry A plan expected original h2))"

definition repair_mcp ::
  "agent_env \<Rightarrow> repair_plan \<Rightarrow> gostring \<Rightarrow> agent_state \<Rightarrow> repair_error option \<times> agent_state" where
  "repair_mcp A plan state h =
     (case read_config A h of
        (Inl msg, h1) \<Rightarrow> (Some UnsafeToRepair, h1)
      | (Inr original, h1) \<Rightarrow>
          (case read_config A h1 of
             (Inl msg, h2) \<Rightarrow> (Some ChangedDuringRepair, h2)
           | (Inr current, h2) \<Rightarrow>
               if \<not> same_bytes current original then (Some ChangedDuringRepair, h2)
               else if state = state_needs_repair then remove_then_add A plan original h2
               else add_entry A plan original original h2))"

definition repair_codex_mcp :: "agent_env \<Rightarrow> agent_paths \<Rightarrow> gostring \<Rightarrow> agent_state \<Rightarrow> repair_error option \<times> agent_state" where
  "repair_codex_mcp A P = repair_mcp A (codex_plan P)"

definition repair_claude_mcp :: "agent_env \<Rightarrow> agent_paths \<Rightarrow> gostring \<Rightarrow> agent_state \<Rightarrow> repair_error option \<times> agent_state" where
  "repair_claude_mcp A P = repair_mcp A (claude_plan P)"

section \<open>Repairing an agent\<close>

definition install_at :: "agent_env \<Rightarrow> agent_state \<Rightarrow> gostring option \<times> agent_state" where
  "install_at A h =
     (let r = install_skill (ag_skill_fault A (as_calls h)) (ag_source A) (as_skill h)
      in (fst r, h\<lparr>as_skill := snd r, as_calls := Suc (as_calls h)\<rparr>))"

definition skill_refused :: gostring where
  "skill_refused = ''The using-keys skill could not be installed safely.''"

definition repair_codex :: "agent_env \<Rightarrow> agent_paths \<Rightarrow> agent_state \<Rightarrow> agent_connection \<times> agent_state" where
  "repair_codex A P h =
     (let (before, h1) = inspect_codex A P h
      in if \<not> ac_can_repair before then (before, h1)
         else case install_at A h1 of
           (Some msg, h2) \<Rightarrow> (refused_report ''codex'' ''Codex'' skill_refused, h2)
         | (None, h2) \<Rightarrow>
             if ac_mcp_state before \<noteq> state_connected then
               (case repair_codex_mcp A P (ac_mcp_state before) h2 of
                  (Some e, h3) \<Rightarrow>
                    (refused_report ''codex'' ''Codex'' (repair_message (rp_label (codex_plan P)) e), h3)
                | (None, h3) \<Rightarrow> inspect_codex A P h3)
             else inspect_codex A P h2)"

definition repair_claude :: "agent_env \<Rightarrow> agent_paths \<Rightarrow> agent_state \<Rightarrow> agent_connection \<times> agent_state" where
  "repair_claude A P h =
     (let (before, h1) = inspect_claude A P h
      in if \<not> ac_can_repair before then (before, h1)
         else case install_at A h1 of
           (Some msg, h2) \<Rightarrow> (refused_report ''claude'' ''Claude Code'' skill_refused, h2)
         | (None, h2) \<Rightarrow>
             if ac_mcp_state before \<noteq> state_connected then
               (case repair_claude_mcp A P (ac_mcp_state before) h2 of
                  (Some e, h3) \<Rightarrow>
                    (refused_report ''claude'' ''Claude Code'' (repair_message (rp_label (claude_plan P)) e), h3)
                | (None, h3) \<Rightarrow> inspect_claude A P h3)
             else inspect_claude A P h2)"

text \<open>The manager: both agents, each with an environment of its own.\<close>

record agent_manager =
  am_paths :: agent_paths
  am_codex_env :: agent_env
  am_claude_env :: agent_env

record agents =
  ags_codex :: agent_state
  ags_claude :: agent_state

definition inspect_agents :: "agent_manager \<Rightarrow> agents \<Rightarrow> agent_connection list \<times> agents" where
  "inspect_agents M a =
     (let (codex, x) = inspect_codex (am_codex_env M) (am_paths M) (ags_codex a);
          (claude, y) = inspect_claude (am_claude_env M) (am_paths M) (ags_claude a)
      in ([codex, claude], \<lparr>ags_codex = x, ags_claude = y\<rparr>))"

definition repair_agents :: "agent_manager \<Rightarrow> gostring \<Rightarrow> agents \<Rightarrow> agent_connection list \<times> agents" where
  "repair_agents M host a =
     (let P = am_paths M; name = trim_space host
      in if name = [] then
           (let (codex, x) = repair_codex (am_codex_env M) P (ags_codex a);
                (claude, y) = repair_claude (am_claude_env M) P (ags_claude a)
            in ([codex, claude], \<lparr>ags_codex = x, ags_claude = y\<rparr>))
         else
           (let (connections, b) = inspect_agents M a
            in if name = ''codex'' then
                 (let (codex, x) = repair_codex (am_codex_env M) P (ags_codex b)
                  in (connections[0 := codex], b\<lparr>ags_codex := x\<rparr>))
               else if name = ''claude'' then
                 (let (claude, y) = repair_claude (am_claude_env M) P (ags_claude b)
                  in (connections[1 := claude], b\<lparr>ags_claude := y\<rparr>))
               else (connections, b)))"

end
