(* ===== verification/Server.thy ===== *)
theory Server
  imports Daemon_System Startup Agent_Repair
begin

text \<open>
  The HTTP interface of the daemon (\<^verbatim>\<open>internal/daemon/server.go\<close>): the guards and the route
  table of \<^verbatim>\<open>ServeHTTP\<close>. JSON is outside: a decoder is a function of the bytes
  \<^verbatim>\<open>MaxBytesReader\<close> lets through and of whether it cut the body, \<open>None\<close> for any error. The
  wording of service errors is a parameter as well.
\<close>

definition maximum_request_bytes :: nat where
  "maximum_request_bytes = 2 * 1024 * 1024"

record http_request =
  hr_method :: gostring
  hr_path :: gostring
  hr_origin :: gostring
  hr_authorization :: gostring
  hr_body :: bytes

datatype body =
    ErrorBody error_envelope | HandshakeBody handshake | SnapshotBody snapshot
  | StatusBody consumer_status_response | GrantBody grant_response | FlagBody gostring bool
  | ExecBody exec_response | ProfileBody public_profile | ManagementBody management_response
  | DoctorBody doctor_report | ConnectionsBody "agent_connection list"

type_synonym http_response = "nat \<times> body"

type_synonym 'a decoder = "bytes \<Rightarrow> bool \<Rightarrow> 'a option"

record decoders =
  dec_consumer :: "consumer_request decoder"
  dec_grant :: "grant_request decoder"
  dec_revoke :: "revoke_request decoder"
  dec_admin_revoke :: "admin_revoke_request decoder"
  dec_exec :: "exec_request decoder"
  dec_ssh_profile :: "ssh_profile_request decoder"
  dec_profile :: "profile_request decoder"
  dec_management :: "management_request decoder"
  dec_update :: "profile_update_request decoder"
  dec_repair :: "agent_repair_request decoder"

record server =
  srv_token :: gostring
  srv_instance_id :: gostring
  srv_version :: gostring
  srv_connections :: "agent_manager option"
  srv_decoders :: decoders
  srv_error_text :: "error \<Rightarrow> gostring"
  srv_lstat :: "gostring \<Rightarrow> lstat"
  srv_config_dir :: "gostring + gostring"
  srv_config_path :: gostring
  srv_audit_path :: gostring

section \<open>Responses and guards\<close>

definition write_error :: "nat \<Rightarrow> gostring \<Rightarrow> gostring \<Rightarrow> bool \<Rightarrow> http_response" where
  "write_error status code message retryable =
     (status, ErrorBody \<lparr>ee_schema_version = schema_version,
                ee_error = \<lparr>ce_code = code, ce_message = message, ce_retryable = retryable\<rparr>\<rparr>)"

definition write_service_error :: "server \<Rightarrow> error \<Rightarrow> http_response" where
  "write_service_error V e = write_error 400 ''REQUEST_FAILED'' (srv_error_text V e) False"

definition hostile_origin :: http_response where
  "hostile_origin = write_error 403 ''HOSTILE_ORIGIN'' ''Browser-origin requests are not allowed'' False"

definition unauthorized :: http_response where
  "unauthorized = write_error 401 ''UNAUTHORIZED'' ''Authentication is required'' False"

definition not_found :: http_response where
  "not_found = write_error 404 ''NOT_FOUND'' ''Route not found'' False"

definition invalid_body :: http_response where
  "invalid_body = write_error 400 ''INVALID_REQUEST'' ''Request body is invalid'' False"

definition no_connections :: http_response where
  "no_connections = write_error 503 ''UNAVAILABLE'' ''Agent connection management is unavailable'' True"

text \<open>\<^verbatim>\<open>subtle.ConstantTimeCompare\<close>: the bitwise differences of two slices of equal length.\<close>

definition constant_time_compare :: "digest \<Rightarrow> digest \<Rightarrow> int" where
  "constant_time_compare x y =
     (if length x \<noteq> length y then 0
      else if foldl (\<lambda>v p. v OR (fst p XOR snd p)) 0 (zip x y) = 0 then 1 else 0)"

definition authorized :: "server \<Rightarrow> http_request \<Rightarrow> bool" where
  "authorized V q =
     (if \<not> has_prefix (hr_authorization q) ''Bearer '' then False
      else constant_time_compare (sha256 (trim_prefix (hr_authorization q) ''Bearer ''))
             (sha256 (srv_token V)) = 1)"

definition decode_body :: "'a decoder \<Rightarrow> http_request \<Rightarrow> 'a option" where
  "decode_body dec q =
     dec (take maximum_request_bytes (hr_body q)) (length (hr_body q) > maximum_request_bytes)"

text \<open>Decode the body, then handle it; an invalid body is answered and nothing else happens.\<close>

definition with_body ::
  "'a decoder \<Rightarrow> http_request \<Rightarrow> ('a \<Rightarrow> 's \<Rightarrow> http_response \<times> 's) \<Rightarrow> 's \<Rightarrow> http_response \<times> 's" where
  "with_body dec q handler s =
     (case decode_body dec q of None \<Rightarrow> (invalid_body, s) | Some b \<Rightarrow> handler b s)"

text \<open>The answer to a result: its error, or status 200 and a body.\<close>

definition answer :: "server \<Rightarrow> ('a \<Rightarrow> body) \<Rightarrow> (error + 'a) \<times> service \<Rightarrow> http_response \<times> service" where
  "answer V f rs =
     (case rs of (Inl e, s) \<Rightarrow> (write_service_error V e, s) | (Inr x, s) \<Rightarrow> ((200, f x), s))"

definition answer_done :: "server \<Rightarrow> gostring \<Rightarrow> error option \<times> service \<Rightarrow> http_response \<times> service" where
  "answer_done V field rs =
     (case rs of (Some e, s) \<Rightarrow> (write_service_error V e, s) | (None, s) \<Rightarrow> ((200, FlagBody field True), s))"

definition answer_flag :: "gostring \<Rightarrow> bool \<times> service \<Rightarrow> http_response \<times> service" where
  "answer_flag field bs = ((200, FlagBody field (fst bs)), snd bs)"

section \<open>The route table\<close>

definition profiles_prefix :: gostring where "profiles_prefix = ''/v2/profiles/''"

definition profile_name_in :: "gostring \<Rightarrow> gostring \<Rightarrow> gostring" where
  "profile_name_in path ending = trim_suffix (trim_prefix path profiles_prefix) ending"

text \<open>A handler that needs a profile name in the path.\<close>

definition with_name :: "gostring \<Rightarrow> (gostring \<Rightarrow> http_response \<times> service) \<Rightarrow> service \<Rightarrow>
    http_response \<times> service" where
  "with_name name handler s =
     (if name = [] \<or> str_contains name ''/'' then (not_found, s) else handler name)"

definition serve_repair :: "agent_manager \<Rightarrow> agent_repair_request \<Rightarrow> agents \<Rightarrow> http_response \<times> agents" where
  "serve_repair M b a =
     (if arr_host b \<noteq> [] \<and> arr_host b \<noteq> ''codex'' \<and> arr_host b \<noteq> ''claude''
      then (write_error 400 ''INVALID_REQUEST'' ''Unknown agent host'' False, a)
      else let (connections, a') = repair_agents M (arr_host b) a in ((200, ConnectionsBody connections), a'))"

definition serve_inspect :: "agent_manager \<Rightarrow> agents \<Rightarrow> http_response \<times> agents" where
  "serve_inspect M a = (let (connections, a') = inspect_agents M a in ((200, ConnectionsBody connections), a'))"

text \<open>The state behind the handler, and handlers that touch one half of it.\<close>

type_synonym daemon = "service \<times> agents"

definition on_service :: "agents \<Rightarrow> http_response \<times> service \<Rightarrow> http_response \<times> daemon" where
  "on_service a rs = (fst rs, snd rs, a)"

definition on_agents :: "service \<Rightarrow> http_response \<times> agents \<Rightarrow> http_response \<times> daemon" where
  "on_agents s ra = (fst ra, s, snd ra)"

definition handshake_answer :: "server \<Rightarrow> http_response" where
  "handshake_answer V =
     (200, HandshakeBody \<lparr>hs_schema_version = schema_version, hs_daemon_instance_id = srv_instance_id V,
             hs_daemon_version = srv_version V, hs_supported = [schema_version]\<rparr>)"

definition doctor_answer :: "server \<Rightarrow> http_response" where
  "doctor_answer V =
     (200, DoctorBody (doctor (srv_lstat V) (srv_config_dir V) (srv_config_path V) (srv_audit_path V)))"

definition route :: "env \<Rightarrow> server \<Rightarrow> http_request \<Rightarrow> daemon \<Rightarrow> http_response \<times> daemon" where
  "route E V q d =
     (let (s, a) = d; D = srv_decoders V; on = on_service a; path = hr_path q;
          get = (hr_method q = ''GET''); post = (hr_method q = ''POST'')
      in if get \<and> path = ''/handshake'' then on (handshake_answer V, s)
         else if get \<and> path = ''/v2/status'' then on (answer V SnapshotBody (take_snapshot E s))
         else if post \<and> path = ''/v2/consumers/status'' then
           on (with_body (dec_consumer D) q
                 (\<lambda>b s. answer V StatusBody (consumer_status E (cr_consumer_token b) s)) s)
         else if post \<and> path = ''/v2/leases'' then
           on (with_body (dec_grant D) q (\<lambda>b s. answer V GrantBody (grant E b s)) s)
         else if post \<and> path = ''/v2/leases/revoke'' then
           on (with_body (dec_revoke D) q (\<lambda>b s. answer_flag ''revoked'' (revoke E b s)) s)
         else if post \<and> path = ''/v2/admin/revoke'' then
           on (with_body (dec_admin_revoke D) q (\<lambda>b s. answer_flag ''revoked'' (admin_revoke E b s)) s)
         else if post \<and> path = ''/v2/exec'' then
           on (with_body (dec_exec D) q (\<lambda>b s. answer V ExecBody (execute E b s)) s)
         else if post \<and> path = ''/v2/ssh/profiles'' then
           on (with_body (dec_ssh_profile D) q (\<lambda>b s. answer V ProfileBody (create_ssh_profile E b s)) s)
         else if post \<and> path = ''/v2/profiles'' then
           on (with_body (dec_profile D) q (\<lambda>b s. answer_done V ''saved'' (store_profile E b s)) s)
         else if post \<and> has_suffix path ''/management/end'' then
           on (with_name (profile_name_in path ''/management/end'')
                 (\<lambda>name. with_body (dec_management D) q
                    (\<lambda>b s. answer_flag ''ended'' (end_profile_management name (mq_management_token b) s)) s) s)
         else if post \<and> has_suffix path ''/management'' then
           on (with_name (profile_name_in path ''/management'')
                 (\<lambda>name. answer V ManagementBody (begin_profile_management E name s)) s)
         else if hr_method q = ''PUT'' \<and> has_prefix path profiles_prefix then
           on (with_name (trim_prefix path profiles_prefix)
                 (\<lambda>name. with_body (dec_update D) q
                    (\<lambda>b s. answer_done V ''updated'' (update_profile E name b s)) s) s)
         else if hr_method q = ''DELETE'' \<and> has_prefix path profiles_prefix then
           on (with_name (trim_prefix path profiles_prefix)
                 (\<lambda>name. with_body (dec_management D) q
                    (\<lambda>b s. answer_done V ''deleted'' (delete_profile E name s)) s) s)
         else if get \<and> path = ''/v2/doctor'' then on (doctor_answer V, s)
         else if get \<and> path = ''/v2/agent-connections'' then
           (case srv_connections V of
              None \<Rightarrow> on (no_connections, s)
            | Some M \<Rightarrow> on_agents s (serve_inspect M a))
         else if post \<and> path = ''/v2/agent-connections/repair'' then
           (case srv_connections V of
              None \<Rightarrow> on (no_connections, s)
            | Some M \<Rightarrow> on_agents s (with_body (dec_repair D) q (serve_repair M) a))
         else on (not_found, s))"

definition serve_http :: "env \<Rightarrow> server \<Rightarrow> http_request \<Rightarrow> daemon \<Rightarrow> http_response \<times> daemon" where
  "serve_http E V q d =
     (if hr_origin q \<noteq> [] then (hostile_origin, d)
      else if \<not> authorized V q then (unauthorized, d)
      else route E V q d)"

section \<open>Authentication\<close>

lemma xor_zero: "a XOR b = 0 \<longleftrightarrow> a = (b :: 'a::len word)"
  by (auto simp: bit_eq_iff bit_xor_iff)

lemma foldl_or_zero:
  fixes v :: "'a::len word"
  shows "foldl (\<lambda>v p. v OR (fst p XOR snd p)) v ps = 0 \<longleftrightarrow> v = 0 \<and> (\<forall>p \<in> set ps. fst p = snd p)"
  by (induction ps arbitrary: v) (auto simp: or_eq_0_iff xor_zero)

lemma constant_time_compare_eq: "constant_time_compare x y = 1 \<longleftrightarrow> x = y"
proof -
  have "length x = length y \<Longrightarrow> (\<forall>p \<in> set (zip x y). fst p = snd p) \<longleftrightarrow> x = y"
    by (auto simp: set_zip list_eq_iff_nth_eq)
  then show ?thesis
    by (auto simp: constant_time_compare_def foldl_or_zero)
qed

lemma authorized_iff:
  "authorized V q \<longleftrightarrow>
     (\<exists>t. hr_authorization q = ''Bearer '' @ t \<and> sha256 t = sha256 (srv_token V))"
  by (auto simp: authorized_def trim_prefix_def constant_time_compare_eq elim!: prefixE)


end
