(* ===== verification/Server_Properties.thy ===== *)
theory Server_Properties
  imports Server Sample_Run
begin

text \<open>Properties of the HTTP interface and of starting the daemon.\<close>

text \<open>
  C27: only_the_token_holder_acts. A request that carries an \<open>Origin\<close> header, or whose
  \<open>Authorization\<close> header is not \<open>Bearer\<close> and a token with the digest of the daemon's token, is
  answered 403 or 401 and changes nothing, whatever its method, path and body.
\<close>

theorem only_the_token_holder_acts:
  "serve_http E V q d =
     (if hr_origin q = [] \<and>
         (\<exists>t. hr_authorization q = ''Bearer '' @ t \<and> sha256 t = sha256 (srv_token V))
      then route E V q d
      else ((if hr_origin q = [] then unauthorized else hostile_origin), d))"
  by (simp add: serve_http_def authorized_iff)

text \<open>A handler ends in a daemon state with a given property.\<close>

definition ends_in :: "(service \<Rightarrow> bool) \<Rightarrow> http_response \<times> daemon \<Rightarrow> bool" where
  "ends_in P rd \<longleftrightarrow> P (fst (snd rd))"

lemma ends_in_if: "ends_in P x \<Longrightarrow> ends_in P y \<Longrightarrow> ends_in P (if c then x else y)"
  by simp

lemma ends_in_manager:
  "ends_in P x \<Longrightarrow> (\<And>m. ends_in P (f m)) \<Longrightarrow> ends_in P (case mo of None \<Rightarrow> x | Some m \<Rightarrow> f m)"
  by (simp split: option.split)

lemma ends_in_agents: "P s \<Longrightarrow> ends_in P (on_agents s ra)"
  by (simp add: ends_in_def on_agents_def)

lemma ends_in_with_body:
  "(\<And>b. decode_body dec q = Some b \<Longrightarrow> ends_in P (on_service a (handler b s))) \<Longrightarrow> P s \<Longrightarrow>
     ends_in P (on_service a (with_body dec q handler s))"
  by (simp add: with_body_def ends_in_def on_service_def split: option.split)

lemma ends_in_with_name:
  "ends_in P (on_service a (handler name)) \<Longrightarrow> P s \<Longrightarrow> ends_in P (on_service a (with_name name handler s))"
  by (simp add: with_name_def ends_in_def on_service_def)

lemma ends_in_answers:
  "P (snd rs) \<Longrightarrow> ends_in P (on_service a (answer V f rs))"
  "P (snd os) \<Longrightarrow> ends_in P (on_service a (answer_done V field os))"
  "P (snd bs) \<Longrightarrow> ends_in P (on_service a (answer_flag field bs))"
  "P s \<Longrightarrow> ends_in P (on_service a (r, s))"
  by (simp_all add: ends_in_def on_service_def answer_def answer_done_def answer_flag_def case_prod_beta
      split: sum.split option.split)

lemmas ends_in_rules = ends_in_if ends_in_manager ends_in_agents ends_in_with_body ends_in_with_name ends_in_answers

lemma route_ends_in:
  assumes "P s"
    and perform: "\<And>r. P (perform E W r s)"
    and calls: "\<And>c. (\<And>n. c = CallManage n \<Longrightarrow> n = profile_name_in (hr_path q) ''/management'') \<Longrightarrow>
      P (snd (perform_call E c s))"
    and grants: "\<And>r. decode_body (dec_grant (srv_decoders V)) q = Some r \<Longrightarrow> P (snd (grant E r s))"
    and "\<And>r. P (snd (execute E r s))"
  shows "ends_in P (route E V q (s, a))"
proof -
  note p = perform [of "Status t" for t, simplified] perform [of Snapshot, simplified]
    perform [of "Revoke r" for r, simplified] perform [of "AdminRevoke r" for r, simplified]
    perform [of "EndManagement n t" for n t, simplified]
  note c = calls [of "CallStore r" for r, unfolded perform_call_states, simplified]
    calls [of "CallCreate r" for r, unfolded perform_call_states, simplified]
    calls [of "CallManage (profile_name_in (hr_path q) ''/management'')", unfolded perform_call_states, simplified]
    calls [of "CallUpdate n r" for n r, unfolded perform_call_states, simplified]
    calls [of "CallDelete n" for n, unfolded perform_call_states, simplified]
  show ?thesis
    unfolding route_def Let_def prod.case
    by (intro ends_in_rules assms(1,5) p c grants)
qed

section \<open>The interface drives the daemon through its steps\<close>

text \<open>
  Freshness of the random identifiers this request draws, as in \<open>Daemon_System\<close>: the management
  token it would open a session with, and the lease and consumer of the grant it asks for.
\<close>

definition fresh_management :: "env \<Rightarrow> gostring \<Rightarrow> service \<Rightarrow> bool" where
  "fresh_management E name s =
     (case begin_manage E name s of (Done x, s1) \<Rightarrow> True | (Next j, s1) \<Rightarrow> fresh_job j s1)"

definition fresh_identifiers :: "env \<Rightarrow> server \<Rightarrow> http_request \<Rightarrow> system \<Rightarrow> bool" where
  "fresh_identifiers E V q S \<longleftrightarrow>
     fresh_management E (profile_name_in (hr_path q) ''/management'') (sys_service S) \<and>
     (case decode_body (dec_grant (srv_decoders V)) q of
        None \<Rightarrow> True
      | Some r \<Rightarrow>
          (case grant_begin E r (sys_service S) of
             (Inl e, s1) \<Rightarrow> True
           | (Inr gc, s1) \<Rightarrow>
               (case grant_approve E gc s1 of
                  (Inl e, s2) \<Rightarrow> True
                | (Inr g, s2) \<Rightarrow> fresh_grant E g (S\<lparr>sys_service := s2\<rparr>))))"

lemma grant_steps:
  assumes "reachable E W S" and idle: "profile_lock_free S"
    and fresh: "\<And>gc s1 g s2. grant_begin E r (sys_service S) = (Inr gc, s1) \<Longrightarrow>
      grant_approve E gc s1 = (Inr g, s2) \<Longrightarrow> fresh_grant E g (S\<lparr>sys_service := s2\<rparr>)"
  shows "reachable E W (S\<lparr>sys_service := snd (grant E r (sys_service S))\<rparr>)"
proof (cases "grant_begin E r (sys_service S)")
  case begins: (Pair x s1)
  show ?thesis
  proof (cases x)
    case (Inl e)
    with begins show ?thesis
      using step.grant_rejected reachable.more [OF assms(1)] by (auto simp: grant_def)
  next
    case (Inr gc)
    let ?S1 = "S\<lparr>sys_service := s1, sys_waiting := gc # sys_waiting S\<rparr>"
    have S1: "reachable E W ?S1"
      using begins Inr step.grant_starts reachable.more [OF assms(1)] by metis
    obtain y s2 where approves: "grant_approve E gc s1 = (y, s2)" by force
    show ?thesis
    proof (cases y)
      case (Inl e)
      have "step E W ?S1 (?S1\<lparr>sys_service := s2, sys_waiting := [] @ sys_waiting S\<rparr>)"
        using idle approves Inl by (intro step.refused) (auto simp: profile_lock_free_def)
      then show ?thesis
        using reachable.more [OF S1] begins Inr approves Inl by (auto simp: grant_def)
    next
      case g: (Inr g)
      let ?S2 = "?S1\<lparr>sys_service := s2, sys_waiting := [] @ sys_waiting S, sys_ready := Some g\<rparr>"
      have "step E W ?S1 ?S2"
        using idle approves g by (intro step.approved) (auto simp: profile_lock_free_def)
      then have S2: "reachable E W ?S2" using S1 by (rule reachable.more [rotated])
      have "fresh_grant E g ?S2"
        using fresh [of gc s1 g s2] begins Inr approves g by (simp add: fresh_grant_def)
      then have "step E W ?S2
          (?S2\<lparr>sys_service := snd (grant_commit E g (sys_service ?S2)), sys_ready := None\<rparr>)"
        by (intro step.committed) simp_all
      then have "reachable E W (S\<lparr>sys_service := snd (grant_commit E g s2), sys_ready := None\<rparr>)"
        using reachable.more [OF S2] by simp
      moreover have "S\<lparr>sys_service := t, sys_ready := None\<rparr> = S\<lparr>sys_service := t\<rparr>" for t
        using idle by (cases S) (simp add: profile_lock_free_def)
      ultimately show ?thesis
        using begins Inr approves g by (simp add: grant_def)
    qed
  qed
qed

text \<open>An operation on profiles that nothing interrupts is the chain of its phases.\<close>

lemma begin_fresh:
  "begin_store E r s = (Next j, s1) \<Longrightarrow> fresh_job j s2"
  "begin_update E n q s = (Next j, s1) \<Longrightarrow> fresh_job j s2"
  "begin_delete E n s = (Next j, s1) \<Longrightarrow> fresh_job j s2"
  "begin_create E c s = (Next j, s1) \<Longrightarrow> fresh_job j s2"
  by (auto simp: begin_store_def begin_update_def begin_delete_def begin_create_def Let_def case_prod_beta
      split: sum.splits option.splits if_splits)

lemma next_fresh: "next_phase E j s = (Next j', s1) \<Longrightarrow> fresh_job j' s2"
  by (cases j) (auto simp: case_prod_beta split: option.splits prod.splits)

lemma phase_steps:
  assumes "reachable E W (S\<lparr>sys_service := s, sys_job := Some j\<rparr>)" and "fresh_job j s"
  shows "reachable E W (S\<lparr>sys_service := snd (run_phase E (Next j) s), sys_job := None\<rparr>)"
  using assms
proof (induction "sections_left j" arbitrary: j s rule: less_induct)
  case less
  obtain p s1 where n: "next_phase E j s = (p, s1)" by force
  show ?case
  proof (cases p)
    case (Done x)
    then have "step E W (S\<lparr>sys_service := s, sys_job := Some j\<rparr>)
        (S\<lparr>sys_service := s, sys_job := Some j\<rparr>\<lparr>sys_service := s1, sys_job := None\<rparr>)"
      using n less.prems(2) by (intro step.call_returns) simp_all
    then show ?thesis using reachable.more [OF less.prems(1)] n Done by simp
  next
    case (Next j')
    then have "step E W (S\<lparr>sys_service := s, sys_job := Some j\<rparr>)
        (S\<lparr>sys_service := s, sys_job := Some j\<rparr>\<lparr>sys_service := s1, sys_job := Some j'\<rparr>)"
      using n less.prems(2) by (intro step.call_continues) simp_all
    then have "reachable E W (S\<lparr>sys_service := s1, sys_job := Some j'\<rparr>)"
      using reachable.more [OF less.prems(1)] by simp
    moreover have "sections_left j' < sections_left j"
      using next_phase_rank [of E j s] n Next by simp
    ultimately show ?thesis using less.hyps next_fresh n Next by simp
  qed
qed

lemma call_steps:
  assumes "reachable E W S" and idle: "profile_lock_free S"
    and fresh: "\<And>j s. begin_call E c (sys_service S) = (Next j, s) \<Longrightarrow> fresh_job j s"
  shows "reachable E W (S\<lparr>sys_service := snd (perform_call E c (sys_service S))\<rparr>)"
proof -
  obtain p s where b: "begin_call E c (sys_service S) = (p, s)" by force
  have same: "S\<lparr>sys_service := t, sys_job := None\<rparr> = S\<lparr>sys_service := t\<rparr>" for t
    using idle by (cases S) (simp add: profile_lock_free_def)
  have "reachable E W (S\<lparr>sys_service := snd (run_phase E p s)\<rparr>)"
  proof (cases p)
    case (Done x)
    then show ?thesis
      using reachable.more [OF assms(1) step.call_refused [OF idle]] b by simp
  next
    case (Next j)
    then have "reachable E W (S\<lparr>sys_service := s, sys_job := Some j\<rparr>)"
      using reachable.more [OF assms(1) step.call_starts [OF idle]] b by simp
    from phase_steps [OF this] show ?thesis using fresh b Next same by simp
  qed
  then show ?thesis using call_in_phases [of E c "sys_service S"] b by (simp add: run_call_def)
qed

lemma execute_steps:
  assumes "reachable E W S"
  shows "reachable E W (S\<lparr>sys_service := snd (execute E r (sys_service S))\<rparr>)"
proof (cases "execute_begin E r (sys_service S)")
  case begins: (Pair y s1)
  show ?thesis
  proof (cases y)
    case (Inl e)
    with begins show ?thesis
      using step.child_refused reachable.more [OF assms] by (auto simp: execute_def)
  next
    case (Inr x)
    let ?S1 = "S\<lparr>sys_service := s1, sys_running := x # sys_running S\<rparr>"
    have S1: "reachable E W ?S1"
      using begins Inr step.child_starts reachable.more [OF assms] by metis
    have "step E W ?S1 (?S1\<lparr>sys_service := snd (execute_finish E x (sys_service ?S1)),
        sys_running := [] @ sys_running S\<rparr>)"
      by (intro step.child_ends) simp
    then show ?thesis
      using reachable.more [OF S1] begins Inr by (auto simp: execute_def case_prod_beta)
  qed
qed

lemma serve_reachable:
  assumes "reachable E W S" and "profile_lock_free S" and "fresh_identifiers E V q S"
  shows "reachable E W (S\<lparr>sys_service := fst (snd (serve_http E V q (sys_service S, a)))\<rparr>)"
proof -
  let ?P = "\<lambda>s. reachable E W (S\<lparr>sys_service := s\<rparr>)"
  have "?P (sys_service S)" using assms(1) by simp
  moreover have "?P (perform E W r (sys_service S))" for r
    using reachable.more [OF assms(1) step.operation] by blast
  moreover have "?P (snd (perform_call E c (sys_service S)))"
    if "\<And>n. c = CallManage n \<Longrightarrow> n = profile_name_in (hr_path q) ''/management''" for c
  proof (rule call_steps [OF assms(1,2)])
    show "fresh_job j s" if "begin_call E c (sys_service S) = (Next j, s)" for j s
      using assms(3) that \<open>\<And>n. c = CallManage n \<Longrightarrow> n = profile_name_in (hr_path q) ''/management''\<close>
      by (cases c) (auto simp: fresh_identifiers_def fresh_management_def dest: begin_fresh)
  qed
  moreover have "?P (snd (grant E r (sys_service S)))"
    if "decode_body (dec_grant (srv_decoders V)) q = Some r" for r
    using assms(3) that by (intro grant_steps [OF assms(1,2)]) (simp add: fresh_identifiers_def)
  ultimately have "ends_in ?P (route E V q (sys_service S, a))"
    using execute_steps [OF assms(1)] by (intro route_ends_in) blast+
  then show ?thesis
    using assms(1) by (simp add: serve_http_def ends_in_def)
qed

text \<open>
  C15: served_states_are_reachable. Whatever an HTTP request does to a reachable, idle daemon is
  a sequence of its steps, so every property of reachable states holds after every response.
\<close>

theorem served_states_are_reachable:
  assumes "reachable E W S" and "profile_lock_free S" and "fresh_identifiers E V q S"
  shows "reachable E W (S\<lparr>sys_service := fst (snd (serve_http E V q (sys_service S, a)))\<rparr>)"
  by (rule serve_reachable [OF assms])

definition sample_decoders :: decoders where
  "sample_decoders =
     \<lparr>dec_consumer = (\<lambda>b cut. None), dec_grant = (\<lambda>b cut. if cut then None else Some sample_request),
      dec_revoke = (\<lambda>b cut. None), dec_admin_revoke = (\<lambda>b cut. None), dec_exec = (\<lambda>b cut. None),
      dec_ssh_profile = (\<lambda>b cut. None), dec_profile = (\<lambda>b cut. None), dec_management = (\<lambda>b cut. None),
      dec_update = (\<lambda>b cut. None), dec_repair = (\<lambda>b cut. None)\<rparr>"

definition sample_server :: server where
  "sample_server =
     \<lparr>srv_token = ''tok'', srv_instance_id = ''d'', srv_version = ''1.0.0'', srv_connections = None,
      srv_decoders = sample_decoders, srv_error_text = (\<lambda>e. []), srv_lstat = (\<lambda>p. NotThere []),
      srv_config_dir = Inr ''/Users/a'', srv_config_path = ''/c'', srv_audit_path = ''/a''\<rparr>"

definition sample_http :: http_request where
  "sample_http =
     \<lparr>hr_method = ''POST'', hr_path = ''/v2/leases'', hr_origin = [], hr_authorization = ''Bearer tok'',
      hr_body = ''{}''\<rparr>"

lemma sample_authorized: "authorized sample_server sample_http"
  unfolding authorized_iff by (intro exI [of _ "''tok''"]) (simp add: sample_server_def sample_http_def)

lemma sample_decodes: "decode_body (dec_grant (srv_decoders sample_server)) sample_http = Some sample_request"
  by (simp add: decode_body_def sample_server_def sample_decoders_def sample_http_def maximum_request_bytes_def)

lemma sample_serves:
  "fst (snd (serve_http sample_env sample_server sample_http (empty_service, a))) = sys_service sample_system"
proof -
  have "serve_http sample_env sample_server sample_http (empty_service, a) =
      on_service a (answer sample_server GrantBody (grant sample_env sample_request empty_service))"
    using sample_authorized sample_decodes
    by (simp add: serve_http_def route_def with_body_def Let_def) (simp add: sample_http_def)
  then show ?thesis
    by (simp add: on_service_def answer_def case_prod_beta grant_def sample_begin sample_approve sample_system_def initial_def
        split: sum.split)
qed

lemma sample_manage: "fresh_management E (profile_name_in (hr_path sample_http) ''/management'') empty_service"
proof -
  have "go_get sample_profiles (profile_name_in (hr_path sample_http) ''/management'') = None"
    by (simp add: sample_profiles_def sample_http_def profile_name_in_def profiles_prefix_def
        trim_prefix_def trim_suffix_def)
  then show ?thesis
    by (simp add: fresh_management_def begin_manage_def load_config_def config_load_def sample_config_def
        split: sum.split option.split)
qed

theorem served_states_are_reachable_witness:
  "\<forall>W. reachable sample_env W (initial (sys_service sample_system))"
proof
  fix W
  have "new_service sample_env sample_config \<lparr>target = None, temporary = None\<rparr> None ''d'' ''1.0.0'' 0 =
      Inr empty_service"
    by (simp add: new_service_def audit_load_def empty_service_def)
  then have "reachable sample_env W (initial empty_service)"
    by (intro reachable.start) (unfold starts_def, blast)
  moreover have "fresh_identifiers sample_env sample_server sample_http (initial empty_service)"
    by (simp add: fresh_identifiers_def sample_manage sample_decodes sample_begin sample_approve initial_def
        fresh_grant_def sample_commit_session new_session_def Let_def split: sum.split)
  ultimately show "reachable sample_env W (initial (sys_service sample_system))"
    using served_states_are_reachable [of sample_env W "initial empty_service" sample_server sample_http]
      sample_serves
    by (simp add: initial_def profile_lock_free_def)
qed

text \<open>A POST to the path of all profiles followed by \<^verbatim>\<open>management\<close> asks to manage a profile of that name.\<close>

theorem management_is_taken_for_a_name:
  assumes "hr_method q = ''POST''" and "hr_path q = ''/v2/profiles/management''"
  shows "route E V q (s, a) =
    on_service a (answer V ManagementBody (begin_profile_management E ''management'' s))"
proof -
  have "profile_name_in (hr_path q) ''/management'' = ''management''"
    by (simp add: assms(2)) code_simp
  moreover have "\<not> str_contains ''management'' ''/''" by code_simp
  moreover have "hr_path q \<notin> {''/v2/consumers/status'', ''/v2/leases'', ''/v2/leases/revoke'', ''/v2/admin/revoke'',
      ''/v2/exec'', ''/v2/ssh/profiles'', ''/v2/profiles''}" "suffix ''/management'' (hr_path q)"
    "\<not> suffix ''/management/end'' (hr_path q)"
    by (simp_all add: assms(2) suffix_to_prefix)
  ultimately show ?thesis
    using assms(1) by (simp add: route_def Let_def with_name_def)
qed

end
