(* ===== verification/Startup_Properties.thy ===== *)
theory Startup_Properties
  imports Startup
begin

text \<open>Properties of starting the daemon and of its self-check.\<close>

section \<open>The lock\<close>

text \<open>The daemon of the private descriptor answers the handshake under the same identifier.\<close>

definition answers_as_daemon :: "probe \<Rightarrow> int \<Rightarrow> bool" where
  "answers_as_daemon P pid \<longleftrightarrow>
     pb_lstat P = Found Regular mode_file \<and>
     (\<exists>d u h. pb_descriptor P = Some d \<and> rd_pid d = pid \<and> rd_token d \<noteq> [] \<and> rd_daemon_instance_id d \<noteq> [] \<and>
        pb_url P (rd_endpoint d) = Some u \<and> url_scheme u = ''http'' \<and> url_hostname u = ''127.0.0.1'' \<and>
        url_port u \<noteq> [] \<and> url_path u = [] \<and>
        pb_reply P (rd_endpoint d @ ''/handshake'') (''Bearer '' @ rd_token d) = Some (200, Some h) \<and>
        hs_schema_version h = schema_version \<and> hs_daemon_instance_id h = rd_daemon_instance_id d)"

lemma confirms_iff: "descriptor_confirms_daemon P pid \<longleftrightarrow> answers_as_daemon P pid"
  by (auto simp: descriptor_confirms_daemon_def probe_request_def answers_as_daemon_def loopback_endpoint_def
      split: option.splits if_splits)

text \<open>The lock is that of a live process, which wrote it less than five seconds ago or answers.\<close>

definition owned_by :: "lock_world \<Rightarrow> lock_file \<Rightarrow> int \<Rightarrow> bool" where
  "owned_by K file pid \<longleftrightarrow>
     \<not> lw_read_fails K \<and> atoi (trim_space (lf_payload file)) = Some pid \<and> pid > 0 \<and> lw_alive K pid \<and>
     (\<not> lw_lstat_fails K \<and> lw_now K - lf_modified file < 5 * 10 ^ 9 \<or> answers_as_daemon (lw_probe K) pid)"

lemma running_owner_iff: "running_owner K file = Some pid \<longleftrightarrow> owned_by K file pid"
proof -
  have "sint lock_grace = 5 * 10 ^ 9" by (simp add: lock_grace_def second_def)
  then have "young_lock K file \<longleftrightarrow> \<not> lw_lstat_fails K \<and> lw_now K - lf_modified file < 5 * 10 ^ 9"
    by (auto simp: young_lock_def sint_time_sub)
  then show ?thesis by (auto simp: running_owner_def owned_by_def confirms_iff split: option.splits)
qed

lemma nobody_owns: "running_owner K file = None \<longleftrightarrow> (\<nexists>pid. owned_by K file pid)"
  by (simp flip: running_owner_iff)

definition lock_of :: "lock_world \<Rightarrow> lock_file" where
  "lock_of K = \<lparr>lf_payload = show_int (lw_pid K) @ [CHR 0x0A], lf_modified = lw_now K\<rparr>"

text \<open>The lock file names the process that wrote it.\<close>

lemma line_feed_space: "\<exists>es. map rev space_encodings = [CHR 0x09] # [CHR 0x0A] # es"
proof -
  have "char_of (9 :: nat) = CHR 0x09" "char_of (10 :: nat) = CHR 0x0A" by code_simp+
  then show ?thesis by (simp add: space_encodings_def space_codes_def)
qed

lemma trim_space_line:
  assumes "s \<noteq> []" and "graphic (hd s)" and "graphic (last s)"
  shows "trim_space (s @ [CHR 0x0A]) = s"
proof -
  have "drop_leading space_encodings (s @ [CHR 0x0A]) = s @ [CHR 0x0A]"
  proof (intro drop_leading_id notI)
    fix e assume e: "e \<in> set space_encodings" "e \<noteq> []" "prefix e (s @ [CHR 0x0A])"
    then obtain t where "s @ [CHR 0x0A] = e @ t" by (auto simp: prefix_def)
    then have "hd (s @ [CHR 0x0A]) = hd (e @ t)" by simp
    then have "hd e = hd s" using assms(1) e(2) by simp
    then show False using space_ends [OF e(1)] assms(2) by simp
  qed
  moreover have "drop_leading (map rev space_encodings) (CHR 0x0A # t) = drop_leading (map rev space_encodings) t" for t
  proof -
    have "find (\<lambda>e. e \<noteq> [] \<and> prefix e (CHR 0x0A # t)) (map rev space_encodings) = Some [CHR 0x0A]"
      using line_feed_space by (elim exE) (simp only: find.simps, simp)
    then show ?thesis by (subst drop_leading.simps) simp
  qed
  moreover have "drop_leading space_encodings s = s"
    using assms(1,2) space_ends by (intro drop_leading_id) (auto simp: prefix_def)
  ultimately show ?thesis
    using trim_space_graphic [OF assms] by (simp add: trim_space_def)
qed

lemma lock_names_process:
  assumes "0 < lw_pid K" and "int64_range (lw_pid K)"
  shows "atoi (trim_space (lf_payload (lock_of K))) = Some (lw_pid K)"
proof -
  let ?s = "show_int (lw_pid K)"
  have "list_all is_digit ?s" "?s \<noteq> []"
    using assms(1) show_nat_digits show_nat_nonempty by (simp_all add: show_int_def)
  then have "is_digit (hd ?s)" "is_digit (last ?s)" by (simp_all add: list_all_iff)
  then have "graphic (hd ?s)" "graphic (last ?s)" by (simp_all add: is_digit_def graphic_def)
  then show ?thesis
    using trim_space_line [OF \<open>?s \<noteq> []\<close>] atoi_show_int [OF assms(2)] by (simp add: lock_of_def)
qed

lemma second_start_refused:
  assumes "fst (acquire_lock (n + 2) K f) = Some (Inr ()) \<and> 0 < lw_pid K \<and> int64_range (lw_pid K) \<and>
      lw_create_error L = None \<and> \<not> lw_lstat_fails L \<and> \<not> lw_read_fails L \<and> lw_alive L (lw_pid K) \<and>
      lw_now L - lw_now K < 5 * 10 ^ 9"
  shows "acquire_lock (m + 2) L (snd (acquire_lock (n + 2) K f)) =
    (Some (Inl (AlreadyRunning (lw_pid K))), Some (lock_of K))"
proof -
  have "snd (acquire_lock (n + 2) K f) = Some (lock_of K)"
    using assms by (cases f) (auto simp: lock_of_def split: option.splits)
  moreover have "owned_by L (lock_of K) (lw_pid K)"
    using assms lock_names_process by (simp add: owned_by_def) (simp add: lock_of_def)
  ultimately show ?thesis using assms by (simp flip: running_owner_iff)
qed

text \<open>
  C36: lock_is_taken_unless_owned. While no other process touches the lock file, \<^verbatim>\<open>acquireLock\<close> ends in
  its second round at the latest. It takes the lock exactly when the file can be created after
  removing one that no running daemon owns; it refuses, and leaves the file alone, exactly when the file
  cannot be created, a live process owns it, or a stale one cannot be removed. An owner is the live process
  the file names, when the file is less than five seconds old or the endpoint in the private
  descriptor of that process answers the handshake as that daemon. A daemon that took the lock owns it for
  its first five seconds: a second start that can look at the file and read it is refused with the
  process identifier of the first.
\<close>

theorem lock_is_taken_unless_owned:
  "(case acquire_lock (n + 2) K f of
      (None, f') \<Rightarrow> False
    | (Some (Inr u), f') \<Rightarrow> f' = Some (lock_of K) \<and> lw_create_error K = None \<and>
        (case f of None \<Rightarrow> True | Some file \<Rightarrow> lw_remove_error K = None \<and> (\<nexists>pid. owned_by K file pid))
    | (Some (Inl e), f') \<Rightarrow> f' = f \<and>
        (case e of
           CreateLock msg \<Rightarrow> lw_create_error K = Some msg
         | AlreadyRunning pid \<Rightarrow> lw_create_error K = None \<and> (\<exists>file. f = Some file \<and> owned_by K file pid)
         | RemoveStale msg \<Rightarrow> lw_create_error K = None \<and> lw_remove_error K = Some msg \<and>
             (\<exists>file. f = Some file \<and> (\<nexists>pid. owned_by K file pid)))) \<and>
   (fst (acquire_lock (n + 2) K f) = Some (Inr ()) \<and> 0 < lw_pid K \<and> int64_range (lw_pid K) \<and>
    lw_create_error L = None \<and> \<not> lw_lstat_fails L \<and> \<not> lw_read_fails L \<and> lw_alive L (lw_pid K) \<and>
    lw_now L - lw_now K < 5 * 10 ^ 9 \<longrightarrow>
      acquire_lock (m + 2) L (snd (acquire_lock (n + 2) K f)) =
        (Some (Inl (AlreadyRunning (lw_pid K))), Some (lock_of K)))"
proof (rule conjI, goal_cases)
  case 1
  show ?case by (cases f) (simp_all add: lock_of_def flip: running_owner_iff split: option.split)
next
  case 2
  show ?case using second_start_refused by blast
qed

definition lone_start :: "int \<Rightarrow> time \<Rightarrow> lock_world" where
  "lone_start pid now =
     \<lparr>lw_create_error = None, lw_lstat_fails = False, lw_read_fails = False, lw_remove_error = None, lw_now = now,
      lw_pid = pid, lw_alive = (\<lambda>p. p = 41),
      lw_probe = \<lparr>pb_lstat = NotThere [], pb_descriptor = None, pb_url = (\<lambda>u. None), pb_reply = (\<lambda>u a. None)\<rparr>\<rparr>"

theorem lock_is_taken_unless_owned_witness:
  "acquire_lock 2 (lone_start 42 (4 * 10 ^ 9)) (snd (acquire_lock 2 (lone_start 41 0) None)) =
     (Some (Inl (AlreadyRunning 41)), Some (lock_of (lone_start 41 0)))"
proof -
  let ?K = "lone_start 41 0" and ?L = "lone_start 42 (4 * 10 ^ 9)"
  have "fst (acquire_lock (0 + 2) ?K None) = Some (Inr ()) \<and> 0 < lw_pid ?K \<and> int64_range (lw_pid ?K) \<and>
      lw_create_error ?L = None \<and> \<not> lw_lstat_fails ?L \<and> \<not> lw_read_fails ?L \<and> lw_alive ?L (lw_pid ?K) \<and>
      lw_now ?L - lw_now ?K < 5 * 10 ^ 9"
    by (simp add: lone_start_def eval_nat_numeral int64_range_def)
  from mp [OF conjunct2 [OF lock_is_taken_unless_owned] this, of 0]
  show ?thesis by (simp only: add_0) (simp only: lone_start_def lock_world.simps)
qed

section \<open>The self-check\<close>

text \<open>
  The report is healthy exactly when the runtime directory is a directory of
  mode 0700, the endpoint descriptor a regular file of mode 0600, and the configuration and the
  audit journal are each absent or regular files of mode 0600; a symbolic link never is.
\<close>

theorem doctor_healthy:
  "dr_healthy (doctor stat dir cfg audit) \<longleftrightarrow>
     (\<exists>paths. default_runtime_paths dir = Inr paths \<and>
        stat (rp_directory paths) = Found Directory mode_dir \<and>
        stat (rp_descriptor paths) = Found Regular mode_file) \<and>
     (stat cfg = Found Regular mode_file \<or> (\<exists>msg. stat cfg = NotThere msg)) \<and>
     (stat audit = Found Regular mode_file \<or> (\<exists>msg. stat audit = NotThere msg))"
  by (cases "default_runtime_paths dir")
    (auto simp: doctor_def Let_def private_path_check_fails)

end
