(* ===== verification/Agent_Connection_Properties.thy ===== *)
theory Agent_Connection_Properties
  imports Agent_Repair
begin

text \<open>Properties of the agent connection manager.\<close>

section \<open>Files\<close>

lemma restore_replaced:
  "target (snd (replace_file fault (restore_ops bs) \<lparr>target = None, temporary = None\<rparr>)) \<in> {None, Some (new_file bs)}"
  "fst (replace_file fault (restore_ops bs) \<lparr>target = None, temporary = None\<rparr>) = None \<Longrightarrow>
     target (snd (replace_file fault (restore_ops bs) \<lparr>target = None, temporary = None\<rparr>)) = Some (new_file bs)"
  using restore_writer.replace_atomic [of fault bs "\<lparr>target = None, temporary = None\<rparr>"]
    restore_writer.replace_success [of fault bs "\<lparr>target = None, temporary = None\<rparr>"] by simp_all

definition put_back :: "nat \<Rightarrow> bytes option \<Rightarrow> file_at" where
  "put_back euid payload = (case payload of None \<Rightarrow> Absent | Some bs \<Rightarrow> owned_file euid bs)"

lemma restore_outcome:
  "let r = restore_private_file euid fault remove_error expected payload f
   in (if \<not> is_err (read_private_file euid f) \<and> same_bytes (projr (read_private_file euid f)) expected
       then snd r = put_back euid payload \<or> snd r = f \<and> fst r \<noteq> None
       else fst r \<noteq> None \<and> snd r = f)"
proof (cases "read_private_file euid f")
  case (Inr current)
  then show ?thesis
    using restore_replaced [of fault "the payload"]
    by (auto simp: restore_private_file_def put_back_def Let_def split: option.split)
qed (simp add: restore_private_file_def)

text \<open>
  C28: rollback_never_loses_changes. \<^verbatim>\<open>restorePrivateFile\<close> leaves the file alone, with an error,
  unless it reads safely and holds exactly the bytes the caller last saw; then it leaves it or
  replaces it by exactly the payload (removes it for a missing payload), and replaces it
  whenever it reports success.
\<close>

theorem rollback_never_loses_changes:
  "let r = restore_private_file euid fault remove_error expected payload f
   in (if \<not> is_err (read_private_file euid f) \<and> same_bytes (projr (read_private_file euid f)) expected
       then snd r = put_back euid payload \<or> snd r = f \<and> fst r \<noteq> None
       else fst r \<noteq> None \<and> snd r = f)"
  by (rule restore_outcome)

text \<open>Reading back what was put back.\<close>

lemma read_put_back:
  "read_private_file euid f = Inr payload \<Longrightarrow> read_private_file euid (put_back euid payload) = Inr payload"
  by (auto simp: read_private_file_def put_back_def owned_file_def writable_by_others_def mode_file_def
      split: file_at.splits if_splits)

section \<open>Repairing the entry\<close>

lemma add_entry_restores:
  assumes "fst (add_entry A plan expected original h) = Some AddRefusedRestored"
    and "read_private_file (ag_euid A) f = Inr original"
  shows "read_private_file (ag_euid A) (as_config (snd (add_entry A plan expected original h))) = Inr original"
proof -
  let ?h1 = "snd (run_mutation A (rp_executable plan) (rp_add plan) (rp_overrides plan) h)"
  let ?f = "ag_interfere A (as_calls ?h1) (as_config ?h1)"
  let ?r = "restore_private_file (ag_euid A) (ag_restore_fault A (as_calls ?h1)) (ag_remove_error A (as_calls ?h1))
    expected original ?f"
  from assms(1) have r: "fst ?r = None" "as_config (snd (add_entry A plan expected original h)) = snd ?r"
    by (auto simp: add_entry_def restore_config_def Let_def case_prod_beta split: option.splits)
  then have "snd ?r = put_back (ag_euid A) original"
    using restore_outcome [of "ag_euid A" "ag_restore_fault A (as_calls ?h1)"
        "ag_remove_error A (as_calls ?h1)" expected original ?f]
    by (auto simp: Let_def split: if_splits)
  with r(2) read_put_back [OF assms(2)] show ?thesis by simp
qed

lemma repair_restored:
  assumes "fst (repair_mcp A plan state h) = Some AddRefusedRestored"
  shows "\<exists>original. fst (read_config A h) = Inr original \<and>
    read_private_file (ag_euid A) (as_config (snd (repair_mcp A plan state h))) = Inr original"
proof -
  let ?h2 = "snd (read_config A (snd (read_config A h)))"
  obtain original where read: "fst (read_config A h) = Inr original"
    and eq: "repair_mcp A plan state h =
      (if state = state_needs_repair then remove_then_add A plan original ?h2
       else add_entry A plan original original ?h2)"
    using assms by (auto simp: repair_mcp_def case_prod_beta split: sum.splits if_splits)
  have safe: "read_private_file (ag_euid A) (ag_interfere A (as_calls h) (as_config h)) = Inr original"
    using read by (simp add: read_config_def Let_def)
  show ?thesis
  proof (cases "state = state_needs_repair")
    case True
    let ?m = "run_mutation A (rp_executable plan) (rp_remove plan) (rp_overrides plan) ?h2"
    from True assms eq obtain expected where
      "remove_then_add A plan original ?h2 = add_entry A plan expected original (snd (read_config A (snd ?m)))"
      by (auto simp: remove_then_add_def case_prod_beta split: option.splits sum.splits)
    with True assms eq safe read add_entry_restores show ?thesis by metis
  next
    case False
    with assms eq safe read add_entry_restores show ?thesis by metis
  qed
qed

text \<open>
  C29: failed_repair_restores_the_configuration. When the agent's program refuses the new entry and
  the repair says that the prior configuration was restored, the configuration holds exactly what
  the repair read when it began, whatever the program and other processes did to the file before
  the restoration. Another process is seen by the model whenever the repair reads the file: what it
  wrote before the first read counts as prior, a change it made between the removal of the entry
  and the next read is given up with the rest.
\<close>

theorem failed_repair_restores_the_configuration:
  assumes "repair = repair_codex_mcp A P \<or> repair = repair_claude_mcp A P"
    and "fst (repair state h) = Some AddRefusedRestored"
  shows "let began = read_private_file (ag_euid A) (ag_interfere A (as_calls h) (as_config h))
     in \<not> is_err began \<and> read_private_file (ag_euid A) (as_config (snd (repair state h))) = began"
  using assms repair_restored by (fastforce simp: repair_codex_mcp_def repair_claude_mcp_def read_config_def Let_def)

section \<open>Unsafe configurations\<close>

lemma combined_refused:
  "fst mcp = state_refused \<or> fst mcp = state_unavailable \<Longrightarrow>
     \<not> ac_can_repair (combined host name mcp skill) \<and>
     ac_state (combined host name mcp skill) \<in> {state_refused, state_unavailable}"
  by (auto simp: combined_def Let_def state_names)

lemma inspect_codex_unsafe:
  assumes "read_private_file (ag_euid A) (ag_interfere A (as_calls h) (as_config h)) = Inl msg"
  shows "let r = inspect_codex A P h
   in \<not> ac_can_repair (fst r) \<and> ac_state (fst r) \<in> {state_refused, state_unavailable} \<and>
      as_runs (snd r) = as_runs h \<and> as_skill (snd r) = as_skill h \<and>
      as_config (snd r) \<in> {as_config h, ag_interfere A (as_calls h) (as_config h)}"
  using assms combined_refused [of _ "''codex''" "''Codex''"]
  by (auto simp: inspect_codex_def inspect_codex_mcp_def read_config_def uniform_report_def Let_def
      helper_unavailable_def unsafe_config_def)

lemma inspect_claude_unsafe:
  assumes "read_private_file (ag_euid A) (ag_interfere A (as_calls h) (as_config h)) = Inl msg"
  shows "let r = inspect_claude A P h
   in \<not> ac_can_repair (fst r) \<and> ac_state (fst r) \<in> {state_refused, state_unavailable} \<and>
      as_runs (snd r) = as_runs h \<and> as_skill (snd r) = as_skill h \<and>
      as_config (snd r) \<in> {as_config h, ag_interfere A (as_calls h) (as_config h)}"
  using assms combined_refused [of _ "''claude''" "''Claude Code''"]
  by (auto simp: inspect_claude_def inspect_claude_mcp_def read_config_def uniform_report_def Let_def
      helper_unavailable_def unsafe_config_def)

text \<open>
  When the configuration file of an agent is a link, is not
  the user's, is writable by others or is too large, a repair runs no program, installs nothing
  and leaves the file as it found it; the report says refused or unavailable.
\<close>

theorem unsafe_configuration_stops_repair:
  assumes "read_private_file (ag_euid A) (ag_interfere A (as_calls h) (as_config h)) = Inl msg"
    and "r = repair_codex A P h \<or> r = repair_claude A P h"
  shows "ac_state (fst r) \<in> {state_refused, state_unavailable} \<and>
    as_runs (snd r) = as_runs h \<and> as_skill (snd r) = as_skill h \<and>
    as_config (snd r) \<in> {as_config h, ag_interfere A (as_calls h) (as_config h)}"
  using assms(2) inspect_codex_unsafe [OF assms(1)] inspect_claude_unsafe [OF assms(1)]
  by (auto simp: repair_codex_def repair_claude_def case_prod_beta Let_def)

section \<open>What the states mean\<close>

lemma codex_entry_connected:
  "fst (codex_entry helper servers) = state_connected \<longleftrightarrow>
     (\<exists>x. find (\<lambda>x. cx_name x = server_name) servers = Some x \<and> cx_enabled x \<and> cx_type x = ''stdio'' \<and>
        cx_command x = helper \<and> cx_args x = [''mcp''] \<and> cx_env_vars x = [] \<and> cx_cwd x = [])"
  by (induction servers) (auto simp: mcp_missing_def mcp_connected_def mcp_inexact_def state_names)

lemma claude_config_connected:
  "fst (claude_config helper parsed) = state_connected \<longleftrightarrow>
     (\<exists>root servers x. parsed = Some (JObject root) \<and> go_get root ''mcpServers'' = Some (JObject servers) \<and>
        go_get servers server_name = Some (JObject x) \<and> go_get x ''type'' = Some (JString ''stdio'') \<and>
        go_get x ''command'' = Some (JString helper) \<and> string_slice (go_get x ''args'') = Some [''mcp''] \<and>
        environment_empty (go_get x ''env''))"
  by (auto simp: claude_config_def claude_entry_def mcp_missing_def mcp_connected_def mcp_inexact_def
      state_names Let_def split: option.splits json.splits if_splits)

text \<open>
  The MCP state is \<open>connected\<close> exactly when the helper is
  executable, the configuration reads safely, and the entry named \<open>key-session\<close> starts that very
  helper over stdio with the one argument \<open>mcp\<close>, no environment and, for Codex, no directory: so
  a connected entry stores no credential.
\<close>

theorem connected_means_the_exact_helper:
  "(fst (fst (inspect_codex_mcp A P h)) = state_connected \<longleftrightarrow>
      is_executable (ag_stat A (ap_helper P)) \<and> \<not> is_err (fst (read_config A h)) \<and>
      (\<exists>out servers x.
         fst (run_agent A (ap_codex P) [''mcp'', ''list'', ''--json''] (codex_overrides P) (snd (read_config A h))) =
           Exited 0 out \<and> ag_codex_servers A out = Some servers \<and>
         find (\<lambda>x. cx_name x = server_name) servers = Some x \<and> cx_enabled x \<and> cx_type x = ''stdio'' \<and>
         cx_command x = ap_helper P \<and> cx_args x = [''mcp''] \<and> cx_env_vars x = [] \<and> cx_cwd x = [])) \<and>
   (fst (fst (inspect_claude_mcp A P h)) = state_connected \<longleftrightarrow>
      is_executable (ag_stat A (ap_helper P)) \<and>
      (\<exists>payload root servers x.
         fst (read_config A h) = Inr (Some payload) \<and> ag_json A payload = Some (JObject root) \<and>
         go_get root ''mcpServers'' = Some (JObject servers) \<and> go_get servers server_name = Some (JObject x) \<and>
         go_get x ''type'' = Some (JString ''stdio'') \<and> go_get x ''command'' = Some (JString (ap_helper P)) \<and>
         string_slice (go_get x ''args'') = Some [''mcp''] \<and> environment_empty (go_get x ''env'')))"
  (is "?codex \<and> ?claude")
proof
  let ?l = "run_agent A (ap_codex P) [''mcp'', ''list'', ''--json''] (codex_overrides P) (snd (read_config A h))"
  show ?codex
    using codex_entry_connected
    by (cases "fst (read_config A h)"; cases "fst ?l")
      (auto simp: inspect_codex_mcp_def case_prod_beta helper_unavailable_def unsafe_config_def state_names
        split: option.splits)
  show ?claude
    using claude_config_connected
    by (cases "fst (read_config A h)")
      (auto simp: inspect_claude_mcp_def case_prod_beta helper_unavailable_def unsafe_config_def mcp_missing_def
        state_names split: option.splits)
qed

lemma states_distinct:
  "state_refused \<noteq> state_unavailable" "state_refused \<noteq> state_needs_repair"
  "state_refused \<noteq> state_missing" "state_refused \<noteq> state_connected"
  "state_unavailable \<noteq> state_needs_repair" "state_unavailable \<noteq> state_missing"
  "state_unavailable \<noteq> state_connected" "state_needs_repair \<noteq> state_missing"
  "state_needs_repair \<noteq> state_connected" "state_missing \<noteq> state_connected"
  by (simp_all add: state_names)

lemmas states_differ = states_distinct states_distinct [THEN not_sym]

definition severity :: "gostring \<Rightarrow> nat" where
  "severity st =
     (if st = state_refused then 4 else if st = state_unavailable then 3
      else if st = state_needs_repair then 2 else if st = state_missing then 1 else 0)"

text \<open>
  The state of a report is the worse of the MCP state and the skill
  state, and a repair is offered exactly when that is missing or in need of repair.
\<close>

theorem worst_state_is_reported:
  "severity (ac_state (combined host name mcp skill)) = max (severity (fst mcp)) (severity (fst skill)) \<and>
   (ac_can_repair (combined host name mcp skill) \<longleftrightarrow>
      max (severity (fst mcp)) (severity (fst skill)) = 1 \<or> max (severity (fst mcp)) (severity (fst skill)) = 2)"
  by (simp add: combined_def severity_def Let_def max_def states_differ)

end
