(* ===== verification/Agent_Skill_Properties.thy ===== *)
theory Agent_Skill_Properties
  imports Agent_Connection_Properties
begin

text \<open>Installing and comparing the skill, and the witnesses for the repair of an entry.\<close>

section \<open>Installation\<close>

lemma copied_tree_hash: "copy_tree n = Some m \<Longrightarrow> tree_hash n \<noteq> None \<and> m = n"
  using copy_tree_same(1) [of n m] copy_tree_files(1) [of "''.''" n] by (simp add: tree_hash_def tree_bytes_def)

text \<open>
  C30: skill_install_keeps_a_version. A successful installation leaves exactly the source tree in
  place, and the next inspection calls it current. A failed one leaves the old tree or the new
  one in place, except when moving the new one in place failed and moving the old one back failed
  too: then nothing is in place and the old one is kept as the backup.
\<close>

theorem skill_install_keeps_a_version:
  "let r = install_skill fault source st
   in (if fst r = None
       then sk_installed (snd r) = source \<and>
         inspect_skill source (sk_installed (snd r)) = (state_connected, ''The using-keys skill is current.'')
       else if fault 6 \<noteq> None \<and> fault 7 \<noteq> None
       then sk_installed (snd r) = sk_installed st \<or>
         sk_installed (snd r) = None \<and> sk_backup (snd r) = sk_installed st
       else sk_installed (snd r) \<in> {sk_installed st, source})"
proof (cases "is_directory source \<and> first_fault fault [0, 1, 2, 3] = None")
  case True
  then obtain n where n: "source = Some n" by (auto simp: is_directory_def split: option.splits)
  show ?thesis
  proof (cases "copy_tree n")
    case (Some m)
    then have "m = n" and "tree_hash n \<noteq> None" using copied_tree_hash by blast+
    with True n Some show ?thesis
      by (auto simp: install_skill_def replace_skill_def inspect_skill_def split: option.split)
  qed (use True n in \<open>simp add: install_skill_def\<close>)
next
  case False
  then show ?thesis by (auto simp: install_skill_def split: option.split)
qed

section \<open>Comparison\<close>

definition plain_file :: "gostring \<times> bytes \<Rightarrow> bool" where
  "plain_file e \<longleftrightarrow> CHR 0x00 \<notin> set (fst e) \<and> CHR 0x00 \<notin> set (snd e)"

lemma split_at_nul:
  "CHR 0x00 \<notin> set a \<Longrightarrow> CHR 0x00 \<notin> set b \<Longrightarrow> a @ CHR 0x00 # s = b @ CHR 0x00 # t \<Longrightarrow> a = b \<and> s = t"
  by (induction a arbitrary: b) (case_tac b; auto)+

lemma frames_injective:
  "list_all plain_file xs \<Longrightarrow> list_all plain_file ys \<Longrightarrow>
     concat (map file_frame xs) = concat (map file_frame ys) \<Longrightarrow> xs = ys"
proof (induction xs arbitrary: ys)
  case Nil
  then show ?case by (cases ys) (auto simp: file_frame_def)
next
  case (Cons x xs)
  then obtain y ys' where ys: "ys = y # ys'" by (cases ys) (auto simp: file_frame_def)
  have plain: "CHR 0x00 \<notin> set (fst x)" "CHR 0x00 \<notin> set (fst y)" "CHR 0x00 \<notin> set (snd x)" "CHR 0x00 \<notin> set (snd y)"
    using Cons.prems ys by (simp_all add: plain_file_def)
  have "fst x @ CHR 0x00 # (snd x @ CHR 0x00 # concat (map file_frame xs)) =
      fst y @ CHR 0x00 # (snd y @ CHR 0x00 # concat (map file_frame ys'))"
    using Cons.prems(3) ys by (simp add: file_frame_def [of x] file_frame_def [of y])
  then have "fst x = fst y" "snd x @ CHR 0x00 # concat (map file_frame xs) = snd y @ CHR 0x00 # concat (map file_frame ys')"
    using split_at_nul [OF plain(1,2)] by blast+
  moreover from this(2) have "snd x = snd y" "concat (map file_frame xs) = concat (map file_frame ys')"
    using split_at_nul [OF plain(3,4)] by blast+
  ultimately show ?case
    using Cons ys by (simp add: prod_eq_iff)
qed

text \<open>
  Two trees whose paths and files have no NUL byte hash the same
  bytes only when they have the same files with the same contents.
\<close>

theorem plain_trees_are_told_apart:
  assumes "files_at ''.'' n = Some xs" and "files_at ''.'' m = Some ys"
    and "list_all plain_file xs" and "list_all plain_file ys"
    and "tree_bytes n = tree_bytes m"
  shows "set xs = set ys"
proof -
  have "list_all plain_file (sort_key fst xs)" "list_all plain_file (sort_key fst ys)"
    using assms(3,4) by (simp_all add: list_all_iff)
  then have "sort_key fst xs = sort_key fst ys"
    using assms(1,2,5) frames_injective by (simp add: tree_bytes_def)
  then show ?thesis by (metis set_sort)
qed

definition sample_tree :: node where
  "sample_tree = Dir [(''SKILL.md'', File ''use''), (''ref'', Dir [(''a'', File ''x'')])]"

theorem plain_trees_are_told_apart_witness:
  "set [(''SKILL.md'', ''use''), (''ref/a'', ''x'')] = set [(''ref/a'', ''x''), (''SKILL.md'', ''use'')]"
  by (rule plain_trees_are_told_apart [of sample_tree _
        "Dir [(''ref'', Dir [(''a'', File ''x'')]), (''SKILL.md'', File ''use'')]"])
    (simp_all add: sample_tree_def tree_bytes_def child_def maximum_file_bytes_def plain_file_def)

text \<open>
  A file whose contents hold NUL bytes can stand for several files:
  an installed tree that lacks a file of the source is reported as current.
\<close>

theorem tree_hash_confuses_trees:
  "let source = Dir [(''a'', File ''x''), (''b'', File ''y'')];
       installed = Dir [(''a'', File (''x'' @ [CHR 0x00] @ ''b'' @ [CHR 0x00] @ ''y''))]
   in files_at ''.'' source \<noteq> files_at ''.'' installed \<and>
      inspect_skill (Some source) (Some installed) = (state_connected, ''The using-keys skill is current.'')"
  by (simp add: Let_def inspect_skill_def is_directory_def tree_hash_def tree_bytes_def child_def
      maximum_file_bytes_def file_frame_def)

section \<open>A repair that fails\<close>

text \<open>The agent's program removes the entry, refuses to add it, and nobody else touches the file.\<close>

definition refusing_agent :: agent_env where
  "refusing_agent =
     \<lparr>ag_euid = 501, ag_environ = [], ag_stat = (\<lambda>p. Found Regular 493), ag_source = Some sample_tree,
      ag_interfere = (\<lambda>n f. f),
      ag_run = (\<lambda>n q f. if ''remove'' \<in> set (rq_arguments q) then (Exited 0 [], owned_file 501 ''{}'') else (Exited 1 [], f)),
      ag_restore_fault = (\<lambda>n i. None), ag_remove_error = (\<lambda>n. None), ag_skill_fault = (\<lambda>n i. None),
      ag_codex_servers = (\<lambda>b. None), ag_json = (\<lambda>b. None)\<rparr>"

definition sample_paths :: agent_paths where
  "sample_paths = 
     \<lparr>ap_helper = ''/h'', ap_skill_source = ''/s'', ap_codex = ''/usr/bin/codex'', ap_codex_config = ''/c/config.toml'',
      ap_codex_root = ''/c'', ap_codex_skill = ''/c/skills/using-keys'', ap_claude = ''/usr/bin/claude'',
      ap_claude_config = ''/.claude.json'', ap_claude_skill = ''/.claude/skills/using-keys''\<rparr>"

definition sample_agent :: "file_at \<Rightarrow> agent_state" where
  "sample_agent f =
     \<lparr>as_config = f, as_skill = \<lparr>sk_installed = None, sk_backup = None\<rparr>, as_calls = 0, as_runs = []\<rparr>"

lemma refusing_agent_simps [simp]:
  "ag_euid refusing_agent = 501" "ag_interfere refusing_agent n f = f" "ag_remove_error refusing_agent n = None"
  "ag_restore_fault refusing_agent n i = None"
  "ag_run refusing_agent n q f =
     (if ''remove'' \<in> set (rq_arguments q) then (Exited 0 [], owned_file 501 ''{}'') else (Exited 1 [], f))"
  by (simp_all add: refusing_agent_def)

lemma refusing_agent_reads:
  "length bs \<le> 100 \<Longrightarrow> read_private_file 501 (owned_file 501 bs) = Inr (Some bs)"
  by (simp add: read_private_file_def owned_file_def writable_by_others_def mode_file_def maximum_file_bytes_def)

theorem failed_repair_restores_the_configuration_witness:
  "read_private_file 501
       (as_config (snd (repair_codex_mcp refusing_agent sample_paths state_needs_repair (sample_agent (owned_file 501 ''old''))))) =
     Inr (Some ''old'')"
proof -
  have old: "read_private_file (ag_euid refusing_agent) (as_config (sample_agent (owned_file 501 ''old''))) = Inr (Some ''old'')"
    by (simp add: sample_agent_def refusing_agent_reads)
  have "fst (repair_codex_mcp refusing_agent sample_paths state_needs_repair (sample_agent (owned_file 501 ''old''))) =
      Some AddRefusedRestored"
    by (simp add: repair_codex_mcp_def repair_mcp_def remove_then_add_def add_entry_def run_mutation_def run_agent_def
        restore_config_def restore_private_file_def read_config_def refusing_agent_reads sample_agent_def
        same_bytes_def codex_plan_def replace_file_def restore_ops_def server_name_def sample_paths_def Let_def)
  from failed_repair_restores_the_configuration [OF disjI1 [OF refl] this] old show ?thesis
    by (simp add: Let_def)
qed

theorem unsafe_configuration_stops_repair_witness:
  "as_runs (snd (repair_codex refusing_agent sample_paths (sample_agent (Unopenable ''link'')))) = []"
proof -
  let ?h = "sample_agent (Unopenable ''link'')"
  have "read_private_file (ag_euid refusing_agent) (ag_interfere refusing_agent (as_calls ?h) (as_config ?h)) = Inl ''link''"
    by (simp add: sample_agent_def read_private_file_def)
  from unsafe_configuration_stops_repair [OF this disjI1 [OF refl], of sample_paths] show ?thesis
    by (simp add: sample_agent_def)
qed

end
