(* ===== verification/Api_Client.thy ===== *)
theory Api_Client
  imports Server
begin

text \<open>
  \<^verbatim>\<open>internal/apiclient/client.go\<close>: finding the daemon through its descriptor, starting it through
  \<^verbatim>\<open>launchd\<close>, and the calls of its HTTP interface. The transport is a function that takes a
  request to an endpoint and may change a state; JSON is a pair of functions per type.
\<close>

section \<open>Finding the daemon\<close>

record discovery =
  ds_config_dir :: "gostring + gostring"
  ds_lstat :: "gostring \<Rightarrow> lstat"
  ds_descriptor :: "gostring \<Rightarrow> gostring + runtime_descriptor" \<comment> \<open>\<^verbatim>\<open>ReadFile\<close> and \<^verbatim>\<open>Unmarshal\<close>\<close>
  ds_url :: "gostring \<Rightarrow> parsed_url option"

datatype client_error =
    Local gostring | NotOwnerOnly | NotLoopback | Incompatible
  | NoContact gostring | DaemonSays gostring | DaemonStatus nat | BadResponse
  | HandshakeMismatch | NotReady | HelperMissing | LaunchAgentMissing | RegisterFailed gostring

definition discover :: "discovery \<Rightarrow> client_error + runtime_descriptor" where
  "discover K =
     (case default_runtime_paths (ds_config_dir K) of
        Inl msg \<Rightarrow> Inl (Local msg)
      | Inr paths \<Rightarrow>
          (case ds_lstat K (rp_descriptor paths) of
             NotThere msg \<Rightarrow> Inl (Local msg)
           | LstatFails msg \<Rightarrow> Inl (Local msg)
           | Found kind mode \<Rightarrow>
               if kind \<noteq> Regular \<or> mode \<noteq> mode_file then Inl NotOwnerOnly
               else case ds_descriptor K (rp_descriptor paths) of
                 Inl msg \<Rightarrow> Inl (Local msg)
               | Inr d \<Rightarrow>
                   if \<not> loopback_endpoint (ds_url K (rd_endpoint d)) then Inl NotLoopback
                   else if rd_schema_version d \<noteq> schema_version \<or> rd_token d = [] \<or> rd_pid d \<le> 0
                   then Inl Incompatible else Inr d))"

section \<open>Starting the daemon\<close>

record launcher =
  la_config_dir :: "gostring + gostring"
  la_stat :: "gostring \<Rightarrow> lstat"
  la_lstat :: "gostring \<Rightarrow> lstat"
  la_uid :: nat
  la_environ :: "gostring list"
  la_launchctl :: "gostring list \<Rightarrow> gostring list \<Rightarrow> gostring option" \<comment> \<open>arguments, environment\<close>

definition safe_executable_path :: gostring where
  "safe_executable_path = ''/opt/homebrew/bin:/usr/local/bin:/usr/bin:/bin:/usr/sbin:/sbin''"

definition daemon_environment :: "gostring list \<Rightarrow> gostring list" where
  "daemon_environment environment =
     filter (variable_allowed [''HOME'', ''TMPDIR'', ''USER'', ''LOGNAME'', ''LANG'', ''LC_ALL'', ''LC_CTYPE'']) environment @
     [''PATH='' @ safe_executable_path]"

definition run_launchctl :: "launcher \<Rightarrow> gostring list \<Rightarrow> gostring option" where
  "run_launchctl L args = la_launchctl L args (daemon_environment (la_environ L))"

definition start_daemon :: "launcher \<Rightarrow> client_error option" where
  "start_daemon L =
     (case la_config_dir L of
        Inl msg \<Rightarrow> Some (Local (''locate key-session helper: '' @ msg))
      | Inr support \<Rightarrow>
          let executable = path_join [support, ''key-session'', ''Key Session Helper.app'', ''Contents'',
                             ''MacOS'', ''KeySessionDaemon''];
              agent = path_join [path_dir support, ''LaunchAgents'', ''com.theronburger.key-session.daemon.plist'']
          in if \<not> is_executable (la_stat L executable) then Some HelperMissing
             else if la_lstat L agent \<noteq> Found Regular mode_file then Some LaunchAgentMissing
             else
               let domain = ''gui/'' @ show_nat (la_uid L)
               in if run_launchctl L [''kickstart'', domain @ ''/com.theronburger.key-session.daemon''] = None then None
                  else map_option RegisterFailed (run_launchctl L [''bootstrap'', domain, agent]))"

section \<open>Sending a request\<close>

type_synonym 's transport = "gostring \<Rightarrow> http_request \<Rightarrow> 's \<Rightarrow> (gostring + nat \<times> bytes) \<times> 's"

definition client_request :: "runtime_descriptor \<Rightarrow> gostring \<Rightarrow> gostring \<Rightarrow> bytes option \<Rightarrow> http_request" where
  "client_request d meth path body =
     \<lparr>hr_method = meth, hr_path = path, hr_origin = [], hr_authorization = ''Bearer '' @ rd_token d,
      hr_body = (case body of None \<Rightarrow> [] | Some bs \<Rightarrow> bs)\<rparr>"

definition maximum_response_bytes :: nat where "maximum_response_bytes = 4 * 1024 * 1024"

definition maximum_error_bytes :: nat where "maximum_error_bytes = 256 * 1024"

definition read_response ::
  "(bytes \<Rightarrow> error_envelope option) \<Rightarrow> (bytes \<Rightarrow> 'a option) \<Rightarrow> nat \<times> bytes \<Rightarrow> client_error + 'a" where
  "read_response dec_error dec response =
     (let (status, body) = response
      in if status < 200 \<or> 300 \<le> status then
           (case dec_error (take maximum_error_bytes body) of
              Some e \<Rightarrow>
                if ce_message (ee_error e) \<noteq> [] then Inl (DaemonSays (ce_message (ee_error e)))
                else Inl (DaemonStatus status)
            | None \<Rightarrow> Inl (DaemonStatus status))
         else case dec (take maximum_response_bytes body) of None \<Rightarrow> Inl BadResponse | Some x \<Rightarrow> Inr x)"

definition send ::
  "'s transport \<Rightarrow> (bytes \<Rightarrow> error_envelope option) \<Rightarrow> runtime_descriptor \<Rightarrow> gostring \<Rightarrow> gostring \<Rightarrow>
   bytes option \<Rightarrow> (bytes \<Rightarrow> 'a option) \<Rightarrow> 's \<Rightarrow> (client_error + 'a) \<times> 's" where
  "send T dec_error d meth path body dec s =
     (case T (rd_endpoint d) (client_request d meth path body) s of
        (Inl msg, s1) \<Rightarrow> (Inl (NoContact msg), s1)
      | (Inr response, s1) \<Rightarrow> (read_response dec_error dec response, s1))"

section \<open>The calls\<close>

record encoders =
  enc_consumer :: "consumer_request \<Rightarrow> bytes"
  enc_grant :: "grant_request \<Rightarrow> bytes"
  enc_revoke :: "revoke_request \<Rightarrow> bytes"
  enc_admin_revoke :: "admin_revoke_request \<Rightarrow> bytes"
  enc_exec :: "exec_request \<Rightarrow> bytes"
  enc_profile :: "profile_request \<Rightarrow> bytes"
  enc_ssh_profile :: "ssh_profile_request \<Rightarrow> bytes"
  enc_repair :: "agent_repair_request \<Rightarrow> bytes"

record response_decoders =
  rsp_error :: "bytes \<Rightarrow> error_envelope option"
  rsp_handshake :: "bytes \<Rightarrow> handshake option"
  rsp_snapshot :: "bytes \<Rightarrow> snapshot option"
  rsp_status :: "bytes \<Rightarrow> consumer_status_response option"
  rsp_grant :: "bytes \<Rightarrow> grant_response option"
  rsp_revoked :: "bytes \<Rightarrow> bool option"
  rsp_exec :: "bytes \<Rightarrow> exec_response option"
  rsp_done :: "bytes \<Rightarrow> unit option"
  rsp_doctor :: "bytes \<Rightarrow> doctor_report option"
  rsp_connections :: "bytes \<Rightarrow> agent_connection list option"
  rsp_profile :: "bytes \<Rightarrow> public_profile option"

record 's client =
  cl_descriptor :: runtime_descriptor
  cl_transport :: "'s transport"
  cl_encoders :: encoders
  cl_decoders :: response_decoders

definition client_get :: "'s client \<Rightarrow> gostring \<Rightarrow> (bytes \<Rightarrow> 'a option) \<Rightarrow> 's \<Rightarrow> (client_error + 'a) \<times> 's" where
  "client_get c path dec = send (cl_transport c) (rsp_error (cl_decoders c)) (cl_descriptor c) ''GET'' path None dec"

definition client_post ::
  "'s client \<Rightarrow> gostring \<Rightarrow> bytes \<Rightarrow> (bytes \<Rightarrow> 'a option) \<Rightarrow> 's \<Rightarrow> (client_error + 'a) \<times> 's" where
  "client_post c path body dec =
     send (cl_transport c) (rsp_error (cl_decoders c)) (cl_descriptor c) ''POST'' path (Some body) dec"

definition client_handshake :: "'s client \<Rightarrow> 's \<Rightarrow> client_error option \<times> 's" where
  "client_handshake c s =
     (case client_get c ''/handshake'' (rsp_handshake (cl_decoders c)) s of
        (Inl e, s1) \<Rightarrow> (Some e, s1)
      | (Inr h, s1) \<Rightarrow>
          (if hs_schema_version h \<noteq> schema_version \<or>
              hs_daemon_instance_id h \<noteq> rd_daemon_instance_id (cl_descriptor c)
           then Some HandshakeMismatch else None, s1))"

definition client_snapshot :: "'s client \<Rightarrow> 's \<Rightarrow> (client_error + snapshot) \<times> 's" where
  "client_snapshot c = client_get c ''/v2/status'' (rsp_snapshot (cl_decoders c))"

definition client_status :: "'s client \<Rightarrow> gostring \<Rightarrow> 's \<Rightarrow> (client_error + consumer_status_response) \<times> 's" where
  "client_status c token =
     client_post c ''/v2/consumers/status'' (enc_consumer (cl_encoders c) \<lparr>cr_consumer_token = token\<rparr>)
       (rsp_status (cl_decoders c))"

definition client_grant :: "'s client \<Rightarrow> grant_request \<Rightarrow> 's \<Rightarrow> (client_error + grant_response) \<times> 's" where
  "client_grant c r = client_post c ''/v2/leases'' (enc_grant (cl_encoders c) r) (rsp_grant (cl_decoders c))"

definition client_revoke :: "'s client \<Rightarrow> revoke_request \<Rightarrow> 's \<Rightarrow> (client_error + bool) \<times> 's" where
  "client_revoke c r = client_post c ''/v2/leases/revoke'' (enc_revoke (cl_encoders c) r) (rsp_revoked (cl_decoders c))"

definition client_admin_revoke :: "'s client \<Rightarrow> admin_revoke_request \<Rightarrow> 's \<Rightarrow> (client_error + bool) \<times> 's" where
  "client_admin_revoke c r =
     client_post c ''/v2/admin/revoke'' (enc_admin_revoke (cl_encoders c) r) (rsp_revoked (cl_decoders c))"

definition client_execute :: "'s client \<Rightarrow> exec_request \<Rightarrow> 's \<Rightarrow> (client_error + exec_response) \<times> 's" where
  "client_execute c r = client_post c ''/v2/exec'' (enc_exec (cl_encoders c) r) (rsp_exec (cl_decoders c))"

definition client_store_profile :: "'s client \<Rightarrow> profile_request \<Rightarrow> 's \<Rightarrow> (client_error + unit) \<times> 's" where
  "client_store_profile c r = client_post c ''/v2/profiles'' (enc_profile (cl_encoders c) r) (rsp_done (cl_decoders c))"

definition client_doctor :: "'s client \<Rightarrow> 's \<Rightarrow> (client_error + doctor_report) \<times> 's" where
  "client_doctor c = client_get c ''/v2/doctor'' (rsp_doctor (cl_decoders c))"

definition client_connections :: "'s client \<Rightarrow> 's \<Rightarrow> (client_error + agent_connection list) \<times> 's" where
  "client_connections c = client_get c ''/v2/agent-connections'' (rsp_connections (cl_decoders c))"

definition client_repair :: "'s client \<Rightarrow> gostring \<Rightarrow> 's \<Rightarrow> (client_error + agent_connection list) \<times> 's" where
  "client_repair c host =
     client_post c ''/v2/agent-connections/repair'' (enc_repair (cl_encoders c) \<lparr>arr_host = host\<rparr>)
       (rsp_connections (cl_decoders c))"

definition client_create_ssh :: "'s client \<Rightarrow> ssh_profile_request \<Rightarrow> 's \<Rightarrow> (client_error + public_profile) \<times> 's" where
  "client_create_ssh c r =
     client_post c ''/v2/ssh/profiles'' (enc_ssh_profile (cl_encoders c) r) (rsp_profile (cl_decoders c))"

section \<open>Connecting\<close>

text \<open>
  \<open>cn_attempt n\<close> is the outcome of the \<open>n\<close>-th discovery with its handshake, \<open>cn_clock n\<close> the \<open>n\<close>-th
  reading of the clock.
\<close>

record 's connector =
  cn_attempt :: "nat \<Rightarrow> 's client option"
  cn_start :: "client_error option"
  cn_clock :: "nat \<Rightarrow> time"

fun connect_loop :: "nat \<Rightarrow> 's connector \<Rightarrow> time \<Rightarrow> nat \<Rightarrow> (client_error + 's client) option" where
  "connect_loop 0 K deadline n = None"
| "connect_loop (Suc fuel) K deadline n =
     (if \<not> cn_clock K n < deadline then Some (Inl NotReady)
      else case cn_attempt K n of
        Some c \<Rightarrow> Some (Inr c)
      | None \<Rightarrow> connect_loop fuel K deadline (Suc n))"

definition connect :: "nat \<Rightarrow> 's connector \<Rightarrow> (client_error + 's client) option" where
  "connect fuel K =
     (case cn_attempt K 0 of
        Some c \<Rightarrow> Some (Inr c)
      | None \<Rightarrow>
          (case cn_start K of
             Some e \<Rightarrow> Some (Inl e)
           | None \<Rightarrow> connect_loop fuel K (time_add (cn_clock K 0) (5 * second)) 1))"

end
