(* ===== verification/Client_Properties.thy ===== *)
theory Client_Properties
  imports Api_Client Server_Properties
begin

text \<open>Properties of the API client, alone and together with the server.\<close>

text \<open>
  C31: discovery_trusts_only_the_private_descriptor. The client accepts a descriptor only from a
  regular file of mode 0600 that names a loopback HTTP origin with a port and no path, the schema
  version the client speaks, a token and a process; every request it then sends to a server with
  that token passes the server's guards and reaches the route table.
\<close>

theorem discovery_trusts_only_the_private_descriptor:
  assumes "discover K = Inr d"
  shows "(\<exists>paths. default_runtime_paths (ds_config_dir K) = Inr paths \<and>
      ds_lstat K (rp_descriptor paths) = Found Regular mode_file \<and>
      ds_descriptor K (rp_descriptor paths) = Inr d) \<and>
    loopback_endpoint (ds_url K (rd_endpoint d)) \<and> rd_schema_version d = schema_version \<and>
    rd_token d \<noteq> [] \<and> rd_pid d > 0 \<and>
    (srv_token V = rd_token d \<longrightarrow>
      serve_http E V (client_request d meth path body) x = route E V (client_request d meth path body) x)"
proof -
  have "authorized V (client_request d meth path body)" if "srv_token V = rd_token d"
    unfolding authorized_iff using that by (intro exI [of _ "rd_token d"]) (simp add: client_request_def)
  then show ?thesis
    using assms
    by (auto simp: discover_def serve_http_def client_request_def split: sum.splits lstat.splits if_splits)
qed

definition sample_descriptor :: runtime_descriptor where
  "sample_descriptor =
     \<lparr>rd_schema_version = 2, rd_endpoint = ''http://127.0.0.1:4000'', rd_token = ''tok'',
      rd_daemon_instance_id = ''d'', rd_daemon_version = ''1.0.0'', rd_pid = 7, rd_generated_at = 0\<rparr>"

definition sample_discovery :: discovery where
  "sample_discovery =
     \<lparr>ds_config_dir = Inr ''/c'', ds_lstat = (\<lambda>p. Found Regular mode_file), ds_descriptor = (\<lambda>p. Inr sample_descriptor),
      ds_url = (\<lambda>u. Some \<lparr>url_scheme = ''http'', url_hostname = ''127.0.0.1'', url_port = ''4000'', url_path = []\<rparr>)\<rparr>"

lemma sample_token: "srv_token sample_server = rd_token sample_descriptor"
  by (simp add: sample_server_def sample_descriptor_def)

theorem discovery_trusts_only_the_private_descriptor_witness:
  "serve_http sample_env sample_server (client_request sample_descriptor ''GET'' ''/handshake'' None) =
   route sample_env sample_server (client_request sample_descriptor ''GET'' ''/handshake'' None)"
proof
  fix x
  have d: "discover sample_discovery = Inr sample_descriptor"
    by (simp add: discover_def sample_discovery_def default_runtime_paths_def Let_def loopback_endpoint_def
        sample_descriptor_def schema_version_def)
  show "serve_http sample_env sample_server (client_request sample_descriptor ''GET'' ''/handshake'' None) x =
      route sample_env sample_server (client_request sample_descriptor ''GET'' ''/handshake'' None) x"
    using discovery_trusts_only_the_private_descriptor [OF d, of sample_server] sample_token by blast
qed

section \<open>Connecting ends\<close>

lemma connect_loop_none: "connect_loop (Suc fuel) K deadline n = None \<Longrightarrow> cn_clock K (n + fuel) < deadline"
proof (induction fuel arbitrary: n)
  case (Suc fuel)
  have "connect_loop (Suc fuel) K deadline (Suc n) = None"
    using Suc.prems unfolding connect_loop.simps(2) [of "Suc fuel"] by (auto split: if_splits option.splits)
  from Suc.IH [OF this] show ?case by simp
qed (simp split: if_splits)

lemma clock_advances:
  assumes "cn_clock K 1 \<ge> cn_clock K 0" and "\<And>n. cn_clock K (Suc (Suc n)) \<ge> cn_clock K (Suc n) + 75000000"
  shows "cn_clock K (Suc n) \<ge> cn_clock K 0 + 75000000 * int n"
proof (induction n)
  case (Suc n)
  then show ?case using assms(2) [of n] by simp
qed (use assms(1) in simp)

lemma connect_loop_client:
  "connect_loop fuel K deadline n = Some (Inr c) \<Longrightarrow> \<exists>i < n + fuel. cn_attempt K i = Some c \<and> cn_clock K i < deadline"
proof (induction fuel arbitrary: n)
  case (Suc fuel)
  show ?case
  proof (cases "cn_attempt K n")
    case None
    then have "connect_loop fuel K deadline (Suc n) = Some (Inr c)"
      using Suc.prems by (simp split: if_splits)
    then show ?thesis using Suc.IH [of "Suc n"] by simp
  next
    case (Some c')
    then have "cn_attempt K n = Some c \<and> cn_clock K n < deadline"
      using Suc.prems by (simp split: if_splits)
    then show ?thesis by (intro exI [of _ n]) simp
  qed
qed simp

text \<open>
  C32: connecting_ends. When 75 milliseconds pass between two rounds, as the sleep of the loop ensures,
  and the clock does not go back before the first, \<^verbatim>\<open>Connect\<close> returns: it looks at the deadline at
  most 68 times, and so makes at most 68 attempts, the one before the loop included. It returns a client
  only when one of these attempts found it.
\<close>

theorem connecting_ends:
  assumes "cn_clock K 1 \<ge> cn_clock K 0" and "\<And>n. cn_clock K (Suc (Suc n)) \<ge> cn_clock K (Suc n) + 75000000"
  shows "case connect 68 K of
      None \<Rightarrow> False
    | Some (Inl e) \<Rightarrow> cn_attempt K 0 = None \<and> (cn_start K = Some e \<or> e = NotReady)
    | Some (Inr c) \<Rightarrow> \<exists>n < 68. cn_attempt K n = Some c"
proof -
  let ?deadline = "time_add (cn_clock K 0) (5 * second)"
  have deadline: "?deadline = cn_clock K 0 + 5000000000" by (simp add: time_add_def second_def)
  have clock: "cn_clock K 68 \<ge> ?deadline"
    using clock_advances [of K 67, OF assms] by (simp add: deadline)
  have "connect_loop (Suc 67) K ?deadline 1 \<noteq> None"
    using connect_loop_none [of 67 K ?deadline 1] clock by auto
  then have ends: "connect_loop 68 K ?deadline 1 \<noteq> None" by simp
  have found: "\<exists>i < 68. cn_attempt K i = Some c" if "connect_loop 68 K ?deadline 1 = Some (Inr c)" for c
  proof -
    from connect_loop_client [OF that]
    obtain i where i: "i < 69" "cn_attempt K i = Some c" "cn_clock K i < ?deadline" by auto
    have "i \<noteq> 68" using i(3) clock by auto
    with i(1) have "i < 68" by simp
    with i(2) show ?thesis by blast
  qed
  have failed: "e = NotReady" if "connect_loop fuel K d n = Some (Inl e)" for fuel d n e
    using that by (induction fuel arbitrary: n) (auto split: if_splits option.splits)
  have now: "\<exists>n < 68. cn_attempt K n = Some c" if "cn_attempt K 0 = Some c" for c
    using that by (intro exI [of _ 0]) simp
  show ?thesis
    using ends found failed now by (auto simp: connect_def simp del: connect_loop.simps split: option.split sum.split)
qed

definition sleeping_connector :: "unit connector" where
  "sleeping_connector = \<lparr>cn_attempt = (\<lambda>n. None), cn_start = None, cn_clock = (\<lambda>n. 75000000 * int (n - 1))\<rparr>"

theorem connecting_ends_witness: "connect 68 sleeping_connector = Some (Inl NotReady)"
proof -
  have c: "cn_clock sleeping_connector 1 \<ge> cn_clock sleeping_connector 0"
    "\<And>n. cn_clock sleeping_connector (Suc (Suc n)) \<ge> cn_clock sleeping_connector (Suc n) + 75000000"
    by (simp_all add: sleeping_connector_def)
  have "cn_attempt sleeping_connector n = None" "cn_start sleeping_connector = None" for n
    by (simp_all add: sleeping_connector_def)
  then show ?thesis using connecting_ends [OF c] by (auto split: option.splits sum.splits)
qed

section \<open>A grant over HTTP\<close>

text \<open>The transport that hands a request to the daemon's handler and encodes its answer.\<close>

definition deliver :: "env \<Rightarrow> server \<Rightarrow> (body \<Rightarrow> bytes) \<Rightarrow> daemon transport" where
  "deliver E V enc url q d = (let (r, d') = serve_http E V q d in (Inr (fst r, enc (snd r)), d'))"

text \<open>
  The JSON of the request and of the answer is read back as what was written, within the sizes
  both sides read.
\<close>

definition wire_carries ::
  "(body \<Rightarrow> bytes) \<Rightarrow> server \<Rightarrow> daemon client \<Rightarrow> grant_request \<Rightarrow> body \<Rightarrow> bool" where
  "wire_carries enc V c r got \<longleftrightarrow>
     decode_body (dec_grant (srv_decoders V))
       (client_request (cl_descriptor c) ''POST'' ''/v2/leases'' (Some (enc_grant (cl_encoders c) r))) = Some r \<and>
     (case got of
        GrantBody g \<Rightarrow> rsp_grant (cl_decoders c) (take maximum_response_bytes (enc got)) = Some g
      | ErrorBody e \<Rightarrow> rsp_error (cl_decoders c) (take maximum_error_bytes (enc got)) = Some e
      | _ \<Rightarrow> True)"

text \<open>
  C20: grant_over_http. A client with the daemon's token that asks for a grant gets exactly what
  \<^verbatim>\<open>Service.Grant\<close> returns: the response, or the text of its error, and the daemon is left in the
  state the grant leaves.
\<close>

theorem grant_over_http:
  assumes "cl_transport c = deliver E V enc" and "rd_token (cl_descriptor c) = srv_token V"
    and "wire_carries enc V c r (snd (fst (answer V GrantBody (grant E r s))))"
  shows "client_grant c r (s, a) =
    (case grant E r s of
       (Inl e, s') \<Rightarrow>
         (Inl (if srv_error_text V e = [] then DaemonStatus 400 else DaemonSays (srv_error_text V e)), s', a)
     | (Inr g, s') \<Rightarrow> (Inr g, s', a))"
proof -
  let ?q = "client_request (cl_descriptor c) ''POST'' ''/v2/leases'' (Some (enc_grant (cl_encoders c) r))"
  have "authorized V ?q"
    unfolding authorized_iff using assms(2)
    by (intro exI [of _ "srv_token V"]) (simp add: client_request_def)
  moreover have "decode_body (dec_grant (srv_decoders V)) ?q = Some r"
    using assms(3) by (simp add: wire_carries_def)
  ultimately have "serve_http E V ?q (s, a) = on_service a (answer V GrantBody (grant E r s))"
    by (simp add: serve_http_def route_def with_body_def Let_def) (simp add: client_request_def)
  then show ?thesis
    using assms(1,3)
    by (cases "grant E r s"; cases "fst (grant E r s)")
      (auto simp: client_grant_def client_post_def send_def deliver_def on_service_def answer_def
        write_service_error_def write_error_def read_response_def wire_carries_def)
qed

definition sample_answer :: grant_response where
  "sample_answer = projr (fst (grant sample_env sample_request empty_service))"

definition sample_encoders :: encoders where
  "sample_encoders =
     \<lparr>enc_consumer = (\<lambda>r. []), enc_grant = (\<lambda>r. ''{}''), enc_revoke = (\<lambda>r. []), enc_admin_revoke = (\<lambda>r. []),
      enc_exec = (\<lambda>r. []), enc_profile = (\<lambda>r. []), enc_ssh_profile = (\<lambda>r. []), enc_repair = (\<lambda>r. [])\<rparr>"

definition sample_responses :: response_decoders where
  "sample_responses =
     \<lparr>rsp_error = (\<lambda>b. Some \<lparr>ee_schema_version = schema_version,
                    ee_error = \<lparr>ce_code = ''REQUEST_FAILED'', ce_message = [], ce_retryable = False\<rparr>\<rparr>),
      rsp_handshake = (\<lambda>b. None), rsp_snapshot = (\<lambda>b. None), rsp_status = (\<lambda>b. None),
      rsp_grant = (\<lambda>b. Some sample_answer), rsp_revoked = (\<lambda>b. None), rsp_exec = (\<lambda>b. None), rsp_done = (\<lambda>b. None),
      rsp_doctor = (\<lambda>b. None), rsp_connections = (\<lambda>b. None), rsp_profile = (\<lambda>b. None)\<rparr>"

definition sample_client :: "daemon client" where
  "sample_client =
     \<lparr>cl_descriptor = sample_descriptor, cl_transport = deliver sample_env sample_server (\<lambda>b. ''{}''),
      cl_encoders = sample_encoders, cl_decoders = sample_responses\<rparr>"

theorem grant_over_http_witness:
  "\<forall>a. snd (client_grant sample_client sample_request (empty_service, a)) = (sys_service sample_system, a)"
proof
  fix a
  let ?g = "grant sample_env sample_request empty_service"
  have state: "snd ?g = sys_service sample_system"
    by (simp add: grant_def sample_begin sample_approve sample_system_def initial_def)
  have "wire_carries (\<lambda>b. ''{}'') sample_server sample_client sample_request
      (snd (fst (answer sample_server GrantBody ?g)))"
    by (cases ?g; cases "fst ?g")
      (auto simp: wire_carries_def sample_client_def sample_encoders_def sample_responses_def sample_server_def
        sample_decoders_def decode_body_def client_request_def maximum_request_bytes_def answer_def
        write_service_error_def write_error_def sample_answer_def)
  with grant_over_http [of sample_client sample_env sample_server "\<lambda>b. ''{}''" sample_request empty_service a] state
  show "snd (client_grant sample_client sample_request (empty_service, a)) = (sys_service sample_system, a)"
    by (simp add: sample_client_def sample_descriptor_def sample_server_def case_prod_beta split: sum.split)
qed

end
