(* ===== verification/Mcp.thy ===== *)
theory Mcp
  imports Api_Client
begin

text \<open>
  The MCP server of \<^verbatim>\<open>internal/cli/mcp.go\<close>: a line is one JSON-RPC message; a tool call becomes one
  call of the daemon. JSON is outside: a line decodes to a request, the raw parameters of a tool
  call to its name and its raw arguments, and those to a request of the contract. A result is the
  value that is encoded, not its text.
\<close>

record mcp_request =
  mcp_id :: bytes \<comment> \<open>the raw identifier; empty for a notification\<close>
  mcp_method :: gostring
  mcp_params :: bytes

datatype tool_result =
    ProfilesResult "public_profile list" | ConsumerResult bool consumer | GrantResult grant_response
  | RevokedResult bool | ExecResult exec_response

text \<open>The tools with their input schemas, without the descriptions.\<close>

datatype schema = TextSchema | IntegerSchema int int | TextListSchema nat

record mcp_tool =
  mt_name :: gostring
  mt_properties :: "(gostring \<times> schema) list"
  mt_required :: "gostring list"

datatype mcp_body =
    ServerInfo gostring gostring gostring \<comment> \<open>protocol version, name, version\<close>
  | EmptyResult | ToolList "mcp_tool list"
  | ToolText tool_result | ToolError gostring | RpcError int gostring

record mcp_response =
  mcr_id :: bytes
  mcr_body :: mcp_body

record mcp_decoders =
  md_line :: "bytes \<Rightarrow> mcp_request option"
  md_call :: "bytes \<Rightarrow> gostring + gostring \<times> bytes"
  md_consumer :: "bytes \<Rightarrow> gostring + consumer_request"
  md_grant :: "bytes \<Rightarrow> gostring + grant_request"
  md_revoke :: "bytes \<Rightarrow> gostring + revoke_request"
  md_exec :: "bytes \<Rightarrow> gostring + exec_request"

definition mcp_tools :: "mcp_tool list" where
  "mcp_tools =
     [\<lparr>mt_name = ''list_key_profiles'', mt_properties = [], mt_required = []\<rparr>,
      \<lparr>mt_name = ''get_key_session_status'', mt_properties = [(''consumer_token'', TextSchema)],
       mt_required = [''consumer_token'']\<rparr>,
      \<lparr>mt_name = ''request_key_session'',
       mt_properties =
         [(''profile'', TextSchema), (''consumer_token'', TextSchema), (''consumer_label'', TextSchema),
          (''consumer_duration_seconds'', IntegerSchema 3600 604800), (''reason'', TextSchema),
          (''duration_seconds'', IntegerSchema 60 86400)],
       mt_required = [''reason'']\<rparr>,
      \<lparr>mt_name = ''revoke_key_session'', mt_properties = [(''consumer_token'', TextSchema), (''lease_id'', TextSchema)],
       mt_required = [''consumer_token'']\<rparr>,
      \<lparr>mt_name = ''exec_with_key_session'',
       mt_properties =
         [(''consumer_token'', TextSchema), (''lease_id'', TextSchema), (''arguments'', TextListSchema 1),
          (''working_directory'', TextSchema), (''timeout_seconds'', IntegerSchema 1 1800)],
       mt_required = [''consumer_token'', ''lease_id'', ''arguments'', ''working_directory'']\<rparr>]"

datatype tool_error =
    InvalidCall gostring | ToolClient client_error | BadArguments gostring | UnknownTool gostring

text \<open>Decode the arguments, send the request, encode the reply.\<close>

definition tool_call ::
  "(bytes \<Rightarrow> gostring + 'a) \<Rightarrow> ('a \<Rightarrow> 's \<Rightarrow> (client_error + 'b) \<times> 's) \<Rightarrow> ('b \<Rightarrow> tool_result) \<Rightarrow> bytes \<Rightarrow> 's \<Rightarrow>
   (tool_error + tool_result) \<times> 's" where
  "tool_call dec op encode raw s =
     (case dec raw of
        Inl msg \<Rightarrow> (Inl (BadArguments msg), s)
      | Inr r \<Rightarrow>
          (case op r s of
             (Inl e, s1) \<Rightarrow> (Inl (ToolClient e), s1)
           | (Inr x, s1) \<Rightarrow> (Inr (encode x), s1)))"

text \<open>A timeout of zero, which is also an omitted one, becomes five minutes.\<close>

definition default_timeout :: "exec_request \<Rightarrow> exec_request" where
  "default_timeout r = (if er_timeout_seconds r = 0 then r\<lparr>er_timeout_seconds := 300\<rparr> else r)"

definition call_tool ::
  "mcp_decoders \<Rightarrow> 's client \<Rightarrow> gostring \<Rightarrow> bytes \<Rightarrow> 's \<Rightarrow> (tool_error + tool_result) \<times> 's" where
  "call_tool M c name raw s =
     (if name = ''list_key_profiles'' then
        tool_call (\<lambda>_. Inr ()) (\<lambda>_. client_snapshot c) (\<lambda>snap. ProfilesResult (snap_profiles snap)) raw s
      else if name = ''get_key_session_status'' then
        tool_call (md_consumer M) (\<lambda>r. client_status c (cr_consumer_token r))
          (\<lambda>r. ConsumerResult (length (consumer_leases (csr_consumer r)) > 0) (csr_consumer r)) raw s
      else if name = ''request_key_session'' then tool_call (md_grant M) (client_grant c) GrantResult raw s
      else if name = ''revoke_key_session'' then tool_call (md_revoke M) (client_revoke c) RevokedResult raw s
      else if name = ''exec_with_key_session'' then
        tool_call (md_exec M) (\<lambda>r. client_execute c (default_timeout r)) ExecResult raw s
      else (Inl (UnknownTool name), s))"

definition call_mcp_tool ::
  "mcp_decoders \<Rightarrow> client_error + 's client \<Rightarrow> bytes \<Rightarrow> 's \<Rightarrow> (tool_error + tool_result) \<times> 's" where
  "call_mcp_tool M connected raw s =
     (case md_call M raw of
        Inl msg \<Rightarrow> (Inl (InvalidCall msg), s)
      | Inr (name, args) \<Rightarrow>
          (case connected of
             Inl e \<Rightarrow> (Inl (ToolClient e), s)
           | Inr c \<Rightarrow> call_tool M c name args s))"

text \<open>\<open>text_of\<close> is \<^verbatim>\<open>err.Error()\<close>.\<close>

definition handle_mcp_request ::
  "mcp_decoders \<Rightarrow> (tool_error \<Rightarrow> gostring) \<Rightarrow> client_error + 's client \<Rightarrow> mcp_request \<Rightarrow> 's \<Rightarrow>
   mcp_response \<times> 's" where
  "handle_mcp_request M text_of connected q s =
     (let respond = (\<lambda>b. \<lparr>mcr_id = mcp_id q, mcr_body = b\<rparr>)
      in if mcp_method q = ''initialize'' then (respond (ServerInfo ''2025-06-18'' ''key-session'' ''2''), s)
         else if mcp_method q = ''ping'' then (respond EmptyResult, s)
         else if mcp_method q = ''tools/list'' then (respond (ToolList mcp_tools), s)
         else if mcp_method q = ''tools/call'' then
           (case call_mcp_tool M connected (mcp_params q) s of
              (Inl e, s1) \<Rightarrow> (respond (ToolError (text_of e)), s1)
            | (Inr r, s1) \<Rightarrow> (respond (ToolText r), s1))
         else (respond (RpcError (- 32601) ''Method not found''), s))"

text \<open>One line of the loop: what is written for it, if anything.\<close>

definition serve_line ::
  "mcp_decoders \<Rightarrow> (tool_error \<Rightarrow> gostring) \<Rightarrow> client_error + 's client \<Rightarrow> bytes \<Rightarrow> 's \<Rightarrow>
   mcp_response list \<times> 's" where
  "serve_line M text_of connected line s =
     (case md_line M line of
        None \<Rightarrow> ([\<lparr>mcr_id = [], mcr_body = RpcError (- 32700) ''Parse error''\<rparr>], s)
      | Some q \<Rightarrow>
          if mcp_method q = ''notifications/initialized'' then ([], s)
          else let (response, s1) = handle_mcp_request M text_of connected q s
               in (if length (mcp_id q) > 0 then [response] else [], s1))"

text \<open>The loop; \<open>connect_at n\<close> is what connecting for the \<open>n\<close>-th line gives.\<close>

fun serve_mcp ::
  "mcp_decoders \<Rightarrow> (tool_error \<Rightarrow> gostring) \<Rightarrow> (nat \<Rightarrow> client_error + 's client) \<Rightarrow> nat \<Rightarrow> bytes list \<Rightarrow> 's \<Rightarrow>
   mcp_response list \<times> 's" where
  "serve_mcp M text_of connect_at n [] s = ([], s)"
| "serve_mcp M text_of connect_at n (line # lines) s =
     (let (out, s1) = serve_line M text_of (connect_at n) line s;
          (rest, s2) = serve_mcp M text_of connect_at (Suc n) lines s1
      in (out @ rest, s2))"

end
