(* ===== verification/Installation.thy ===== *)
theory Installation
  imports Api_Client
begin

text \<open>
  \<^verbatim>\<open>internal/buildinfo/info.go\<close> and the \<^verbatim>\<open>doctor\<close> command of \<^verbatim>\<open>internal/cli/doctor.go\<close>. Outside are the
  Go runtime's build information, the \<^verbatim>\<open>codesign\<close> program and the file system.
\<close>

section \<open>Build information\<close>

record build_info =
  bi_version :: gostring
  bi_commit :: gostring
  bi_build_date :: gostring
  bi_go_version :: gostring
  bi_platform :: gostring
  bi_architecture :: gostring
  bi_dirty :: bool

text \<open>The four variables the linker may set.\<close>

record stamps =
  st_version :: gostring
  st_commit :: gostring
  st_build_date :: gostring
  st_dirty :: gostring

definition apply_setting :: "stamps \<Rightarrow> gostring \<times> gostring \<Rightarrow> build_info \<Rightarrow> build_info" where
  "apply_setting st kv current =
     (let (key, value) = kv
      in if key = ''vcs.revision'' then
           (if bi_commit current = ''unknown'' \<and> value \<noteq> [] then current\<lparr>bi_commit := value\<rparr> else current)
         else if key = ''vcs.time'' then
           (if bi_build_date current = ''unknown'' \<and> value \<noteq> [] then current\<lparr>bi_build_date := value\<rparr> else current)
         else if key = ''vcs.modified'' then
           (if st_dirty st = ''unknown'' then current\<lparr>bi_dirty := (value = ''true'')\<rparr> else current)
         else current)"

definition current_build ::
  "stamps \<Rightarrow> gostring \<times> gostring \<times> gostring \<Rightarrow> (gostring \<times> gostring) list option \<Rightarrow> build_info" where
  "current_build st runtime settings =
     (let (go_version, platform, architecture) = runtime;
          current = \<lparr>bi_version = st_version st, bi_commit = st_commit st, bi_build_date = st_build_date st,
                     bi_go_version = go_version, bi_platform = platform, bi_architecture = architecture,
                     bi_dirty = (st_dirty st = ''true'')\<rparr>
      in case settings of None \<Rightarrow> current | Some kvs \<Rightarrow> fold (apply_setting st) kvs current)"

definition short_commit :: "gostring \<Rightarrow> gostring" where
  "short_commit commit = (if length commit > 12 then take 12 commit else trim_space commit)"

section \<open>The doctor command\<close>

text \<open>The part of the executable's path up to the bundle, empty when it is not in one.\<close>

definition find_application_bundle :: "gostring \<Rightarrow> gostring" where
  "find_application_bundle executable =
     (case str_index executable ''.app/Contents/MacOS/'' of
        None \<Rightarrow> []
      | Some i \<Rightarrow> take (i + length ''.app'') executable)"

record doctor_world =
  dw_goos :: gostring
  dw_goarch :: gostring
  dw_executable :: "gostring + gostring"
  dw_eval_symlinks :: "gostring \<Rightarrow> gostring option"
  dw_codesign_verifies :: "gostring \<Rightarrow> bool"
  dw_codesign_details :: "gostring \<Rightarrow> gostring"
  dw_store_path :: "gostring + gostring"
  dw_stat :: "gostring \<Rightarrow> lstat"
  dw_snapshot :: "gostring + snapshot" \<comment> \<open>connecting and asking, with the text of an error\<close>

definition inspect_application_bundle :: "doctor_world \<Rightarrow> gostring \<Rightarrow> doctor_check" where
  "inspect_application_bundle W executable =
     (let bundle = find_application_bundle executable;
          check = (\<lambda>n st d. \<lparr>dc_name = n, dc_status = st, dc_detail = d\<rparr>)
      in if bundle = [] then
           check ''application bundle'' ''warn''
             ''not running from Key Session.app; the system Keychain prompt may use a generic executable icon''
         else if \<not> dw_codesign_verifies W bundle then
           check ''code signature'' ''fail'' ''bundle signature verification failed''
         else if str_contains (dw_codesign_details W bundle) ''Signature=adhoc'' then
           check ''code signature'' ''warn''
             ''valid ad hoc signature; published builds use Developer ID signing and notarization''
         else check ''code signature'' ''pass'' bundle)"

definition configuration_check :: "doctor_world \<Rightarrow> doctor_check" where
  "configuration_check W =
     (let check = (\<lambda>n st d. \<lparr>dc_name = n, dc_status = st, dc_detail = d\<rparr>)
      in case dw_store_path W of
           Inl msg \<Rightarrow> check ''configuration'' ''fail'' msg
         | Inr path \<Rightarrow>
             (case dw_stat W path of
                NotThere msg \<Rightarrow> check ''configuration'' ''info'' ''no profiles configured yet''
              | LstatFails msg \<Rightarrow> check ''configuration'' ''fail'' msg
              | Found kind mode \<Rightarrow>
                  if mode \<noteq> mode_file then
                    check ''configuration permissions'' ''fail'' (''expected 0600, found '' @ octal4 mode)
                  else check ''configuration permissions'' ''pass'' ''0600''))"

definition executable_check :: "doctor_world \<Rightarrow> doctor_check" where
  "executable_check W =
     (case dw_executable W of
        Inl msg \<Rightarrow> \<lparr>dc_name = ''application bundle'', dc_status = ''fail'', dc_detail = msg\<rparr>
      | Inr path \<Rightarrow>
          inspect_application_bundle W
            (case dw_eval_symlinks W path of Some resolved \<Rightarrow> resolved | None \<Rightarrow> path))"

definition daemon_check :: "doctor_world \<Rightarrow> doctor_check" where
  "daemon_check W =
     (case dw_snapshot W of
        Inl msg \<Rightarrow> \<lparr>dc_name = ''access daemon'', dc_status = ''fail'', dc_detail = msg\<rparr>
      | Inr snap \<Rightarrow>
          \<lparr>dc_name = ''access daemon'', dc_status = ''pass'',
           dc_detail = ''connected; '' @ show_nat (length (snap_consumers snap)) @ '' consumer(s), '' @
             show_nat (sum_list (map (\<lambda>c. length (consumer_leases c)) (snap_consumers snap))) @ '' active lease(s)''\<rparr>)"

definition run_doctor :: "doctor_world \<Rightarrow> doctor_report" where
  "run_doctor W =
     (let platform = (if dw_goos W \<noteq> ''darwin''
            then \<lparr>dc_name = ''platform'', dc_status = ''fail'', dc_detail = ''key-session requires macOS''\<rparr>
            else \<lparr>dc_name = ''platform'', dc_status = ''pass'', dc_detail = dw_goos W @ ''/'' @ dw_goarch W\<rparr>);
          policy = \<lparr>dc_name = ''approval policy'', dc_status = ''info'',
            dc_detail = ''grants require biometrics-only LocalAuthentication; availability is checked when approval begins''\<rparr>;
          checks = [platform, executable_check W, configuration_check W, policy, daemon_check W]
      in \<lparr>dr_healthy = \<not> list_ex (\<lambda>c. dc_status c = ''fail'') checks, dr_checks = checks\<rparr>)"

lemma bundle_is_a_prefix: "prefix (find_application_bundle executable) executable"
  by (auto simp: find_application_bundle_def take_is_prefix split: option.split)

end
