(* ===== verification/Cli.thy ===== *)
theory Cli
  imports Mcp Installation Update_Check
begin

text \<open>
  The commands of \<^verbatim>\<open>internal/cli\<close> (\<^verbatim>\<open>cli.go\<close>, \<^verbatim>\<open>ssh.go\<close>, \<^verbatim>\<open>connect.go\<close>, \<^verbatim>\<open>updates.go\<close>) and the exit
  status of \<^verbatim>\<open>main.go\<close>. A command checks its flags, connects, sends one request and prints. What it
  prints is a list of items, one per print statement, with the values that are shown; the wording
  around them and the flag parser \<^verbatim>\<open>cobra\<close> are outside.
\<close>

section \<open>Errors and output\<close>

datatype cli_error =
    FlagRequired gostring | FlagTooLong gostring nat | FlagControl gostring
  | BadProfileName | BadVariable | DangerousVariable gostring | BadLease
  | NotATerminal | PasswordUnread gostring | EmptySecret | NulSecret
  | BadConsumerDuration | ConsumerFlagsWithToken | BadTimeout | DashMissing | TokenMissing
  | NoWorkingDirectory gostring | RemoveInApp "gostring option" | NoSSHProfile gostring
  | UnknownAgent gostring | PathsUnknown gostring | Unhealthy
  | FromClient client_error | FromUpdate update_error | ChildExit int
  | ArgumentCount nat | FlagMissing gostring

datatype cli_output =
    ProfileSaved gostring gostring
  | ConsumerCreated gostring time | Capability gostring
  | LeaseGranted gostring gostring gostring gostring
  | ConsumerJson bool consumer | ConsumersJson "consumer list"
  | ConsumerLine gostring nat gostring | LeaseLine gostring gostring gostring gostring gostring
  | NoConsumers | Totals nat nat | ConsumerTotal gostring gostring nat gostring
  | ToStdout gostring | ToStderr gostring
  | AlreadyInactive | ConsumerRevoked | LeaseRevoked gostring
  | ProfilesJson "public_profile list" | ProfileLine gostring gostring gostring
  | PublicKeyLine gostring gostring | SocketLine gostring
  | ConnectionsJson "agent_connection list" | ConnectionLine agent_connection
  | VersionJson build_info | VersionLine gostring gostring gostring gostring gostring
  | UpdateJson update_result | UpdateLine gostring gostring gostring | UpToDate gostring
  | UpdateNotice gostring
  | DoctorJson doctor_report build_info | DoctorLine gostring gostring gostring | DoctorHealthy
  | McpLine mcp_response | HelpText

type_synonym printed = "cli_error option \<times> cli_output list"

definition failed :: "cli_error \<Rightarrow> printed" where "failed e = (Some e, [])"

definition printed :: "cli_output list \<Rightarrow> printed" where "printed out = (None, out)"

text \<open>The exit status of \<^verbatim>\<open>main\<close>.\<close>

definition exit_status :: "printed \<Rightarrow> int" where
  "exit_status p = (case fst p of None \<Rightarrow> 0 | Some (ChildExit code) \<Rightarrow> code | Some _ \<Rightarrow> 1)"

text \<open>What a command finds outside.\<close>

record 's cli_env =
  ce_terminal :: bool
  ce_password :: "gostring + bytes"
  ce_getenv :: "gostring \<Rightarrow> gostring"
  ce_getwd :: "gostring + gostring"
  ce_now :: time
  ce_connect :: "client_error + 's client"
  ce_config_dir :: "gostring + gostring"

definition with_client ::
  "'s cli_env \<Rightarrow> ('s client \<Rightarrow> 's \<Rightarrow> printed \<times> 's) \<Rightarrow> 's \<Rightarrow> printed \<times> 's" where
  "with_client C command s =
     (case ce_connect C of Inl e \<Rightarrow> (failed (FromClient e), s) | Inr c \<Rightarrow> command c s)"

definition with_reply ::
  "(client_error + 'a) \<times> 's \<Rightarrow> ('a \<Rightarrow> printed) \<Rightarrow> printed \<times> 's" where
  "with_reply rs show_it =
     (case rs of (Inl e, s) \<Rightarrow> (failed (FromClient e), s) | (Inr x, s) \<Rightarrow> (show_it x, s))"

section \<open>Checks of the flags\<close>

definition cli_prompt_field :: "gostring \<Rightarrow> gostring \<Rightarrow> nat \<Rightarrow> cli_error option" where
  "cli_prompt_field name value maximum_characters =
     (if value = [] then Some (FlagRequired name)
      else if length (runes value) > maximum_characters then Some (FlagTooLong name maximum_characters)
      else if list_ex (\<lambda>r. r < 32 \<or> r = 127) (runes value) then Some (FlagControl name)
      else None)"

definition cli_profile_name :: "gostring \<Rightarrow> cli_error option" where
  "cli_profile_name name = (if profile_name_pattern name then None else Some BadProfileName)"

definition cli_variable :: "gostring \<Rightarrow> cli_error option" where
  "cli_variable name =
     (if \<not> environment_variable_pattern name then Some BadVariable
      else let upper = to_upper name
        in if upper \<in> set dangerous_names \<or> has_prefix upper ''LD_'' \<or> has_prefix upper ''DYLD_''
           then Some (DangerousVariable name) else None)"

definition cli_lease :: "duration \<Rightarrow> cli_error option" where
  "cli_lease d = (if dur_less d minute \<or> dur_less (24 * hour) d then Some BadLease else None)"

text \<open>
  \<^verbatim>\<open>int64(d.Seconds())\<close>: the whole seconds, towards zero. The detour over \<^verbatim>\<open>float64\<close> is exact for the
  durations the commands accept.
\<close>

definition whole_seconds :: "duration \<Rightarrow> int64" where
  "whole_seconds d = word_of_int (sint d sdiv 1000000000)"

text \<open>\<^verbatim>\<open>friendlyDuration\<close> of the command line, which shows hours, minutes and seconds.\<close>

definition cli_friendly :: "duration \<Rightarrow> gostring" where
  "cli_friendly d0 =
     (if sint d0 \<le> 0 then ''expired''
      else
        let d = sint (round_to second d0);
            hours = d sdiv sint hour;
            minutes = (d smod sint hour) sdiv sint minute;
            secs = (d smod sint minute) sdiv sint second;
            parts = (if hours > 0 then [show_int hours @ ''h''] else []) @
                    (if minutes > 0 then [show_int minutes @ ''m''] else []) @
                    (if secs > 0 \<and> hours = 0 then [show_int secs @ ''s''] else [])
        in if parts = [] then ''expired'' else join_with '' '' parts)"

definition consumer_token_variable :: gostring where
  "consumer_token_variable = ''KEY_SESSION_CONSUMER_TOKEN''"

definition consumer_token :: "'s cli_env \<Rightarrow> gostring" where
  "consumer_token C = trim_space (ce_getenv C consumer_token_variable)"

definition remaining :: "'s cli_env \<Rightarrow> time \<Rightarrow> gostring" where
  "remaining C t = cli_friendly (time_sub t (ce_now C))"

section \<open>setup\<close>

text \<open>The checks in their order, up to the request; \<open>clearBytes\<close> of the typed secret is not visible outside.\<close>

definition first_error :: "'e option list \<Rightarrow> 'e option" where
  "first_error es = (case List.map_filter id es of [] \<Rightarrow> None | e # _ \<Rightarrow> Some e)"

definition setup_request ::
  "'s cli_env \<Rightarrow> gostring \<Rightarrow> gostring \<Rightarrow> duration \<Rightarrow> cli_error + profile_request" where
  "setup_request C name variable d =
     (case first_error [cli_profile_name name, cli_variable variable, cli_lease d,
             if ce_terminal C then None else Some NotATerminal] of
        Some e \<Rightarrow> Inl e
      | None \<Rightarrow>
          (case ce_password C of
             Inl msg \<Rightarrow> Inl (PasswordUnread msg)
           | Inr secret \<Rightarrow>
               if length secret = 0 then Inl EmptySecret
               else if CHR 0x00 \<in> set secret then Inl NulSecret
               else Inr \<lparr>pr_name = name, pr_env = variable, pr_lease_seconds = whole_seconds d,
                         pr_secret = secret\<rparr>))"

definition setup_profile :: "'s cli_env \<Rightarrow> gostring \<Rightarrow> gostring \<Rightarrow> duration \<Rightarrow> 's \<Rightarrow> printed \<times> 's" where
  "setup_profile C name variable d s =
     (case setup_request C name variable d of
        Inl e \<Rightarrow> (failed e, s)
      | Inr r \<Rightarrow>
          with_client C (\<lambda>c s. with_reply (client_store_profile c r s)
            (\<lambda>_. printed [ProfileSaved name (cli_friendly d)])) s)"

section \<open>grant\<close>

definition grant_request_for ::
  "'s cli_env \<Rightarrow> gostring \<Rightarrow> gostring \<Rightarrow> gostring \<Rightarrow> duration \<Rightarrow> duration \<Rightarrow> cli_error + grant_request" where
  "grant_request_for C profile label0 reason0 lease_duration consumer_duration =
     (let reason = trim_space reason0; label = trim_space label0; token = consumer_token C
      in case first_error
           [cli_prompt_field ''reason'' reason 240,
            if lease_duration \<noteq> 0 then cli_lease lease_duration else None,
            if token = [] then
              first_error [cli_prompt_field ''consumer'' label 80,
                if consumer_duration \<noteq> 0 \<and>
                   (dur_less consumer_duration hour \<or> dur_less (7 * 24 * hour) consumer_duration)
                then Some BadConsumerDuration else None]
            else if label \<noteq> [] \<or> consumer_duration \<noteq> 0 then Some ConsumerFlagsWithToken else None] of
           Some e \<Rightarrow> Inl e
         | None \<Rightarrow>
             Inr \<lparr>gr_profile = profile, gr_consumer_token = token, gr_consumer_label = label,
                  gr_consumer_duration_seconds = whole_seconds consumer_duration, gr_reason = reason,
                  gr_duration_seconds = whole_seconds lease_duration\<rparr>)"

definition show_grant :: "'s cli_env \<Rightarrow> grant_response \<Rightarrow> printed" where
  "show_grant C g =
     (let l = gresp_lease g;
          access = (if lease_kind l = ''ssh'' then ''SSH signing (same-user access)'' else lease_env l)
      in printed
           ((if gresp_consumer_token g \<noteq> []
             then [ConsumerCreated (consumer_label (gresp_consumer g)) (consumer_expires_at (gresp_consumer g)),
                   Capability (gresp_consumer_token g)]
             else []) @
            [LeaseGranted (lease_id l) (lease_profile l) access (remaining C (lease_expires_at l))]))"

definition grant_profile ::
  "'s cli_env \<Rightarrow> gostring \<Rightarrow> gostring \<Rightarrow> gostring \<Rightarrow> duration \<Rightarrow> duration \<Rightarrow> 's \<Rightarrow> printed \<times> 's" where
  "grant_profile C profile label reason lease_duration consumer_duration s =
     (case grant_request_for C profile label reason lease_duration consumer_duration of
        Inl e \<Rightarrow> (failed e, s)
      | Inr r \<Rightarrow> with_client C (\<lambda>c s. with_reply (client_grant c r s) (show_grant C)) s)"

section \<open>status\<close>

definition show_consumer :: "'s cli_env \<Rightarrow> bool \<Rightarrow> consumer \<Rightarrow> printed" where
  "show_consumer C json c =
     (let n = length (consumer_leases c)
      in if json then printed [ConsumerJson (n > 0) c]
         else printed
           (ConsumerLine (consumer_label c) n (remaining C (consumer_expires_at c)) #
            map (\<lambda>l. LeaseLine (lease_id l) (lease_profile l) (lease_env l) (remaining C (lease_expires_at l))
                       (lease_reason l)) (consumer_leases c)))"

definition show_consumers :: "'s cli_env \<Rightarrow> bool \<Rightarrow> snapshot \<Rightarrow> printed" where
  "show_consumers C json snap =
     (let cs = snap_consumers snap
      in if json then printed [ConsumersJson cs]
         else if cs = [] then printed [NoConsumers]
         else printed
           (Totals (length cs) (sum_list (map (\<lambda>c. length (consumer_leases c)) cs)) #
            map (\<lambda>c. ConsumerTotal (consumer_id c) (consumer_label c) (length (consumer_leases c))
                       (remaining C (consumer_expires_at c))) cs))"

definition show_status :: "'s cli_env \<Rightarrow> bool \<Rightarrow> 's \<Rightarrow> printed \<times> 's" where
  "show_status C json =
     with_client C (\<lambda>c s.
       if consumer_token C \<noteq> [] then
         with_reply (client_status c (consumer_token C) s) (\<lambda>r. show_consumer C json (csr_consumer r))
       else with_reply (client_snapshot c s) (show_consumers C json))"

section \<open>exec and revoke\<close>

text \<open>Output is printed with a newline at its end, and not at all when it is empty.\<close>

definition printed_text :: "(gostring \<Rightarrow> cli_output) \<Rightarrow> gostring \<Rightarrow> cli_output list" where
  "printed_text where_to text =
     (if text = [] then []
      else [where_to (if has_suffix text [CHR 0x0A] then text else text @ [CHR 0x0A])])"

definition show_execution :: "exec_response \<Rightarrow> printed" where
  "show_execution r =
     (if ex_exit_code r \<noteq> 0 then Some (ChildExit (ex_exit_code r)) else None,
      printed_text ToStdout (ex_stdout r) @ printed_text ToStderr (ex_stderr r))"

definition execute_command ::
  "'s cli_env \<Rightarrow> gostring list \<Rightarrow> duration \<Rightarrow> gostring \<Rightarrow> 's \<Rightarrow> printed \<times> 's" where
  "execute_command C args timeout lease s =
     (if dur_less timeout second \<or> dur_less (30 * minute) timeout then (failed BadTimeout, s)
      else with_client C (\<lambda>c s.
        case ce_getwd C of
          Inl msg \<Rightarrow> (failed (NoWorkingDirectory msg), s)
        | Inr dir \<Rightarrow>
            if consumer_token C = [] then (failed TokenMissing, s)
            else with_reply
              (client_execute c
                 \<lparr>er_consumer_token = consumer_token C, er_lease_id = trim_space lease, er_arguments = args,
                  er_working_directory = dir, er_timeout_seconds = whole_seconds timeout\<rparr> s)
              show_execution) s)"

definition revoke_lease :: "'s cli_env \<Rightarrow> gostring \<Rightarrow> 's \<Rightarrow> printed \<times> 's" where
  "revoke_lease C lease s =
     (if consumer_token C = [] then (failed TokenMissing, s)
      else with_client C (\<lambda>c s.
        with_reply (client_revoke c \<lparr>rr_consumer_token = consumer_token C, rr_lease_id = trim_space lease\<rparr> s)
          (\<lambda>revoked. printed
             [if \<not> revoked then AlreadyInactive else if lease = [] then ConsumerRevoked else LeaseRevoked lease])) s)"

section \<open>profiles, remove-profile, ssh and connect\<close>

definition list_profiles :: "'s cli_env \<Rightarrow> bool \<Rightarrow> 's \<Rightarrow> printed \<times> 's" where
  "list_profiles C json =
     with_client C (\<lambda>c s. with_reply (client_snapshot c s) (\<lambda>snap. printed
       (if json then [ProfilesJson (snap_profiles snap)]
        else map (\<lambda>p. ProfileLine (pp_name p) (if pp_kind p = ''ssh'' then ''SSH signing'' else pp_env p)
                       (cli_friendly (seconds (pp_lease_seconds p)))) (snap_profiles snap))))"

definition remove_profile :: "gostring \<Rightarrow> printed" where
  "remove_profile requested =
     failed (RemoveInApp (if trim_space requested = [] then None else Some (trim_space requested)))"

definition ssh_setup :: "'s cli_env \<Rightarrow> gostring \<Rightarrow> duration \<Rightarrow> 's \<Rightarrow> printed \<times> 's" where
  "ssh_setup C name d s =
     (case first_error [cli_profile_name name, cli_lease d] of
        Some e \<Rightarrow> (failed e, s)
      | None \<Rightarrow>
          with_client C (\<lambda>c s.
            with_reply (client_create_ssh c \<lparr>sp_name = name, sp_lease_seconds = whole_seconds d\<rparr> s)
              (\<lambda>p. printed [PublicKeyLine (pp_public_key p) (pp_name p)])) s)"

definition ssh_public_key :: "'s cli_env \<Rightarrow> gostring \<Rightarrow> 's \<Rightarrow> printed \<times> 's" where
  "ssh_public_key C name =
     with_client C (\<lambda>c s. with_reply (client_snapshot c s) (\<lambda>snap.
       case find (\<lambda>p. pp_name p = name \<and> pp_kind p = ''ssh'') (snap_profiles snap) of
         Some p \<Rightarrow> printed [PublicKeyLine (pp_public_key p) (pp_name p)]
       | None \<Rightarrow> failed (NoSSHProfile name)))"

definition ssh_socket :: "'s cli_env \<Rightarrow> printed" where
  "ssh_socket C =
     (case default_runtime_paths (ce_config_dir C) of
        Inl msg \<Rightarrow> failed (PathsUnknown msg)
      | Inr paths \<Rightarrow> printed [SocketLine (path_join [rp_directory paths, ''ssh-agent.sock''])])"

definition connect_agents :: "'s cli_env \<Rightarrow> gostring list \<Rightarrow> bool \<Rightarrow> 's \<Rightarrow> printed \<times> 's" where
  "connect_agents C args json s =
     (let host = (if length args = 1 then hd args else [])
      in if length args = 1 \<and> host \<noteq> ''codex'' \<and> host \<noteq> ''claude'' then (failed (UnknownAgent host), s)
         else with_client C (\<lambda>c s. with_reply (client_repair c host s) (\<lambda>connections. printed
           (if json then [ConnectionsJson connections] else map ConnectionLine connections))) s)"

end
