(* ===== verification/Cli_Commands.thy ===== *)
theory Cli_Commands
  imports Cli
begin

text \<open>
  The command tree of \<^verbatim>\<open>internal/cli\<close>: what each \<^verbatim>\<open>RunE\<close> does with the arguments and flags that
  \<^verbatim>\<open>cobra\<close> has parsed, the \<^verbatim>\<open>version\<close>, \<^verbatim>\<open>update\<close>, \<^verbatim>\<open>doctor\<close> and \<^verbatim>\<open>mcp\<close> commands, and the check for
  an update after a command that succeeded. A flag is \<open>None\<close> when it was not given; \<^verbatim>\<open>cobra\<close> checks
  the number of arguments before the required flags.
\<close>

section \<open>Version and updates\<close>

definition show_version :: "bool \<Rightarrow> build_info \<Rightarrow> printed" where
  "show_version json b =
     printed [if json then VersionJson b
              else VersionLine (bi_version b) (short_commit (bi_commit b)) (bi_platform b) (bi_architecture b)
                     (bi_build_date b)]"

definition show_update :: "bool \<Rightarrow> update_result \<Rightarrow> printed" where
  "show_update json r =
     printed [if json then UpdateJson r
              else if ur_update_available r then
                UpdateLine (ur_latest_version r) (ur_current_version r) (ur_release_url r)
              else UpToDate (ur_current_version r)]"

text \<open>\<open>Inl\<close> is the error of \<^verbatim>\<open>updatecheck.Default\<close>.\<close>

definition check_for_updates ::
  "gostring + checker \<Rightarrow> gostring \<Rightarrow> bool \<Rightarrow> bool \<Rightarrow> cached_release disk \<Rightarrow> printed \<times> cached_release disk" where
  "check_for_updates default_checker version json force k =
     (case default_checker of
        Inl msg \<Rightarrow> (failed (PathsUnknown msg), k)
      | Inr K \<Rightarrow>
          (case check K version force k of
             (Inl e, k1) \<Rightarrow> (failed (FromUpdate e), k1)
           | (Inr r, k1) \<Rightarrow> (show_update json r, k1)))"

definition quiet_commands :: "gostring list" where
  "quiet_commands = [''_daemon'', ''mcp'', ''exec'', ''grant'', ''setup'', ''update'', ''connect'']"

definition automatic_update_check_allowed :: "(gostring \<Rightarrow> gostring) \<Rightarrow> gostring list \<Rightarrow> bool \<Rightarrow> bool" where
  "automatic_update_check_allowed getenv args terminal =
     (if \<not> terminal \<or> getenv ''CI'' \<noteq> [] \<or> getenv ''KEY_SESSION_NO_UPDATE_CHECK'' \<noteq> [] then False
      else if list_ex (\<lambda>a. a = ''--json'') args then False
      else if length args = 0 then True
      else hd args \<notin> set quiet_commands)"

definition check_for_updates_automatically ::
  "(gostring \<Rightarrow> gostring) \<Rightarrow> gostring + checker \<Rightarrow> gostring \<Rightarrow> gostring list \<Rightarrow> bool \<Rightarrow> cached_release disk \<Rightarrow>
   cli_output list \<times> cached_release disk" where
  "check_for_updates_automatically getenv default_checker version args terminal k =
     (if \<not> automatic_update_check_allowed getenv args terminal then ([], k)
      else case default_checker of
        Inl msg \<Rightarrow> ([], k)
      | Inr K \<Rightarrow>
          (case check K version False k of
             (Inl e, k1) \<Rightarrow> ([], k1)
           | (Inr r, k1) \<Rightarrow> (if ur_update_available r then [UpdateNotice (ur_latest_version r)] else [], k1)))"

section \<open>doctor\<close>

definition show_doctor :: "bool \<Rightarrow> build_info \<Rightarrow> doctor_report \<Rightarrow> printed" where
  "show_doctor json b r =
     (if json then printed [DoctorJson r b]
      else
        let lines = map (\<lambda>c. DoctorLine (to_upper (dc_status c)) (dc_name c) (dc_detail c)) (dr_checks r)
        in if \<not> dr_healthy r then (Some Unhealthy, lines) else (None, lines @ [DoctorHealthy]))"

text \<open>Connecting and asking for the snapshot, with the text of an error.\<close>

definition snapshot_or_text ::
  "(client_error \<Rightarrow> gostring) \<Rightarrow> client_error + 's client \<Rightarrow> 's \<Rightarrow> (gostring + snapshot) \<times> 's" where
  "snapshot_or_text text_of connected s =
     (case connected of
        Inl e \<Rightarrow> (Inl (text_of e), s)
      | Inr c \<Rightarrow> (case client_snapshot c s of (Inl e, s1) \<Rightarrow> (Inl (text_of e), s1) | (Inr snap, s1) \<Rightarrow> (Inr snap, s1)))"

definition doctor_command ::
  "(client_error \<Rightarrow> gostring) \<Rightarrow> client_error + 's client \<Rightarrow> doctor_world \<Rightarrow> build_info \<Rightarrow> bool \<Rightarrow> 's \<Rightarrow> printed \<times> 's" where
  "doctor_command text_of connected W b json s =
     (let (reply, s1) = snapshot_or_text text_of connected s
      in (show_doctor json b (run_doctor (W\<lparr>dw_snapshot := reply\<rparr>)), s1))"

section \<open>The command tree\<close>

datatype cli_command =
    HelpCommand
  | SetupCommand "gostring list" "gostring option" "duration option"
  | SshSetupCommand "gostring list" "duration option"
  | SshPublicKeyCommand "gostring list"
  | SshSocketCommand "gostring list"
  | GrantCommand "gostring list" "duration option" "gostring option" "duration option" "gostring option"
  | StatusCommand "gostring list" bool
  | ExecCommand "gostring list" bool "duration option" "gostring option"
  | RevokeCommand "gostring list" "gostring option"
  | ProfilesCommand "gostring list" bool
  | RemoveProfileCommand "gostring list"
  | VersionCommand "gostring list" bool
  | UpdateCommand "gostring list" bool bool
  | ConnectCommand "gostring list" bool
  | DoctorCommand "gostring list" bool
  | McpCommand "gostring list"

text \<open>\<open>ExecCommand\<close> has the program with its arguments and whether \<^verbatim>\<open>--\<close> was there.\<close>

record 's cli_world =
  cw_env :: "'s cli_env"
  cw_build :: build_info
  cw_doctor :: doctor_world
  cw_checker :: "gostring + checker"
  cw_error_terminal :: bool
  cw_client_text :: "client_error \<Rightarrow> gostring"
  cw_tool_text :: "tool_error \<Rightarrow> gostring"
  cw_mcp :: mcp_decoders
  cw_mcp_lines :: "bytes list"
  cw_mcp_connect :: "nat \<Rightarrow> client_error + 's client"

definition default_lease :: duration where "default_lease = hour"

definition default_exec_timeout :: duration where "default_exec_timeout = 5 * minute"

definition exact_args :: "nat \<Rightarrow> gostring list \<Rightarrow> cli_error option" where
  "exact_args n args = (if length args \<noteq> n then Some (ArgumentCount (length args)) else None)"

definition at_most_one_arg :: "gostring list \<Rightarrow> cli_error option" where
  "at_most_one_arg args = (if length args > 1 then Some (ArgumentCount (length args)) else None)"

definition at_least_one_arg :: "gostring list \<Rightarrow> cli_error option" where
  "at_least_one_arg args = (if length args < 1 then Some (ArgumentCount (length args)) else None)"

definition required_flag :: "gostring \<Rightarrow> gostring option \<Rightarrow> cli_error option" where
  "required_flag name given = (case given of None \<Rightarrow> Some (FlagMissing name) | Some v \<Rightarrow> None)"

definition flag_or :: "'a \<Rightarrow> 'a option \<Rightarrow> 'a" where
  "flag_or d given = (case given of None \<Rightarrow> d | Some v \<Rightarrow> v)"

definition checked :: "cli_error option list \<Rightarrow> ('s \<Rightarrow> printed \<times> 's) \<Rightarrow> 's \<Rightarrow> printed \<times> 's" where
  "checked conditions command s =
     (case first_error conditions of Some e \<Rightarrow> (failed e, s) | None \<Rightarrow> command s)"

definition mcp_command :: "'s cli_world \<Rightarrow> 's \<Rightarrow> printed \<times> 's" where
  "mcp_command W s =
     (let (responses, s1) = serve_mcp (cw_mcp W) (cw_tool_text W) (cw_mcp_connect W) 0 (cw_mcp_lines W) s
      in (printed (map McpLine responses), s1))"

text \<open>Commands that talk to the daemon, or to nobody.\<close>

fun run_on_daemon :: "'s cli_world \<Rightarrow> cli_command \<Rightarrow> 's \<Rightarrow> printed \<times> 's" where
  "run_on_daemon W (SetupCommand args variable d) =
     checked [exact_args 1 args, required_flag ''env'' variable]
       (setup_profile (cw_env W) (hd args) (the variable) (flag_or default_lease d))"
| "run_on_daemon W (SshSetupCommand args d) =
     checked [exact_args 1 args] (ssh_setup (cw_env W) (hd args) (flag_or hour d))"
| "run_on_daemon W (SshPublicKeyCommand args) =
     checked [exact_args 1 args] (ssh_public_key (cw_env W) (hd args))"
| "run_on_daemon W (SshSocketCommand args) = checked [exact_args 0 args] (Pair (ssh_socket (cw_env W)))"
| "run_on_daemon W (GrantCommand args d label long reason) =
     checked [exact_args 1 args, required_flag ''reason'' reason]
       (grant_profile (cw_env W) (hd args) (flag_or [] label) (the reason) (flag_or 0 d) (flag_or 0 long))"
| "run_on_daemon W (StatusCommand args json) = checked [exact_args 0 args] (show_status (cw_env W) json)"
| "run_on_daemon W (ExecCommand args dash timeout lease) =
     checked [at_least_one_arg args, required_flag ''lease'' lease, if dash then None else Some DashMissing]
       (execute_command (cw_env W) args (flag_or default_exec_timeout timeout) (the lease))"
| "run_on_daemon W (RevokeCommand args lease) =
     checked [exact_args 0 args] (revoke_lease (cw_env W) (flag_or [] lease))"
| "run_on_daemon W (ProfilesCommand args json) = checked [exact_args 0 args] (list_profiles (cw_env W) json)"
| "run_on_daemon W (RemoveProfileCommand args) = checked [exact_args 1 args] (Pair (remove_profile (hd args)))"
| "run_on_daemon W (VersionCommand args json) = checked [exact_args 0 args] (Pair (show_version json (cw_build W)))"
| "run_on_daemon W (ConnectCommand args json) = checked [at_most_one_arg args] (connect_agents (cw_env W) args json)"
| "run_on_daemon W (DoctorCommand args json) =
     checked [exact_args 0 args]
       (doctor_command (cw_client_text W) (ce_connect (cw_env W)) (cw_doctor W) (cw_build W) json)"
| "run_on_daemon W (McpCommand args) = checked [exact_args 0 args] (mcp_command W)"
| "run_on_daemon W HelpCommand = Pair (printed [HelpText])"
| "run_on_daemon W (UpdateCommand args json force) = Pair (printed [])"

text \<open>\<^verbatim>\<open>root.Execute\<close>; \<^verbatim>\<open>update\<close> is the one command that works on the cache of the update check.\<close>

definition execute_root ::
  "'s cli_world \<Rightarrow> cli_command \<Rightarrow> 's \<times> cached_release disk \<Rightarrow> printed \<times> 's \<times> cached_release disk" where
  "execute_root W command x =
     (case command of
        UpdateCommand args json force \<Rightarrow>
          (let (p, k) = checked [exact_args 0 args]
                 (check_for_updates (cw_checker W) (bi_version (cw_build W)) json force) (snd x)
           in (p, fst x, k))
      | _ \<Rightarrow> (let (p, s) = run_on_daemon W command (fst x) in (p, s, snd x)))"

text \<open>\<^verbatim>\<open>Run\<close>: the command, then the notice about an update when it succeeded; \<open>args\<close> is the raw command line.\<close>

definition run_cli ::
  "'s cli_world \<Rightarrow> gostring list \<Rightarrow> cli_command \<Rightarrow> 's \<times> cached_release disk \<Rightarrow>
   printed \<times> 's \<times> cached_release disk" where
  "run_cli W args command x =
     (let (p, s, k) = execute_root W command x
      in if fst p = None then
           let (notice, k1) = check_for_updates_automatically (ce_getenv (cw_env W)) (cw_checker W)
                 (bi_version (cw_build W)) args (cw_error_terminal W) k
           in ((None, snd p @ notice), s, k1)
         else (p, s, k))"

end
