(* ===== verification/Cli_Properties.thy ===== *)
theory Cli_Properties
  imports Cli_Commands Client_Properties
begin

text \<open>Properties of the command line and of the MCP server, with the daemon behind them.\<close>

section \<open>The checks of the commands and of the daemon\<close>

lemma first_error_None [simp]: "first_error es = None \<longleftrightarrow> list_all (\<lambda>e. e = None) es"
  by (induction es) (auto simp: first_error_def List.map_filter_def split: option.split list.split)

lemma sint_whole_seconds:
  assumes "0 \<le> sint d"
  shows "sint (whole_seconds d) = sint d div 1000000000"
proof -
  have "sint d < 9223372036854775808" using sint_lt [of d] by simp
  with assms have "0 \<le> sint d div 1000000000 \<and> sint d div 1000000000 < 9223372036854775808" by linarith
  then have "signed_take_bit 63 (sint d div 1000000000) = sint d div 1000000000"
    by (intro signed_take_bit_int_eq_self) simp_all
  moreover have "sint d sdiv 1000000000 = sint d div 1000000000"
    using assms by (cases "sint d = 0") (simp_all add: signed_divide_int_def)
  ultimately show ?thesis by (simp add: whole_seconds_def sint_sbintrunc')
qed

text \<open>Whole seconds lie in the range of the duration they were taken from, when its ends are whole.\<close>

lemma whole_seconds_in_range:
  assumes "sint d \<ge> int lo * 1000000000" and "sint d \<le> int hi * 1000000000" and "hi \<le> 9223372036"
  shows "sint (seconds (whole_seconds d)) \<ge> int lo * 1000000000 \<and>
    sint (seconds (whole_seconds d)) \<le> int hi * 1000000000"
proof -
  have s: "sint (whole_seconds d) = sint d div 1000000000"
    using assms(1) by (intro sint_whole_seconds) (meson of_nat_0_le_iff mult_nonneg_nonneg order_trans zero_le_numeral)
  have "int lo \<le> sint d div 1000000000" "sint d div 1000000000 \<le> int hi" using assms(1,2) by linarith+
  with s show ?thesis using assms(3) by (simp add: sint_seconds_exact)
qed

lemma sint_days: "sint (24 * hour) = 86400000000000" "sint (168 * hour) = 604800000000000"
  using sint_limits(2,5) by (simp_all add: maximum_lease_def maximum_consumer_duration_def)

lemma accepted_lease:
  assumes "cli_lease d = None"
  shows "\<not> sint (seconds (whole_seconds d)) < 60000000000" "\<not> 86400000000000 < sint (seconds (whole_seconds d))"
  using assms whole_seconds_in_range [of 60 d 86400] by (auto simp: cli_lease_def sint_days split: if_splits)

lemma accepted_consumer_duration:
  assumes "\<not> dur_less d hour" "\<not> dur_less (7 * 24 * hour) d"
  shows "\<not> sint (seconds (whole_seconds d)) < 3600000000000" "\<not> 604800000000000 < sint (seconds (whole_seconds d))"
  using assms whole_seconds_in_range [of 3600 d 604800] by (auto simp: sint_days)

text \<open>Errors that come from the system, the Keychain or the random source.\<close>

fun is_outside :: "error \<Rightarrow> bool" where
  "is_outside (Outside msg) = True"
| "is_outside (During action subject e) = is_outside e"
| "is_outside e = False"

lemma load_config_outside: "fst (load_config E s) = Inl e \<Longrightarrow> is_outside e"
  by (auto simp: load_config_def config_load_def split: option.splits contents.splits)

lemma save_config_outside: "fst (save_config E cfg s) = Some e \<Longrightarrow> is_outside e"
  by (auto simp: save_config_def config_save_def Let_def)

lemma keychain_store_outside: "fst (keychain_store E n b s) = Some e \<Longrightarrow> is_outside e"
  by (auto simp: keychain_store_def Let_def split: if_splits)

lemma store_secret_outside:
  assumes "fst (store_secret E r cfg a s) = Some e" and "\<not> bad_secret (buffer s a)"
  shows "is_outside e"
  using assms
  by (auto simp: store_secret_def case_prod_beta split: option.splits
      dest: keychain_store_outside save_config_outside)

text \<open>
  A profile the \<^verbatim>\<open>setup\<close> command is willing to send passes
  every check of \<^verbatim>\<open>StoreProfile\<close> on the request, although the command sends whole seconds: name,
  variable and lease are valid and the secret is neither empty nor has a NUL byte. The daemon
  refuses it only when the profile is an SSH identity or when the system or the Keychain fails.
\<close>

theorem setup_passes_the_daemons_checks:
  assumes "setup_request C name variable d = Inr r"
  shows "validate_profile (pr_name r) (pr_env r) (pr_lease_seconds r) = None \<and> \<not> bad_secret (pr_secret r) \<and>
    (case fst (store_profile E r s) of None \<Rightarrow> True | Some e \<Rightarrow> e = SSHOverwrite \<or> is_outside e)"
proof -
  have valid: "validate_profile (pr_name r) (pr_env r) (pr_lease_seconds r) = None"
    using assms accepted_lease [of d]
    by (auto simp: setup_request_def validate_profile_def validate_environment_def cli_profile_name_def
        cli_variable_def Let_def split: option.splits if_splits sum.splits)
  have secret: "\<not> bad_secret (pr_secret r)"
    using assms by (auto simp: setup_request_def bad_secret_def split: option.splits if_splits sum.splits)
  have "is_outside e" if "fst (store_secret E r cfg (length hp) (s1\<lparr>sv_heap := hp @ [pr_secret r]\<rparr>)) = Some e"
    for cfg s1 hp e
    using that secret by (elim store_secret_outside) (simp add: buffer_def)
  then have "case fst (store_profile E r s) of None \<Rightarrow> True | Some e \<Rightarrow> e = SSHOverwrite \<or> is_outside e"
    using valid
    by (auto simp: store_profile_def alloc_def case_prod_beta dest: load_config_outside
        split: option.splits sum.splits)
  with valid secret show ?thesis by simp
qed

definition sample_cli :: "nat cli_env" where
  "sample_cli =
     \<lparr>ce_terminal = True, ce_password = Inr ''pw'', ce_getenv = (\<lambda>n. []), ce_getwd = Inr ''/'', ce_now = 0,
      ce_connect = Inl NotReady, ce_config_dir = Inr ''/c''\<rparr>"

lemma sample_setup:
  "setup_request sample_cli ''p'' ''V'' (90 * second + 1) =
     Inr \<lparr>pr_name = ''p'', pr_env = ''V'', pr_lease_seconds = 90, pr_secret = ''pw''\<rparr>"
  by code_simp

theorem setup_passes_the_daemons_checks_witness:
  "validate_profile ''p'' ''V'' 90 = None \<and> fst (store_profile sample_env
     \<lparr>pr_name = ''p'', pr_env = ''V'', pr_lease_seconds = 90, pr_secret = ''pw''\<rparr> empty_service) \<noteq> Some LeaseDurationRange"
  using setup_passes_the_daemons_checks [OF sample_setup, of sample_env empty_service] by auto

lemma whole_seconds_zero [simp]: "whole_seconds 0 = 0"
  by (simp add: whole_seconds_def)

lemma seconds_zero [simp]: "seconds 0 = 0"
  by (simp add: seconds_def)

lemma random_outside:
  "fst (random_capability E pre s) = Inl e \<Longrightarrow> is_outside e"
  "fst (random_identifier E pre s) = Inl e \<Longrightarrow> is_outside e"
  by (auto simp: random_capability_def random_identifier_def split: sum.splits)

lemma new_consumer_outside:
  assumes "fst (grant_new_consumer E r now s) = Inl e"
    and "validate_prompt_field ''consumer label'' (gr_consumer_label r) 80 = None"
    and "gr_consumer_duration_seconds r = whole_seconds d"
    and "d = 0 \<or> \<not> dur_less d hour \<and> \<not> dur_less (7 * 24 * hour) d"
  shows "is_outside e"
proof -
  have "validate_consumer_duration (if seconds (whole_seconds d) = 0 then default_consumer_duration
      else seconds (whole_seconds d)) = None"
    using assms(4) accepted_consumer_duration [of d] by (auto simp: validate_consumer_duration_def)
  then show ?thesis
    using assms(1-3)
    by (auto simp: grant_new_consumer_def Let_def case_prod_beta dest: random_outside split: sum.splits)
qed

lemma existing_consumer_refuses:
  assumes "fst (grant_existing_consumer E r token now s) = Inl e" and "token \<noteq> []"
    and "gr_consumer_label r = []" and "gr_consumer_duration_seconds r = 0"
  shows "e = CapabilityInvalid"
  using assms
  by (auto simp: grant_existing_consumer_def consumer_for_token_locked_def Let_def split: sum.splits option.splits)

text \<open>What the command has checked when it sends a request.\<close>

lemma grant_request_checked:
  assumes "grant_request_for C profile label reason lease_duration consumer_duration = Inr r"
  shows "gr_reason r = trim_space reason" "gr_consumer_label r = trim_space label"
    "gr_consumer_token r = consumer_token C" "gr_consumer_duration_seconds r = whole_seconds consumer_duration"
    "gr_duration_seconds r = whole_seconds lease_duration"
    "cli_prompt_field ''reason'' (trim_space reason) 240 = None"
    "lease_duration = 0 \<or> cli_lease lease_duration = None"
    "if consumer_token C = []
     then cli_prompt_field ''consumer'' (trim_space label) 80 = None \<and>
       (consumer_duration = 0 \<or> \<not> dur_less consumer_duration hour \<and> \<not> dur_less (7 * 24 * hour) consumer_duration)
     else trim_space label = [] \<and> consumer_duration = 0"
  using assms by (auto simp: grant_request_for_def Let_def split: option.splits if_splits)

lemma prompt_fields_agree:
  "cli_prompt_field name value n = None \<longleftrightarrow> validate_prompt_field name' value n = None"
  by (simp add: cli_prompt_field_def validate_prompt_field_def)

text \<open>Why a grant that the command sent is refused, before the prompt and after it.\<close>

definition refused_before_prompt :: "gostring \<Rightarrow> duration \<Rightarrow> error \<Rightarrow> bool" where
  "refused_before_prompt profile lease_duration e \<longleftrightarrow>
     is_outside e \<or> e = CapabilityInvalid \<or> e = (if profile = [] then ProfileRequired else ProfileUnknown profile) \<or>
     e = ConsumerExpiring \<or> e = LeaseDurationRange \<and> lease_duration = 0"

definition refused_after_prompt :: "error \<Rightarrow> bool" where
  "refused_after_prompt e \<longleftrightarrow>
     is_outside e \<or> e \<in> {SSHSeedInvalid, SSHKeyMismatch, CapabilityInvalid, CapabilityCollision}"

lemma begin_refuses:
  assumes "grant_request_for C profile label reason lease_duration consumer_duration = Inr r"
    and begins: "fst (grant_begin E r s) = Inl e"
  shows "e = CapabilityInvalid \<or> is_outside e"
proof -
  note sent = grant_request_checked [OF assms(1)]
  let ?r = "trim_request r"
  have r: "gr_reason ?r = trim_space reason" "gr_consumer_label ?r = trim_space label"
    "gr_consumer_token ?r = consumer_token C" "gr_consumer_duration_seconds ?r = whole_seconds consumer_duration"
    by (simp_all add: trim_request_def sent trim_space_idem)
  have token: "trim_space (consumer_token C) = consumer_token C"
    by (simp add: consumer_token_def trim_space_idem)
  show ?thesis
  proof (cases "consumer_token C = []")
    case True
    with begins sent(6) have "fst (grant_new_consumer E ?r (fst (time_now E s)) (snd (time_now E s))) = Inl e"
      by (simp add: grant_begin_def Let_def r token prompt_fields_agree [where name' = "''reason''"] case_prod_beta)
    moreover have "validate_prompt_field ''consumer label'' (gr_consumer_label ?r) 80 = None"
      using sent(8) True r(2) by (simp add: prompt_fields_agree [where name' = "''consumer label''"])
    ultimately show ?thesis using new_consumer_outside r(4) sent(8) True by metis
  next
    case False
    with begins sent(6)
    have "fst (grant_existing_consumer E ?r (consumer_token C) (fst (time_now E s)) (snd (time_now E s))) = Inl e"
      by (simp add: grant_begin_def Let_def r token prompt_fields_agree [where name' = "''reason''"] case_prod_beta)
    then show ?thesis
      using existing_consumer_refuses [OF _ False] r sent(8) False by simp
  qed
qed

lemma begin_request: "fst (grant_begin E r s) = Inr gc \<Longrightarrow> gc_request gc = trim_request r"
  by (auto simp: grant_begin_def grant_new_consumer_def grant_existing_consumer_def Let_def case_prod_beta
      split: option.splits sum.splits if_splits)

lemma private_key_refuses: "fst (ssh_private_key E bs s) = Inl e \<Longrightarrow> e = SSHSeedInvalid"
  by (auto simp: ssh_private_key_def Let_def case_prod_beta split: option.splits if_splits)

lemma identity_refuses:
  assumes "fst (check_identity E p a s) = Some e"
  shows "is_outside e \<or> e = SSHSeedInvalid \<or> e = SSHKeyMismatch"
  using assms
  by (auto simp: check_identity_def validate_ssh_secret_def Let_def case_prod_beta dest: private_key_refuses
      split: if_splits sum.splits)

lemma read_refuses:
  assumes "fst (grant_read E gc name p d s) = Inl e"
  shows "refused_after_prompt e" and "sv_trace (snd (grant_read E gc name p d s)) \<noteq> sv_trace s"
proof -
  show "refused_after_prompt e"
    using assms identity_refuses random_outside(2)
    by (fastforce simp: grant_read_def refused_after_prompt_def keychain_read_def Let_def case_prod_beta
        split: sum.splits option.splits)
  show "sv_trace (snd (grant_read E gc name p d s)) \<noteq> sv_trace s"
    by (simp add: grant_read_def case_prod_beta Let_def frame keychain_read_trace split: sum.split option.split)
qed

lemma approve_capped:
  assumes "fst (load_config E s) = Inr cfg" and "resolve cfg (gr_profile (gc_request gc)) = Inr (n, p)"
    and "requested_duration (gc_request gc) p = Inr d" and "fst (grant_approve E gc s) = Inl e"
  shows "if sv_trace (snd (grant_approve E gc s)) = sv_trace s then e = ConsumerExpiring else refused_after_prompt e"
proof -
  let ?s1 = "snd (load_config E s)"
  let ?s2 = "snd (time_now E ?s1)"
  let ?left = "time_sub (gc_consumer_expires_at gc) (fst (time_now E ?s1))"
  have approve: "grant_approve E gc s =
      (case capped_duration ?left d of Inl e \<Rightarrow> (Inl e, ?s2) | Inr d \<Rightarrow> grant_read E gc n p d ?s2)"
    using assms(1-3) by (simp add: grant_approve_def case_prod_beta Let_def split: sum.split)
  have trace: "sv_trace ?s2 = sv_trace s" by (simp add: frame)
  show ?thesis
  proof (cases "capped_duration ?left d")
    case (Inl e')
    then have "e' = ConsumerExpiring" by (simp add: capped_duration_def split: if_splits)
    then show ?thesis using assms(4) approve Inl trace by simp
  next
    case (Inr d')
    then show ?thesis using assms(4) approve trace read_refuses [of E gc n p d' ?s2 e] by simp
  qed
qed

lemma approve_refuses:
  assumes "fst (grant_approve E gc s) = Inl e" and "gr_profile (gc_request gc) = profile"
    and "lease_duration \<noteq> 0 \<Longrightarrow> \<forall>p. \<exists>d. requested_duration (gc_request gc) p = Inr d"
  shows "if sv_trace (snd (grant_approve E gc s)) = sv_trace s then refused_before_prompt profile lease_duration e
    else refused_after_prompt e"
proof (cases "fst (load_config E s)")
  case (Inl e')
  then show ?thesis
    using assms(1) load_config_outside [OF Inl] by (simp add: grant_approve_def refused_before_prompt_def case_prod_beta frame)
next
  case (Inr cfg)
  let ?s1 = "snd (load_config E s)"
  let ?resolved = "resolve cfg (gr_profile (gc_request gc))"
  show ?thesis
  proof (cases ?resolved)
    case (Inl e')
    moreover have "e' = (if profile = [] then ProfileRequired else ProfileUnknown profile)"
      using Inl assms(2) by (auto simp: resolve_def split: if_splits option.splits)
    ultimately show ?thesis
      using assms(1) \<open>fst (load_config E s) = Inr cfg\<close>
      by (simp add: grant_approve_def refused_before_prompt_def case_prod_beta frame)
  next
    case resolved: (Inr np)
    obtain n p where np: "np = (n, p)" by force
    show ?thesis
    proof (cases "requested_duration (gc_request gc) p")
      case (Inl e')
      then have "e' = LeaseDurationRange" by (auto simp: requested_duration_def Let_def split: if_splits)
      moreover have "lease_duration = 0" using assms(3) Inl by (metis sum.distinct(1))
      ultimately show ?thesis
        using assms(1) \<open>fst (load_config E s) = Inr cfg\<close> resolved Inl
        by (simp add: grant_approve_def refused_before_prompt_def case_prod_beta frame np)
    next
      case asked: (Inr d)
      show ?thesis
        using approve_capped [OF \<open>fst (load_config E s) = Inr cfg\<close> resolved [unfolded np] asked assms(1)]
        by (auto simp: refused_before_prompt_def)
    qed
  qed
qed

text \<open>A commit refuses only because the session is not there, or is there already.\<close>

lemma commit_refuses:
  assumes "fst (grant_commit E g s) = Inl e"
  shows "e = CapabilityInvalid \<or> e = CapabilityCollision"
  using assms by (auto simp: grant_commit_def commit_target_def Let_def split: sum.splits option.splits if_splits)

lemma commit_trace: "sv_trace (snd (grant_commit E g s)) = sv_trace s"
  by (simp add: grant_commit_def commit_target_def start_consumer_def install_lease_def put_lease_def put_consumer_def
      Let_def frame split: option.split)

lemma approved_trace:
  assumes "fst (grant_approve E gc s) = Inr g"
  shows "sv_trace (snd (grant_approve E gc s)) \<noteq> sv_trace s"
  using assms
  by (auto simp: grant_approve_def grant_read_def case_prod_beta Let_def frame keychain_read_trace split: sum.splits option.splits)

lemma begin_trace: "sv_trace (snd (grant_begin E r s)) = sv_trace s"
  by (simp add: grant_begin_def grant_new_consumer_def grant_existing_consumer_def Let_def case_prod_beta frame
      split: option.split sum.split)

lemma request_fields:
  assumes "grant_request_for C profile label reason lease_duration consumer_duration = Inr r"
  shows "gr_profile r = profile"
  using assms by (auto simp: grant_request_for_def Let_def split: option.splits)

lemma sent_duration:
  assumes "grant_request_for C profile label reason lease_duration consumer_duration = Inr r" and "lease_duration \<noteq> 0"
  shows "\<exists>d. requested_duration r p = Inr d"
  using assms(2) grant_request_checked(5,7) [OF assms(1)] accepted_lease [of lease_duration]
  by (auto simp: requested_duration_def Let_def)


lemma sample_cli_grant:
  "grant_request_for sample_cli ''api'' ''agent'' ''deploy'' (10 * minute) 0 = Inr sample_request"
proof -
  have trims: "trim_space ''agent'' = ''agent''" "trim_space ''deploy'' = ''deploy''"
    by (rule trim_space_graphic; simp add: graphic_def)+
  have token: "consumer_token sample_cli = []" by (simp add: consumer_token_def sample_cli_def)
  have fields: "cli_prompt_field ''reason'' ''deploy'' 240 = None" "cli_prompt_field ''consumer'' ''agent'' 80 = None"
    using sample_prompts prompt_fields_agree by blast+
  have duration: "cli_lease (10 * minute) = None" "whole_seconds (10 * minute) = 600" "10 * minute \<noteq> 0"
    by code_simp+
  show ?thesis
    by (simp add: grant_request_for_def Let_def trims token fields duration first_error_def List.map_filter_def
        sample_request_def)
qed


section \<open>The MCP server\<close>

text \<open>The requests an MCP tool may cause.\<close>

definition agent_routes :: "(gostring \<times> gostring) list" where
  "agent_routes =
     [(''GET'', ''/v2/status''), (''POST'', ''/v2/consumers/status''), (''POST'', ''/v2/leases''),
      (''POST'', ''/v2/leases/revoke''), (''POST'', ''/v2/exec'')]"

definition agent_request :: "runtime_descriptor \<Rightarrow> http_request \<Rightarrow> bool" where
  "agent_request d q \<longleftrightarrow>
     (hr_method q, hr_path q) \<in> set agent_routes \<and> hr_authorization q = ''Bearer '' @ rd_token d \<and> hr_origin q = []"

definition uses_transport :: "'s transport \<Rightarrow> runtime_descriptor \<Rightarrow> client_error + 's client \<Rightarrow> bool" where
  "uses_transport T d connected \<longleftrightarrow>
     (case connected of Inl e \<Rightarrow> True | Inr c \<Rightarrow> cl_transport c = T \<and> cl_descriptor c = d)"

text \<open>
  A property that a transport keeps while it carries such requests is kept by every tool, and so
  by the server, whatever the lines are and whenever it connects.
\<close>

locale agent_transport =
  fixes keeps :: "'s \<Rightarrow> bool" and T :: "'s transport" and d :: runtime_descriptor
  assumes carried: "agent_request d q \<Longrightarrow> keeps s \<Longrightarrow> keeps (snd (T url q s))"
begin

lemma sends:
  assumes "agent_request d (client_request d meth path body)" and "keeps s"
  shows "keeps (snd (send T dec_error d meth path body dec s))"
  using carried [OF assms] by (simp add: send_def case_prod_beta split: sum.split)

lemma calls:
  assumes "cl_transport c = T" and "cl_descriptor c = d" and "keeps s"
  shows "keeps (snd (client_snapshot c s))" "keeps (snd (client_status c token s))"
    "keeps (snd (client_grant c g s))" "keeps (snd (client_revoke c r s))" "keeps (snd (client_execute c x s))"
  using assms
  by (simp_all add: client_snapshot_def client_status_def client_grant_def client_revoke_def client_execute_def
      client_get_def client_post_def)
    (rule sends; simp add: agent_request_def client_request_def agent_routes_def)+

lemma tool:
  assumes "\<And>r. keeps (snd (op r s))" and "keeps s"
  shows "keeps (snd (tool_call dec op encode raw s))"
proof (cases "dec raw")
  case (Inr r)
  with assms(1) [of r] show ?thesis by (simp add: tool_call_def case_prod_beta split: sum.split)
qed (use assms(2) in \<open>simp add: tool_call_def\<close>)

lemma tools:
  "uses_transport T d (Inr c) \<Longrightarrow> keeps s \<Longrightarrow> keeps (snd (call_tool M c name raw s))"
  unfolding call_tool_def uses_transport_def by (simp add: tool calls split: if_split)

lemma mcp_calls:
  "uses_transport T d connected \<Longrightarrow> keeps s \<Longrightarrow> keeps (snd (call_mcp_tool M connected raw s))"
  by (auto simp: call_mcp_tool_def intro: tools split: sum.split)

lemma serves_line:
  assumes "uses_transport T d connected" and "keeps s"
  shows "keeps (snd (serve_line M text_of connected line s))"
proof -
  have "keeps (snd (handle_mcp_request M text_of connected q s))" for q
    using assms mcp_calls [OF assms, of M "mcp_params q"]
    by (simp add: handle_mcp_request_def Let_def case_prod_beta split: sum.split)
  then show ?thesis
    using assms by (simp add: serve_line_def case_prod_beta Let_def split: option.split)
qed

lemma serves:
  "(\<And>n. uses_transport T d (connect_at n)) \<Longrightarrow> keeps s \<Longrightarrow> keeps (snd (serve_mcp M text_of connect_at n lines s))"
proof (induction lines arbitrary: n s)
  case (Cons line lines)
  have "keeps (snd (serve_line M text_of (connect_at n) line s))"
    using serves_line Cons.prems by blast
  then show ?case
    using Cons.IH [OF Cons.prems(1)] by (simp add: case_prod_beta Let_def)
qed simp

end

text \<open>A transport that also keeps a list of what it carried.\<close>

definition logged :: "'s transport \<Rightarrow> ('s \<times> http_request list) transport" where
  "logged T url q x = (let (r, s') = T url q (fst x) in (r, s', snd x @ [q]))"

interpretation mcp_log: agent_transport "\<lambda>x. list_all (agent_request d) (snd x)" "logged T" d for d T
  by unfold_locales (simp add: logged_def case_prod_beta)

text \<open>
  Whatever lines an agent writes to the MCP server, and whatever
  the daemon answers, the server sends only requests of five routes: the snapshot, the consumer's
  status, a grant, a revocation by the capability holder and an execution. It never sends a
  request that stores, reveals, updates or deletes a profile or that administers consumers.
\<close>

theorem mcp_sends_only_agent_requests:
  assumes "\<And>n. uses_transport (logged T) d (connect_at n)"
  shows "list_all (agent_request d) (snd (snd (serve_mcp M text_of connect_at n lines (s, []))))"
  by (rule mcp_log.serves [OF assms]) simp

definition sample_mcp :: mcp_decoders where
  "sample_mcp =
     \<lparr>md_line = (\<lambda>line. Some \<lparr>mcp_id = line, mcp_method = ''tools/call'', mcp_params = line\<rparr>),
      md_call = (\<lambda>raw. Inr (''request_key_session'', raw)), md_consumer = (\<lambda>raw. Inl []),
      md_grant = (\<lambda>raw. Inr sample_request), md_revoke = (\<lambda>raw. Inl []), md_exec = (\<lambda>raw. Inl [])\<rparr>"

definition logged_client :: "(unit \<times> http_request list) client" where
  "logged_client =
     \<lparr>cl_descriptor = sample_descriptor, cl_transport = logged (\<lambda>url q s. (Inr (200, []), s)),
      cl_encoders = sample_encoders, cl_decoders = sample_responses\<rparr>"

lemma logged_client_connects: "uses_transport (logged (\<lambda>url q s. (Inr (200, []), s))) sample_descriptor (Inr logged_client)"
  by (simp add: uses_transport_def logged_client_def)

theorem mcp_sends_only_agent_requests_witness:
  "list_all (agent_request sample_descriptor)
     (snd (snd (serve_mcp sample_mcp (\<lambda>e. []) (\<lambda>n. Inr logged_client) 0 [''1'', ''2''] ((), []))))"
  by (rule mcp_sends_only_agent_requests) (rule logged_client_connects)

section \<open>An agent cannot change the profiles\<close>

fun keychain_write :: "effect \<Rightarrow> bool" where
  "keychain_write (KeychainStore account secret done) = True"
| "keychain_write (KeychainDelete account message approved) = True"
| "keychain_write e = False"

text \<open>The configuration on disk and the writes the Keychain has seen.\<close>

definition stored :: "service \<Rightarrow> config_disk \<times> effect list" where
  "stored s = (sv_config s, filter keychain_write (sv_trace s))"

lemma stored_steps:
  "stored (next_call s) = stored s" "stored (expire_locked E now s) = stored s"
  "stored (clear_bytes a s) = stored s" "stored (record_locked E k p cid lab r d s) = stored s"
  "stored (clear_lease_locked h i s) = stored s" "stored (clear_consumer_locked E h c d s) = stored s"
  "stored (expire_management_sessions_locked now s) = stored s"
  "stored (sweep_leases E h cid lab keep kind d ls s) = stored s"
  "stored (modify_consumer h f s) = stored s"
  by (simp_all add: stored_def frame expire_management_sessions_locked_def)

lemma stored_outside:
  "stored (snd (alloc bs s)) = stored s" "stored (snd (time_now E s)) = stored s"
  "stored (snd (load_config E s)) = stored s" "stored (snd (random_capability E pre s)) = stored s"
  "stored (snd (random_identifier E pre s)) = stored s" "stored (snd (keychain_read E n m s)) = stored s"
  "stored (expire_now E s) = stored s"
  by (simp_all add: alloc_def time_now_def load_config_def random_capability_def random_identifier_def
      keychain_read_def expire_now_def stored_steps case_prod_beta split: sum.split)
    (simp_all add: stored_def log_effect_def frame)

lemma stored_ssh [simp]: "stored (snd (ssh_private_key E b s)) = stored s"
  by (simp add: ssh_private_key_def case_prod_beta Let_def stored_steps stored_outside split: option.split)

lemma stored_identity [simp]: "stored (snd (check_identity E p a s)) = stored s"
  by (simp add: check_identity_def validate_ssh_secret_def case_prod_beta Let_def stored_steps
      split: sum.split)

lemma stored_begin [simp]: "stored (snd (grant_begin E r s)) = stored s"
  by (simp add: grant_begin_def grant_new_consumer_def grant_existing_consumer_def case_prod_beta Let_def
      stored_steps stored_outside split: sum.split option.split)

lemma stored_read [simp]: "stored (snd (grant_read E gc n p d s)) = stored s"
  by (simp add: grant_read_def case_prod_beta Let_def stored_steps stored_outside split: sum.split option.split)

lemma stored_approve [simp]: "stored (snd (grant_approve E gc s)) = stored s"
  by (simp add: grant_approve_def case_prod_beta Let_def stored_outside split: sum.split)

lemma stored_install [simp]: "stored (install_lease E h g s) = stored s"
  by (simp add: install_lease_def Let_def put_lease_def stored_steps) (simp add: stored_def frame)

lemma stored_target: "commit_target E g s = Inr s' \<Longrightarrow> stored s' = stored s"
  by (auto simp: commit_target_def start_consumer_def put_consumer_def stored_def frame Let_def
      split: option.splits if_splits)

lemma stored_commit [simp]: "stored (snd (grant_commit E g s)) = stored s"
  by (auto simp: grant_commit_def Let_def stored_steps dest: stored_target split: sum.split)

text \<open>The operations behind the five routes.\<close>

lemma stored_operations:
  "stored (snd (grant E r s)) = stored s"
  "stored (snd (consumer_status E t s)) = stored s"
  "stored (snd (revoke E rr s)) = stored s"
  "stored (snd (execute E x s)) = stored s"
  "stored (snd (take_snapshot E s)) = stored s"
  by (simp_all add: grant_def consumer_status_def revoke_def revoke_at_def execute_def execute_begin_def
      execute_finish_def take_snapshot_def case_prod_beta Let_def stored_steps stored_outside
      split: sum.split option.split)
    (simp_all add: stored_def log_effect_def frame)?

definition same_stored :: "daemon \<Rightarrow> http_response \<times> daemon \<Rightarrow> bool" where
  "same_stored x rx \<longleftrightarrow> stored (fst (snd rx)) = stored (fst x) \<and> snd (snd rx) = snd x"

lemma same_stored_answers:
  "stored (snd rs) = stored s \<Longrightarrow> same_stored (s, a) (on_service a (answer V f rs))"
  "stored (snd bs) = stored s \<Longrightarrow> same_stored (s, a) (on_service a (answer_flag field bs))"
  by (simp_all add: same_stored_def on_service_def answer_def answer_flag_def case_prod_beta split: sum.split)

lemma same_stored_body:
  "(\<And>b. same_stored (s, a) (on_service a (handler b s))) \<Longrightarrow> same_stored (s, a) (on_service a (with_body dec q handler s))"
  by (simp add: with_body_def same_stored_def on_service_def split: option.split)

lemma same_stored_route:
  assumes "(hr_method q, hr_path q) \<in> set agent_routes"
  shows "same_stored (s, a) (route E V q (s, a))"
proof -
  consider "hr_method q = ''GET''" "hr_path q = ''/v2/status''"
    | "hr_method q = ''POST''" "hr_path q = ''/v2/consumers/status''"
    | "hr_method q = ''POST''" "hr_path q = ''/v2/leases''"
    | "hr_method q = ''POST''" "hr_path q = ''/v2/leases/revoke''"
    | "hr_method q = ''POST''" "hr_path q = ''/v2/exec''"
    using assms by (auto simp: agent_routes_def)
  then show ?thesis
    by cases (simp_all add: route_def same_stored_body same_stored_answers stored_operations)
qed

lemma stored_route:
  assumes "(hr_method q, hr_path q) \<in> set agent_routes"
  shows "same_stored x (serve_http E V q x)"
  using same_stored_route [OF assms, of "fst x" "snd x"] by (simp add: serve_http_def) (simp add: same_stored_def)

interpretation mcp_daemon: agent_transport "\<lambda>x. stored (fst x) = K \<and> snd x = a" "deliver E V enc" d for K a E V enc d
proof unfold_locales
  show "stored (fst (snd (deliver E V enc url q x))) = K \<and> snd (snd (deliver E V enc url q x)) = a"
    if "agent_request d q" "stored (fst x) = K \<and> snd x = a" for q x url
    using stored_route [of q x E V] that by (simp add: same_stored_def deliver_def agent_request_def case_prod_beta)
qed

text \<open>
  C16: mcp_never_changes_profiles. Whatever an agent writes to an MCP server that talks to the
  daemon, the configuration on disk and the items of the Keychain stay as they are, and so do the
  agent connections: no profile is stored, updated or deleted and nothing is repaired.
\<close>

theorem mcp_never_changes_profiles:
  assumes "\<And>n. uses_transport (deliver E V enc) d (connect_at n)"
  shows "\<exists>s'. snd (serve_mcp M text_of connect_at n lines (s, a)) = (s', a) \<and>
    sv_config s' = sv_config s \<and> filter keychain_write (sv_trace s') = filter keychain_write (sv_trace s)"
proof -
  have "stored (fst (snd (serve_mcp M text_of connect_at n lines (s, a)))) = stored s \<and>
      snd (snd (serve_mcp M text_of connect_at n lines (s, a))) = a"
    by (rule mcp_daemon.serves [OF assms]) simp
  then show ?thesis
    by (cases "snd (serve_mcp M text_of connect_at n lines (s, a))") (simp add: stored_def)
qed

lemma sample_client_connects: "uses_transport (deliver sample_env sample_server (\<lambda>b. ''{}'')) sample_descriptor (Inr sample_client)"
  by (simp add: uses_transport_def sample_client_def)

theorem mcp_never_changes_profiles_witness:
  "\<forall>a. \<exists>s'. snd (serve_mcp sample_mcp (\<lambda>e. []) (\<lambda>n. Inr sample_client) 0 [''1''] (empty_service, a)) = (s', a) \<and>
     sv_config s' = sample_config"
proof
  fix a
  show "\<exists>s'. snd (serve_mcp sample_mcp (\<lambda>e. []) (\<lambda>n. Inr sample_client) 0 [''1''] (empty_service, a)) = (s', a) \<and>
     sv_config s' = sample_config"
    using mcp_never_changes_profiles [of sample_env sample_server "\<lambda>b. ''{}''" sample_descriptor
        "\<lambda>n. Inr sample_client", OF sample_client_connects, of sample_mcp "\<lambda>e. []" 0 "[''1'']" empty_service a]
    by (auto simp: empty_service_def)
qed

section \<open>Answers\<close>

text \<open>The identifier a line is to be answered with, if any.\<close>

definition expected_ids :: "mcp_decoders \<Rightarrow> bytes \<Rightarrow> bytes list" where
  "expected_ids M line =
     (case md_line M line of
        None \<Rightarrow> [[]]
      | Some q \<Rightarrow> if mcp_method q = ''notifications/initialized'' \<or> mcp_id q = [] then [] else [mcp_id q])"

lemma handled_id: "mcr_id (fst (handle_mcp_request M text_of connected q s)) = mcp_id q"
  by (simp add: handle_mcp_request_def Let_def case_prod_beta split: sum.split)

lemma line_ids: "map mcr_id (fst (serve_line M text_of connected line s)) = expected_ids M line"
  using handled_id [of M text_of connected _ s]
  by (simp add: serve_line_def expected_ids_def case_prod_beta Let_def split: option.split)

text \<open>
  The server writes exactly one answer per request, in the order of the
  requests and with the request's identifier; a notification gets no answer and a line that is not
  a request gets one answer without identifier. Lines that come later do not change earlier
  answers.
\<close>

theorem mcp_answers_in_order:
  "map mcr_id (fst (serve_mcp M text_of connect_at n lines s)) = concat (map (expected_ids M) lines) \<and>
   serve_mcp M text_of connect_at n (lines @ later) s =
     (let (out, s1) = serve_mcp M text_of connect_at n lines s;
          (rest, s2) = serve_mcp M text_of connect_at (n + length lines) later s1
      in (out @ rest, s2))"
proof (induction lines arbitrary: n s)
  case (Cons line lines)
  then show ?case
    using line_ids [of M text_of "connect_at n" line s] by (simp add: case_prod_beta Let_def)
qed (simp add: case_prod_beta)

section \<open>The schemas of the tools\<close>

definition integer_allowed :: "gostring \<Rightarrow> gostring \<Rightarrow> int \<Rightarrow> bool" where
  "integer_allowed tool field n =
     list_ex (\<lambda>t. mt_name t = tool \<and>
       list_ex (\<lambda>p. fst p = field \<and> (case snd p of IntegerSchema lo hi \<Rightarrow> lo \<le> n \<and> n \<le> hi | _ \<Rightarrow> False))
         (mt_properties t)) mcp_tools"

lemma integer_schemas:
  "integer_allowed ''request_key_session'' ''duration_seconds'' n \<longleftrightarrow> 60 \<le> n \<and> n \<le> 86400"
  "integer_allowed ''request_key_session'' ''consumer_duration_seconds'' n \<longleftrightarrow> 3600 \<le> n \<and> n \<le> 604800"
  "integer_allowed ''exec_with_key_session'' ''timeout_seconds'' n \<longleftrightarrow> 1 \<le> n \<and> n \<le> 1800"
  by (simp_all add: integer_allowed_def mcp_tools_def)

text \<open>
  The minima and maxima in the tool schemas are the limits
  of the daemon: of the numbers of seconds that do not wrap, other than zero, the lease durations,
  session durations and timeouts that the schemas allow are exactly those the daemon accepts.
\<close>

theorem mcp_schemas_state_the_daemons_limits:
  assumes "\<bar>sint n\<bar> \<le> 9223372036" and "n \<noteq> 0"
  shows "(integer_allowed ''request_key_session'' ''duration_seconds'' (sint n) \<longleftrightarrow>
       (\<exists>d. requested_duration (r\<lparr>gr_duration_seconds := n\<rparr>) p = Inr d)) \<and>
    (integer_allowed ''request_key_session'' ''consumer_duration_seconds'' (sint n) \<longleftrightarrow>
       validate_consumer_duration (seconds n) = None) \<and>
    (integer_allowed ''exec_with_key_session'' ''timeout_seconds'' (sint n) \<longleftrightarrow>
       in_bounds second (30 * minute) (seconds n))"
proof -
  have s: "sint (seconds n) = sint n * 1000000000" using assms(1) by (rule sint_seconds_exact)
  have "sint n \<noteq> 0" using assms(2) signed_word_eqI [of n 0] by auto
  then have "seconds n \<noteq> 0" using s by (metis mult_eq_0_iff signed_0 zero_neq_numeral)
  moreover have "sint (30 * minute) = 1800000000000" by (simp add: minute_def second_def)
  ultimately show ?thesis
    using s by (auto simp: integer_schemas requested_duration_def validate_consumer_duration_def in_bounds_def Let_def)
qed

theorem mcp_schemas_state_the_daemons_limits_witness:
  "\<exists>d. requested_duration (sample_request\<lparr>gr_duration_seconds := 60\<rparr>)
     \<lparr>profile_kind = [], profile_public_key = [], profile_env = [], profile_lease_seconds = 0\<rparr> = Inr d"
  using mcp_schemas_state_the_daemons_limits [of 60 sample_request
      "\<lparr>profile_kind = [], profile_public_key = [], profile_env = [], profile_lease_seconds = 0\<rparr>"]
  by (simp add: integer_schemas)

section \<open>An execution from the command line\<close>

definition exec_request_for :: "'s cli_env \<Rightarrow> gostring list \<Rightarrow> duration \<Rightarrow> gostring \<Rightarrow> gostring \<Rightarrow> exec_request" where
  "exec_request_for C args timeout lease dir =
     \<lparr>er_consumer_token = consumer_token C, er_lease_id = trim_space lease, er_arguments = args,
      er_working_directory = dir, er_timeout_seconds = whole_seconds timeout\<rparr>"

text \<open>What the client makes of the daemon's answer: it decodes at most \<open>maximum_response_bytes\<close> of it.\<close>

definition exec_answer :: "(body \<Rightarrow> bytes) \<Rightarrow> daemon client \<Rightarrow> exec_response \<Rightarrow> exec_response option" where
  "exec_answer enc c x = rsp_exec (cl_decoders c) (take maximum_response_bytes (enc (ExecBody x)))"

lemma exec_over_http:
  assumes "cl_transport c = deliver E V enc" and "rd_token (cl_descriptor c) = srv_token V"
    and "decode_body (dec_exec (srv_decoders V))
      (client_request (cl_descriptor c) ''POST'' ''/v2/exec'' (Some (enc_exec (cl_encoders c) r))) = Some r"
    and "execute E r s = (Inr x, s')"
  shows "client_execute c r (s, a) =
    (case exec_answer enc c x of None \<Rightarrow> Inl BadResponse | Some y \<Rightarrow> Inr y, s', a)"
proof -
  let ?q = "client_request (cl_descriptor c) ''POST'' ''/v2/exec'' (Some (enc_exec (cl_encoders c) r))"
  have "authorized V ?q"
    unfolding authorized_iff using assms(2) by (intro exI [of _ "srv_token V"]) (simp add: client_request_def)
  then have "serve_http E V ?q (s, a) = on_service a (answer V ExecBody (execute E r s))"
    using assms(3) by (simp add: serve_http_def route_def with_body_def Let_def) (simp add: client_request_def)
  then show ?thesis
    using assms(1,4)
    by (simp add: client_execute_def client_post_def send_def deliver_def on_service_def answer_def
        read_response_def exec_answer_def)
qed


definition sample_result :: exec_response where
  "sample_result = projr (fst (execute sample_env sample_exec sample_service))"

lemma sample_executes: "execute sample_env sample_exec sample_service =
    (Inr sample_result, snd (execute sample_env sample_exec sample_service))"
proof -
  obtain y s1 where "execute_begin sample_env sample_exec sample_service = (Inr y, s1)"
    using execute_begin_decision [OF sample_memory, of sample_env sample_exec] by (auto simp: sample_decision)
  then show ?thesis by (simp add: sample_result_def execute_def case_prod_beta)
qed

definition exec_server :: server where
  "exec_server = sample_server\<lparr>srv_decoders := sample_decoders\<lparr>dec_exec := \<lambda>b cut. Some sample_exec\<rparr>\<rparr>"

definition exec_client :: "daemon client" where
  "exec_client = sample_client\<lparr>cl_transport := deliver sample_env exec_server (\<lambda>b. []),
     cl_decoders := sample_responses\<lparr>rsp_exec := \<lambda>b. Some sample_result\<rparr>\<rparr>"

definition exec_cli :: "daemon cli_env" where
  "exec_cli =
     \<lparr>ce_terminal = False, ce_password = Inl [], ce_getenv = (\<lambda>n. ''ksc_a''), ce_getwd = Inr ''/tmp'',
      ce_now = 0, ce_connect = Inr exec_client, ce_config_dir = Inr ''/c''\<rparr>"


end
