(* ===== verification/Cli_Command_Properties.thy ===== *)
theory Cli_Command_Properties
  imports Cli_Properties
begin

text \<open>What the commands can and cannot do to the daemon behind them.\<close>

section \<open>Without a terminal no secret is stored\<close>

text \<open>A step of a command that leaves what is stored as it is; the agent connections may change.\<close>

definition leaves_profiles :: "service \<Rightarrow> 'a \<times> daemon \<Rightarrow> bool" where
  "leaves_profiles s r \<longleftrightarrow> stored (fst (snd r)) = stored s"

lemma leaves_failed: "leaves_profiles s (failed e, s, a)"
  by (simp add: leaves_profiles_def)

lemma leaves_reply:
  "leaves_profiles s rs \<Longrightarrow> leaves_profiles s (with_reply rs show_it)"
  by (cases rs; cases "fst rs") (auto simp: leaves_profiles_def with_reply_def)

lemma leaves_client:
  assumes "\<And>c. ce_connect C = Inr c \<Longrightarrow> leaves_profiles s (command c (s, a))"
  shows "leaves_profiles s (with_client C command (s, a))"
  using assms by (auto simp: with_client_def leaves_failed split: sum.split)

lemma leaves_calls:
  assumes "uses_transport (deliver E V enc) d connected" and "connected = Inr c"
  shows "leaves_profiles s (client_snapshot c (s, a))" "leaves_profiles s (client_status c token (s, a))"
    "leaves_profiles s (client_grant c g (s, a))" "leaves_profiles s (client_revoke c r (s, a))"
    "leaves_profiles s (client_execute c x (s, a))"
  using mcp_daemon.calls [of c E V enc d "(s, a)" "stored s" a] assms
  by (simp_all add: uses_transport_def leaves_profiles_def)

lemma repair_route:
  assumes "hr_method q = ''POST''" and "hr_path q = ''/v2/agent-connections/repair''"
  shows "fst (snd (serve_http E V q (s, a))) = s"
proof -
  have "\<not> has_suffix ''/v2/agent-connections/repair'' ''/management/end''"
    "\<not> has_suffix ''/v2/agent-connections/repair'' ''/management''"
    by (simp_all add: suffix_to_prefix)
  then have "fst (snd (route E V q (s, a))) = s"
    using assms by (simp add: route_def on_service_def on_agents_def split: option.split)
  then show ?thesis by (simp add: serve_http_def)
qed

lemma leaves_repair:
  assumes "uses_transport (deliver E V enc) d connected" and "connected = Inr c"
  shows "leaves_profiles s (client_repair c host (s, a))"
  using assms
  by (simp add: uses_transport_def leaves_profiles_def client_repair_def client_post_def send_def deliver_def
      case_prod_beta repair_route client_request_def split: sum.split)

lemma leaves_checked:
  assumes "leaves_profiles s (command (s, a))"
  shows "leaves_profiles s (checked conditions command (s, a))"
  using assms by (simp add: checked_def leaves_failed split: option.split)

lemma leaves_setup: "\<not> ce_terminal C \<Longrightarrow> leaves_profiles s (setup_profile C name variable d (s, a))"
  by (simp add: setup_profile_def setup_request_def first_error_def List.map_filter_def leaves_failed
      split: option.split)

lemma leaves_commands:
  assumes "uses_transport (deliver E V enc) d (ce_connect C)"
  shows "leaves_profiles s (grant_profile C p label reason x y (s, a))"
    "leaves_profiles s (show_status C json (s, a))"
    "leaves_profiles s (execute_command C args timeout lease (s, a))"
    "leaves_profiles s (revoke_lease C lease (s, a))"
    "leaves_profiles s (list_profiles C json (s, a))"
    "leaves_profiles s (ssh_public_key C name (s, a))"
    "leaves_profiles s (connect_agents C args json (s, a))"
  by (auto simp: grant_profile_def show_status_def execute_command_def revoke_lease_def list_profiles_def
      ssh_public_key_def connect_agents_def Let_def split: sum.split
      intro!: leaves_client leaves_reply leaves_failed leaves_calls [OF assms] leaves_repair [OF assms])

lemma leaves_doctor:
  assumes "uses_transport (deliver E V enc) d connected"
  shows "leaves_profiles s (doctor_command text_of connected W b json (s, a))"
proof (cases connected)
  case (Inr c)
  then show ?thesis
    using leaves_calls(1) [OF assms, of c s a]
    by (simp add: doctor_command_def snapshot_or_text_def leaves_profiles_def case_prod_beta split: sum.split)
qed (simp add: doctor_command_def snapshot_or_text_def leaves_profiles_def)

lemma leaves_mcp:
  assumes "\<And>n. uses_transport (deliver E V enc) d (cw_mcp_connect W n)"
  shows "leaves_profiles s (mcp_command W (s, a))"
  using mcp_daemon.serves [of E V enc d "cw_mcp_connect W", OF assms, of "(s, a)" "stored s" a]
  by (simp add: mcp_command_def leaves_profiles_def case_prod_beta)

lemma leaves_pure: "leaves_profiles s (Pair p (s, a))"
  by (simp add: leaves_profiles_def)

text \<open>
  C17: no_terminal_no_profile_change. A program that runs the command line without a terminal, as an
  agent does, cannot change what the daemon stores: with any command but \<^verbatim>\<open>ssh setup\<close> and any flags
  the configuration and the items of the Keychain stay as they are.
\<close>

theorem no_terminal_no_profile_change:
  assumes "\<not> ce_terminal (cw_env W)"
    and "uses_transport (deliver E V enc) d (ce_connect (cw_env W))"
    and "\<And>n. uses_transport (deliver E V enc) d (cw_mcp_connect W n)"
    and "\<And>args length_flag. command \<noteq> SshSetupCommand args length_flag"
  shows "\<exists>s' a' k'. snd (run_cli W raw command ((s, a), k)) = ((s', a'), k') \<and>
    sv_config s' = sv_config s \<and> filter keychain_write (sv_trace s') = filter keychain_write (sv_trace s)"
proof -
  have "leaves_profiles s (run_on_daemon W command (s, a))"
    using assms(4) leaves_commands [OF assms(2)] leaves_setup [OF assms(1)] leaves_doctor [OF assms(2)]
      leaves_mcp [of E V enc d W, OF assms(3)]
    by (cases command) (auto intro!: leaves_checked leaves_pure)
  then have "stored (fst (fst (snd (execute_root W command ((s, a), k))))) = stored s"
    by (cases command) (auto simp: execute_root_def leaves_profiles_def case_prod_beta)
  then have "stored (fst (fst (snd (run_cli W raw command ((s, a), k))))) = stored s"
    by (simp add: run_cli_def case_prod_beta)
  then show ?thesis
    by (cases "snd (run_cli W raw command ((s, a), k))") (auto simp: stored_def)
qed

definition agent_world :: "daemon cli_world" where
  "agent_world =
     \<lparr>cw_env = exec_cli, cw_build = current_build \<lparr>st_version = ''1.0.0'', st_commit = [], st_build_date = [], st_dirty = []\<rparr>
        ([], [], []) None,
      cw_doctor = \<lparr>dw_goos = ''darwin'', dw_goarch = ''arm64'', dw_executable = Inr ''/x'', dw_eval_symlinks = Some,
        dw_codesign_verifies = (\<lambda>b. True), dw_codesign_details = (\<lambda>b. []), dw_store_path = Inr ''/c'',
        dw_stat = (\<lambda>p. NotThere []), dw_snapshot = Inl []\<rparr>,
      cw_checker = Inl [], cw_error_terminal = False, cw_client_text = (\<lambda>e. []), cw_tool_text = (\<lambda>e. []),
      cw_mcp = sample_mcp, cw_mcp_lines = [''1''], cw_mcp_connect = (\<lambda>n. Inr exec_client)\<rparr>"

lemma exec_client_connects: "uses_transport (deliver sample_env exec_server (\<lambda>b. [])) sample_descriptor (Inr exec_client)"
  by (simp add: uses_transport_def exec_client_def sample_client_def)

theorem no_terminal_no_profile_change_witness:
  "\<forall>a k. \<exists>s' a' k'. snd (run_cli agent_world [''mcp''] (McpCommand []) ((sample_service, a), k)) = ((s', a'), k') \<and>
     sv_config s' = sv_config sample_service"
proof (intro allI)
  fix a k
  have "\<not> ce_terminal (cw_env agent_world)"
    and "uses_transport (deliver sample_env exec_server (\<lambda>b. [])) sample_descriptor (ce_connect (cw_env agent_world))"
    and "uses_transport (deliver sample_env exec_server (\<lambda>b. [])) sample_descriptor (cw_mcp_connect agent_world n)" for n
    using exec_client_connects by (simp_all add: agent_world_def exec_cli_def)
  from no_terminal_no_profile_change [OF this, of "McpCommand []" "[''mcp'']" sample_service a k]
  show "\<exists>s' a' k'. snd (run_cli agent_world [''mcp''] (McpCommand []) ((sample_service, a), k)) = ((s', a'), k') \<and>
      sv_config s' = sv_config sample_service" by auto
qed

section \<open>A blank lease\<close>

text \<open>The JSON of a revocation and of its answer is read back as what was written.\<close>

definition revoke_wire :: "(body \<Rightarrow> bytes) \<Rightarrow> server \<Rightarrow> daemon client \<Rightarrow> revoke_request \<Rightarrow> bool" where
  "revoke_wire enc V c r \<longleftrightarrow>
     decode_body (dec_revoke (srv_decoders V))
       (client_request (cl_descriptor c) ''POST'' ''/v2/leases/revoke'' (Some (enc_revoke (cl_encoders c) r))) = Some r \<and>
     rsp_revoked (cl_decoders c) (take maximum_response_bytes (enc (FlagBody ''revoked'' True))) = Some True"

lemma revoke_over_http:
  assumes "cl_transport c = deliver E V enc" and "rd_token (cl_descriptor c) = srv_token V"
    and "revoke_wire enc V c r" and "fst (revoke E r s)"
  shows "client_revoke c r (s, a) = (Inr True, snd (revoke E r s), a)"
proof -
  let ?q = "client_request (cl_descriptor c) ''POST'' ''/v2/leases/revoke'' (Some (enc_revoke (cl_encoders c) r))"
  have "authorized V ?q"
    unfolding authorized_iff using assms(2) by (intro exI [of _ "srv_token V"]) (simp add: client_request_def)
  moreover have "decode_body (dec_revoke (srv_decoders V)) ?q = Some r"
    using assms(3) by (simp add: revoke_wire_def)
  ultimately have "serve_http E V ?q (s, a) = on_service a (answer_flag ''revoked'' (revoke E r s))"
    by (simp add: serve_http_def route_def with_body_def Let_def) (simp add: client_request_def)
  then show ?thesis
    using assms(1,3,4)
    by (simp add: client_revoke_def client_post_def send_def deliver_def on_service_def answer_flag_def
        read_response_def revoke_wire_def)
qed

text \<open>
  When the argument of \<^verbatim>\<open>--lease\<close> is blank but not empty, \<^verbatim>\<open>revoke\<close>
  ends the whole session of the capability, with every lease in it, and prints that this one lease
  was revoked: the request carries the trimmed argument, the message tests the argument itself.
\<close>

theorem blank_lease_ends_the_session:
  assumes "trim_space lease = []" and "lease \<noteq> []" and "consumer_token C \<noteq> []"
    and "ce_connect C = Inr c" and "cl_transport c = deliver E V enc" and "rd_token (cl_descriptor c) = srv_token V"
    and "revoke_wire enc V c \<lparr>rr_consumer_token = consumer_token C, rr_lease_id = []\<rparr>"
    and "wf_state s" and "live_session E s (sha256 (consumer_token C)) = Some session"
  shows "\<exists>s'. revoke_lease C lease (s, a) = (printed [LeaseRevoked lease], s', a) \<and>
    go_get (sv_consumers s') (sha256 (consumer_token C)) = None"
proof -
  let ?r = "\<lparr>rr_consumer_token = consumer_token C, rr_lease_id = []\<rparr>"
  have token: "trim_space (consumer_token C) = consumer_token C"
    by (simp add: consumer_token_def trim_space_idem)
  have "fst (revoke E ?r s)"
    using assms(9) by (simp add: revoke_sessions [OF assms(8)] token may_revoke_def)
  moreover have "go_get (sv_consumers (snd (revoke E ?r s))) (sha256 (consumer_token C)) = None"
    by (simp add: revoke_sessions [OF assms(8)] token revoked_session_def)
  ultimately show ?thesis
    using revoke_over_http [OF assms(5-7)] assms(1-4)
    by (simp add: revoke_lease_def with_client_def with_reply_def)
qed

lemma trim_space_blank: "trim_space '' '' = []"
proof -
  have "'' '' \<in> set space_encodings" by code_simp
  then have "\<not> prefix '' '' (drop_leading space_encodings '' '')"
    by (rule drop_leading_clean) simp
  moreover obtain p where "'' '' = p @ drop_leading space_encodings '' ''"
    using drop_leading_suffix by blast
  ultimately have "drop_leading space_encodings '' '' = []"
    by (cases p) auto
  then show ?thesis by (simp add: trim_space_def drop_leading_id)
qed

definition revoke_server :: server where
  "revoke_server = sample_server\<lparr>srv_decoders := sample_decoders
     \<lparr>dec_revoke := \<lambda>b cut. Some \<lparr>rr_consumer_token = ''ksc_a'', rr_lease_id = []\<rparr>\<rparr>\<rparr>"

definition revoke_client :: "daemon client" where
  "revoke_client = sample_client\<lparr>cl_transport := deliver sample_env revoke_server (\<lambda>b. []),
     cl_decoders := sample_responses\<lparr>rsp_revoked := \<lambda>b. Some True\<rparr>\<rparr>"

theorem blank_lease_ends_the_session_witness:
  "\<forall>a. \<exists>s'. revoke_lease (exec_cli\<lparr>ce_connect := Inr revoke_client\<rparr>) '' '' (sample_service, a) =
       (printed [LeaseRevoked '' ''], s', a) \<and>
     go_get (sv_consumers s') (sha256 ''ksc_a'') = None"
proof
  fix a
  let ?C = "exec_cli\<lparr>ce_connect := Inr revoke_client\<rparr>"
  have token: "consumer_token ?C = ''ksc_a''" by (simp add: consumer_token_def exec_cli_def sample_trim)
  have blank: "trim_space '' '' = []" by (rule trim_space_blank)
  have "revoke_wire (\<lambda>b. []) revoke_server revoke_client \<lparr>rr_consumer_token = consumer_token ?C, rr_lease_id = []\<rparr>"
    unfolding token by (simp add: revoke_wire_def revoke_server_def revoke_client_def decode_body_def)
  with blank_lease_ends_the_session [OF blank, of ?C revoke_client sample_env revoke_server "\<lambda>b. []" sample_service sample_session a]
  show "\<exists>s'. revoke_lease ?C '' '' (sample_service, a) = (printed [LeaseRevoked '' ''], s', a) \<and>
      go_get (sv_consumers s') (sha256 ''ksc_a'') = None"
    by (simp add: token sample_wf sample_live)
      (simp add: revoke_client_def sample_client_def sample_descriptor_def revoke_server_def sample_server_def)
qed

end
