(* ===== verification/Daemon_Run.thy ===== *)
theory Daemon_Run
  imports Server Ssh_Agent Daemon_System
begin

text \<open>
  \<^verbatim>\<open>Run\<close> of \<^verbatim>\<open>internal/daemon/server.go\<close>: start-up in its order, the loop, and the deferred
  clean-up, with \<^verbatim>\<open>listenSSHAgent\<close> of \<^verbatim>\<open>ssh_agent.go\<close>. Deferred calls are a stack in the state that
  is unwound when \<^verbatim>\<open>Run\<close> returns, on every path. Handlers and agent connections are goroutines of
  their own: \<^verbatim>\<open>Run\<close> does not wait for them for more than five seconds, so their locked sections
  also occur during \<^verbatim>\<open>Shutdown\<close> and between the deferred calls.
\<close>

section \<open>Locked sections\<close>

text \<open>
  The steps of \<open>Daemon_System\<close> that handlers and agent connections make, as data. A section that
  is not enabled, because the lock of the profiles is held or no such operation is in flight,
  changes nothing: the goroutine waits.
\<close>

datatype locked_section =
    RunsOperation request | CallBegins profile_call | CallContinues | GrantBegins grant_request
  | Approves nat | Commits | ChildBegins exec_request | ChildEnds nat

fun of_handlers :: "request \<Rightarrow> bool" where
  "of_handlers Tick = False"
| "of_handlers Close = False"
| "of_handlers _ = True"

definition after_phase :: "system \<Rightarrow> phase \<times> service \<Rightarrow> system" where
  "after_phase S r =
     S\<lparr>sys_service := snd r, sys_job := (case fst r of Next j \<Rightarrow> Some j | Done x \<Rightarrow> None)\<rparr>"

fun do_section :: "env \<Rightarrow> ssh_wire \<Rightarrow> locked_section \<Rightarrow> system \<Rightarrow> system" where
  "do_section E A (RunsOperation r) S =
     (if of_handlers r then S\<lparr>sys_service := perform E A r (sys_service S)\<rparr> else S)"
| "do_section E A (CallBegins c) S =
     (if profile_lock_free S then after_phase S (begin_call E c (sys_service S)) else S)"
| "do_section E A CallContinues S =
     (case sys_job S of None \<Rightarrow> S | Some j \<Rightarrow> after_phase S (next_phase E j (sys_service S)))"
| "do_section E A (GrantBegins r) S =
     (case grant_begin E r (sys_service S) of
        (Inr gc, s) \<Rightarrow> S\<lparr>sys_service := s, sys_waiting := gc # sys_waiting S\<rparr>
      | (Inl e, s) \<Rightarrow> S\<lparr>sys_service := s\<rparr>)"
| "do_section E A (Approves i) S =
     (if profile_lock_free S \<and> i < length (sys_waiting S) then
        let others = take i (sys_waiting S) @ drop (Suc i) (sys_waiting S)
        in case grant_approve E (sys_waiting S ! i) (sys_service S) of
             (Inr g, s) \<Rightarrow> S\<lparr>sys_service := s, sys_waiting := others, sys_ready := Some g\<rparr>
           | (Inl e, s) \<Rightarrow> S\<lparr>sys_service := s, sys_waiting := others\<rparr>
      else S)"
| "do_section E A Commits S =
     (case sys_ready S of
        None \<Rightarrow> S
      | Some g \<Rightarrow> S\<lparr>sys_service := snd (grant_commit E g (sys_service S)), sys_ready := None\<rparr>)"
| "do_section E A (ChildBegins r) S =
     (case execute_begin E r (sys_service S) of
        (Inr x, s) \<Rightarrow> S\<lparr>sys_service := s, sys_running := x # sys_running S\<rparr>
      | (Inl e, s) \<Rightarrow> S\<lparr>sys_service := s\<rparr>)"
| "do_section E A (ChildEnds i) S =
     (if i < length (sys_running S) then
        S\<lparr>sys_service := snd (execute_finish E (sys_running S ! i) (sys_service S)),
          sys_running := take i (sys_running S) @ drop (Suc i) (sys_running S)\<rparr>
      else S)"

definition do_sections :: "env \<Rightarrow> ssh_wire \<Rightarrow> locked_section list \<Rightarrow> system \<Rightarrow> system" where
  "do_sections E A secs S = fold (do_section E A) secs S"

section \<open>The socket of the SSH agent\<close>

record socket_world =
  sw_directory :: lstat
  sw_protect_error :: "gostring option" \<comment> \<open>of \<^verbatim>\<open>Chmod\<close> of the directory\<close>
  sw_path :: lstat
  sw_remove_error :: "gostring option"
  sw_listen_error :: "gostring option"
  sw_chmod_error :: "gostring option"

definition old_socket :: "socket_world \<Rightarrow> gostring option" where
  "old_socket K =
     (case sw_path K of
        Found kind mode \<Rightarrow>
          (if kind \<noteq> Socket then Some ''refusing to replace a non-socket SSH agent path'' else sw_remove_error K)
      | NotThere msg \<Rightarrow> None
      | LstatFails msg \<Rightarrow> Some msg)"

definition listen_ssh_agent :: "socket_world \<Rightarrow> gostring + listener" where
  "listen_ssh_agent K =
     (case sw_directory K of
        Found Directory mode \<Rightarrow>
          (case first_fault (\<lambda>i. [sw_protect_error K, old_socket K, sw_listen_error K, sw_chmod_error K] ! i) [0, 1, 2, 3] of
             Some msg \<Rightarrow> Inl msg
           | None \<Rightarrow> Inr \<lparr>ln_connections = [], ln_closed = False\<rparr>)
      | _ \<Rightarrow> Inl ''SSH agent requires a private runtime directory'')"

section \<open>The state of a run\<close>

datatype cleanup = Unlock | CloseListener | CloseService | CloseAgent | RemoveDescriptor

record run_state =
  rs_lock :: "lock_file option"
  rs_listening :: bool
  rs_descriptor :: "runtime_descriptor disk"
  rs_system :: "system option" \<comment> \<open>the service and the operations in flight on it\<close>
  rs_agent :: "listener option"
  rs_agents :: agents
  rs_deferred :: "cleanup list"

record run_world =
  rw_paths :: "gostring + runtime_paths"
  rw_mkdir_error :: "gostring option"
  rw_lock :: lock_world
  rw_listen :: "gostring + gostring" \<comment> \<open>the address of the listener\<close>
  rw_token_bytes :: "gostring + bytes"
  rw_identifier_bytes :: "gostring + bytes"
  rw_started_at :: time
  rw_version :: gostring
  rw_stores_error :: "gostring option" \<comment> \<open>of \<^verbatim>\<open>DefaultStore\<close> and \<^verbatim>\<open>defaultAuditStore\<close>\<close>
  rw_env :: env
  rw_config :: config_disk
  rw_audit :: "event list disk"
  rw_audit_fault :: "gostring option"
  rw_socket :: socket_world
  rw_server :: server \<comment> \<open>its token, identifier and version are set by the run\<close>
  rw_publish_fault :: "nat \<Rightarrow> gostring option"
  rw_published_at :: time
  rw_lock_stuck :: bool \<comment> \<open>\<^verbatim>\<open>Remove\<close> of the lock fails\<close>
  rw_descriptor_stuck :: bool
  rw_wire :: ssh_wire
  rw_late :: "cleanup \<Rightarrow> locked_section list" \<comment> \<open>sections that run just before a deferred call\<close>

datatype run_error =
    RunFails gostring | RunLocked lock_error | RunService error | LockUndecided

definition on_system :: "(system \<Rightarrow> system) \<Rightarrow> run_state \<Rightarrow> run_state" where
  "on_system f x = x\<lparr>rs_system := map_option f (rs_system x)\<rparr>"

definition run_sections :: "run_world \<Rightarrow> locked_section list \<Rightarrow> run_state \<Rightarrow> run_state" where
  "run_sections W secs x = on_system (do_sections (rw_env W) (rw_wire W) secs) x"

definition defer_call :: "cleanup \<Rightarrow> run_state \<Rightarrow> run_state" where
  "defer_call c x = x\<lparr>rs_deferred := c # rs_deferred x\<rparr>"

fun clean :: "run_world \<Rightarrow> cleanup \<Rightarrow> run_state \<Rightarrow> run_state" where
  "clean W Unlock x = (if rw_lock_stuck W then x else x\<lparr>rs_lock := None\<rparr>)"
| "clean W CloseListener x = x\<lparr>rs_listening := False\<rparr>"
| "clean W CloseService x = on_system (\<lambda>S. S\<lparr>sys_service := close_service (sys_service S)\<rparr>) x"
| "clean W CloseAgent x = x\<lparr>rs_agent := map_option (\<lambda>l. snd (listener_close l)) (rs_agent x)\<rparr>"
| "clean W RemoveDescriptor x =
     (if rw_descriptor_stuck W then x else x\<lparr>rs_descriptor := (rs_descriptor x)\<lparr>target := None\<rparr>\<rparr>)"

definition unwind :: "run_world \<Rightarrow> run_state \<Rightarrow> run_state" where
  "unwind W x = (fold (\<lambda>c x. clean W c (run_sections W (rw_late W c) x)) (rs_deferred x) x)\<lparr>rs_deferred := []\<rparr>"

section \<open>Starting\<close>

definition random_text :: "gostring \<Rightarrow> gostring + bytes \<Rightarrow> gostring + gostring" where
  "random_text pre drawn = (case drawn of Inl msg \<Rightarrow> Inl msg | Inr bs \<Rightarrow> Inr (pre @ raw_url_encode bs))"

definition open_service :: "run_world \<Rightarrow> gostring \<Rightarrow> run_error + service" where
  "open_service W instance_id =
     (case rw_stores_error W of
        Some msg \<Rightarrow> Inl (RunFails msg)
      | None \<Rightarrow>
          (case new_service (rw_env W) (rw_config W) (rw_audit W) (rw_audit_fault W) instance_id (rw_version W)
                  (rw_started_at W) of
             Inl e \<Rightarrow> Inl (RunService e)
           | Inr s \<Rightarrow> Inr s))"

definition descriptor_for :: "run_world \<Rightarrow> gostring \<Rightarrow> gostring \<Rightarrow> gostring \<Rightarrow> runtime_descriptor" where
  "descriptor_for W address token instance_id =
     \<lparr>rd_schema_version = schema_version, rd_endpoint = ''http://'' @ address, rd_token = token,
      rd_daemon_instance_id = instance_id, rd_daemon_version = rw_version W, rd_pid = lw_pid (rw_lock W),
      rd_generated_at = rw_published_at W\<rparr>"

definition server_for :: "run_world \<Rightarrow> gostring \<Rightarrow> gostring \<Rightarrow> server" where
  "server_for W token instance_id =
     (rw_server W)\<lparr>srv_token := token, srv_instance_id := instance_id, srv_version := rw_version W\<rparr>"

text \<open>From the agent's socket to the descriptor.\<close>

definition start_serving ::
  "run_world \<Rightarrow> gostring \<Rightarrow> gostring \<Rightarrow> gostring \<Rightarrow> run_state \<Rightarrow> (run_error + server) \<times> run_state" where
  "start_serving W address token instance_id x =
     (case listen_ssh_agent (rw_socket W) of
        Inl msg \<Rightarrow> (Inl (RunFails msg), x)
      | Inr ln \<Rightarrow>
          let x1 = defer_call CloseAgent (x\<lparr>rs_agent := Some ln\<rparr>);
              r = replace_file (rw_publish_fault W) (publish_ops (descriptor_for W address token instance_id))
                    (rs_descriptor x1);
              x2 = x1\<lparr>rs_descriptor := snd r\<rparr>
          in case fst r of
               Some msg \<Rightarrow> (Inl (RunFails msg), x2)
             | None \<Rightarrow> (Inr (server_for W token instance_id), defer_call RemoveDescriptor x2))"

text \<open>From the random token to the service.\<close>

definition start_service :: "run_world \<Rightarrow> gostring \<Rightarrow> run_state \<Rightarrow> (run_error + server) \<times> run_state" where
  "start_service W address x =
     (case random_text [] (rw_token_bytes W) of
        Inl msg \<Rightarrow> (Inl (RunFails msg), x)
      | Inr token \<Rightarrow>
          (case random_text ''ksd_'' (rw_identifier_bytes W) of
             Inl msg \<Rightarrow> (Inl (RunFails msg), x)
           | Inr instance_id \<Rightarrow>
               (case open_service W instance_id of
                  Inl e \<Rightarrow> (Inl e, x)
                | Inr s \<Rightarrow>
                    start_serving W address token instance_id
                      (defer_call CloseService (x\<lparr>rs_system := Some (initial s)\<rparr>)))))"

text \<open>Two rounds of \<^verbatim>\<open>acquireLock\<close> are enough, so \<open>LockUndecided\<close> does not occur.\<close>

definition start_daemon_run :: "run_world \<Rightarrow> run_state \<Rightarrow> (run_error + server) \<times> run_state" where
  "start_daemon_run W x =
     (case rw_paths W of
        Inl msg \<Rightarrow> (Inl (RunFails msg), x)
      | Inr paths \<Rightarrow>
          (case rw_mkdir_error W of
             Some msg \<Rightarrow> (Inl (RunFails msg), x)
           | None \<Rightarrow>
               (case acquire_lock 2 (rw_lock W) (rs_lock x) of
                  (None, f) \<Rightarrow> (Inl LockUndecided, x\<lparr>rs_lock := f\<rparr>)
                | (Some (Inl e), f) \<Rightarrow> (Inl (RunLocked e), x\<lparr>rs_lock := f\<rparr>)
                | (Some (Inr u), f) \<Rightarrow>
                    let x1 = defer_call Unlock (x\<lparr>rs_lock := f\<rparr>)
                    in case rw_listen W of
                         Inl msg \<Rightarrow> (Inl (RunFails msg), x1)
                       | Inr address \<Rightarrow>
                           start_service W address (defer_call CloseListener (x1\<lparr>rs_listening := True\<rparr>)))))"

section \<open>The loop\<close>

text \<open>
  What happens while the loop waits: a tick, a request that is handled without interruption, and a
  locked section of any other handler or agent connection. The loop ends when the server stops or
  with a signal; in the latter case \<^verbatim>\<open>Shutdown\<close> stops listening and waits for the handlers, which
  go on for up to five seconds.
\<close>

datatype run_event =
    Ticked | Asked http_request | Section locked_section | ServeEnds "gostring option"
  | Interrupted "locked_section list" "gostring option"

text \<open>A request is handled in one go only when no other operation holds the lock of the profiles.\<close>

definition serve_in_run :: "run_world \<Rightarrow> server \<Rightarrow> http_request \<Rightarrow> run_state \<Rightarrow> run_state" where
  "serve_in_run W V q x =
     (case rs_system x of
        None \<Rightarrow> x
      | Some S \<Rightarrow>
          (if profile_lock_free S then
             case snd (serve_http (rw_env W) V q (sys_service S, rs_agents x)) of
               (s, a) \<Rightarrow> x\<lparr>rs_system := Some (S\<lparr>sys_service := s\<rparr>), rs_agents := a\<rparr>
           else x))"

definition tick_in_run :: "run_world \<Rightarrow> run_state \<Rightarrow> run_state" where
  "tick_in_run W x = on_system (\<lambda>S. S\<lparr>sys_service := tick (rw_env W) (sys_service S)\<rparr>) x"

fun run_loop :: "run_world \<Rightarrow> server \<Rightarrow> run_event list \<Rightarrow> run_state \<Rightarrow> gostring option option \<times> run_state" where
  "run_loop W V [] x = (None, x)"
| "run_loop W V (Ticked # es) x = run_loop W V es (tick_in_run W x)"
| "run_loop W V (Asked q # es) x = run_loop W V es (serve_in_run W V q x)"
| "run_loop W V (Section sec # es) x = run_loop W V es (run_sections W [sec] x)"
| "run_loop W V (ServeEnds r # es) x = (Some r, x)"
| "run_loop W V (Interrupted secs r # es) x = (Some r, run_sections W secs (x\<lparr>rs_listening := False\<rparr>))"

text \<open>\<^verbatim>\<open>Run\<close>: \<open>None\<close> while it has not returned after the events.\<close>

definition run_daemon :: "run_world \<Rightarrow> run_event list \<Rightarrow> run_state \<Rightarrow> run_error option option \<times> run_state" where
  "run_daemon W events x =
     (case start_daemon_run W x of
        (Inl e, y) \<Rightarrow> (Some (Some e), unwind W y)
      | (Inr V, y) \<Rightarrow>
          (case run_loop W V events y of
             (None, z) \<Rightarrow> (None, z)
           | (Some r, z) \<Rightarrow> (Some (map_option RunFails r), unwind W z)))"

end
