(* ===== verification/Daemon_Run_Properties.thy ===== *)
theory Daemon_Run_Properties
  imports Daemon_Run Server_Properties Access_Properties Agent_Properties
begin

text \<open>What is left when the daemon's \<^verbatim>\<open>Run\<close> returns, whatever made it return.\<close>

section \<open>Sections are steps\<close>

text \<open>The random identifiers that a section draws are fresh.\<close>

fun fresh_section :: "env \<Rightarrow> locked_section \<Rightarrow> system \<Rightarrow> bool" where
  "fresh_section E CallContinues S =
     (case sys_job S of None \<Rightarrow> True | Some j \<Rightarrow> fresh_job j (sys_service S))"
| "fresh_section E Commits S = (case sys_ready S of None \<Rightarrow> True | Some g \<Rightarrow> fresh_grant E g S)"
| "fresh_section E _ S = True"

lemma step_call_begins:
  assumes "profile_lock_free S"
  shows "step E A S (after_phase S (begin_call E c (sys_service S)))"
proof (cases "begin_call E c (sys_service S)")
  case (Pair p s)
  have "S\<lparr>sys_service := s, sys_job := None\<rparr> = S\<lparr>sys_service := s\<rparr>"
    using assms by (cases S) (simp add: profile_lock_free_def)
  then show ?thesis
    using Pair assms step.call_starts [of S E c _ s A] step.call_refused [of S E c _ s A]
    by (cases p) (simp_all add: after_phase_def)
qed

lemma step_call_continues:
  assumes "sys_job S = Some j" and "fresh_job j (sys_service S)"
  shows "step E A S (after_phase S (next_phase E j (sys_service S)))"
  using step.call_continues [OF assms, of E] step.call_returns [OF assms, of E]
  by (cases "next_phase E j (sys_service S)"; cases "fst (next_phase E j (sys_service S))") (auto simp: after_phase_def)

lemma section_step:
  assumes "fresh_section E sec S"
  shows "do_section E A sec S = S \<or> step E A S (do_section E A sec S)"
proof (cases sec)
  case (RunsOperation r)
  then show ?thesis using step.operation [of E A S r] by simp
next
  case (CallBegins c)
  then show ?thesis using step_call_begins by simp
next
  case CallContinues
  then show ?thesis using assms step_call_continues [of S _ E A] by (cases "sys_job S") simp_all
next
  case (GrantBegins r)
  then show ?thesis
    using step.grant_starts [of E r S _ _ A] step.grant_rejected [of E r S _ _ A]
    by (auto split: prod.split sum.split)
next
  case (Approves i)
  then show ?thesis
    using step.approved [of S "take i (sys_waiting S)" "sys_waiting S ! i" "drop (Suc i) (sys_waiting S)" E _ _ A]
      step.refused [of S "take i (sys_waiting S)" "sys_waiting S ! i" "drop (Suc i) (sys_waiting S)" E _ _ A]
    by (auto simp: Let_def id_take_nth_drop split: prod.split sum.split)
next
  case Commits
  then show ?thesis using assms step.committed [of S _ E A] by (auto split: option.splits)
next
  case (ChildBegins r)
  then show ?thesis
    using step.child_starts [of E r S _ _ A] step.child_refused [of E r S _ _ A]
    by (auto split: prod.split sum.split)
next
  case (ChildEnds i)
  then show ?thesis
    using step.child_ends [of S "take i (sys_running S)" "sys_running S ! i" "drop (Suc i) (sys_running S)" E A]
    by (auto simp: id_take_nth_drop)
qed

fun fresh_sections :: "env \<Rightarrow> ssh_wire \<Rightarrow> locked_section list \<Rightarrow> system \<Rightarrow> bool" where
  "fresh_sections E A [] S = True"
| "fresh_sections E A (sec # secs) S = (fresh_section E sec S \<and> fresh_sections E A secs (do_section E A sec S))"

lemma sections_reachable:
  "reachable E A S \<Longrightarrow> fresh_sections E A secs S \<Longrightarrow> reachable E A (do_sections E A secs S)"
proof (induction secs arbitrary: S)
  case (Cons sec secs)
  then have "reachable E A (do_section E A sec S)"
    using section_step [of E sec S A] reachable.more [of E A S "do_section E A sec S"] by auto
  with Cons show ?case by (simp add: do_sections_def)
qed (simp add: do_sections_def)

section \<open>The service during a run\<close>

text \<open>The service of a run, with the operations in flight, is in a reachable state.\<close>

definition system_runs :: "run_world \<Rightarrow> run_state \<Rightarrow> bool" where
  "system_runs W x \<longleftrightarrow> pred_option (reachable (rw_env W) (rw_wire W)) (rs_system x)"

definition fresh_now :: "run_world \<Rightarrow> locked_section list \<Rightarrow> run_state \<Rightarrow> bool" where
  "fresh_now W secs x \<longleftrightarrow> pred_option (fresh_sections (rw_env W) (rw_wire W) secs) (rs_system x)"

text \<open>The random identifiers of a run are fresh: in the loop, in the time \<^verbatim>\<open>Shutdown\<close> waits and until
  the last deferred call.\<close>

fun fresh_run :: "run_world \<Rightarrow> server \<Rightarrow> run_event list \<Rightarrow> run_state \<Rightarrow> bool" where
  "fresh_run W V [] x = True"
| "fresh_run W V (Ticked # es) x = fresh_run W V es (tick_in_run W x)"
| "fresh_run W V (Asked q # es) x =
     (pred_option (fresh_identifiers (rw_env W) V q) (rs_system x) \<and> fresh_run W V es (serve_in_run W V q x))"
| "fresh_run W V (Section sec # es) x = (fresh_now W [sec] x \<and> fresh_run W V es (run_sections W [sec] x))"
| "fresh_run W V (ServeEnds r # es) x = True"
| "fresh_run W V (Interrupted secs r # es) x = fresh_now W secs x"

fun fresh_cleanup :: "run_world \<Rightarrow> cleanup list \<Rightarrow> run_state \<Rightarrow> bool" where
  "fresh_cleanup W [] x = True"
| "fresh_cleanup W (c # cs) x =
     (fresh_now W (rw_late W c) x \<and> fresh_cleanup W cs (clean W c (run_sections W (rw_late W c) x)))"

lemma runs_sections: "system_runs W x \<Longrightarrow> fresh_now W secs x \<Longrightarrow> system_runs W (run_sections W secs x)"
  by (cases "rs_system x") (simp_all add: system_runs_def fresh_now_def run_sections_def on_system_def sections_reachable)

lemma tick_reachable: "reachable E A S \<Longrightarrow> reachable E A (S\<lparr>sys_service := tick E (sys_service S)\<rparr>)"
  using reachable.more [OF _ step.operation [of E A S Tick]] by simp

lemma close_reachable: "reachable E A S \<Longrightarrow> reachable E A (S\<lparr>sys_service := close_service (sys_service S)\<rparr>)"
  using reachable.more [OF _ step.operation [of E A S Close]] by simp

lemma runs_tick: "system_runs W x \<Longrightarrow> system_runs W (tick_in_run W x)"
  by (cases "rs_system x") (simp_all add: system_runs_def tick_in_run_def on_system_def tick_reachable)

lemma runs_serve:
  assumes "system_runs W x" and "pred_option (fresh_identifiers (rw_env W) V q) (rs_system x)"
  shows "system_runs W (serve_in_run W V q x)"
proof (cases "rs_system x")
  case (Some S)
  then show ?thesis
    using assms serve_reachable [of "rw_env W" "rw_wire W" S V q "rs_agents x"]
    by (auto simp: system_runs_def serve_in_run_def split: prod.split)
qed (simp add: system_runs_def serve_in_run_def)

lemma runs_frame [simp]: "system_runs W (x\<lparr>rs_listening := b\<rparr>) = system_runs W x"
  "fresh_now W secs (x\<lparr>rs_listening := b\<rparr>) = fresh_now W secs x"
  by (simp_all add: system_runs_def fresh_now_def)

lemma loop_keeps: "system_runs W x \<Longrightarrow> fresh_run W V es x \<Longrightarrow> system_runs W (snd (run_loop W V es x))"
  by (induction W V es x rule: run_loop.induct) (simp_all add: runs_tick runs_serve runs_sections)

lemma runs_clean: "system_runs W x \<Longrightarrow> system_runs W (clean W c x)"
  by (cases c; cases "rs_system x") (simp_all add: system_runs_def on_system_def close_reachable)

section \<open>Deferred calls\<close>

text \<open>Everything that is open has its clean-up on the stack; only the listener and the lock are
  cleaned up after the service.\<close>

fun close_before_rest :: "cleanup list \<Rightarrow> bool" where
  "close_before_rest [] = False"
| "close_before_rest (c # cs) = (c = CloseService \<and> set cs \<subseteq> {CloseListener, Unlock} \<or> close_before_rest cs)"

definition all_deferred :: "run_state \<Rightarrow> bool" where
  "all_deferred x \<longleftrightarrow>
     (rs_listening x \<longrightarrow> CloseListener \<in> set (rs_deferred x)) \<and>
     (rs_system x \<noteq> None \<longrightarrow> close_before_rest (rs_deferred x)) \<and>
     (rs_agent x \<noteq> None \<longrightarrow> CloseAgent \<in> set (rs_deferred x))"

lemma sections_frame [simp]:
  "rs_deferred (run_sections W secs x) = rs_deferred x" "rs_listening (run_sections W secs x) = rs_listening x"
  "rs_agent (run_sections W secs x) = rs_agent x" "rs_lock (run_sections W secs x) = rs_lock x"
  "rs_descriptor (run_sections W secs x) = rs_descriptor x"
  "rs_system (run_sections W secs x) = map_option (do_sections (rw_env W) (rw_wire W) secs) (rs_system x)"
  by (simp_all add: run_sections_def on_system_def)

lemma serve_frame [simp]:
  "rs_deferred (serve_in_run W V q x) = rs_deferred x" "rs_listening (serve_in_run W V q x) = rs_listening x"
  "rs_agent (serve_in_run W V q x) = rs_agent x" "rs_lock (serve_in_run W V q x) = rs_lock x"
  "rs_descriptor (serve_in_run W V q x) = rs_descriptor x"
  "rs_system (serve_in_run W V q x) = None \<longleftrightarrow> rs_system x = None"
  by (simp_all add: serve_in_run_def split: option.split prod.split)

lemma loop_frame:
  "rs_deferred (snd (run_loop W V es x)) = rs_deferred x \<and> (rs_listening (snd (run_loop W V es x)) \<longrightarrow> rs_listening x) \<and>
   rs_agent (snd (run_loop W V es x)) = rs_agent x \<and> rs_lock (snd (run_loop W V es x)) = rs_lock x \<and>
   rs_descriptor (snd (run_loop W V es x)) = rs_descriptor x \<and>
   (rs_system (snd (run_loop W V es x)) = None \<longleftrightarrow> rs_system x = None)"
  by (induction W V es x rule: run_loop.induct)
    (simp_all add: tick_in_run_def on_system_def)

abbreviation unwinding :: "run_world \<Rightarrow> cleanup list \<Rightarrow> run_state \<Rightarrow> run_state" where
  "unwinding W cs x \<equiv> fold (\<lambda>c x. clean W c (run_sections W (rw_late W c) x)) cs x"

lemma runs_unwinding: "system_runs W x \<Longrightarrow> fresh_cleanup W cs x \<Longrightarrow> system_runs W (unwinding W cs x)"
  by (induction cs arbitrary: x) (simp_all add: runs_sections runs_clean)

text \<open>What \<^verbatim>\<open>Close\<close> achieves stays achieved when no section runs after it.\<close>

definition no_session :: "system \<Rightarrow> bool" where
  "no_session S \<longleftrightarrow> sv_consumers (sys_service S) = [] \<and> sv_management (sys_service S) = []"

lemma closes:
  assumes "reachable E A S"
  shows "no_session (S\<lparr>sys_service := close_service (sys_service S)\<rparr>)"
  using close_zeroes_everything [of "in_flight S" "sys_service S"] system_reachable [OF assms]
  by (simp add: no_session_def system_ok_def)

definition quiet_after_close :: "run_world \<Rightarrow> bool" where
  "quiet_after_close W \<longleftrightarrow> rw_late W CloseListener = [] \<and> rw_late W Unlock = []"

lemma stays_closed:
  assumes "quiet_after_close W" and "set cs \<subseteq> {CloseListener, Unlock}"
  shows "rs_system (unwinding W cs x) = rs_system x"
  using assms(2)
proof (induction cs arbitrary: x)
  case (Cons c cs)
  then have "rs_system (clean W c (run_sections W (rw_late W c) x)) = rs_system x"
    using assms(1) by (cases "rs_system x") (auto simp: quiet_after_close_def do_sections_def)
  with Cons show ?case by simp
qed simp

lemma unwound_system:
  assumes "system_runs W x" and "fresh_cleanup W cs x" and "quiet_after_close W" and "close_before_rest cs"
  shows "pred_option no_session (rs_system (unwinding W cs x))"
  using assms(1,2,4)
proof (induction cs arbitrary: x)
  case (Cons c cs)
  let ?y = "run_sections W (rw_late W c) x"
  have y: "system_runs W ?y" using Cons.prems by (simp add: runs_sections)
  show ?case
  proof (cases "close_before_rest cs")
    case True
    then show ?thesis using Cons.IH [of "clean W c ?y"] Cons.prems y by (simp add: runs_clean)
  next
    case False
    then have c: "c = CloseService" "set cs \<subseteq> {CloseListener, Unlock}" using Cons.prems(3) by simp_all
    have "pred_option no_session (rs_system (clean W c ?y))"
      using y closes by (cases "rs_system x") (auto simp: c(1) system_runs_def on_system_def)
    then show ?thesis using stays_closed [OF assms(3) c(2)] by simp
  qed
qed simp

lemma unwound_none: "rs_system (unwinding W cs x) = None \<longleftrightarrow> rs_system x = None"
proof (induction cs arbitrary: x)
  case (Cons c cs)
  then show ?case by (cases c) (simp_all add: on_system_def)
qed simp

lemma clean_frame:
  "rs_listening (clean W c x) \<longleftrightarrow> rs_listening x \<and> c \<noteq> CloseListener"
  "\<not> rw_lock_stuck W \<Longrightarrow> rs_lock (clean W c x) = (if c = Unlock then None else rs_lock x)"
  "\<not> rw_descriptor_stuck W \<Longrightarrow>
     target (rs_descriptor (clean W c x)) = (if c = RemoveDescriptor then None else target (rs_descriptor x))"
  by (cases c; simp add: on_system_def)+

lemma unwound_rest:
  "rs_listening (unwinding W cs x) \<longleftrightarrow> rs_listening x \<and> CloseListener \<notin> set cs"
  "\<not> rw_lock_stuck W \<Longrightarrow> rs_lock (unwinding W cs x) = (if Unlock \<in> set cs then None else rs_lock x)"
  "\<not> rw_descriptor_stuck W \<Longrightarrow> target (rs_descriptor (unwinding W cs x)) =
     (if RemoveDescriptor \<in> set cs then None else target (rs_descriptor x))"
  by (induction cs arbitrary: x) (auto simp: clean_frame)

lemma unwound_agent:
  "CloseAgent \<in> set cs \<or> pred_option ln_closed (rs_agent x) \<Longrightarrow> pred_option ln_closed (rs_agent (unwinding W cs x))"
proof (induction cs arbitrary: x)
  case (Cons c cs)
  have "CloseAgent \<in> set cs \<or> pred_option ln_closed (rs_agent (clean W c (run_sections W (rw_late W c) x)))"
    using Cons.prems by (cases c; cases "rs_agent x") (auto simp: listener_close_def on_system_def)
  with Cons.IH show ?case by simp
qed simp

section \<open>Starting\<close>

lemma acquire_keeps: "acquire_lock 2 K f = (Some (Inl e), g) \<Longrightarrow> g = f"
  by (auto simp: eval_nat_numeral split: option.splits)

lemma acquire_decides: "acquire_lock 2 K f \<noteq> (None, g)"
  by (auto simp: eval_nat_numeral split: option.splits)

lemma publish_error_keeps:
  "fst (replace_file fault (publish_ops d) D) = Some msg \<Longrightarrow> target (snd (replace_file fault (publish_ops d) D)) = target D"
  by (auto simp: replace_file_def publish_ops_def remove_temp_def Let_def split: option.splits)

lemma opened_service:
  assumes "open_service W i = Inr s"
  shows "reachable (rw_env W) (rw_wire W) (initial s)"
proof -
  have "starts (rw_env W) s"
    using assms unfolding starts_def open_service_def by (force split: option.splits sum.splits)
  then show ?thesis by (rule reachable.start)
qed

text \<open>The lock and the descriptor, relative to what the run found.\<close>

definition relative_to :: "run_state \<Rightarrow> run_state \<Rightarrow> bool" where
  "relative_to x y \<longleftrightarrow>
     (Unlock \<in> set (rs_deferred y) \<or> rs_lock y = rs_lock x) \<and>
     (RemoveDescriptor \<in> set (rs_deferred y) \<or> target (rs_descriptor y) = target (rs_descriptor x))"

lemma starts_cleanly:
  assumes "start_daemon_run W x = (r, y)" and "rs_deferred x = []" and "\<not> rs_listening x"
    and "rs_system x = None" and "rs_agent x = None"
  shows "all_deferred y" "system_runs W y" "relative_to x y"
    "r = Inr V \<Longrightarrow> Unlock \<in> set (rs_deferred y) \<and> RemoveDescriptor \<in> set (rs_deferred y)"
proof -
  have "all_deferred y \<and> system_runs W y \<and> relative_to x y \<and>
      (\<forall>V. r = Inr V \<longrightarrow> Unlock \<in> set (rs_deferred y) \<and> RemoveDescriptor \<in> set (rs_deferred y))"
    using assms opened_service [of W]
    by (auto simp: start_daemon_run_def start_service_def start_serving_def defer_call_def all_deferred_def
        system_runs_def relative_to_def Let_def acquire_decides dest: acquire_keeps publish_error_keeps
        split: sum.splits option.splits prod.splits)
  then show "all_deferred y" "system_runs W y" "relative_to x y"
    "r = Inr V \<Longrightarrow> Unlock \<in> set (rs_deferred y) \<and> RemoveDescriptor \<in> set (rs_deferred y)" by auto
qed

section \<open>Returning\<close>

text \<open>All random identifiers that are drawn until \<^verbatim>\<open>Run\<close> returns are fresh.\<close>

definition fresh_identifiers_drawn :: "run_world \<Rightarrow> run_event list \<Rightarrow> run_state \<Rightarrow> bool" where
  "fresh_identifiers_drawn W events x \<longleftrightarrow>
     (case start_daemon_run W x of
        (Inl e, z) \<Rightarrow> fresh_cleanup W (rs_deferred z) z
      | (Inr V, z) \<Rightarrow>
          fresh_run W V events z \<and>
          (let w = snd (run_loop W V events z) in fresh_cleanup W (rs_deferred w) w))"

definition zero_outside :: "nat list \<Rightarrow> service \<Rightarrow> bool" where
  "zero_outside F s \<longleftrightarrow> (\<forall>a < length (sv_heap s). a \<in> set F \<or> zeroed (buffer s a))"

lemma reachable_zero:
  assumes "reachable E A S"
  shows "zero_outside (owned (sys_service S) @ in_flight S) (sys_service S)"
    and "no_session S \<Longrightarrow> zero_outside (in_flight S) (sys_service S)"
proof -
  have "memory_ok (in_flight S) (sys_service S)"
    using system_reachable [OF assms] by (simp add: system_ok_def)
  then show "zero_outside (owned (sys_service S) @ in_flight S) (sys_service S)"
    unfolding memory_ok_def zero_outside_def by blast
  then show "no_session S \<Longrightarrow> zero_outside (in_flight S) (sys_service S)"
    by (simp add: no_session_def owned_def)
qed

text \<open>The state that is unwound when \<^verbatim>\<open>Run\<close> returns.\<close>

lemma returning:
  assumes "run_daemon W events x = (Some r, y)" and "fresh_identifiers_drawn W events x"
    and "rs_deferred x = []" and "\<not> rs_listening x" and "rs_system x = None" and "rs_agent x = None"
  obtains w where "y = unwind W w" and "all_deferred w" and "system_runs W w" and "relative_to x w"
    and "fresh_cleanup W (rs_deferred w) w"
    and "\<And>V. fst (start_daemon_run W x) = Inr V \<Longrightarrow>
      Unlock \<in> set (rs_deferred w) \<and> RemoveDescriptor \<in> set (rs_deferred w)"
proof -
  obtain q z where start: "start_daemon_run W x = (q, z)" by force
  note z = starts_cleanly [OF start assms(3-6)]
  show thesis
  proof (cases q)
    case (Inl e)
    then show thesis
      using that [of z] assms(1,2) start z(1-3) by (simp add: run_daemon_def fresh_identifiers_drawn_def)
  next
    case (Inr V)
    let ?w = "snd (run_loop W V events z)"
    have fresh: "fresh_run W V events z" "fresh_cleanup W (rs_deferred ?w) ?w"
      using assms(2) start Inr by (simp_all add: fresh_identifiers_drawn_def Let_def)
    have "system_runs W ?w" using loop_keeps z(2) fresh(1) by blast
    moreover have "all_deferred ?w" "relative_to x ?w"
      "Unlock \<in> set (rs_deferred ?w) \<and> RemoveDescriptor \<in> set (rs_deferred ?w)"
      using z(1,3) z(4) [OF Inr] loop_frame [of W V events z] by (auto simp: all_deferred_def relative_to_def)
    ultimately show thesis
      using that [of ?w] assms(1) start Inr fresh(2) by (auto simp: run_daemon_def split: prod.splits option.splits)
  qed
qed

text \<open>
  C13: run_leaves_nothing_behind. Whatever makes \<^verbatim>\<open>Run\<close> return, at start-up or from the loop, with
  handlers and agent connections still going on as \<^verbatim>\<open>Shutdown\<close> waits and between the deferred calls:
  the listener is closed and the SSH agent accepts nothing more; the lock file and the descriptor
  are gone or what they were before, and gone when the daemon came to serve. Every secret buffer
  belongs to a session or to an operation in flight, or is zero. When no handler runs a section after
  the deferred \<^verbatim>\<open>Close\<close>, no session is left, so that every buffer is zero except those of operations
  in flight: all of them when none is. The random identifiers that are drawn are assumed to be new, and the
  removal of the lock file and of the descriptor to succeed.
\<close>

theorem run_leaves_nothing_behind:
  assumes "run_daemon W events x = (Some r, y)" and "fresh_identifiers_drawn W events x"
    and "rs_deferred x = []" and "\<not> rs_listening x" and "rs_system x = None" and "rs_agent x = None"
    and "\<not> rw_lock_stuck W" and "\<not> rw_descriptor_stuck W"
  shows "\<not> rs_listening y \<and> pred_option ln_closed (rs_agent y) \<and>
    rs_lock y \<in> {None, rs_lock x} \<and> target (rs_descriptor y) \<in> {None, target (rs_descriptor x)} \<and>
    (case fst (start_daemon_run W x) of Inl e \<Rightarrow> True | Inr V \<Rightarrow> rs_lock y = None \<and> target (rs_descriptor y) = None) \<and>
    pred_option (\<lambda>S. zero_outside (owned (sys_service S) @ in_flight S) (sys_service S)) (rs_system y) \<and>
    (rw_late W CloseListener = [] \<and> rw_late W Unlock = [] \<longrightarrow>
       pred_option (\<lambda>S. sv_consumers (sys_service S) = [] \<and> sv_management (sys_service S) = [] \<and>
         zero_outside (in_flight S) (sys_service S)) (rs_system y))"
proof -
  obtain w where w: "y = unwind W w" "all_deferred w" "system_runs W w" "relative_to x w"
    "fresh_cleanup W (rs_deferred w) w"
    "\<And>V. fst (start_daemon_run W x) = Inr V \<Longrightarrow> Unlock \<in> set (rs_deferred w) \<and> RemoveDescriptor \<in> set (rs_deferred w)"
    using returning [OF assms(1-6)] by blast
  let ?u = "unwinding W (rs_deferred w) w"
  have u: "rs_system y = rs_system ?u" "rs_agent y = rs_agent ?u" using w(1) by (simp_all add: unwind_def)
  have runs: "system_runs W ?u" using w(3,5) by (rule runs_unwinding)
  have closed: "pred_option no_session (rs_system ?u)" if "quiet_after_close W"
  proof (cases "rs_system w")
    case None
    then show ?thesis using unwound_none [of W "rs_deferred w" w] by simp
  next
    case (Some S)
    then show ?thesis using unwound_system [OF w(3,5) that] w(2) by (simp add: all_deferred_def)
  qed
  have "pred_option ln_closed (rs_agent ?u)"
    using unwound_agent [of "rs_deferred w" w W] w(2) by (cases "rs_agent w") (auto simp: all_deferred_def)
  then show ?thesis
    using w(1,2,4,6) u runs closed reachable_zero
    by (cases "rs_system ?u"; cases "fst (start_daemon_run W x)")
      (auto simp: unwind_def all_deferred_def relative_to_def unwound_rest assms(7,8) system_runs_def
        quiet_after_close_def no_session_def)
qed

definition sample_run :: run_world where
  "sample_run =
     \<lparr>rw_paths = Inr \<lparr>rp_directory = ''/d'', rp_descriptor = ''/d/endpoint.json'', rp_lock = ''/d/daemon.lock''\<rparr>,
      rw_mkdir_error = None,
      rw_lock = \<lparr>lw_create_error = None, lw_lstat_fails = False, lw_read_fails = False, lw_remove_error = None,
        lw_now = 0, lw_pid = 7, lw_alive = (\<lambda>p. False),
        lw_probe = \<lparr>pb_lstat = NotThere [], pb_descriptor = None, pb_url = (\<lambda>u. None), pb_reply = (\<lambda>u a. None)\<rparr>\<rparr>,
      rw_listen = Inr ''127.0.0.1:4000'', rw_token_bytes = Inr ''t'', rw_identifier_bytes = Inr ''i'', rw_started_at = 0,
      rw_version = ''1.0.0'', rw_stores_error = None, rw_env = sample_env, rw_config = sample_config,
      rw_audit = \<lparr>target = None, temporary = None\<rparr>, rw_audit_fault = None,
      rw_socket = \<lparr>sw_directory = Found Directory 448, sw_protect_error = None, sw_path = NotThere [],
        sw_remove_error = None, sw_listen_error = None, sw_chmod_error = None\<rparr>,
      rw_server = sample_server, rw_publish_fault = (\<lambda>i. None), rw_published_at = 0, rw_lock_stuck = False,
      rw_descriptor_stuck = False, rw_wire = sample_wire, rw_late = (\<lambda>c. [])\<rparr>"

definition idle_machine :: "agents \<Rightarrow> run_state" where
  "idle_machine a =
     \<lparr>rs_lock = None, rs_listening = False, rs_descriptor = \<lparr>target = None, temporary = None\<rparr>, rs_system = None,
      rs_agent = None, rs_agents = a, rs_deferred = []\<rparr>"

lemma sample_run_starts: "\<exists>V z. start_daemon_run sample_run (idle_machine a) = (Inr V, z)"
  by (simp add: start_daemon_run_def start_service_def start_serving_def sample_run_def idle_machine_def random_text_def
      open_service_def new_service_def audit_load_def listen_ssh_agent_def first_fault_def List.map_filter_def
      old_socket_def defer_call_def Let_def replace_file_def run_ops_no_fault eval_nat_numeral split: option.split)

lemma sample_run_fresh:
  "fresh_identifiers_drawn sample_run [Ticked, Interrupted [RunsOperation Snapshot] None] (idle_machine a)"
proof -
  have late: "fresh_now sample_run (rw_late sample_run c) x" for c x
    by (cases "rs_system x") (simp_all add: fresh_now_def sample_run_def)
  have "fresh_cleanup sample_run cs x" for cs x by (induction cs arbitrary: x) (simp_all add: late)
  moreover have "fresh_now sample_run [RunsOperation Snapshot] x" for x
    by (cases "rs_system x") (simp_all add: fresh_now_def)
  ultimately show ?thesis by (simp add: fresh_identifiers_drawn_def Let_def split: prod.split sum.split)
qed

theorem run_leaves_nothing_behind_witness:
  "\<forall>a. let r = run_daemon sample_run [Ticked, Interrupted [RunsOperation Snapshot] None] (idle_machine a)
     in fst r = Some None \<and> rs_lock (snd r) = None \<and>
       pred_option (\<lambda>S. sv_consumers (sys_service S) = [] \<and> zero_outside (in_flight S) (sys_service S)) (rs_system (snd r))"
proof
  fix a
  obtain V z where start: "start_daemon_run sample_run (idle_machine a) = (Inr V, z)"
    using sample_run_starts by blast
  let ?r = "run_daemon sample_run [Ticked, Interrupted [RunsOperation Snapshot] None] (idle_machine a)"
  have returned: "fst ?r = Some None"
    using start by (simp add: run_daemon_def)
  then have run: "?r = (Some None, snd ?r)" by (metis prod.collapse)
  have idle: "rs_deferred (idle_machine a) = []" "\<not> rs_listening (idle_machine a)"
    "rs_system (idle_machine a) = None" "rs_agent (idle_machine a) = None"
    by (simp_all add: idle_machine_def)
  have removable: "\<not> rw_lock_stuck sample_run" "\<not> rw_descriptor_stuck sample_run"
    and late: "rw_late sample_run CloseListener = []" "rw_late sample_run Unlock = []"
    by (simp_all add: sample_run_def)
  show "let r = ?r in fst r = Some None \<and> rs_lock (snd r) = None \<and>
      pred_option (\<lambda>S. sv_consumers (sys_service S) = [] \<and> zero_outside (in_flight S) (sys_service S)) (rs_system (snd r))"
    using run_leaves_nothing_behind [OF run sample_run_fresh idle removable] returned start late
    by (cases "rs_system (snd ?r)") (auto simp: Let_def)
qed

end
