(* ===== verification/Lock_Race.thy ===== *)
theory Lock_Race
  imports Startup
begin

text \<open>
  \<^verbatim>\<open>acquireLock\<close> run by several processes at once. Its system calls are the steps: create the
  file, write the process identifier into it, examine a file that exists, remove it. Files have a
  number, since a process writes to the file it has created even when the path names another. The
  only errors of these calls are that the file exists or does not.
\<close>

datatype lock_phase = Opening | Writing nat | Examining | Removing | Holding | Rejected lock_error

record race =
  rc_lock :: "(nat \<times> lock_file) option"
  rc_files :: nat
  rc_phase :: "nat \<Rightarrow> lock_phase"

definition enter :: "nat \<Rightarrow> lock_phase \<Rightarrow> race \<Rightarrow> race" where
  "enter i p R = R\<lparr>rc_phase := (rc_phase R)(i := p)\<rparr>"

definition lock_text :: "lock_world \<Rightarrow> gostring" where
  "lock_text K = show_int (lw_pid K) @ [CHR 0x0A]"

definition write_lock :: "nat \<Rightarrow> gostring \<Rightarrow> (nat \<times> lock_file) option \<Rightarrow> (nat \<times> lock_file) option" where
  "write_lock n text lock =
     (case lock of
        None \<Rightarrow> None
      | Some (m, f) \<Rightarrow> Some (m, if m = n then f\<lparr>lf_payload := text\<rparr> else f))"

text \<open>The decision of one process; a file that is gone cannot be read and counts as stale.\<close>

definition examine :: "lock_world \<Rightarrow> (nat \<times> lock_file) option \<Rightarrow> lock_phase" where
  "examine K lock =
     (case lock of
        None \<Rightarrow> Removing
      | Some (m, f) \<Rightarrow> (case running_owner K f of Some pid \<Rightarrow> Rejected (AlreadyRunning pid) | None \<Rightarrow> Removing))"

definition race_step :: "(nat \<Rightarrow> lock_world) \<Rightarrow> nat \<Rightarrow> race \<Rightarrow> race" where
  "race_step K i R =
     (case rc_phase R i of
        Opening \<Rightarrow>
          (case rc_lock R of
             None \<Rightarrow>
               enter i (Writing (rc_files R))
                 (R\<lparr>rc_lock := Some (rc_files R, \<lparr>lf_payload = [], lf_modified = lw_now (K i)\<rparr>),
                    rc_files := Suc (rc_files R)\<rparr>)
           | Some f \<Rightarrow> enter i Examining R)
      | Writing n \<Rightarrow> enter i Holding (R\<lparr>rc_lock := write_lock n (lock_text (K i)) (rc_lock R)\<rparr>)
      | Examining \<Rightarrow> enter i (examine (K i) (rc_lock R)) R
      | Removing \<Rightarrow>
          (case rc_lock R of
             None \<Rightarrow> enter i (Rejected (RemoveStale ''file does not exist'')) R
           | Some f \<Rightarrow> enter i Opening (R\<lparr>rc_lock := None\<rparr>))
      | Holding \<Rightarrow> R
      | Rejected e \<Rightarrow> R)"

definition race_run :: "(nat \<Rightarrow> lock_world) \<Rightarrow> nat list \<Rightarrow> race \<Rightarrow> race" where
  "race_run K schedule R = fold (race_step K) schedule R"

definition race_start :: "lock_file option \<Rightarrow> race" where
  "race_start f = \<lparr>rc_lock = map_option (Pair 0) f, rc_files = 1, rc_phase = (\<lambda>i. Opening)\<rparr>"

section \<open>One process alone\<close>

text \<open>What a process that runs alone comes to is what \<open>acquire_lock\<close> says.\<close>

definition alone :: "lock_world \<Rightarrow> lock_file option \<Rightarrow> lock_phase" where
  "alone K f =
     (case fst (acquire_lock 2 K f) of
        Some (Inr u) \<Rightarrow> Holding
      | Some (Inl e) \<Rightarrow> Rejected e
      | None \<Rightarrow> Opening)"

lemma unwritten_lock_is_stale: "running_owner K \<lparr>lf_payload = [], lf_modified = t\<rparr> = None"
  by (simp add: running_owner_def atoi_def)

text \<open>
  A process that runs alone takes six steps at most and
  ends as the recursive \<^verbatim>\<open>acquireLock\<close> does, and the lock file is then the one it leaves.
\<close>

theorem solitary_start_matches_the_recursion:
  assumes "lw_create_error (K i) = None" and "lw_remove_error (K i) = None"
  shows "rc_phase (race_run K (replicate 6 i) (race_start f)) i = alone (K i) f \<and>
    map_option snd (rc_lock (race_run K (replicate 6 i) (race_start f))) = snd (acquire_lock 2 (K i) f)"
proof (cases f)
  case None
  then show ?thesis
    using assms by (simp add: race_run_def race_start_def race_step_def enter_def alone_def lock_text_def write_lock_def eval_nat_numeral)
next
  case (Some g)
  then show ?thesis
    using assms
    by (cases "running_owner (K i) g")
      (simp_all add: race_run_def race_start_def race_step_def enter_def alone_def lock_text_def write_lock_def examine_def
        eval_nat_numeral)
qed

definition sample_locks :: "nat \<Rightarrow> lock_world" where
  "sample_locks i =
     \<lparr>lw_create_error = None, lw_lstat_fails = False, lw_read_fails = False, lw_remove_error = None,
      lw_now = 0, lw_pid = int i + 7, lw_alive = (\<lambda>p. True),
      lw_probe = \<lparr>pb_lstat = NotThere [], pb_descriptor = None, pb_url = (\<lambda>u. None), pb_reply = (\<lambda>u a. None)\<rparr>\<rparr>"

theorem solitary_start_matches_the_recursion_witness:
  "rc_phase (race_run sample_locks (replicate 6 1) (race_start None)) 1 = Holding"
  using solitary_start_matches_the_recursion [of sample_locks 1 None]
  by (simp add: sample_locks_def alone_def eval_nat_numeral)

text \<open>
  C37: two_daemons_can_start. Two processes that start at once can both take the lock, whatever
  the clock, the process table and the descriptor say: the file is created empty and written
  later, an empty file counts as stale, and removing the stale file removes the new lock.
\<close>

theorem two_daemons_can_start:
  "\<exists>schedule. rc_phase (race_run K schedule (race_start None)) 0 = Holding \<and>
     rc_phase (race_run K schedule (race_start None)) 1 = Holding"
  by (intro exI [of _ "[0, 1, 1, 0, 1, 1, 1]"])
    (simp add: race_run_def race_start_def race_step_def enter_def examine_def write_lock_def unwritten_lock_is_stale)

end
