(* ===== verification/Lease_Contents.thy ===== *)
theory Lease_Contents
  imports System_Invariants
begin

text \<open>
  More invariants of the daemon, by interpretation of the interfaces of \<open>Operation_Invariants\<close>
  and \<open>System_Invariants\<close>: a property of the metadata of each lease together with the bytes of
  its buffer, the bytes of one buffer that an operation holds, the profiles that are being
  managed, and the configuration on disk.
\<close>

section \<open>The leases with their buffers\<close>

definition all_leases :: "service \<Rightarrow> active_lease list" where
  "all_leases s = concat (map (\<lambda>e. map snd (cs_leases (snd e))) (sv_consumers s))"

lemma all_leases_set: "set (all_leases s) = (\<Union>e \<in> set (sv_consumers s). snd ` set (cs_leases (snd e)))"
  by (simp add: all_leases_def)

lemma all_leases_owned: "map al_secret (all_leases s) = lease_buffers (sv_consumers s)"
  by (simp add: all_leases_def lease_buffers_def map_concat comp_def)

lemma lease_buffer_owned: "l \<in> set (all_leases s) \<Longrightarrow> al_secret l \<in> set (owned s)"
  by (auto simp: owned_def simp flip: all_leases_owned)

lemma all_leases_cong: "sv_consumers s' = sv_consumers s \<Longrightarrow> all_leases s' = all_leases s"
  by (simp add: all_leases_def)

definition leases_hold :: "(lease \<Rightarrow> bytes \<Rightarrow> bool) \<Rightarrow> nat list \<Rightarrow> service \<Rightarrow> bool" where
  "leases_hold Q F s \<longleftrightarrow>
     memory_ok F s \<and> (\<forall>l \<in> set (all_leases s). Q (al_metadata l) (buffer s (al_secret l)))"

lemma leases_hold_step:
  assumes "leases_hold Q F s" and "memory_ok G s'" and "set (all_leases s') \<subseteq> set (all_leases s)"
    and "\<And>l. l \<in> set (all_leases s') \<Longrightarrow> buffer s' (al_secret l) = buffer s (al_secret l)"
  shows "leases_hold Q G s'"
  using assms by (auto simp: leases_hold_def)

text \<open>What the primitives of the state remove, and what they leave.\<close>

lemma clear_lease_leases:
  assumes "wf_state s"
  shows "set (all_leases (clear_lease_locked h i s)) \<subseteq> set (all_leases s)"
proof
  fix l assume "l \<in> set (all_leases (clear_lease_locked h i s))"
  then obtain e where e: "e \<in> set (at_key h (remove_lease i) (sv_consumers s))" "l \<in> snd ` set (cs_leases (snd e))"
    using assms by (auto simp: all_leases_set clear_lease_consumers)
  then obtain c where "(fst e, c) \<in> set (sv_consumers s)" "snd e = (if fst e = h then remove_lease i c else c)"
    by (auto simp: at_key_mem)
  then show "l \<in> set (all_leases s)"
    using e(2) by (force simp: all_leases_set split: if_splits)
qed

lemma drop_consumer_leases: "set (all_leases (drop_consumer h s)) \<subseteq> set (all_leases s)"
  by (auto simp: all_leases_set drop_consumer_def delete_filter)

lemma kept_contents:
  assumes "keeps_contents F (al_secret l) (buffer s (al_secret l)) s'" and "l \<in> set (all_leases s')"
  shows "buffer s' (al_secret l) = buffer s (al_secret l)"
  using assms lease_buffer_owned by (auto simp: keeps_contents_def)

lemma keeps_now: "memory_ok F s \<Longrightarrow> keeps_contents F a (buffer s a) s"
  by (simp add: keeps_contents_def)

lemma hold_clear_lease:
  assumes "leases_hold Q F s"
  shows "leases_hold Q F (clear_lease_locked h i s)"
proof (rule leases_hold_step [OF assms])
  have ok: "memory_ok F s" using assms by (simp add: leases_hold_def)
  then show "memory_ok F (clear_lease_locked h i s)" by (rule memory_clear_lease)
  show "set (all_leases (clear_lease_locked h i s)) \<subseteq> set (all_leases s)"
    using memory_wf [OF ok] by (rule clear_lease_leases)
  show "buffer (clear_lease_locked h i s) (al_secret l) = buffer s (al_secret l)"
    if "l \<in> set (all_leases (clear_lease_locked h i s))" for l
    using keeps_clear_lease [OF keeps_now [OF ok]] that by (rule kept_contents)
qed

lemma hold_drop_management:
  assumes "leases_hold Q F s" and "go_get (sv_management s) t = Some m"
  shows "leases_hold Q F (drop_management t m s)"
proof (rule leases_hold_step [OF assms(1)])
  have ok: "memory_ok F s" using assms by (simp add: leases_hold_def)
  then show "memory_ok F (drop_management t m s)" using assms(2) by (rule memory_drop_management)
  show "set (all_leases (drop_management t m s)) \<subseteq> set (all_leases s)"
    by (simp add: all_leases_def frame)
  show "buffer (drop_management t m s) (al_secret l) = buffer s (al_secret l)"
    if "l \<in> set (all_leases (drop_management t m s))" for l
    using keeps_drop_management [OF keeps_now [OF ok] assms(2)] that by (rule kept_contents)
qed

lemma hold_drop_consumer:
  assumes "leases_hold Q F s" and "leases_at s h = []"
  shows "leases_hold Q F (drop_consumer h s)"
  using assms drop_consumer_leases [of h s]
  by (intro leases_hold_step [OF assms(1)])
    (auto simp: leases_hold_def memory_drop_consumer buffer_def frame)

lemma hold_same:
  assumes "leases_hold Q F s" and "sv_consumers s' = sv_consumers s" and "sv_management s' = sv_management s"
    and "sv_heap s' = sv_heap s"
  shows "leases_hold Q F s'"
  using assms memory_same [of F s s']
  by (intro leases_hold_step [OF assms(1)]) (auto simp: leases_hold_def all_leases_def buffer_def)

lemma hold_record: "leases_hold Q F s \<Longrightarrow> leases_hold Q F (record_locked E k p cid lab r d s)"
  by (erule hold_same) (simp_all add: frame)

lemma hold_wf: "leases_hold Q F s \<Longrightarrow> wf_state s"
  by (auto simp: leases_hold_def intro: memory_wf)

text \<open>Buffers come and go in flight.\<close>

lemma hold_alloc:
  assumes ok: "leases_hold Q F s" and s': "alloc bs s = (a, s')"
  shows "leases_hold Q (a # F) s'"
proof (rule leases_hold_step [OF ok])
  have mem: "memory_ok F s" using ok by (simp add: leases_hold_def)
  then show "memory_ok (a # F) s'" using s' by (rule memory_alloc)
  have c: "sv_consumers s' = sv_consumers s" using s' by (auto simp: alloc_def)
  then show "set (all_leases s') \<subseteq> set (all_leases s)" by (simp add: all_leases_def)
  fix l assume "l \<in> set (all_leases s')"
  then have "al_secret l \<in> set (owned s)" using c lease_buffer_owned by (metis all_leases_cong)
  then have "al_secret l < length (sv_heap s)" using mem by (auto simp: memory_ok_def)
  then show "buffer s' (al_secret l) = buffer s (al_secret l)"
    using s' by (auto simp: alloc_def buffer_def nth_append)
qed

lemma in_flight_not_owned: "memory_ok (a # F) s \<Longrightarrow> a \<notin> set (owned s)"
  by (auto simp: memory_ok_def)

lemma hold_clear:
  assumes ok: "leases_hold Q (a # F) s"
  shows "leases_hold Q F (clear_bytes a s)"
proof (rule leases_hold_step [OF ok])
  have mem: "memory_ok (a # F) s" using ok by (simp add: leases_hold_def)
  then show "memory_ok F (clear_bytes a s)" by (rule memory_clear)
  show sub: "set (all_leases (clear_bytes a s)) \<subseteq> set (all_leases s)" by (simp add: all_leases_def frame)
  show "buffer (clear_bytes a s) (al_secret l) = buffer s (al_secret l)"
    if "l \<in> set (all_leases (clear_bytes a s))" for l
    using that sub lease_buffer_owned in_flight_not_owned [OF mem] by (auto intro!: clear_bytes_other)
qed

lemma hold_reorder: "leases_hold Q F s \<Longrightarrow> mset F = mset G \<Longrightarrow> leases_hold Q G s"
  by (auto simp: leases_hold_def intro: memory.inv_reorder)

lemma hold_put_management:
  assumes "leases_hold Q (a # F) s" and "go_get (sv_management s) t = None"
  shows "leases_hold Q F (put_management t \<lparr>ms_profile = n, ms_secret = a, ms_expires_at = x\<rparr> s)"
  using assms memory_put_management [of a F s t n x]
  by (intro leases_hold_step [OF assms(1)])
    (auto simp: leases_hold_def all_leases_def buffer_def put_management_def)

lemma reordered_leases:
  assumes "wf_state s" and "reordered s s'"
  shows "set (all_leases s') = set (all_leases s) \<and> sv_heap s' = sv_heap s"
  using assms(2)
proof cases
  case (consumers m)
  then show ?thesis using mset_eq_setD [OF consumers(2)] by (simp add: all_leases_set)
next
  case (leases ls h)
  have "set ls = set (cs_leases c)" if "(h, c) \<in> set (sv_consumers s)" for c
    using that assms(1) mset_eq_setD [OF leases(2)] by (simp add: leases_at_def wf_state_def wf_map_get)
  then have "(\<Union>e \<in> set (at_key h (\<lambda>c. c\<lparr>cs_leases := ls\<rparr>) (sv_consumers s)). snd ` set (cs_leases (snd e))) =
      (\<Union>e \<in> set (sv_consumers s). snd ` set (cs_leases (snd e)))"
    by (force simp: at_key_def split: if_splits)
  then show ?thesis using leases by (simp add: all_leases_set modify_consumers frame)
next
  case (management m)
  then show ?thesis by (simp add: all_leases_def)
qed

lemma hold_reordered:
  assumes "leases_hold Q F s" and "reordered s s'"
  shows "leases_hold Q F s'"
  using assms memory_reordered [of F s s'] reordered_leases [OF hold_wf [OF assms(1)] assms(2)]
  by (intro leases_hold_step [OF assms(1)]) (auto simp: leases_hold_def buffer_def)

interpretation holds_kept: kept_by_primitives "leases_hold Q F" for Q F
  by unfold_locales
    (blast intro: hold_clear_lease hold_drop_management hold_drop_consumer hold_record hold_wf)+

interpretation lease_contents: kept_by_daemon "leases_hold Q" for Q
  by unfold_locales
    (rule hold_clear_lease hold_drop_management hold_drop_consumer hold_record hold_wf hold_alloc
      hold_clear hold_reorder hold_put_management hold_reordered; assumption
    | erule hold_same; simp add: frame log_effect_def)+

section \<open>One buffer in flight\<close>

definition holding :: "nat \<Rightarrow> bytes \<Rightarrow> nat list \<Rightarrow> service \<Rightarrow> bool" where
  "holding a bs F s \<longleftrightarrow> a < length (sv_heap s) \<and> keeps_contents F a bs s"

lemma holding_now: "memory_ok F s \<Longrightarrow> a \<in> set F \<Longrightarrow> holding a (buffer s a) F s"
  by (auto simp: holding_def keeps_contents_def memory_ok_def)

lemma holding_buffer: "holding a bs F s \<Longrightarrow> a \<in> set F \<Longrightarrow> buffer s a = bs"
  by (simp add: holding_def keeps_contents_def)

lemma heap_length:
  "length (sv_heap (clear_lease_locked h i s)) = length (sv_heap s)"
  "length (sv_heap (drop_management t m s)) = length (sv_heap s)"
  by (simp_all add: clear_lease_locked_def drop_management_def Let_def frame clear_bytes_def split: option.split)

lemma holding_primitives:
  "holding a bs F s \<Longrightarrow> holding a bs F (clear_lease_locked h i s)"
  "holding a bs F s \<Longrightarrow> holding a bs F (record_locked E k p cid lab r d s)"
  "holding a bs F s \<Longrightarrow> leases_at s h = [] \<Longrightarrow> holding a bs F (drop_consumer h s)"
  "holding a bs F s \<Longrightarrow> go_get (sv_management s) t = Some m \<Longrightarrow> holding a bs F (drop_management t m s)"
  "holding a bs F s \<Longrightarrow> wf_state s"
  by (auto simp: holding_def heap_length frame keeps_clear_lease keeps_record keeps_drop_consumer
      keeps_drop_management keeps_wf)

lemma holding_alloc:
  assumes "holding a bs F s" and "alloc x s = (b, s')"
  shows "holding a bs (b # F) s'"
proof -
  have "a \<noteq> b" "buffer s' a = buffer s a" "a < length (sv_heap s')" "owned s' = owned s"
    using assms by (auto simp: alloc_def holding_def buffer_def nth_append owned_def)
  then show ?thesis
    using assms memory_alloc [of F s x b s'] by (auto simp: holding_def keeps_contents_def)
qed

lemma holding_clear:
  assumes "holding a bs (b # F) s"
  shows "holding a bs F (clear_bytes b s)"
proof -
  have ok: "memory_ok (b # F) s" using assms by (simp add: holding_def keeps_contents_def)
  have "owned (clear_bytes b s) = owned s" by (simp add: owned_def frame)
  moreover have "b \<notin> set (owned s @ F)" using ok by (auto simp: memory_ok_def)
  moreover have "a \<noteq> b \<Longrightarrow> buffer (clear_bytes b s) a = buffer s a"
    by (rule clear_bytes_other)
  ultimately show ?thesis
    using assms memory_clear [OF ok] by (cases "a = b") (auto simp: holding_def keeps_contents_def)
qed

lemma holding_cong:
  assumes "holding a bs F s" and "memory_ok G s'" and "sv_heap s' = sv_heap s"
    and "set (owned s' @ G) = set (owned s @ F)"
  shows "holding a bs G s'"
  using assms by (auto simp: holding_def keeps_contents_def buffer_def)

lemma holding_same:
  assumes "holding a bs F s" and "sv_consumers s' = sv_consumers s" and "sv_management s' = sv_management s"
    and "sv_heap s' = sv_heap s"
  shows "holding a bs F s'"
  using assms memory_same [of F s s']
  by (intro holding_cong [OF assms(1)]) (auto simp: holding_def keeps_contents_def owned_def)

lemma holding_reorder: "holding a bs F s \<Longrightarrow> mset F = mset G \<Longrightarrow> holding a bs G s"
  using memory.inv_reorder [of F s G] mset_eq_setD [of F G]
  by (auto simp: holding_def keeps_contents_def)

lemma holding_put_management:
  assumes "holding b bs (a # F) s" and "go_get (sv_management s) t = None"
  shows "holding b bs F (put_management t \<lparr>ms_profile = n, ms_secret = a, ms_expires_at = x\<rparr> s)"
proof -
  have "t \<notin> fst ` set (sv_management s)" using assms(2) by (simp add: map_of_eq_None_iff)
  then have "set (owned (put_management t \<lparr>ms_profile = n, ms_secret = a, ms_expires_at = x\<rparr> s) @ F) =
      set (owned s @ a # F)"
    by (auto simp: owned_def put_management_def update_absent)
  then show ?thesis
    using assms memory_put_management [of a F s t n x]
    by (intro holding_cong [OF assms(1)]) (auto simp: holding_def keeps_contents_def put_management_def)
qed

lemma reordered_owned:
  assumes "wf_state s" and "reordered s s'"
  shows "set (owned s') = set (owned s)"
proof -
  have "set (lease_buffers (sv_consumers s')) = set (lease_buffers (sv_consumers s))"
    using reordered_leases [OF assms] by (simp flip: all_leases_owned)
  moreover have "set (sv_management s') = set (sv_management s)"
    using assms(2) by cases (auto simp: frame dest: mset_eq_setD)
  ultimately show ?thesis by (simp add: owned_def)
qed

lemma holding_reordered:
  assumes "holding a bs F s" and "reordered s s'"
  shows "holding a bs F s'"
proof -
  have "memory_ok F s" using assms(1) by (simp add: holding_def keeps_contents_def)
  then show ?thesis
    using memory_reordered [OF _ assms(2)] reordered_leases [OF memory_wf assms(2)]
      reordered_owned [OF memory_wf assms(2)]
    by (intro holding_cong [OF assms(1)]) auto
qed

interpretation holding_kept: kept_by_primitives "holding a bs F" for a bs F
  by unfold_locales (blast intro: holding_primitives)+

interpretation held_buffer: kept_by_daemon "holding a bs" for a bs
  by unfold_locales
    (rule holding_primitives holding_alloc holding_clear holding_reorder holding_put_management
      holding_reordered; assumption
    | erule holding_same; simp add: frame log_effect_def)+

section \<open>The managed profiles and the configuration on disk\<close>

definition managed_within :: "(gostring \<Rightarrow> bool) \<Rightarrow> nat list \<Rightarrow> service \<Rightarrow> bool" where
  "managed_within N F s \<longleftrightarrow> wf_state s \<and> (\<forall>e \<in> set (sv_management s). N (ms_profile (snd e)))"

definition disk_is :: "config_disk \<Rightarrow> nat list \<Rightarrow> service \<Rightarrow> bool" where
  "disk_is d F s \<longleftrightarrow> wf_state s \<and> sv_config s = d"

lemma managed_less:
  assumes "managed_within N F s" and "wf_state s'" and "set (sv_management s') \<subseteq> set (sv_management s)"
  shows "managed_within N G s'"
  using assms by (auto simp: managed_within_def)

lemma managed_same:
  "managed_within N F s \<Longrightarrow> sv_consumers s' = sv_consumers s \<Longrightarrow> sv_management s' = sv_management s \<Longrightarrow>
     managed_within N G s'"
  by (simp add: managed_within_def wf_state_def)

lemma disk_same:
  "disk_is d F s \<Longrightarrow> sv_consumers s' = sv_consumers s \<Longrightarrow> sv_management s' = sv_management s \<Longrightarrow>
     sv_config s' = sv_config s \<Longrightarrow> disk_is d G s'"
  by (simp add: disk_is_def wf_state_def)

lemma managed_primitives:
  "managed_within N F s \<Longrightarrow> managed_within N F (clear_lease_locked h i s)"
  "managed_within N F s \<Longrightarrow> managed_within N F (record_locked E k p cid lab r d s)"
  "managed_within N F s \<Longrightarrow> managed_within N F (drop_consumer h s)"
  "managed_within N F s \<Longrightarrow> managed_within N F (drop_management t m s)"
  "managed_within N F s \<Longrightarrow> wf_state s"
  by (auto simp: managed_within_def wf_clear_lease wf_record wf_drop_consumer wf_drop_management frame)
    (auto simp: drop_management_sessions delete_filter)

lemma disk_primitives:
  "disk_is d F s \<Longrightarrow> disk_is d F (clear_lease_locked h i s)"
  "disk_is d F s \<Longrightarrow> disk_is d F (record_locked E k p cid lab r x s)"
  "disk_is d F s \<Longrightarrow> disk_is d F (drop_consumer h s)"
  "disk_is d F s \<Longrightarrow> disk_is d F (drop_management t m s)"
  "disk_is d F s \<Longrightarrow> wf_state s"
  by (simp_all add: disk_is_def wf_clear_lease wf_record wf_drop_consumer wf_drop_management frame)

interpretation managed_kept: kept_by_primitives "managed_within N F" for N F
  by unfold_locales (blast intro: managed_primitives)+

interpretation disk_kept: kept_by_primitives "disk_is d F" for d F
  by unfold_locales (blast intro: disk_primitives)+

lemma alloc_same:
  "alloc bs s = (a, s') \<Longrightarrow> sv_consumers s' = sv_consumers s \<and> sv_management s' = sv_management s \<and>
     sv_config s' = sv_config s"
  by (auto simp: alloc_def)

interpretation managed_names: kept_by_operations "managed_within N" for N
proof unfold_locales
  show "managed_within N (a # F) s'" if "managed_within N F s" "alloc bs s = (a, s')" for N F s bs a s'
    using that alloc_same by (blast intro: managed_same)
qed (rule managed_primitives; assumption | erule managed_same; simp add: frame log_effect_def)+

interpretation disk_kept_by: kept_by_readers "disk_is d" for d
proof unfold_locales
  show "disk_is d (a # F) s'" if "disk_is d F s" "alloc bs s = (a, s')" for d F s bs a s'
    using that alloc_same by (blast intro: disk_same)
qed (rule disk_primitives; assumption | erule disk_same; simp add: frame log_effect_def)+

end
