(* ===== verification/Configured_Leases.thy ===== *)
theory Configured_Leases
  imports Lease_Contents Agent_Properties Profile_Properties
begin

text \<open>
  The leases and the configuration stay in step: whatever runs in between, each lease names a
  profile that is configured with the same kind, the secret of an SSH lease is the seed of the
  configured public key, and each management session is for a configured profile that is not an
  SSH identity. \<^verbatim>\<open>profileMu\<close> is what makes this true, so the proof follows the operations that
  hold it through their phases.
\<close>

section \<open>What a lease owes to the configuration\<close>

definition disk_config :: "service \<Rightarrow> config" where
  "disk_config s = (case config_load None (sv_config s) of Inl e \<Rightarrow> \<lparr>cfg_profiles = []\<rparr> | Inr cfg \<Rightarrow> cfg)"

text \<open>The authorized-keys line of the public key that the stored text of a seed stands for.\<close>

definition identity_line :: "env \<Rightarrow> bytes \<Rightarrow> gostring option" where
  "identity_line E secret =
     (case std_decode secret of
        None \<Rightarrow> None
      | Some seed \<Rightarrow>
          if length seed \<noteq> 32 then None
          else case env_ssh_public E (env_public_of_seed E seed) of
            Inl msg \<Rightarrow> None
          | Inr blob \<Rightarrow> Some (trim_space (env_ssh_authorized_line E blob)))"

lemma identity_accepted: "fst (validate_ssh_secret E secret expected s) = None \<longleftrightarrow> identity_line E secret = Some expected"
  unfolding ssh_secret_must_match
  by (auto simp: identity_line_def new_key_from_seed_def split: option.split sum.split)

definition configured :: "env \<Rightarrow> config \<Rightarrow> lease \<Rightarrow> bytes \<Rightarrow> bool" where
  "configured E cfg m secret \<longleftrightarrow>
     (\<exists>p. go_get (cfg_profiles cfg) (lease_profile m) = Some p \<and>
        (profile_kind p = ''ssh'' \<longleftrightarrow> lease_kind m = ''ssh'') \<and>
        (lease_kind m = ''ssh'' \<longrightarrow> identity_line E secret = Some (profile_public_key p)))"

definition editable :: "config \<Rightarrow> gostring \<Rightarrow> bool" where
  "editable cfg n \<longleftrightarrow> go_get (cfg_profiles cfg) n \<noteq> None \<and> kind_of cfg n \<noteq> ''ssh''"

text \<open>The configuration an operation has read is the one on disk.\<close>

lemma load_current: "fst (load_config E s) = Inr cfg \<Longrightarrow> config_load None (sv_config s) = Inr cfg"
  by (auto simp: load_config_def config_load_def split: option.splits contents.splits)

lemma disk_config_current: "config_load None (sv_config s) = Inr cfg \<Longrightarrow> disk_config s = cfg"
  by (simp add: disk_config_def)

lemma disk_config_cong: "sv_config s' = sv_config s \<Longrightarrow> disk_config s' = disk_config s"
  by (simp add: disk_config_def)

lemma disk_config_frame:
  "disk_config (snd (load_config E s)) = disk_config s" "disk_config (snd (alloc bs s)) = disk_config s"
  "disk_config (clear_bytes a s) = disk_config s" "disk_config (clear_identity a b c s) = disk_config s"
  by (rule disk_config_cong, simp add: frame clear_identity_def)+

section \<open>Writing the configuration\<close>

lemma save_config_disk:
  assumes "config_load None (sv_config s) = Inr cfg"
  shows "disk_config (snd (save_config E cfg' s)) \<in> {cfg, cfg'}"
proof -
  obtain e d where sv: "config_save (env_write_fault E (sv_calls s)) cfg' (sv_config s) = (e, d)" by force
  have "config_load None d = Inr cfg \<or> config_load None d = Inr cfg'"
    using sv
    unfolding config_save_def Let_def
    using config_writer.replace_atomic [of "env_write_fault E (sv_calls s)" "Some (cfg_profiles cfg')" "sv_config s"] assms
    by (auto simp: config_load_def new_file_def)
  then show ?thesis using sv by (auto simp: disk_config_def save_config_def Let_def frame)
qed

lemma write_profile_disk:
  assumes "config_load None (sv_config s) = Inr cfg"
  shows "disk_config (snd (write_profile E n a p cfg f s)) \<in> {cfg, put_profile n p cfg}"
proof -
  let ?k = "keychain_store E n (buffer s a) s"
  have k: "config_load None (sv_config (snd ?k)) = Inr cfg" using assms by (simp add: frame)
  then show ?thesis
    using save_config_disk [OF k, of E "put_profile n p cfg"] disk_config_current [OF k]
    by (simp add: write_profile_def case_prod_beta split: option.split)
qed

text \<open>What it means for the leases.\<close>

lemma configured_put:
  assumes "configured E cfg m bs" and "kind_of cfg n \<noteq> ''ssh''" and "profile_kind p \<noteq> ''ssh''"
  shows "configured E (put_profile n p cfg) m bs"
  using assms by (cases "lease_profile m = n")
    (auto simp: configured_def put_profile_def kind_of_def gm.get_put)

lemma editable_put:
  assumes "editable cfg m" and "profile_kind p \<noteq> ''ssh''"
  shows "editable (put_profile n p cfg) m"
  using assms by (auto simp: editable_def put_profile_def kind_of_def gm.get_put)

lemma configured_new:
  "configured E cfg m bs \<Longrightarrow> go_get (cfg_profiles cfg) n = None \<Longrightarrow> configured E (put_profile n p cfg) m bs"
  by (auto simp: configured_def put_profile_def gm.get_put)

lemma editable_new: "editable cfg m \<Longrightarrow> go_get (cfg_profiles cfg) n = None \<Longrightarrow> editable (put_profile n p cfg) m"
  by (auto simp: editable_def put_profile_def kind_of_def gm.get_put)

lemma configured_delete:
  "configured E cfg m bs \<Longrightarrow> lease_profile m \<noteq> n \<Longrightarrow>
     configured E (cfg\<lparr>cfg_profiles := go_del n (cfg_profiles cfg)\<rparr>) m bs"
  by (auto simp: configured_def gm.get_del)

lemma editable_delete:
  "editable cfg m \<Longrightarrow> m \<noteq> n \<Longrightarrow> editable (cfg\<lparr>cfg_profiles := go_del n (cfg_profiles cfg)\<rparr>) m"
  by (auto simp: editable_def kind_of_def gm.get_del)

section \<open>A grant in flight\<close>

lemma key_extends: "extends s (snd (ssh_private_key E x s))"
  by (rule ssh_private_key_extends)

lemma identity_extends: "extends s (snd (check_identity E p a s))"
proof -
  have "length (sv_heap s) \<le> k" if "fst (ssh_private_key E x s) = Inr k" for x k
    using ssh_private_key_result [of E x s] that by (auto split: sum.splits)
  then show ?thesis
    by (auto simp: check_identity_def validate_ssh_secret_def case_prod_beta extends_refl key_extends
        split: sum.split intro!: extends_clear)
qed

lemma grant_read_configured:
  assumes "fst (grant_read E gc n p d s) = Inr g"
  shows "lease_profile (gy_lease g) = n \<and> lease_kind (gy_lease g) = profile_kind p \<and>
    (profile_kind p = ''ssh'' \<longrightarrow>
       identity_line E (buffer (snd (grant_read E gc n p d s)) (gy_secret g)) = Some (profile_public_key p))"
proof -
  let ?k = "keychain_read E n (grant_message gc n p d) s"
  obtain a where a: "fst ?k = Inr a" using assms by (auto simp: grant_read_def case_prod_beta split: sum.splits)
  let ?c = "check_identity E p a (snd ?k)"
  have c: "fst ?c = None" using assms a by (auto simp: grant_read_def case_prod_beta split: option.splits)
  obtain i where i: "fst (random_identifier E ''lease_'' (snd ?c)) = Inr i"
    using assms a c by (auto simp: grant_read_def case_prod_beta split: sum.splits)
  have g: "gy_secret g = a" "lease_profile (gy_lease g) = n" "lease_kind (gy_lease g) = profile_kind p"
    and h: "sv_heap (snd (grant_read E gc n p d s)) = sv_heap (snd ?c)"
    using assms a c i
    by (auto simp: grant_read_def case_prod_beta Let_def time_now_def random_identifier_def frame)
  have "a < length (sv_heap (snd ?k))"
    using a by (auto simp: keychain_read_def case_prod_beta alloc_def log_effect_def frame split: sum.splits)
  then have "buffer (snd ?c) a = buffer (snd ?k) a"
    using identity_extends [of "snd ?k" E p a] by (simp add: extends_def)
  moreover have "identity_line E (buffer (snd ?k) a) = Some (profile_public_key p)" if "profile_kind p = ''ssh''"
    using c that identity_accepted by (simp add: check_identity_def)
  ultimately show ?thesis using g h by (simp add: buffer_def)
qed

lemma grant_approve_configured:
  assumes "fst (grant_approve E gc s) = Inr g"
  shows "configured E (disk_config s) (gy_lease g) (buffer (snd (grant_approve E gc s)) (gy_secret g))"
proof -
  let ?s1 = "snd (load_config E s)" let ?s2 = "snd (time_now E ?s1)" let ?n = "gr_profile (gc_request gc)"
  obtain cfg p asked d where steps: "fst (load_config E s) = Inr cfg" "resolve cfg ?n = Inr (?n, p)"
    "requested_duration (gc_request gc) p = Inr asked"
    "capped_duration (time_sub (gc_consumer_expires_at gc) (fst (time_now E ?s1))) asked = Inr d"
    using assms by (auto simp: grant_approve_def case_prod_beta Let_def resolve_Inr split: sum.splits)
  then have eq: "grant_approve E gc s = grant_read E gc ?n p d ?s2"
    by (simp add: grant_approve_def case_prod_beta Let_def)
  have "go_get (cfg_profiles (disk_config s)) ?n = Some p"
    using steps(1,2) load_current disk_config_current by (fastforce simp: resolve_Inr)
  then show ?thesis
    using grant_read_configured [of E gc ?n p d ?s2 g] assms eq by (auto simp: configured_def)
qed

text \<open>A commit adds one lease, with the buffer that was in flight.\<close>

lemma put_lease_leases: "set (all_leases (put_lease h l a s)) \<subseteq> insert \<lparr>al_metadata = l, al_secret = a\<rparr> (set (all_leases s))"
proof
  fix x assume "x \<in> set (all_leases (put_lease h l a s))"
  then obtain e where e: "e \<in> set (at_key h (\<lambda>c. c\<lparr>cs_leases :=
      go_put (lease_id l) \<lparr>al_metadata = l, al_secret = a\<rparr> (cs_leases c)\<rparr>) (sv_consumers s))"
    "x \<in> snd ` set (cs_leases (snd e))"
    by (auto simp: all_leases_set put_lease_def modify_consumers)
  then obtain c where c: "(fst e, c) \<in> set (sv_consumers s)" "snd e = (if fst e = h then c\<lparr>cs_leases :=
      go_put (lease_id l) \<lparr>al_metadata = l, al_secret = a\<rparr> (cs_leases c)\<rparr> else c)"
    by (auto simp: at_key_mem)
  then have "x = \<lparr>al_metadata = l, al_secret = a\<rparr> \<or> x \<in> snd ` set (cs_leases c)"
    using e(2) update_subset by (fastforce split: if_splits)
  then show "x \<in> insert \<lparr>al_metadata = l, al_secret = a\<rparr> (set (all_leases s))"
    using c(1) by (force simp: all_leases_set)
qed

lemma hold_put_lease:
  assumes ok: "leases_hold Q (a # F) s" and c: "go_get (sv_consumers s) h = Some c"
    and free: "go_get (cs_leases c) (lease_id l) = None" and q: "Q l (buffer s a)"
  shows "leases_hold Q F (put_lease h l a s)"
proof -
  have "memory_ok F (put_lease h l a s)"
    using ok c free by (auto simp: leases_hold_def intro: memory_put_lease)
  moreover have "buffer (put_lease h l a s) x = buffer s x" for x
    by (simp add: buffer_def put_lease_def frame)
  ultimately show ?thesis
    using ok q put_lease_leases [of h l a s] by (auto simp: leases_hold_def)
qed

lemma hold_install:
  assumes ok: "leases_hold Q (gy_secret g # F) s" and c: "go_get (sv_consumers s) h = Some c"
    and free: "go_get (cs_leases c) (lease_id (gy_lease g)) = None"
    and q: "Q (gy_lease g) (buffer s (gy_secret g))"
  shows "leases_hold Q F (install_lease E h g s)"
proof -
  let ?keep = "\<lambda>x. lease_profile (al_metadata x) \<noteq> lease_profile (gy_lease g)"
  let ?s1 = "sweep_leases E h (gc_consumer_id (gy_context g)) (gc_consumer_label (gy_context g)) ?keep ''revoked''
      ''Replaced by a newer lease for this consumer and profile'' (leases_at s h) s"
  have 1: "leases_hold Q (gy_secret g # F) ?s1" using ok by (rule holds_kept.sweep)
  have "holding (gy_secret g) (buffer s (gy_secret g)) (gy_secret g # F) s"
    using ok by (intro holding_now) (auto simp: leases_hold_def)
  then have "holding (gy_secret g) (buffer s (gy_secret g)) (gy_secret g # F) ?s1" by (rule holding_kept.sweep)
  then have 2: "buffer ?s1 (gy_secret g) = buffer s (gy_secret g)" by (simp add: holding_buffer)
  have 3: "go_get (sv_consumers ?s1) h = Some (keep_leases ?keep c)"
    using c hold_wf [OF ok] by (simp add: sweep_consumers at_key_get)
  have "go_get (filter (\<lambda>e. ?keep (snd e)) (cs_leases c)) (lease_id (gy_lease g)) = None"
    using free by (auto simp: map_of_eq_None_iff)
  then have "leases_hold Q F (put_lease h (gy_lease g) (gy_secret g) ?s1)"
    using hold_put_lease [OF 1 3] q 2 by simp
  moreover have "leases_hold Q F (x\<lparr>sv_revision := v\<rparr>)" if "leases_hold Q F x" for x v
    using that by (rule hold_same) simp_all
  ultimately show ?thesis by (simp add: install_lease_def Let_def hold_record)
qed

text \<open>The session the lease goes to, old or new, is put in place.\<close>

lemma hold_target:
  assumes ok: "leases_hold Q F s" and t: "commit_target E g s = Inr s2"
  shows "leases_hold Q F s2" and "sv_heap s2 = sv_heap s"
proof -
  let ?h = "sha256 (gc_token (gy_context g))"
  have cases: "s2 = start_consumer E ?h g s \<and> go_get (sv_consumers s) ?h = None \<or> s2 = s"
    using t by (auto simp: commit_target_at split: option.splits if_splits)
  then show "sv_heap s2 = sv_heap s" by (auto simp: frame)
  have "leases_hold Q F (put_consumer ?h (new_session g) s)" if "go_get (sv_consumers s) ?h = None"
  proof (rule leases_hold_step [OF ok])
    show "memory_ok F (put_consumer ?h (new_session g) s)"
      using ok that by (auto simp: leases_hold_def new_session_def Let_def intro: memory_put_consumer)
    have "?h \<notin> fst ` set (sv_consumers s)" using that by (simp add: map_of_eq_None_iff)
    then show "set (all_leases (put_consumer ?h (new_session g) s)) \<subseteq> set (all_leases s)"
      by (auto simp: all_leases_set put_consumer_def update_absent new_session_def Let_def)
  qed (simp add: buffer_def put_consumer_def)
  then show "leases_hold Q F s2" using cases ok by (auto simp: start_consumer_def intro: hold_record)
qed

lemma hold_commit:
  assumes ok: "leases_hold Q (gy_secret g # F) s"
    and free: "\<And>c. commit_session E g s = Some c \<Longrightarrow> go_get (cs_leases c) (lease_id (gy_lease g)) = None"
    and q: "Q (gy_lease g) (buffer s (gy_secret g))"
  shows "leases_hold Q F (snd (grant_commit E g s))"
proof (cases "commit_session E g s")
  case None
  obtain e where "fst (grant_commit E g s) = Inl e" using commit_refused [OF None] by (metis fst_conv)
  then show ?thesis using lease_contents.grant_commit_refused [OF ok] by blast
next
  case (Some c)
  let ?h = "sha256 (gc_token (gy_context g))" let ?s1 = "expire_locked E (gy_now g) s"
  have 1: "leases_hold Q (gy_secret g # F) ?s1" using ok by (rule holds_kept.expire)
  have "holding (gy_secret g) (buffer s (gy_secret g)) (gy_secret g # F) s"
    using ok by (intro holding_now) (auto simp: leases_hold_def)
  then have "holding (gy_secret g) (buffer s (gy_secret g)) (gy_secret g # F) ?s1" by (rule holding_kept.expire)
  then have b: "buffer ?s1 (gy_secret g) = buffer s (gy_secret g)" by (simp add: holding_buffer)
  obtain s2 where s2: "commit_target E g ?s1 = Inr s2" "go_get (sv_consumers s2) ?h = Some c"
    using commit_accepted [OF hold_wf [OF ok] Some] by (auto simp: fun_upd_def)
  have "leases_hold Q (gy_secret g # F) s2" and h2: "sv_heap s2 = sv_heap ?s1" using hold_target [OF 1 s2(1)] .
  then have "leases_hold Q F (install_lease E ?h g s2)"
    using s2(2) free [OF Some] q b h2 by (intro hold_install) (simp_all add: buffer_def)
  then show ?thesis using s2(1) by (simp add: grant_commit_def Let_def)
qed

lemma commit_frame:
  "sv_config (snd (grant_commit E g s)) = sv_config s"
  "sv_management (snd (grant_commit E g s)) = sv_management s"
  by (simp_all add: grant_commit_def Let_def commit_target_at frame split: sum.split option.split)

section \<open>Steps that leave the configuration alone\<close>

text \<open>\<open>carries F G s s'\<close>: what is known of the leases, of the buffers in flight and of the managed
  profiles before is known afterwards, when \<open>F\<close> was in flight before and \<open>G\<close> is now.\<close>

definition carries :: "nat list \<Rightarrow> nat list \<Rightarrow> service \<Rightarrow> service \<Rightarrow> bool" where
  "carries F G s s' \<longleftrightarrow>
     (\<forall>Q. leases_hold Q F s \<longrightarrow> leases_hold Q G s') \<and>
     (\<forall>a bs. holding a bs F s \<longrightarrow> holding a bs G s') \<and>
     (\<forall>N. managed_within N F s \<longrightarrow> managed_within N G s')"

definition quiet :: "nat list \<Rightarrow> nat list \<Rightarrow> service \<Rightarrow> service \<Rightarrow> bool" where
  "quiet F G s s' \<longleftrightarrow> carries F G s s' \<and> sv_config s' = sv_config s"

lemma carriesI:
  assumes "\<And>Q. leases_hold Q F s \<Longrightarrow> leases_hold Q G s'"
    and "\<And>a bs. holding a bs F s \<Longrightarrow> holding a bs G s'"
    and "\<And>N. managed_within N F s \<Longrightarrow> managed_within N G s'"
  shows "carries F G s s'"
  using assms by (simp add: carries_def)

lemma quietI:
  assumes "wf_state s"
    and "\<And>Q. leases_hold Q F s \<Longrightarrow> leases_hold Q G s'"
    and "\<And>a bs. holding a bs F s \<Longrightarrow> holding a bs G s'"
    and "\<And>N. managed_within N F s \<Longrightarrow> managed_within N G s'"
    and "disk_is (sv_config s) F s \<Longrightarrow> disk_is (sv_config s) G s'"
  shows "quiet F G s s'"
  using assms by (simp add: quiet_def carries_def disk_is_def)

lemma quiet_perform: "wf_state s \<Longrightarrow> quiet F F s (perform E W r s)"
  by (rule quietI) (erule lease_contents.performs held_buffer.performs managed_names.performs
      disk_kept_by.performs | assumption)+

lemma quiet_grant_begin: "wf_state s \<Longrightarrow> quiet F F s (snd (grant_begin E r s))"
  by (rule quietI) (erule lease_contents.grant_begins held_buffer.grant_begins
      managed_names.grant_begins disk_kept_by.grant_begins | assumption)+

lemma quiet_grant_refused:
  "wf_state s \<Longrightarrow> fst (grant_approve E gc s) = Inl e \<Longrightarrow> quiet F F s (snd (grant_approve E gc s))"
  by (rule quietI) (erule lease_contents.grant_refused held_buffer.grant_refused
      managed_names.grant_refused disk_kept_by.grant_refused, assumption | assumption)+

lemma quiet_grant_approved:
  "wf_state s \<Longrightarrow> fst (grant_approve E gc s) = Inr g \<Longrightarrow>
     quiet F (gy_secret g # F) s (snd (grant_approve E gc s))"
  by (rule quietI) (erule lease_contents.grant_approved held_buffer.grant_approved
      managed_names.grant_approved disk_kept_by.grant_approved, assumption | assumption)+

lemma quiet_execute_refused:
  "wf_state s \<Longrightarrow> fst (execute_begin E r s) = Inl e \<Longrightarrow> quiet F F s (snd (execute_begin E r s))"
  by (rule quietI) (erule lease_contents.execute_refused held_buffer.execute_refused
      managed_names.execute_refused disk_kept_by.execute_refused, assumption | assumption)+

lemma quiet_execute_begins:
  "wf_state s \<Longrightarrow> fst (execute_begin E r s) = Inr x \<Longrightarrow>
     quiet F (xr_secret x # F) s (snd (execute_begin E r s))"
  by (rule quietI) (erule lease_contents.execute_begins held_buffer.execute_begins
      managed_names.execute_begins disk_kept_by.execute_begins, assumption | assumption)+

lemma quiet_execute_finishes: "wf_state s \<Longrightarrow> quiet (xr_secret x # F) F s (snd (execute_finish E x s))"
  by (rule quietI) (erule lease_contents.execute_finishes held_buffer.execute_finishes
      managed_names.execute_finishes disk_kept_by.execute_finishes | assumption)+

lemma quiet_reordered: "wf_state s \<Longrightarrow> reordered s s' \<Longrightarrow> quiet F F s s'"
proof (rule quietI)
  assume wf: "wf_state s" and r: "reordered s s'"
  have m: "set (sv_management s') = set (sv_management s)" "sv_config s' = sv_config s"
    using r by (auto simp: frame elim!: reordered.cases dest: mset_eq_setD)
  show "managed_within N F s \<Longrightarrow> managed_within N F s'" for N
    using m wf_reordered [OF wf r] by (auto intro: managed_less)
  show "disk_is (sv_config s) F s \<Longrightarrow> disk_is (sv_config s) F s'"
    using m wf_reordered [OF wf r] by (simp add: disk_is_def)
qed (auto intro: hold_reordered holding_reordered)

lemma quiet_shuffle_buffers: "wf_state s \<Longrightarrow> mset F = mset G \<Longrightarrow> quiet F G s s"
  by (rule quietI) (auto intro: hold_reorder holding_reorder simp: managed_within_def disk_is_def)

lemma quiet_trans: "quiet F G s s' \<Longrightarrow> quiet G H s' s'' \<Longrightarrow> quiet F H s s''"
  by (simp add: quiet_def carries_def)

text \<open>The phases.\<close>

lemma carries_begin: "carries F (phase_buffers (fst (begin_call E c s)) @ F) s (snd (begin_call E c s))"
  by (rule carriesI) (erule lease_contents.begins_call held_buffer.begins_call managed_names.begins_call)+

lemma carries_next:
  "\<not> opens_session j \<Longrightarrow>
     carries (job_buffers j @ F) (phase_buffers (fst (next_phase E j s)) @ F) s (snd (next_phase E j s))"
  by (rule carriesI) (erule lease_contents.continues_closed held_buffer.continues_closed
      managed_names.continues_closed, assumption)+

lemma next_config:
  assumes "wf_state s" and "\<not> writes_config j"
  shows "sv_config (snd (next_phase E j s)) = sv_config s"
proof (cases "opens_session j")
  case True
  then show ?thesis by (cases j) (simp_all add: case_prod_beta open_management_def Let_def
      expire_management_sessions_locked_def frame put_management_def)
next
  case False
  then show ?thesis
    using disk_kept_by.continues_reading [of "sv_config s" j "[]" s E] assms by (simp add: disk_is_def)
qed

section \<open>The invariant\<close>

text \<open>What a job remembers of the configuration is still true of it.\<close>

fun job_ok :: "profile_job \<Rightarrow> service \<Rightarrow> bool" where
  "job_ok (OpenSession n a t) s = editable (disk_config s) n"
| "job_ok (ConsumeSession n r cfg a) s = (config_load None (sv_config s) = Inr cfg \<and> editable cfg n)"
| "job_ok (WriteUpdate n r cfg a) s = (config_load None (sv_config s) = Inr cfg \<and> editable cfg n)"
| "job_ok (Forget n cfg) s = (config_load None (sv_config s) = Inr cfg)"
| "job_ok (SaveDeletion n cfg) s =
     (config_load None (sv_config s) = Inr cfg \<and>
      (\<forall>l \<in> set (all_leases s). lease_profile (al_metadata l) \<noteq> n) \<and>
      (\<forall>e \<in> set (sv_management s). ms_profile (snd e) \<noteq> n))"
| "job_ok _ s = True"

definition in_step :: "env \<Rightarrow> config \<Rightarrow> nat list \<Rightarrow> service \<Rightarrow> bool" where
  "in_step E cfg F s \<longleftrightarrow> leases_hold (configured E cfg) F s \<and> managed_within (editable cfg) F s"

definition config_ok :: "env \<Rightarrow> system \<Rightarrow> bool" where
  "config_ok E S \<longleftrightarrow>
     in_step E (disk_config (sys_service S)) (in_flight S) (sys_service S) \<and>
     (case sys_ready S of
        None \<Rightarrow> True
      | Some g \<Rightarrow> sys_job S = None \<and>
          configured E (disk_config (sys_service S)) (gy_lease g) (buffer (sys_service S) (gy_secret g))) \<and>
     (case sys_job S of None \<Rightarrow> True | Some j \<Rightarrow> job_ok j (sys_service S))"

lemma config_okI:
  assumes "in_step E (disk_config (sys_service S)) (in_flight S) (sys_service S)"
    and "\<And>g. sys_ready S = Some g \<Longrightarrow> sys_job S = None \<and>
      configured E (disk_config (sys_service S)) (gy_lease g) (buffer (sys_service S) (gy_secret g))"
    and "\<And>j. sys_job S = Some j \<Longrightarrow> job_ok j (sys_service S)"
  shows "config_ok E S"
  using assms by (simp add: config_ok_def split: option.split)

lemma config_okD:
  assumes "config_ok E S"
  shows "in_step E (disk_config (sys_service S)) (in_flight S) (sys_service S)"
    and "sys_ready S = Some g \<Longrightarrow> sys_job S = None \<and>
      configured E (disk_config (sys_service S)) (gy_lease g) (buffer (sys_service S) (gy_secret g))"
    and "sys_job S = Some j \<Longrightarrow> job_ok j (sys_service S)"
  using assms by (simp_all add: config_ok_def)

lemma in_step_wf: "in_step E cfg F s \<Longrightarrow> wf_state s"
  by (auto simp: in_step_def intro: hold_wf)

lemma in_step_memory: "in_step E cfg F s \<Longrightarrow> memory_ok F s"
  by (simp add: in_step_def leases_hold_def)

lemma in_step_carries: "in_step E cfg F s \<Longrightarrow> carries F G s s' \<Longrightarrow> in_step E cfg G s'"
  by (simp add: in_step_def carries_def)

text \<open>A job is not disturbed by what others do.\<close>

lemma job_ok_quiet:
  assumes "job_ok j s" and "quiet F G s s'" and "memory_ok F s"
  shows "job_ok j s'"
proof -
  have c: "sv_config s' = sv_config s" using assms(2) by (simp add: quiet_def)
  show ?thesis
  proof (cases j)
    case (SaveDeletion n cfg)
    then have "leases_hold (\<lambda>m bs. lease_profile m \<noteq> n) F s" "managed_within (\<lambda>m. m \<noteq> n) F s"
      using assms memory_wf by (auto simp: leases_hold_def managed_within_def)
    then have "leases_hold (\<lambda>m bs. lease_profile m \<noteq> n) G s'" "managed_within (\<lambda>m. m \<noteq> n) G s'"
      using assms(2) by (simp_all add: quiet_def carries_def)
    then show ?thesis
      using SaveDeletion assms(1) c by (simp add: leases_hold_def managed_within_def)
  qed (use assms(1) c disk_config_cong [OF c] in simp_all)
qed

lemma config_quiet:
  assumes ok: "config_ok E S" and q: "quiet (in_flight S) (in_flight S') (sys_service S) (sys_service S')"
    and r: "sys_ready S' = sys_ready S" and j: "sys_job S' = sys_job S"
  shows "config_ok E S'"
proof -
  let ?s = "sys_service S" let ?s' = "sys_service S'"
  have "sv_config ?s' = sv_config ?s" using q by (simp add: quiet_def)
  then have d: "disk_config ?s' = disk_config ?s" by (rule disk_config_cong)
  have step: "in_step E (disk_config ?s) (in_flight S) ?s" using ok by (simp add: config_ok_def)
  have mem: "memory_ok (in_flight S) ?s" using step by (rule in_step_memory)
  have b: "buffer ?s' (gy_secret g) = buffer ?s (gy_secret g)" if "sys_ready S = Some g" for g
  proof -
    have "holding (gy_secret g) (buffer ?s (gy_secret g)) (in_flight S) ?s"
      using that by (intro holding_now [OF mem]) (simp add: in_flight_def)
    then have "holding (gy_secret g) (buffer ?s (gy_secret g)) (in_flight S') ?s'"
      using q by (simp add: quiet_def carries_def)
    then show ?thesis using that r by (elim holding_buffer) (simp add: in_flight_def)
  qed
  show ?thesis
  proof (rule config_okI)
    show "in_step E (disk_config ?s') (in_flight S') ?s'"
      using in_step_carries [OF step] q unfolding d quiet_def by blast
    show "sys_job S' = None \<and> configured E (disk_config ?s') (gy_lease g) (buffer ?s' (gy_secret g))"
      if "sys_ready S' = Some g" for g
      using config_okD(2) [OF ok] that b unfolding d r j by simp
    show "job_ok i ?s'" if "sys_job S' = Some i" for i
      using config_okD(3) [OF ok] that job_ok_quiet [OF _ q mem] unfolding j by blast
  qed
qed

lemma config_service:
  "config_ok E S \<Longrightarrow> quiet (in_flight S) (in_flight S) (sys_service S) s \<Longrightarrow> config_ok E (S\<lparr>sys_service := s\<rparr>)"
  by (rule config_quiet) (simp_all add: in_flight_def)

lemma config_wf: "config_ok E S \<Longrightarrow> wf_state (sys_service S)"
  by (auto simp: config_ok_def intro: in_step_wf)

text \<open>The operation that holds \<^verbatim>\<open>profileMu\<close> goes on.\<close>

lemma config_job:
  assumes "in_step E (disk_config s) (in_flight (S\<lparr>sys_job := j\<rparr>)) s" and "sys_ready S = None"
    and "case j of None \<Rightarrow> True | Some i \<Rightarrow> job_ok i s"
  shows "config_ok E (S\<lparr>sys_service := s, sys_job := j\<rparr>)"
  using assms by (intro config_okI) (simp_all add: in_flight_def)

text \<open>How an operation on profiles starts.\<close>

lemma begin_manage_job:
  assumes "begin_manage E n s = (Next j, s')"
  shows "\<exists>a t. j = OpenSession n a t \<and> editable (disk_config s) n \<and> sv_config s' = sv_config s"
proof -
  obtain cfg where cfg: "fst (load_config E s) = Inr cfg"
    using assms by (auto simp: begin_manage_def case_prod_beta split: sum.splits)
  then have "disk_config s = cfg" using load_current disk_config_current by blast
  then show ?thesis
    using assms cfg
    by (auto simp: begin_manage_def case_prod_beta editable_def authorize_profile_management_def frame
        split: sum.splits if_splits)
qed

lemma begin_update_job:
  assumes "begin_update E n r s = (Next j, s')"
  shows "\<exists>cfg a. j = ConsumeSession n r cfg a \<and> config_load None (sv_config s) = Inr cfg \<and>
    editable cfg n \<and> sv_config s' = sv_config s"
proof -
  let ?s1 = "snd (alloc (pu_secret r) s)"
  obtain cfg where cfg: "fst (load_config E ?s1) = Inr cfg"
    using assms by (auto simp: begin_update_def Let_def case_prod_beta split: sum.splits option.splits if_splits)
  then have "config_load None (sv_config s) = Inr cfg" using load_current [of E ?s1] by (simp add: frame)
  then show ?thesis
    using assms cfg
    by (auto simp: begin_update_def Let_def case_prod_beta editable_def frame
        split: sum.splits option.splits if_splits)
qed

lemma begin_delete_job:
  assumes "begin_delete E n s = (Next j, s')"
  shows "\<exists>cfg. j = Forget n cfg \<and> config_load None (sv_config s) = Inr cfg \<and> sv_config s' = sv_config s"
proof -
  obtain cfg where cfg: "fst (load_config E s) = Inr cfg"
    using assms by (auto simp: begin_delete_def case_prod_beta split: sum.splits)
  then show ?thesis
    using assms load_current [OF cfg]
    by (auto simp: begin_delete_def case_prod_beta frame split: sum.splits option.splits if_splits)
qed

text \<open>A new or overwritten profile disturbs no lease.\<close>

lemma begin_store_config:
  "disk_config (snd (begin_store E r s)) = disk_config s \<or>
     kind_of (disk_config s) (pr_name r) \<noteq> ''ssh'' \<and>
     disk_config (snd (begin_store E r s)) =
       put_profile (pr_name r) (secret_profile (pr_env r) (pr_lease_seconds r)) (disk_config s)"
proof (cases "fst (load_config E s)")
  case (Inl e)
  then show ?thesis by (simp add: begin_store_def case_prod_beta disk_config_frame)
next
  case (Inr cfg)
  let ?s1 = "snd (load_config E s)" let ?s2 = "snd (alloc (pr_secret r) ?s1)"
  let ?p = "secret_profile (pr_env r) (pr_lease_seconds r)"
  have c: "config_load None (sv_config ?s2) = Inr cfg" using load_current [OF Inr] by (simp add: frame)
  have d: "disk_config s = cfg" using load_current [OF Inr] by (rule disk_config_current)
  show ?thesis
    using write_profile_disk [OF c, of E "pr_name r" "fst (alloc (pr_secret r) ?s1)" ?p
        "During ''store profile'' (pr_name r)"] Inr d
    by (auto simp: begin_store_def case_prod_beta Let_def disk_config_frame split: option.splits)
qed

lemma begin_create_config:
  "disk_config (snd (begin_create E r s)) = disk_config s \<or>
     (\<exists>p. go_get (cfg_profiles (disk_config s)) (sp_name r) = None \<and>
        disk_config (snd (begin_create E r s)) = put_profile (sp_name r) p (disk_config s))"
proof (cases "validate_profile (sp_name r) ''SSH_SIGNING'' (sp_lease_seconds r) = None \<and>
    (\<exists>cfg a. fst (load_config E s) = Inr cfg \<and> go_get (cfg_profiles cfg) (sp_name r) = None \<and>
      fst (generate_key E (snd (load_config E s))) = Inr a)")
  case True
  let ?s1 = "snd (load_config E s)" let ?s2 = "snd (generate_key E ?s1)"
  obtain cfg a where v: "validate_profile (sp_name r) ''SSH_SIGNING'' (sp_lease_seconds r) = None"
    and cfg: "fst (load_config E s) = Inr cfg" "go_get (cfg_profiles cfg) (sp_name r) = None"
    and a: "fst (generate_key E ?s1) = Inr a" using True by blast
  let ?s4 = "snd (alloc (std_encode (buffer (snd (alloc (key_seed (buffer ?s2 a)) ?s2))
      (fst (alloc (key_seed (buffer ?s2 a)) ?s2)))) (snd (alloc (key_seed (buffer ?s2 a)) ?s2)))"
  have g: "sv_config ?s2 = sv_config s"
    by (simp add: generate_key_def case_prod_beta frame split: sum.split)
  then have c: "config_load None (sv_config ?s4) = Inr cfg" using load_current [OF cfg(1)] by (simp add: frame)
  have d: "disk_config s = cfg" using load_current [OF cfg(1)] by (rule disk_config_current)
  have 4: "disk_config ?s4 = cfg" using c by (rule disk_config_current)
  show ?thesis
    using write_profile_disk [OF c, of E "sp_name r"] v cfg a d 4
    by (auto simp: begin_create_def case_prod_beta Let_def disk_config_frame split: sum.splits option.splits)
next
  case False
  have "disk_config (snd (generate_key E (snd (load_config E s)))) = disk_config s"
    by (rule disk_config_cong) (simp add: generate_key_def case_prod_beta frame split: sum.split)
  then show ?thesis
    using False
    by (auto simp: begin_create_def case_prod_beta Let_def disk_config_frame split: sum.split option.split)
qed

text \<open>The whole first phase: what it leaves in step, and what the next one may assume.\<close>

lemma begin_in_step:
  assumes "in_step E (disk_config s) F s"
  shows "in_step E (disk_config (snd (begin_call E c s))) (phase_buffers (fst (begin_call E c s)) @ F)
    (snd (begin_call E c s))"
proof -
  let ?s' = "snd (begin_call E c s)" let ?G = "phase_buffers (fst (begin_call E c s)) @ F"
  have g: "in_step E (disk_config s) ?G ?s'" using assms carries_begin by (rule in_step_carries)
  have weaken: "in_step E cfg ?G ?s'"
    if "\<And>m bs. configured E (disk_config s) m bs \<Longrightarrow> configured E cfg m bs"
      "\<And>n. editable (disk_config s) n \<Longrightarrow> editable cfg n" for cfg
    using g that by (auto simp: in_step_def leases_hold_def managed_within_def)
  show ?thesis
  proof (cases c)
    case (CallStore r)
    then show ?thesis
      using begin_store_config [of E r s] g
        weaken [of "put_profile (pr_name r) (secret_profile (pr_env r) (pr_lease_seconds r)) (disk_config s)"]
      by (auto simp: configured_put editable_put secret_profile_def)
  next
    case (CallManage n)
    then have "disk_config ?s' = disk_config s"
      by (intro disk_config_cong)
        (simp add: begin_manage_def case_prod_beta authorize_profile_management_def frame split: sum.split)
    then show ?thesis using g by simp
  next
    case (CallUpdate n r)
    then have "disk_config ?s' = disk_config s"
      by (intro disk_config_cong) (simp add: begin_update_def Let_def case_prod_beta frame split: sum.split option.split)
    then show ?thesis using g by simp
  next
    case (CallDelete n)
    then have "disk_config ?s' = disk_config s"
      by (intro disk_config_cong) (simp add: begin_delete_def case_prod_beta frame split: sum.split option.split)
    then show ?thesis using g by simp
  next
    case (CallCreate r)
    then show ?thesis
      using begin_create_config [of E r s] g weaken [of "put_profile (sp_name r) p (disk_config s)" for p]
      by (auto simp: configured_new editable_new)
  qed
qed

lemma begin_job_ok:
  assumes "begin_call E c s = (Next j, s')"
  shows "job_ok j s'"
proof (cases c)
  case (CallStore r)
  then show ?thesis
    using assms by (auto simp: begin_store_def Let_def case_prod_beta split: sum.splits option.splits if_splits)
next
  case (CallManage n)
  then show ?thesis using assms begin_manage_job [of E n s j s'] disk_config_cong [of s' s] by auto
next
  case (CallUpdate n r)
  then show ?thesis using assms begin_update_job [of E n r s j s'] by auto
next
  case (CallDelete n)
  then show ?thesis using assms begin_delete_job [of E n s j s'] by auto
next
  case (CallCreate r)
  then show ?thesis
    using assms by (auto simp: begin_create_def Let_def case_prod_beta split: sum.splits option.splits if_splits)
qed

section \<open>Every phase keeps it\<close>

lemma open_management_sessions:
  assumes "wf_state s"
  shows "\<forall>e \<in> set (sv_management (snd (open_management E n a t s))).
    ms_profile (snd e) = n \<or> e \<in> set (sv_management s)"
proof -
  let ?s2 = "snd (time_now E (snd (time_now E s)))"
  have "wf_state ?s2" using assms by (simp add: wf_frame)
  then have "set (sv_management (expire_management_sessions_locked now ?s2)) \<subseteq> set (sv_management s)" for now
    using expire_management_eq [of ?s2 now] by (auto simp: frame)
  moreover have "e = (t, m) \<or> e \<in> set ms" if "e \<in> set (go_put t m ms)" for e m ms
    using that update_subset by fastforce
  ultimately show ?thesis
    by (fastforce simp: open_management_def Let_def case_prod_beta frame put_management_def)
qed

lemma open_in_step:
  assumes ok: "in_step E cfg (a # F) s" and fresh: "go_get (sv_management s) t = None" and n: "editable cfg n"
  shows "in_step E cfg F (snd (open_management E n a t s))"
proof -
  have "leases_hold (configured E cfg) F (snd (open_management E n a t s))"
    using ok fresh by (intro lease_contents.opens) (simp_all add: in_step_def)
  moreover from this have "managed_within (editable cfg) F (snd (open_management E n a t s))"
    using ok n open_management_sessions [of s E n a t] hold_wf
    by (auto simp: in_step_def managed_within_def)
  ultimately show ?thesis by (simp add: in_step_def)
qed

lemma forget_job_ok:
  assumes "wf_state s" and "config_load None (sv_config s) = Inr cfg"
  shows "job_ok (SaveDeletion n cfg) (forget_profile E n s)"
proof -
  have "no_lease_of n (forget_profile E n s)" using assms(1) by (rule forget_profile_state)
  then have "\<forall>l \<in> set (all_leases (forget_profile E n s)). lease_profile (al_metadata l) \<noteq> n"
    by (force simp: no_lease_of_def all_leases_set lease_profiles_def)
  then show ?thesis using forget_profile_state(2,4) [OF assms(1), of E n] assms(2) by auto
qed

lemma next_job_ok:
  assumes "wf_state s" and "job_ok j s" and "next_phase E j s = (Next j', s')"
  shows "job_ok j' s'"
  using assms
proof (cases j)
  case (ConsumeSession n r cfg a)
  then have "sv_config s' = sv_config s" using next_config [OF assms(1), of j E] assms(3) by simp
  then show ?thesis
    using ConsumeSession assms(2,3) by (auto simp: case_prod_beta split: option.splits)
next
  case (WriteUpdate n r cfg a)
  then show ?thesis using assms(3) by (auto simp: case_prod_beta split: option.splits)
next
  case (Forget n cfg)
  then show ?thesis using forget_job_ok [OF assms(1), of cfg n E] assms(2,3) by auto
next
  case (SaveDeletion n cfg)
  then show ?thesis using assms(3) by (auto simp: case_prod_beta split: option.splits)
qed (auto simp: case_prod_beta)

lemma write_update_config:
  assumes "config_load None (sv_config s) = Inr cfg"
  shows "disk_config (snd (next_phase E (WriteUpdate n r cfg a) s)) \<in>
    {cfg, put_profile n (secret_profile (pu_env r) (pu_lease_seconds r)) cfg}"
  using write_profile_disk [OF assms, of E n a "secret_profile (pu_env r) (pu_lease_seconds r)" "During ''update profile'' n"]
  by (simp add: case_prod_beta disk_config_frame split: option.split)

lemma save_deletion_config:
  assumes "config_load None (sv_config s) = Inr cfg"
  shows "disk_config (snd (next_phase E (SaveDeletion n cfg) s)) \<in>
    {cfg, cfg\<lparr>cfg_profiles := go_del n (cfg_profiles cfg)\<rparr>}"
  using save_config_disk [OF assms, of E "cfg\<lparr>cfg_profiles := go_del n (cfg_profiles cfg)\<rparr>"]
  by (simp add: case_prod_beta split: option.split)

lemma next_in_step:
  assumes ok: "in_step E (disk_config s) (job_buffers j @ F) s" and j: "job_ok j s" and fresh: "fresh_job j s"
  shows "in_step E (disk_config (snd (next_phase E j s))) (phase_buffers (fst (next_phase E j s)) @ F)
    (snd (next_phase E j s))"
proof -
  let ?s' = "snd (next_phase E j s)" let ?G = "phase_buffers (fst (next_phase E j s)) @ F"
  have wf: "wf_state s" using ok by (rule in_step_wf)
  show ?thesis
  proof (cases "writes_config j")
    case False
    then have d: "disk_config ?s' = disk_config s" using next_config [OF wf] by (intro disk_config_cong)
    show ?thesis
    proof (cases "opens_session j")
      case True
      then show ?thesis
        using ok j fresh open_in_step unfolding d by (cases j) (auto simp: case_prod_beta)
    next
      case False
      then show ?thesis using in_step_carries [OF ok carries_next] d by simp
    qed
  next
    case True
    then have c: "carries (job_buffers j @ F) ?G s ?s'" by (intro carries_next) (cases j; simp)
    from True consider n r cfg a where "j = WriteUpdate n r cfg a" | n cfg where "j = SaveDeletion n cfg"
      by (cases j) simp_all
    then show ?thesis
    proof cases
      case 1
      let ?cfg' = "put_profile n (secret_profile (pu_env r) (pu_lease_seconds r)) cfg"
      have cfg: "disk_config s = cfg" "editable cfg n" using j 1 disk_config_current by auto
      then have "in_step E cfg ?G ?s'" using in_step_carries [OF ok c] by simp
      moreover from this cfg(2) have "in_step E ?cfg' ?G ?s'"
        by (auto simp: in_step_def leases_hold_def managed_within_def editable_put secret_profile_def
            editable_def [of cfg n] intro!: configured_put)
      ultimately show ?thesis
        using write_update_config [of s cfg E n r a] j 1 by auto
    next
      case 2
      let ?cfg' = "cfg\<lparr>cfg_profiles := go_del n (cfg_profiles cfg)\<rparr>"
      have cfg: "disk_config s = cfg" using j 2 disk_config_current by auto
      have "in_step E cfg ?G ?s'" using in_step_carries [OF ok c] cfg by simp
      moreover have "leases_hold (\<lambda>m bs. lease_profile m \<noteq> n) (job_buffers j @ F) s"
        "managed_within (\<lambda>m. m \<noteq> n) (job_buffers j @ F) s"
        using j 2 ok by (auto simp: in_step_def leases_hold_def managed_within_def)
      then have "leases_hold (\<lambda>m bs. lease_profile m \<noteq> n) ?G ?s'" "managed_within (\<lambda>m. m \<noteq> n) ?G ?s'"
        using c by (simp_all add: carries_def)
      ultimately have "in_step E ?cfg' ?G ?s'"
        by (auto simp: in_step_def leases_hold_def managed_within_def configured_delete editable_delete)
      then show ?thesis
        using \<open>in_step E cfg ?G ?s'\<close> save_deletion_config [of s cfg E n] j 2 by auto
    qed
  qed
qed

end
