(* ===== verification/Sample_Sessions.thy ===== *)
theory Sample_Sessions
  imports Sample_Run Configured_Leases
begin

text \<open>
  Two more runs of the daemon for the properties of reachable states: one that is opening a
  management session, and one that has granted a lease of an SSH identity.
\<close>

section \<open>A management session\<close>

definition managed_token :: gostring where
  "managed_token = ''ksm_'' @ raw_url_encode (replicate 32 (char_of (2 :: nat)))"

definition managed_read :: service where
  "managed_read = empty_service
     \<lparr>sv_calls := 3, sv_heap := [''s3cret''],
      sv_trace := [KeychainRead ''api'' ''Reveal and manage the Key Session profile api. Open the human profile editor and view or change its password.'' True]\<rparr>"

lemma managed_begin:
  "begin_call sample_env (CallManage ''api'') empty_service = (Next (OpenSession ''api'' 0 managed_token), managed_read)"
proof -
  have "kind_of \<lparr>cfg_profiles = sample_profiles\<rparr> ''api'' = []" "go_get sample_profiles ''api'' \<noteq> None"
    by (simp_all add: kind_of_def sample_profiles_def)
  then show ?thesis
    by (simp add: begin_manage_def sample_read authorize_profile_management_def keychain_read_def
        random_capability_def alloc_def log_effect_def next_call_def managed_token_def managed_read_def
        numeral_2_eq_2 numeral_3_eq_3)
qed

definition managed_service :: service where
  "managed_service = snd (open_management sample_env ''api'' 0 managed_token managed_read)"

definition managed_expiry :: time where
  "managed_expiry = 300000000003"

lemma managed_open:
  "next_phase sample_env (OpenSession ''api'' 0 managed_token) managed_read =
     (Next (RevealSecret 0 managed_token managed_expiry), managed_service)"
proof -
  have "time_add 3 management_session_ttl = managed_expiry"
    by (simp add: time_add_def management_session_ttl_def managed_expiry_def minute_def second_def)
  moreover have "env_clock sample_env (sv_calls managed_read) = 3" by (simp add: managed_read_def)
  ultimately show ?thesis
    by (simp add: managed_service_def open_management_def Let_def case_prod_beta time_now_def)
qed

lemma managed_sessions:
  "sv_management managed_service = [(managed_token, \<lparr>ms_profile = ''api'', ms_secret = 0, ms_expires_at = managed_expiry\<rparr>)]"
  "sv_heap managed_service = [''s3cret'']"
proof -
  have t: "time_add 3 management_session_ttl = managed_expiry" "sv_calls managed_read = 3"
    by (simp_all add: time_add_def management_session_ttl_def managed_expiry_def minute_def second_def managed_read_def)
  have e: "expire_management_sessions_locked now (next_call (next_call managed_read)) = next_call (next_call managed_read)" for now
    by (simp add: expire_management_sessions_locked_def frame) (simp add: managed_read_def)
  show "sv_management managed_service = [(managed_token, \<lparr>ms_profile = ''api'', ms_secret = 0, ms_expires_at = managed_expiry\<rparr>)]"
    "sv_heap managed_service = [''s3cret'']"
    by (simp_all add: managed_service_def open_management_def Let_def case_prod_beta time_now_def e t frame put_management_def)
      (simp_all add: managed_read_def)
qed

definition managed_system :: system where
  "managed_system = (initial managed_service)\<lparr>sys_job := Some (RevealSecret 0 managed_token managed_expiry)\<rparr>"

lemma sample_starts: "starts sample_env empty_service"
proof -
  have "new_service sample_env sample_config \<lparr>target = None, temporary = None\<rparr> None ''d'' ''1.0.0'' 0 = Inr empty_service"
    by (simp add: new_service_def audit_load_def empty_service_def)
  then show ?thesis unfolding starts_def by blast
qed

lemma managed_reachable: "reachable sample_env W managed_system"
proof -
  let ?S1 = "(initial managed_read)\<lparr>sys_job := Some (OpenSession ''api'' 0 managed_token)\<rparr>"
  have "reachable sample_env W (initial empty_service)" using sample_starts by (rule reachable.start)
  moreover have "step sample_env W (initial empty_service) ?S1"
    using step.call_starts [of "initial empty_service" sample_env "CallManage ''api''" _ managed_read W] managed_begin
    by (simp add: initial_def profile_lock_free_def)
  moreover have "step sample_env W ?S1 managed_system"
    using step.call_continues [of ?S1 "OpenSession ''api'' 0 managed_token" sample_env _ managed_service W] managed_open
    by (simp add: initial_def managed_system_def) (simp add: managed_read_def)
  ultimately show ?thesis by (meson reachable.more)
qed

section \<open>A lease of an SSH identity\<close>

definition ssh_env :: env where
  "ssh_env = sample_env\<lparr>env_keychain_read := (\<lambda>i account message. Inr (std_encode sample_seed))\<rparr>"

lemma ssh_env_simps [simp]:
  "env_clock ssh_env i = int i" "env_random ssh_env i n = Inr (replicate n (char_of (i mod 256)))"
  "env_keychain_read ssh_env i a m = Inr (std_encode sample_seed)" "env_read_fault ssh_env i = None"
  "env_public_of_seed ssh_env b = b" "env_ssh_public ssh_env b = Inr b"
  "env_ssh_authorized_line ssh_env b = b" "env_ssh_signer ssh_env b = Inr (drop 32 b)"
  "env_ssh_sign ssh_env b x = Inr x"
  by (simp_all add: ssh_env_def)

definition ssh_profile :: profile where
  "ssh_profile = \<lparr>profile_kind = ''ssh'', profile_public_key = sample_seed, profile_env = [], profile_lease_seconds = 600\<rparr>"

definition ssh_disk :: config_disk where
  "ssh_disk = \<lparr>target = Some \<lparr>file_contents = Whole (Some [(''api'', ssh_profile)]), file_mode = owner_only\<rparr>,
     temporary = None\<rparr>"

definition ssh_start :: service where
  "ssh_start = empty_service\<lparr>sv_config := ssh_disk\<rparr>"

lemma ssh_starts: "starts ssh_env ssh_start"
proof -
  have "new_service ssh_env ssh_disk \<lparr>target = None, temporary = None\<rparr> None ''d'' ''1.0.0'' 0 = Inr ssh_start"
    by (simp add: new_service_def audit_load_def ssh_start_def empty_service_def)
  then show ?thesis unfolding starts_def by blast
qed

lemma ssh_begin:
  "grant_begin ssh_env sample_request ssh_start = (Inr sample_context, ssh_start\<lparr>sv_calls := 3\<rparr>)"
  by (simp add: grant_begin_def sample_trim_request grant_new_consumer_def Let_def time_now_def
      random_capability_def random_identifier_def next_call_def sample_context_def time_add_def
      sample_prompts sample_default_duration numeral_2_eq_2 ssh_start_def)

definition ssh_ready :: grant_ready where
  "ssh_ready = sample_ready\<lparr>gy_lease := (gy_lease sample_ready)\<lparr>lease_kind := ''ssh'', lease_env := []\<rparr>\<rparr>"

lemma ssh_ready_simps [simp]:
  "gy_context ssh_ready = sample_context" "gy_secret ssh_ready = 0" "gy_now ssh_ready = 7"
  "lease_kind (gy_lease ssh_ready) = ''ssh''" "lease_expires_at (gy_lease ssh_ready) = 600000000007"
  "lease_id (gy_lease ssh_ready) = lease_id (gy_lease sample_ready)" "lease_profile (gy_lease ssh_ready) = ''api''"
  by (simp_all add: ssh_ready_def sample_ready_def)

text \<open>The seed and the private key of the check lie zeroed behind the secret.\<close>

definition ssh_approved :: service where
  "ssh_approved = snd (grant_approve ssh_env sample_context (ssh_start\<lparr>sv_calls := 3\<rparr>))"

lemma ssh_durations: "requested_duration sample_request ssh_profile = Inr (seconds 600)"
proof -
  have "sint (seconds 600) = 600000000000" "seconds 600 \<noteq> 0" by (simp_all add: seconds_def second_def)
  then show ?thesis by (simp add: requested_duration_def Let_def)
qed

lemma ssh_seed: "trim_space sample_seed = sample_seed" "length sample_seed = 32"
  by (rule trim_space_graphic, simp_all add: sample_seed_def graphic_def)

lemma ssh_seed_accepted: "fst (validate_ssh_secret ssh_env (std_encode sample_seed) sample_seed s) = None"
  by (simp add: ssh_secret_must_match std_decode_encode ssh_seed new_key_from_seed_def)

lemma identity_calls: "sv_calls (snd (check_identity E p a s)) = sv_calls s"
  by (simp add: check_identity_def validate_ssh_secret_def ssh_private_key_def alloc_def case_prod_beta frame
      split: option.split sum.split)

definition ssh_secret_read :: service where
  "ssh_secret_read = snd (keychain_read ssh_env ''api''
     (grant_message sample_context ''api'' ssh_profile (seconds 600)) (ssh_start\<lparr>sv_calls := 5\<rparr>))"

lemma ssh_secret_read:
  "keychain_read ssh_env ''api'' (grant_message sample_context ''api'' ssh_profile (seconds 600))
     (ssh_start\<lparr>sv_calls := 5\<rparr>) = (Inr 0, ssh_secret_read)"
  "sv_calls ssh_secret_read = 6" "sv_heap ssh_secret_read = [std_encode sample_seed]"
  "sv_consumers ssh_secret_read = []"
  by (simp_all add: ssh_secret_read_def keychain_read_def alloc_def log_effect_def next_call_def ssh_start_def)

lemma ssh_checked: "fst (check_identity ssh_env ssh_profile 0 ssh_secret_read) = None"
  by (simp add: check_identity_def ssh_profile_def buffer_def ssh_secret_read(3) ssh_seed_accepted)

lemma ssh_read:
  "grant_read ssh_env sample_context ''api'' ssh_profile (seconds 600) (ssh_start\<lparr>sv_calls := 5\<rparr>) =
     (Inr ssh_ready, next_call (next_call (snd (check_identity ssh_env ssh_profile 0 ssh_secret_read))))"
proof -
  have "time_add 7 (seconds 600) = 600000000007" by (simp add: time_add_def seconds_def second_def)
  then show ?thesis
    using ssh_checked
    by (simp add: grant_read_def ssh_secret_read(1) case_prod_beta random_identifier_def time_now_def
        identity_calls ssh_secret_read(2) frame Let_def min_time_def)
      (simp add: ssh_ready_def sample_ready_def ssh_profile_def)
qed

lemma ssh_load:
  "load_config ssh_env (ssh_start\<lparr>sv_calls := 3\<rparr>) =
     (Inr \<lparr>cfg_profiles = [(''api'', ssh_profile)]\<rparr>, ssh_start\<lparr>sv_calls := 4\<rparr>)"
  by (simp add: load_config_def config_load_def next_call_def ssh_start_def) (simp add: ssh_disk_def)

lemma ssh_approve:
  "grant_approve ssh_env sample_context (ssh_start\<lparr>sv_calls := 3\<rparr>) = (Inr ssh_ready, ssh_approved)"
proof -
  have "grant_approve ssh_env sample_context (ssh_start\<lparr>sv_calls := 3\<rparr>) =
      grant_read ssh_env sample_context ''api'' ssh_profile (seconds 600) (ssh_start\<lparr>sv_calls := 5\<rparr>)"
    by (simp add: grant_approve_def ssh_load resolve_def ssh_durations sample_durations time_now_def next_call_def)
  then show ?thesis by (simp add: ssh_approved_def ssh_read)
qed

lemma ssh_approved_state:
  "sv_consumers ssh_approved = []" "buffer ssh_approved 0 = std_encode sample_seed" "sv_calls ssh_approved = 8"
proof -
  have eq: "ssh_approved = next_call (next_call (snd (check_identity ssh_env ssh_profile 0 ssh_secret_read)))"
    using ssh_approve ssh_read
    by (simp add: grant_approve_def ssh_load resolve_def ssh_durations sample_durations time_now_def next_call_def)
  have "buffer (snd (check_identity ssh_env ssh_profile 0 ssh_secret_read)) 0 = buffer ssh_secret_read 0"
    using identity_extends [of ssh_secret_read ssh_env ssh_profile 0] by (simp add: extends_def ssh_secret_read(3))
  then show "buffer ssh_approved 0 = std_encode sample_seed"
    by (simp add: eq buffer_def frame ssh_secret_read(3))
  show "sv_consumers ssh_approved = []" "sv_calls ssh_approved = 8"
    by (simp_all add: eq frame identity_calls ssh_secret_read)
qed

definition ssh_system :: system where
  "ssh_system = initial (snd (grant_commit ssh_env ssh_ready ssh_approved))"

lemma ssh_expire: "expire_locked ssh_env t ssh_approved = ssh_approved"
  by (simp add: expire_locked_def ssh_approved_state)

lemma ssh_commit_session: "commit_session ssh_env ssh_ready ssh_approved = Some (new_session ssh_ready)"
  by (simp add: commit_session_def ssh_expire ssh_approved_state)

lemma ssh_reachable: "reachable ssh_env W ssh_system"
proof -
  let ?S1 = "initial ssh_start\<lparr>sys_service := ssh_start\<lparr>sv_calls := 3\<rparr>, sys_waiting := [sample_context]\<rparr>"
  let ?S2 = "?S1\<lparr>sys_service := ssh_approved, sys_waiting := [], sys_ready := Some ssh_ready\<rparr>"
  have "reachable ssh_env W (initial ssh_start)" using ssh_starts by (rule reachable.start)
  moreover have "step ssh_env W (initial ssh_start) ?S1"
    using step.grant_starts [of ssh_env sample_request "initial ssh_start" sample_context "ssh_start\<lparr>sv_calls := 3\<rparr>"]
      ssh_begin by (simp add: initial_def)
  moreover have "step ssh_env W ?S1 ?S2"
    using step.approved [of ?S1 "[]" sample_context "[]" ssh_env ssh_ready ssh_approved] ssh_approve
    by (simp add: initial_def profile_lock_free_def)
  moreover have "fresh_grant ssh_env ssh_ready ?S2"
    by (simp add: fresh_grant_def ssh_commit_session new_session_def Let_def initial_def)
  then have "step ssh_env W ?S2
      (?S2\<lparr>sys_service := snd (grant_commit ssh_env ssh_ready (sys_service ?S2)), sys_ready := None\<rparr>)"
    by (intro step.committed) simp_all
  ultimately show ?thesis
    unfolding ssh_system_def initial_def by simp (meson reachable.more)
qed

text \<open>The lease of the run signs.\<close>

abbreviation ssh_service :: service where
  "ssh_service \<equiv> sys_service ssh_system"

lemma ssh_committed:
  "sv_consumers ssh_service =
     [(sha256 (gc_token sample_context), installed ssh_ready (new_session ssh_ready))]"
  "sv_calls ssh_service = 14" "buffer ssh_service 0 = std_encode sample_seed" "memory_ok [] ssh_service"
proof -
  let ?h = "sha256 (gc_token sample_context)"
  let ?s = "start_consumer ssh_env ?h ssh_ready ssh_approved"
  have mem: "memory_ok [0] ssh_approved"
    using memory.grant_approved [of "[]" "ssh_start\<lparr>sv_calls := 3\<rparr>" ssh_env sample_context ssh_ready] ssh_approve
    by (simp add: memory_ok_def owned_def wf_state_def ssh_start_def)
  have target: "commit_target ssh_env ssh_ready ssh_approved = Inr ?s"
    by (simp add: commit_target_at ssh_approved_state)
  then have commit: "ssh_service = install_lease ssh_env ?h ssh_ready ?s"
    by (simp add: ssh_system_def initial_def grant_commit_def Let_def ssh_expire)
  have wf: "wf_state ?s" using memory_wf [OF mem] by (rule start_wf) (simp add: ssh_approved_state)
  show "sv_consumers ssh_service = [(?h, installed ssh_ready (new_session ssh_ready))]"
    by (simp add: commit install_consumers [OF wf] start_consumers ssh_approved_state)
  have leases: "leases_at ?s ?h = []"
    by (simp add: leases_at_def start_consumers new_session_def Let_def ssh_approved_state)
  have "sv_calls ?s = 11" by (simp add: start_consumer_def frame put_consumer_def ssh_approved_state)
  then show "sv_calls ssh_service = 14"
    by (simp add: commit install_lease_def Let_def frame leases put_lease_def)
  have "leases_hold (\<lambda>m bs. bs = std_encode sample_seed) [0] ssh_approved"
    using mem by (simp add: leases_hold_def all_leases_def ssh_approved_state)
  then have hold: "leases_hold (\<lambda>m bs. bs = std_encode sample_seed) [] (snd (grant_commit ssh_env ssh_ready ssh_approved))"
    by (intro hold_commit) (auto simp: ssh_approved_state ssh_commit_session new_session_def Let_def)
  then show "memory_ok [] ssh_service"
    by (simp add: leases_hold_def ssh_system_def initial_def)
  have "all_leases ssh_service = [\<lparr>al_metadata = gy_lease ssh_ready, al_secret = 0\<rparr>]"
    by (simp add: all_leases_def commit install_consumers [OF wf] start_consumers ssh_approved_state
        installed_def new_session_def Let_def)
  then show "buffer ssh_service 0 = std_encode sample_seed"
    using hold by (simp add: leases_hold_def ssh_system_def initial_def)
qed

lemma ssh_live:
  "sv_consumers (expire_now ssh_env ssh_service) = sv_consumers ssh_service"
  "buffer (expire_now ssh_env ssh_service) 0 = std_encode sample_seed"
proof -
  let ?s = "next_call ssh_service"
  have wf: "wf_state ?s" using ssh_committed(4) by (simp add: memory_wf)
  show c: "sv_consumers (expire_now ssh_env ssh_service) = sv_consumers ssh_service"
    using expire_consumers_eq [OF wf]
    by (simp add: expire_now_eq frame ssh_committed consumer_live_def new_session_def Let_def installed_def
        keep_leases_def lease_live_def)
  have "leases_hold (\<lambda>m bs. bs = std_encode sample_seed) [] ssh_service"
    using ssh_committed(3,4)
    by (simp add: leases_hold_def all_leases_def ssh_committed(1) installed_def new_session_def Let_def)
  then have "leases_hold (\<lambda>m bs. bs = std_encode sample_seed) [] (expire_now ssh_env ssh_service)"
    by (rule lease_contents.expiring)
  then show "buffer (expire_now ssh_env ssh_service) 0 = std_encode sample_seed"
    by (simp add: leases_hold_def all_leases_def c ssh_committed(1) installed_def new_session_def Let_def)
qed

lemma ssh_signs: "fst (agent_sign ssh_env sample_wire sample_public ''data'' ssh_service) = Inr ''data''"
proof -
  let ?s = "expire_now ssh_env ssh_service"
  have req: "ssh_authentication_request sample_wire sample_public ''data''"
    by (simp add: ssh_authentication_request_def sample_wire_def sample_public_def)
  have "stored_key ssh_env (std_encode sample_seed) = Inr (sample_seed @ sample_seed)"
    by (simp add: stored_key_def std_decode_encode new_key_from_seed_def ssh_seed)
  then obtain a where a: "fst (ssh_private_key ssh_env (std_encode sample_seed) ?s) = Inr a"
    "buffer (snd (ssh_private_key ssh_env (std_encode sample_seed) ?s)) a = sample_seed @ sample_seed"
    using ssh_private_key_result [of ssh_env "std_encode sample_seed" ?s] by auto
  have d: "drop 32 (sample_seed @ sample_seed) = sample_seed" by (simp add: ssh_seed)
  have pk: "pk_blob sample_public = sample_seed" by (simp add: sample_public_def)
  have "fst (sign_consumers ssh_env sample_public ''data'' (sv_consumers ?s) ?s) = Some (Inr ''data'')"
    unfolding ssh_live(1) ssh_committed(1)
    using a d pk ssh_live(2)
    by (simp add: case_prod_beta installed_def new_session_def Let_def del: drop_append)
  then show ?thesis using req by (simp add: agent_sign_def Let_def case_prod_beta)
qed

end
