(* ===== verification/Configured_Properties.thy ===== *)
theory Configured_Properties
  imports Sample_Sessions
begin

text \<open>
  The invariant of \<open>Configured_Leases\<close> holds in every reachable state, by induction over the
  steps of the system; the properties that follow from it.
\<close>

section \<open>The steps\<close>

lemma in_step_reorder: "in_step E cfg F s \<Longrightarrow> mset F = mset G \<Longrightarrow> in_step E cfg G s"
  by (auto simp: in_step_def managed_within_def intro: hold_reorder)

lemma phase_in_step:
  assumes "in_step E cfg (phase_buffers p @ in_flight (S\<lparr>sys_job := None\<rparr>)) s"
  shows "in_step E cfg (in_flight (S\<lparr>sys_job := (case p of Done x \<Rightarrow> None | Next j \<Rightarrow> Some j)\<rparr>)) s"
  using assms phase_in_flight by (rule in_step_reorder)

lemma config_call_begins:
  assumes ok: "config_ok E S" and free: "profile_lock_free S" and b: "begin_call E c (sys_service S) = (p, s)"
  shows "config_ok E (S\<lparr>sys_service := s, sys_job := (case p of Done x \<Rightarrow> None | Next j \<Rightarrow> Some j)\<rparr>)"
proof (rule config_job)
  have same: "S\<lparr>sys_job := None\<rparr> = S" using free by (cases S) (simp add: profile_lock_free_def)
  have "in_step E (disk_config s) (phase_buffers p @ in_flight (S\<lparr>sys_job := None\<rparr>)) s"
    using begin_in_step [OF config_okD(1) [OF ok], of c] b same by simp
  then show "in_step E (disk_config s) (in_flight (S\<lparr>sys_job := (case p of Done x \<Rightarrow> None | Next j \<Rightarrow> Some j)\<rparr>)) s"
    by (rule phase_in_step)
  show "sys_ready S = None" using free by (simp add: profile_lock_free_def)
  show "case (case p of Done x \<Rightarrow> None | Next j \<Rightarrow> Some j) of None \<Rightarrow> True | Some i \<Rightarrow> job_ok i s"
    using begin_job_ok b by (auto split: phase.split)
qed

lemma config_call_continues:
  assumes ok: "config_ok E S" and j: "sys_job S = Some j" and fresh: "fresh_job j (sys_service S)"
    and n: "next_phase E j (sys_service S) = (p, s)"
  shows "config_ok E (S\<lparr>sys_service := s, sys_job := (case p of Done x \<Rightarrow> None | Next j \<Rightarrow> Some j)\<rparr>)"
proof (rule config_job)
  have "S\<lparr>sys_job := Some j\<rparr> = S" using j by (cases S) simp
  then have "mset (in_flight S) = mset (job_buffers j @ in_flight (S\<lparr>sys_job := None\<rparr>))"
    using phase_in_flight [of "Next j" S] by simp
  then have "in_step E (disk_config (sys_service S)) (job_buffers j @ in_flight (S\<lparr>sys_job := None\<rparr>)) (sys_service S)"
    using config_okD(1) [OF ok] in_step_reorder by blast
  from next_in_step [OF this config_okD(3) [OF ok j] fresh]
  have "in_step E (disk_config s) (phase_buffers p @ in_flight (S\<lparr>sys_job := None\<rparr>)) s"
    using n by simp
  then show "in_step E (disk_config s) (in_flight (S\<lparr>sys_job := (case p of Done x \<Rightarrow> None | Next j \<Rightarrow> Some j)\<rparr>)) s"
    by (rule phase_in_step)
  show "sys_ready S = None" using config_okD(2) [OF ok] j by (cases "sys_ready S") auto
  show "case (case p of Done x \<Rightarrow> None | Next j \<Rightarrow> Some j) of None \<Rightarrow> True | Some i \<Rightarrow> job_ok i s"
    using next_job_ok [OF config_wf [OF ok] config_okD(3) [OF ok j]] n by (auto split: phase.split)
qed

lemma config_approved:
  assumes ok: "config_ok E S" and free: "profile_lock_free S"
    and g: "grant_approve E gc (sys_service S) = (Inr g, s)"
  shows "config_ok E (S\<lparr>sys_service := s, sys_waiting := w, sys_ready := Some g\<rparr>)"
proof (rule config_okI)
  have q: "quiet (in_flight S) (gy_secret g # in_flight S) (sys_service S) s"
    using quiet_grant_approved [OF config_wf [OF ok], of E gc g] g by simp
  then have d: "disk_config s = disk_config (sys_service S)" by (intro disk_config_cong) (simp add: quiet_def)
  have "in_step E (disk_config s) (gy_secret g # in_flight S) s"
    using in_step_carries [OF config_okD(1) [OF ok]] q unfolding d quiet_def by blast
  then show "in_step E (disk_config (sys_service (S\<lparr>sys_service := s, sys_waiting := w, sys_ready := Some g\<rparr>)))
      (in_flight (S\<lparr>sys_service := s, sys_waiting := w, sys_ready := Some g\<rparr>))
      (sys_service (S\<lparr>sys_service := s, sys_waiting := w, sys_ready := Some g\<rparr>))"
    using free by (simp add: in_flight_def profile_lock_free_def)
  show "sys_job (S\<lparr>sys_service := s, sys_waiting := w, sys_ready := Some g\<rparr>) = None \<and>
      configured E (disk_config (sys_service (S\<lparr>sys_service := s, sys_waiting := w, sys_ready := Some g\<rparr>)))
        (gy_lease g') (buffer (sys_service (S\<lparr>sys_service := s, sys_waiting := w, sys_ready := Some g\<rparr>)) (gy_secret g'))"
    if "sys_ready (S\<lparr>sys_service := s, sys_waiting := w, sys_ready := Some g\<rparr>) = Some g'" for g'
    using that free grant_approve_configured [of E gc "sys_service S" g] g d by (simp add: profile_lock_free_def)
qed (use free in \<open>simp add: profile_lock_free_def\<close>)

lemma config_committed:
  assumes ok: "config_ok E S" and r: "sys_ready S = Some g" and fresh: "fresh_grant E g S"
  shows "config_ok E (S\<lparr>sys_service := snd (grant_commit E g (sys_service S)), sys_ready := None\<rparr>)"
proof (rule config_okI)
  let ?s = "sys_service S" let ?s' = "snd (grant_commit E g ?s)" let ?F = "in_flight (S\<lparr>sys_ready := None\<rparr>)"
  have d: "disk_config ?s' = disk_config ?s" by (rule disk_config_cong) (simp add: commit_frame)
  have flight: "in_flight S = gy_secret g # ?F" using r by (simp add: in_flight_def)
  have step: "leases_hold (configured E (disk_config ?s)) (gy_secret g # ?F) ?s"
    "managed_within (editable (disk_config ?s)) (gy_secret g # ?F) ?s"
    using config_okD(1) [OF ok] flight by (simp_all add: in_step_def)
  have "leases_hold (configured E (disk_config ?s)) ?F ?s'"
    using step(1) fresh config_okD(2) [OF ok r] by (intro hold_commit) (auto simp: fresh_grant_def)
  moreover from this have "managed_within (editable (disk_config ?s)) ?F ?s'"
    using step(2) hold_wf by (auto simp: managed_within_def commit_frame)
  ultimately show "in_step E (disk_config (sys_service (S\<lparr>sys_service := ?s', sys_ready := None\<rparr>)))
      (in_flight (S\<lparr>sys_service := ?s', sys_ready := None\<rparr>)) (sys_service (S\<lparr>sys_service := ?s', sys_ready := None\<rparr>))"
    by (simp add: in_step_def d in_flight_def)
qed (use config_okD(2) [OF ok r] in simp_all)

text \<open>
  The steps in five kinds: quiet ones, which leave the configuration, \<^verbatim>\<open>profileMu\<close> and what it
  protects alone, and the four that use it.
\<close>

lemma step_kinds [consumes 3, case_names quiet begins continues approves commits]:
  assumes "step E W S S'" and wf: "wf_state (sys_service S)" and mem: "memory_ok (in_flight S) (sys_service S)"
  obtains
    "quiet (in_flight S) (in_flight S') (sys_service S) (sys_service S')"
      "sys_ready S' = sys_ready S" "sys_job S' = sys_job S"
  | c p s where "profile_lock_free S" "begin_call E c (sys_service S) = (p, s)"
      "S' = S\<lparr>sys_service := s, sys_job := (case p of Done x \<Rightarrow> None | Next j \<Rightarrow> Some j)\<rparr>"
  | j p s where "sys_job S = Some j" "fresh_job j (sys_service S)" "next_phase E j (sys_service S) = (p, s)"
      "S' = S\<lparr>sys_service := s, sys_job := (case p of Done x \<Rightarrow> None | Next j \<Rightarrow> Some j)\<rparr>"
  | gc g s w where "profile_lock_free S" "grant_approve E gc (sys_service S) = (Inr g, s)"
      "S' = S\<lparr>sys_service := s, sys_waiting := w, sys_ready := Some g\<rparr>"
  | g where "sys_ready S = Some g" "fresh_grant E g S"
      "S' = S\<lparr>sys_service := snd (grant_commit E g (sys_service S)), sys_ready := None\<rparr>"
  using assms(1)
proof cases
  case (operation r)
  then show thesis using quiet_perform [OF wf] by (intro that(1)) (simp_all add: in_flight_def)
next
  case (call_starts c j s)
  then show thesis using that(2) [of c "Next j" s] by simp
next
  case (call_refused c x s)
  moreover from this have "S\<lparr>sys_service := s, sys_job := None\<rparr> = S\<lparr>sys_service := s\<rparr>"
    by (cases S) (simp add: profile_lock_free_def)
  ultimately show thesis using that(2) [of c "Done x" s] by simp
next
  case (call_continues j j' s)
  then show thesis using that(3) [of j "Next j'" s] by simp
next
  case (call_returns j x s)
  then show thesis using that(3) [of j "Done x" s] by simp
next
  case (grant_starts r gc s)
  then show thesis
    using quiet_grant_begin [OF wf, of _ E r] by (intro that(1)) (simp_all add: in_flight_def)
next
  case (grant_rejected r e s)
  then show thesis
    using quiet_grant_begin [OF wf, of _ E r] by (intro that(1)) (simp_all add: in_flight_def)
next
  case (approved before gc after g s)
  then show thesis by (intro that(4))
next
  case (refused before gc after e s)
  then show thesis
    using quiet_grant_refused [OF wf, of E gc e] by (intro that(1)) (simp_all add: in_flight_def)
next
  case (committed g)
  then show thesis by (intro that(5))
next
  case (child_starts r x s)
  have q: "quiet (in_flight S) (xr_secret x # in_flight S) (sys_service S) s"
    using quiet_execute_begins [OF wf, of E r x] child_starts by simp
  have "leases_hold (\<lambda>m bs. True) (in_flight S) (sys_service S)" using mem by (simp add: leases_hold_def)
  then have "wf_state s" using q by (auto simp: quiet_def carries_def dest: hold_wf)
  then have "quiet (xr_secret x # in_flight S) (in_flight S') s s"
    using child_starts by (intro quiet_shuffle_buffers) (simp_all add: in_flight_def)
  then show thesis using quiet_trans [OF q] child_starts by (intro that(1)) simp_all
next
  case (child_refused r e s)
  then show thesis
    using quiet_execute_refused [OF wf, of E r e] by (intro that(1)) (simp_all add: in_flight_def)
next
  case (child_ends before x after)
  have "quiet (in_flight S) (xr_secret x # in_flight S') (sys_service S) (sys_service S)"
    using child_ends by (intro quiet_shuffle_buffers [OF wf]) (simp add: in_flight_def)
  then have "quiet (in_flight S) (in_flight S') (sys_service S) (sys_service S')"
    using quiet_execute_finishes [OF wf, of x "in_flight S'" E] child_ends by (auto intro: quiet_trans)
  then show thesis using child_ends by (intro that(1)) simp_all
next
  case (shuffled s)
  then show thesis using quiet_reordered [OF wf] by (intro that(1)) (simp_all add: in_flight_def)
qed

lemma config_memory: "config_ok E S \<Longrightarrow> memory_ok (in_flight S) (sys_service S)"
  by (auto simp: config_ok_def intro: in_step_memory)

lemma config_step:
  assumes ok: "config_ok E S" and step: "step E W S S'"
  shows "config_ok E S'"
  using step config_wf [OF ok] config_memory [OF ok]
proof (cases rule: step_kinds)
  case quiet
  then show ?thesis by (rule config_quiet [OF ok])
next
  case (begins c p s)
  then show ?thesis using config_call_begins [OF ok] by simp
next
  case (continues j p s)
  then show ?thesis using config_call_continues [OF ok] by simp
next
  case (approves gc g s w)
  then show ?thesis using config_approved [OF ok] by simp
next
  case (commits g)
  then show ?thesis using config_committed [OF ok] by simp
qed

lemma config_start:
  assumes "starts E s"
  shows "config_ok E (initial s)"
proof -
  obtain cfg aud fault i v t where n: "new_service E cfg aud fault i v t = Inr s"
    using assms by (auto simp: starts_def)
  then have "sv_consumers s = []" "sv_management s = []"
    by (cases "audit_load fault aud"; force simp: new_service_def)+
  moreover have "memory_ok [] s"
    using system_start [OF assms] by (simp add: system_ok_def in_flight_def initial_def)
  ultimately show ?thesis
    by (intro config_okI)
      (auto simp: initial_def in_flight_def in_step_def leases_hold_def managed_within_def all_leases_def memory_wf)
qed

lemma config_reachable: "reachable E W S \<Longrightarrow> config_ok E S"
  by (induction rule: reachable.induct) (auto intro: config_start config_step)

section \<open>What follows\<close>

lemma configured_current:
  assumes "configured E (disk_config s) m bs"
  shows "\<exists>cfg p. config_load None (sv_config s) = Inr cfg \<and> go_get (cfg_profiles cfg) (lease_profile m) = Some p \<and>
    (profile_kind p = ''ssh'' \<longleftrightarrow> lease_kind m = ''ssh'') \<and>
    (lease_kind m = ''ssh'' \<longrightarrow> identity_line E bs = Some (profile_public_key p))"
  using assms by (cases "config_load None (sv_config s)") (auto simp: configured_def disk_config_def)

lemma reachable_leases:
  assumes "reachable E W S" and "go_get (sv_consumers (sys_service S)) h = Some c" and "(i, l) \<in> set (cs_leases c)"
  shows "configured E (disk_config (sys_service S)) (al_metadata l) (buffer (sys_service S) (al_secret l))"
proof -
  have "leases_hold (configured E (disk_config (sys_service S))) (in_flight S) (sys_service S)"
    using config_okD(1) [OF config_reachable [OF assms(1)]] by (simp add: in_step_def)
  moreover have "l \<in> set (all_leases (sys_service S))"
    using go_get_mem [OF assms(2)] assms(3) by (force simp: all_leases_set)
  ultimately show ?thesis by (simp add: leases_hold_def)
qed

text \<open>C8: leases_match_the_configuration.
  In every reachable state, with whatever operations in progress, the configuration on disk has
  the profile of every lease, of the same kind, and the secret of an SSH lease is the seed of the
  public key configured for it.\<close>

theorem leases_match_the_configuration:
  assumes "reachable E W S" and "go_get (sv_consumers (sys_service S)) h = Some c" and "(i, l) \<in> set (cs_leases c)"
  shows "\<exists>cfg p. config_load None (sv_config (sys_service S)) = Inr cfg \<and>
    go_get (cfg_profiles cfg) (lease_profile (al_metadata l)) = Some p \<and>
    (profile_kind p = ''ssh'' \<longleftrightarrow> lease_kind (al_metadata l) = ''ssh'') \<and>
    (lease_kind (al_metadata l) = ''ssh'' \<longrightarrow>
       identity_line E (buffer (sys_service S) (al_secret l)) = Some (profile_public_key p))"
  by (rule configured_current [OF reachable_leases [OF assms]])

theorem leases_match_the_configuration_witness:
  "\<exists>cfg p. config_load None (sv_config (sys_service sample_system)) = Inr cfg \<and>
     go_get (cfg_profiles cfg) ''api'' = Some p \<and> profile_kind p \<noteq> ''ssh''"
  using leases_match_the_configuration [OF sample_reachable sample_granted, of "lease_id (gy_lease sample_ready)"
      "\<lparr>al_metadata = gy_lease sample_ready, al_secret = 0\<rparr>"] sample_granted_leases
  by (auto simp: sample_ready_def)

text \<open>
  \<^verbatim>\<open>ssh.NewSignerFromKey\<close> on an ed25519 key yields a signer whose public key is
  \<^verbatim>\<open>ssh.NewPublicKey\<close> of the key's public half.
\<close>

definition signers_match :: "env \<Rightarrow> bool" where
  "signers_match E \<longleftrightarrow> (\<forall>key blob. env_ssh_signer E key = Inr blob \<longrightarrow> env_ssh_public E (drop 32 key) = Inr blob)"

text \<open>C9: agent_signs_with_a_configured_identity.
  Whenever the agent signs, the configuration on disk has an SSH profile whose public key is the
  one the signature was asked for: a deleted identity, or one that was overwritten, never signs.\<close>

theorem agent_signs_with_a_configured_identity:
  assumes "reachable E W S" and "signers_match E" and "fst (agent_sign E A pub bs (sys_service S)) = Inr sig"
  shows "\<exists>cfg n p. config_load None (sv_config (sys_service S)) = Inr cfg \<and>
    go_get (cfg_profiles cfg) n = Some p \<and> profile_kind p = ''ssh'' \<and>
    profile_public_key p = trim_space (env_ssh_authorized_line E (pk_blob pub))"
proof -
  let ?s = "sys_service S"
  have mem: "memory_ok (in_flight S) ?s" using system_reachable [OF assms(1)] by (simp add: system_ok_def)
  have req: "fst (agent_sign E A pub bs ?s) = Inr sig" by (rule assms(3))
  obtain c e key where c: "c \<in> set (sv_consumers (expire_now E ?s))" "e \<in> set (cs_leases (snd c))"
    and a: "answers E (expire_now E ?s) pub (snd e) key"
    using agent_sign_lease [OF mem req] by blast
  have "leases_hold (configured E (disk_config ?s)) (in_flight S) (expire_now E ?s)"
    using config_okD(1) [OF config_reachable [OF assms(1)]] by (intro lease_contents.expiring) (simp add: in_step_def)
  moreover have "snd e \<in> set (all_leases (expire_now E ?s))" using c by (force simp: all_leases_set)
  ultimately have "configured E (disk_config ?s) (al_metadata (snd e)) (buffer (expire_now E ?s) (al_secret (snd e)))"
    by (simp add: leases_hold_def)
  then obtain cfg p where p: "config_load None (sv_config ?s) = Inr cfg"
    "go_get (cfg_profiles cfg) (lease_profile (al_metadata (snd e))) = Some p" "profile_kind p = ''ssh''"
    "identity_line E (buffer (expire_now E ?s) (al_secret (snd e))) = Some (profile_public_key p)"
    using configured_current a by (fastforce simp: answers_def)
  obtain seed where seed: "std_decode (buffer (expire_now E ?s) (al_secret (snd e))) = Some seed"
    "length seed = 32" "key = seed @ env_public_of_seed E seed"
    using a by (auto simp: answers_def stored_key_def new_key_from_seed_def split: option.splits if_splits)
  have "env_ssh_public E (drop 32 key) = Inr (pk_blob pub)"
    using assms(2) a by (simp add: signers_match_def answers_def)
  then have "profile_public_key p = trim_space (env_ssh_authorized_line E (pk_blob pub))"
    using p(4) seed by (simp add: identity_line_def)
  then show ?thesis using p by blast
qed

theorem agent_signs_with_a_configured_identity_witness:
  "\<exists>cfg n p. config_load None (sv_config ssh_service) = Inr cfg \<and> go_get (cfg_profiles cfg) n = Some p \<and>
     profile_kind p = ''ssh'' \<and> profile_public_key p = sample_seed"
  using agent_signs_with_a_configured_identity [OF ssh_reachable _ ssh_signs]
  by (simp add: signers_match_def sample_public_def ssh_seed)

end
