(* ===== verification/Lease_Table.thy ===== *)
theory Lease_Table
  imports Configured_Properties
begin

text \<open>
  What the daemon promises about its leases, as an abstract machine without locks, sessions,
  buffers or operations in flight, and the proof that the daemon is one: every step of the
  system, seen through \<open>table_of\<close>, is a step of the table.
\<close>

section \<open>The abstract machine\<close>

text \<open>A ticket is a lease with its secret.\<close>

type_synonym ticket = "lease \<times> bytes"

record lease_table =
  lt_granted :: "ticket set"
  lt_approved :: "ticket option"

text \<open>
  Tickets end at any time. An approval sets the one pending ticket aside, which must be \<open>good\<close> for
  the configuration of that time. The pending ticket is either granted, once, or dropped; nothing
  else is ever granted, and no ticket ever changes.
\<close>

inductive table_step :: "(config \<Rightarrow> ticket \<Rightarrow> bool) \<Rightarrow> config \<Rightarrow> lease_table \<Rightarrow> lease_table \<Rightarrow> bool" for good cfg where
  ends: "G \<subseteq> lt_granted T \<Longrightarrow> table_step good cfg T (T\<lparr>lt_granted := G\<rparr>)"
| approves: "lt_approved T = None \<Longrightarrow> G \<subseteq> lt_granted T \<Longrightarrow> good cfg x \<Longrightarrow>
    table_step good cfg T \<lparr>lt_granted = G, lt_approved = Some x\<rparr>"
| grants: "lt_approved T = Some x \<Longrightarrow> G \<subseteq> insert x (lt_granted T) \<Longrightarrow>
    table_step good cfg T \<lparr>lt_granted = G, lt_approved = None\<rparr>"

inductive_cases table_step_cases: "table_step good cfg T T'"

definition empty_table :: lease_table where
  "empty_table = \<lparr>lt_granted = {}, lt_approved = None\<rparr>"

text \<open>What is true of every good ticket is true of every ticket of a table that the machine reaches.\<close>

definition tickets :: "lease_table \<Rightarrow> ticket set" where
  "tickets T = lt_granted T \<union> set_option (lt_approved T)"

lemma tickets_step:
  assumes "table_step good cfg T T'" and "\<And>x. good cfg x \<Longrightarrow> R x" and "\<forall>x \<in> tickets T. R x"
  shows "\<forall>x \<in> tickets T'. R x"
  using assms by cases (auto simp: tickets_def)

section \<open>The daemon as a table\<close>

definition ticket_of :: "service \<Rightarrow> active_lease \<Rightarrow> ticket" where
  "ticket_of s l = (al_metadata l, buffer s (al_secret l))"

definition granted :: "service \<Rightarrow> ticket set" where
  "granted s = ticket_of s ` set (all_leases s)"

definition table_of :: "system \<Rightarrow> lease_table" where
  "table_of S =
     \<lparr>lt_granted = granted (sys_service S),
      lt_approved = map_option (\<lambda>g. (gy_lease g, buffer (sys_service S) (gy_secret g))) (sys_ready S)\<rparr>"

text \<open>
  The Keychain released the secret of the ticket for a prompt that named its consumer, profile and
  reason and a duration within the limits, which the lease does not outlast.
\<close>

definition lease_prompt :: "lease \<Rightarrow> duration \<Rightarrow> gostring" where
  "lease_prompt m d =
     grant_approval_message (lease_consumer_label m) (lease_profile m) (lease_reason m) d @
     (if lease_kind m = ''ssh'' then ssh_notice else [])"

definition released :: "env \<Rightarrow> ticket \<Rightarrow> bool" where
  "released E x \<longleftrightarrow>
     (\<exists>n d. in_bounds minimum_lease maximum_lease d \<and>
        lease_expires_at (fst x) \<le> lease_granted_at (fst x) + sint d \<and>
        env_keychain_read E n (lease_profile (fst x)) (lease_prompt (fst x) d) = Inr (snd x))"

definition good_ticket :: "env \<Rightarrow> config \<Rightarrow> ticket \<Rightarrow> bool" where
  "good_ticket E cfg x \<longleftrightarrow> configured E cfg (fst x) (snd x) \<and> released E x"

lemma read_releases:
  assumes "fst (grant_read E gc n p d s) = Inr g"
  shows "env_keychain_read E (sv_calls s) n (grant_message gc n p d) =
      Inr (buffer (snd (grant_read E gc n p d s)) (gy_secret g))"
    and "lease_prompt (gy_lease g) d = grant_message gc n p d \<and> lease_profile (gy_lease g) = n \<and>
      lease_expires_at (gy_lease g) \<le> lease_granted_at (gy_lease g) + sint d"
proof -
  let ?k = "keychain_read E n (grant_message gc n p d) s"
  obtain a where a: "fst ?k = Inr a" using assms by (auto simp: grant_read_def case_prod_beta split: sum.splits)
  let ?c = "check_identity E p a (snd ?k)"
  have c: "fst ?c = None" using assms a by (auto simp: grant_read_def case_prod_beta split: option.splits)
  obtain i where i: "fst (random_identifier E ''lease_'' (snd ?c)) = Inr i"
    using assms a c by (auto simp: grant_read_def case_prod_beta split: sum.splits)
  have g: "gy_secret g = a" and h: "sv_heap (snd (grant_read E gc n p d s)) = sv_heap (snd ?c)"
    using assms a c i
    by (auto simp: grant_read_def case_prod_beta Let_def time_now_def random_identifier_def frame)
  have k: "env_keychain_read E (sv_calls s) n (grant_message gc n p d) = Inr (buffer (snd ?k) a)"
    "a < length (sv_heap (snd ?k))"
    using a by (auto simp: keychain_read_def case_prod_beta alloc_def log_effect_def buffer_def frame split: sum.splits)
  then have "buffer (snd ?c) a = buffer (snd ?k) a"
    using identity_extends [of "snd ?k" E p a] by (simp add: extends_def)
  then show "env_keychain_read E (sv_calls s) n (grant_message gc n p d) =
      Inr (buffer (snd (grant_read E gc n p d s)) (gy_secret g))"
    using k(1) g h by (simp add: buffer_def)
  show "lease_prompt (gy_lease g) d = grant_message gc n p d \<and> lease_profile (gy_lease g) = n \<and>
      lease_expires_at (gy_lease g) \<le> lease_granted_at (gy_lease g) + sint d"
    using assms a c i
    by (auto simp: grant_read_def case_prod_beta Let_def lease_prompt_def grant_message_def time_add_def min_time_def)
qed

lemma approve_releases:
  assumes "fst (grant_approve E gc s) = Inr g"
  shows "released E (gy_lease g, buffer (snd (grant_approve E gc s)) (gy_secret g))"
proof -
  obtain p d s1 where d: "in_bounds minimum_lease maximum_lease d"
    and eq: "grant_approve E gc s = grant_read E gc (gr_profile (gc_request gc)) p d s1"
    using assms by (rule grant_approve_steps)
  then have "fst (grant_read E gc (gr_profile (gc_request gc)) p d s1) = Inr g" using assms by simp
  from read_releases [OF this] show ?thesis
    unfolding eq released_def fst_conv snd_conv using d by (intro exI conjI) auto
qed

lemma granted_now: "memory_ok F s \<Longrightarrow> leases_hold (\<lambda>m bs. (m, bs) \<in> granted s) F s"
  by (simp add: leases_hold_def granted_def ticket_of_def)

lemma granted_within: "leases_hold (\<lambda>m bs. (m, bs) \<in> X) F s \<Longrightarrow> granted s \<subseteq> X"
  by (auto simp: leases_hold_def granted_def ticket_of_def)

lemma granted_carried:
  assumes "carries F G s s'" and "memory_ok F s"
  shows "granted s' \<subseteq> granted s"
  using granted_now [OF assms(2)] assms(1) by (intro granted_within [of _ G]) (simp add: carries_def)

text \<open>The secret of a pending grant is not touched by what others do.\<close>

lemma approved_carried:
  assumes "carries (in_flight S) (in_flight S') (sys_service S) (sys_service S')"
    and "memory_ok (in_flight S) (sys_service S)" and "sys_ready S' = sys_ready S"
  shows "lt_approved (table_of S') = lt_approved (table_of S)"
proof (cases "sys_ready S")
  case (Some g)
  have "holding (gy_secret g) (buffer (sys_service S) (gy_secret g)) (in_flight S) (sys_service S)"
    using Some by (intro holding_now [OF assms(2)]) (simp add: in_flight_def)
  then have "holding (gy_secret g) (buffer (sys_service S) (gy_secret g)) (in_flight S') (sys_service S')"
    using assms(1) by (simp add: carries_def)
  then have "buffer (sys_service S') (gy_secret g) = buffer (sys_service S) (gy_secret g)"
    using Some assms(3) by (elim holding_buffer) (simp add: in_flight_def)
  then show ?thesis using Some assms(3) by (simp add: table_of_def)
qed (use assms(3) in \<open>simp add: table_of_def\<close>)

lemma table_ends:
  assumes "granted (sys_service S') \<subseteq> granted (sys_service S)"
    and "lt_approved (table_of S') = lt_approved (table_of S)"
  shows "table_step good cfg (table_of S) (table_of S')"
proof -
  have "table_of S' = (table_of S)\<lparr>lt_granted := granted (sys_service S')\<rparr>"
    using assms(2) by (simp add: table_of_def)
  then show ?thesis using table_step.ends [of "granted (sys_service S')" "table_of S"] assms(1)
    by (simp add: table_of_def)
qed

section \<open>The simulation\<close>

lemma phase_granted:
  assumes ok: "memory_ok (in_flight S) (sys_service S)" and j: "sys_job S = Some j"
    and fresh: "fresh_job j (sys_service S)"
  shows "granted (snd (next_phase E j (sys_service S))) \<subseteq> granted (sys_service S)"
proof -
  have "S\<lparr>sys_job := Some j\<rparr> = S" using j by (cases S) simp
  then have "mset (in_flight S) = mset (job_buffers j @ in_flight (S\<lparr>sys_job := None\<rparr>))"
    using phase_in_flight [of "Next j" S] by simp
  then have "leases_hold (\<lambda>m bs. (m, bs) \<in> granted (sys_service S)) (job_buffers j @ in_flight (S\<lparr>sys_job := None\<rparr>))
      (sys_service S)"
    using granted_now [OF ok] hold_reorder by blast
  then show ?thesis using fresh by (intro granted_within [OF lease_contents.continues])
qed

lemma commit_granted:
  assumes ok: "memory_ok (in_flight S) (sys_service S)" and r: "sys_ready S = Some g" and fresh: "fresh_grant E g S"
  shows "granted (snd (grant_commit E g (sys_service S))) \<subseteq>
    insert (gy_lease g, buffer (sys_service S) (gy_secret g)) (granted (sys_service S))"
proof (rule granted_within)
  let ?F = "in_flight (S\<lparr>sys_ready := None\<rparr>)"
  have "in_flight S = gy_secret g # ?F" using r by (simp add: in_flight_def)
  then have "leases_hold (\<lambda>m bs. (m, bs) \<in> insert (gy_lease g, buffer (sys_service S) (gy_secret g))
      (granted (sys_service S))) (gy_secret g # ?F) (sys_service S)"
    using granted_now [OF ok] by (simp add: leases_hold_def)
  then show "leases_hold (\<lambda>m bs. (m, bs) \<in> insert (gy_lease g, buffer (sys_service S) (gy_secret g))
      (granted (sys_service S))) ?F (snd (grant_commit E g (sys_service S)))"
    using fresh by (intro hold_commit) (auto simp: fresh_grant_def)
qed

lemma approve_simulated:
  assumes ok: "memory_ok (in_flight S) (sys_service S)" and free: "profile_lock_free S"
    and g: "grant_approve E gc (sys_service S) = (Inr g, s)"
  shows "table_step (good_ticket E) (disk_config (sys_service S)) (table_of S)
    (table_of (S\<lparr>sys_service := s, sys_waiting := w, sys_ready := Some g\<rparr>))"
proof -
  have "quiet (in_flight S) (gy_secret g # in_flight S) (sys_service S) s"
    using quiet_grant_approved [OF memory_wf [OF ok], of E gc g] g by simp
  then have "granted s \<subseteq> granted (sys_service S)"
    using ok by (intro granted_carried) (auto simp: quiet_def)
  moreover have "good_ticket E (disk_config (sys_service S)) (gy_lease g, buffer s (gy_secret g))"
    using grant_approve_configured [of E gc "sys_service S" g] approve_releases [of E gc "sys_service S" g] g
    by (simp add: good_ticket_def)
  ultimately show ?thesis
    using free table_step.approves [of "table_of S" "granted s"]
    by (simp add: table_of_def profile_lock_free_def)
qed

lemma table_simulates:
  assumes ok: "config_ok E S" and step: "step E W S S'"
  shows "table_step (good_ticket E) (disk_config (sys_service S)) (table_of S) (table_of S')"
proof -
  note mem = config_memory [OF ok]
  show ?thesis
    using step config_wf [OF ok] mem
  proof (cases rule: step_kinds)
    case quiet
    then have "carries (in_flight S) (in_flight S') (sys_service S) (sys_service S')" by (simp add: quiet_def)
    then show ?thesis
      using approved_carried [OF _ mem quiet(2)] granted_carried [OF _ mem] by (intro table_ends)
  next
    case (begins c p s)
    then have "granted s \<subseteq> granted (sys_service S)"
      using granted_carried [OF carries_begin mem, of E c] by simp
    then show ?thesis
      using begins by (intro table_ends) (simp_all add: table_of_def profile_lock_free_def)
  next
    case (continues j p s)
    then have "granted s \<subseteq> granted (sys_service S)" using phase_granted [OF mem, of j E] by simp
    moreover have "sys_ready S = None" using config_okD(2) [OF ok] continues by (cases "sys_ready S") auto
    ultimately show ?thesis using continues by (intro table_ends) (simp_all add: table_of_def)
  next
    case (approves gc g s w)
    then show ?thesis using approve_simulated [OF mem] by simp
  next
    case (commits g)
    then show ?thesis
      using commit_granted [OF mem] table_step.grants [of "table_of S" "(gy_lease g, buffer (sys_service S) (gy_secret g))"]
      by (simp add: table_of_def)
  qed
qed

lemma table_starts: "starts E s \<Longrightarrow> table_of (initial s) = empty_table"
proof -
  assume "starts E s"
  then obtain cfg aud fault i v t where n: "new_service E cfg aud fault i v t = Inr s" by (auto simp: starts_def)
  then have "sv_consumers s = []" by (cases "audit_load fault aud"; force simp: new_service_def)
  then show ?thesis by (simp add: table_of_def initial_def empty_table_def granted_def all_leases_def)
qed

text \<open>The abstract invariant, carried down to the reachable states of the daemon.\<close>

lemma reachable_tickets:
  "reachable E W S \<Longrightarrow> \<forall>x \<in> tickets (table_of S). released E x"
proof (induction rule: reachable.induct)
  case (start s)
  then show ?case by (simp add: table_starts tickets_def empty_table_def)
next
  case (more S S')
  then show ?case
    using tickets_step [OF table_simulates [OF config_reachable [OF more.hyps(1)] more.hyps(2)], of "released E"]
    by (simp add: good_ticket_def)
qed

text \<open>C4: daemon_implements_the_lease_table.
  The daemon refines the lease table. A daemon that starts has an empty table; and every step
  from a reachable state, whatever is in progress, leaves the table with some tickets ended, or
  sets one ticket aside, when none is pending, or grants the pending one. What is set aside is for
  a profile configured at that time, and its secret is what the Keychain released for a prompt
  that named the consumer, the profile, the reason and the duration. So an approval yields at most
  one lease, no lease comes about otherwise, and neither the metadata nor the secret of a lease
  ever changes.\<close>

theorem daemon_implements_the_lease_table:
  "(starts E s \<longrightarrow> table_of (initial s) = empty_table) \<and>
   (reachable E W S \<and> step E W S S' \<longrightarrow>
      table_step (good_ticket E) (disk_config (sys_service S)) (table_of S) (table_of S'))"
  using table_starts table_simulates config_reachable by blast

theorem daemon_implements_the_lease_table_witness:
  "table_step (good_ticket sample_env) (disk_config sample_approved) (table_of sample_pending) (table_of sample_system) \<and>
   lt_granted (table_of sample_pending) = {} \<and> lt_approved (table_of sample_system) = None"
  using daemon_implements_the_lease_table [of sample_env empty_service W sample_pending sample_system]
    sample_pending_reachable sample_commits
  by (simp add: sample_pending_def table_of_def sample_system_def initial_def granted_def all_leases_def sample_approved_def)

end
