(* ===== verification/Released_Secrets.thy ===== *)
theory Released_Secrets
  imports Lease_Table
begin

text \<open>
  Where the secrets that leave the daemon come from: the one a child is started with, while other
  operations run, and the one that is revealed to the profile editor. Both invariants follow the
  buffer of an operation in flight through the steps of the others.
\<close>

section \<open>Buffers in flight\<close>

lemma held_sweep:
  assumes "memory_ok F s" and "a \<in> set F"
  shows "buffer (sweep_leases E h cid lab keep kind detail ls s) a = buffer s a"
    and "buffer (expire_locked E now s) a = buffer s a"
proof -
  have h: "holding a (buffer s a) F s" using assms by (rule holding_now)
  show "buffer (sweep_leases E h cid lab keep kind detail ls s) a = buffer s a" for h
    using holding_kept.sweep [OF h] assms(2) by (intro holding_buffer)
  show "buffer (expire_locked E now s) a = buffer s a"
    using holding_kept.expire [OF h] assms(2) by (rule holding_buffer)
qed

text \<open>A commit leaves the buffers of the other operations alone.\<close>

lemma held_commit:
  assumes ok: "memory_ok (gy_secret g # F) s" and a: "a \<in> set F"
  shows "buffer (snd (grant_commit E g s)) a = buffer s a"
proof (cases "commit_session E g s")
  case None
  obtain e where "fst (grant_commit E g s) = Inl e" using commit_refused [OF None] by (metis fst_conv)
  moreover have "holding a (buffer s a) (gy_secret g # F) s" using a by (intro holding_now [OF ok]) simp
  ultimately have "holding a (buffer s a) F (snd (grant_commit E g s))"
    by (blast intro: held_buffer.grant_commit_refused)
  then show ?thesis using a by (rule holding_buffer)
next
  case (Some c)
  let ?s1 = "expire_locked E (gy_now g) s"
  have 1: "leases_hold (\<lambda>m bs. True) (gy_secret g # F) ?s1"
    using ok by (intro holds_kept.expire) (simp add: leases_hold_def)
  obtain s2 where s2: "commit_target E g ?s1 = Inr s2"
    using commit_accepted [OF memory_wf [OF ok] Some] by blast
  note t = hold_target [OF 1 s2]
  have "memory_ok (gy_secret g # F) s2" using t(1) by (simp add: leases_hold_def)
  then have "buffer (install_lease E h g s2) a = buffer s2 a" for h
    using held_sweep(1) [of "gy_secret g # F" s2 a] a
    by (simp add: install_lease_def Let_def buffer_def frame put_lease_def)
  then show ?thesis
    using s2 t(2) held_sweep(2) [OF ok, of a] a by (simp add: grant_commit_def Let_def buffer_def)
qed

text \<open>Through a step of anything.\<close>

lemma running_in_flight: "x \<in> set (sys_running S) \<Longrightarrow> xr_secret x \<in> set (in_flight S)"
  by (simp add: in_flight_def)

lemma running_kept:
  assumes ok: "config_ok E S" and step: "step E W S S'"
    and x: "x \<in> set (sys_running S)" "x \<in> set (sys_running S')"
  shows "buffer (sys_service S') (xr_secret x) = buffer (sys_service S) (xr_secret x)"
proof -
  let ?a = "xr_secret x" let ?s = "sys_service S"
  note mem = config_memory [OF ok]
  have h: "holding ?a (buffer ?s ?a) (in_flight S) ?s"
    using mem running_in_flight [OF x(1)] by (rule holding_now)
  show ?thesis
    using step config_wf [OF ok] mem
  proof (cases rule: step_kinds)
    case quiet
    then have "holding ?a (buffer ?s ?a) (in_flight S') (sys_service S')"
      using h by (simp add: quiet_def carries_def)
    then show ?thesis using running_in_flight [OF x(2)] by (rule holding_buffer)
  next
    case (begins c p s)
    then have "holding ?a (buffer ?s ?a) (phase_buffers p @ in_flight S) s"
      using carries_begin [of "in_flight S" E c ?s] h by (simp add: carries_def)
    then show ?thesis using begins running_in_flight [OF x(1)] by (simp add: holding_buffer)
  next
    case (continues j p s)
    have "S\<lparr>sys_job := Some j\<rparr> = S" using continues by (cases S) simp
    then have "mset (in_flight S) = mset (job_buffers j @ in_flight (S\<lparr>sys_job := None\<rparr>))"
      using phase_in_flight [of "Next j" S] by simp
    then have "holding ?a (buffer ?s ?a) (phase_buffers p @ in_flight (S\<lparr>sys_job := None\<rparr>)) s"
      using held_buffer.continues [OF holding_reorder [OF h]] continues by (metis fst_conv snd_conv)
    then show ?thesis using continues x(1) by (simp add: holding_buffer in_flight_def)
  next
    case (approves gc g s w)
    then have "holding ?a (buffer ?s ?a) (gy_secret g # in_flight S) s"
      using quiet_grant_approved [OF config_wf [OF ok], of E gc g] h by (simp add: quiet_def carries_def)
    then show ?thesis using approves running_in_flight [OF x(1)] by (simp add: holding_buffer)
  next
    case (commits g)
    then have "in_flight S = gy_secret g # in_flight (S\<lparr>sys_ready := None\<rparr>)" by (simp add: in_flight_def)
    then show ?thesis
      using commits mem x(1) held_commit [of g "in_flight (S\<lparr>sys_ready := None\<rparr>)" ?s ?a E]
      by (simp add: in_flight_def)
  qed
qed

section \<open>Children\<close>

text \<open>What a child is started with, in terms of the lease it was started for.\<close>

definition started_for :: "env \<Rightarrow> exec_running \<Rightarrow> lease \<Rightarrow> bytes \<Rightarrow> bool" where
  "started_for E x m secret \<longleftrightarrow>
     released E (m, secret) \<and> lease_kind m \<noteq> ''ssh'' \<and> xr_env x = lease_env m \<and>
     lease_id m = er_lease_id (xr_request x) \<and> er_arguments (xr_request x) \<noteq> [] \<and>
     xr_timeout x = seconds (er_timeout_seconds (xr_request x)) \<and> in_bounds second (30 * minute) (xr_timeout x)"

definition children_ok :: "env \<Rightarrow> system \<Rightarrow> bool" where
  "children_ok E S \<longleftrightarrow>
     (\<forall>x \<in> set (sys_running S). \<exists>m. started_for E x m (buffer (sys_service S) (xr_secret x)))"

text \<open>The session and the lease behind a decision to run a child.\<close>

lemma decision_lease:
  assumes wf: "wf_state s" and "exec_decision E r s = Inr l"
  obtains c where "go_get (sv_consumers s) (sha256 (trim_space (er_consumer_token r))) = Some c"
    and "consumer_live (env_clock E (sv_calls s)) c" and "go_get (cs_leases c) (er_lease_id r) = Some l"
    and "lease_live (env_clock E (sv_calls s)) l" and "lease_kind (al_metadata l) \<noteq> ''ssh''"
    and "er_arguments r \<noteq> []" and "in_bounds second (30 * minute) (seconds (er_timeout_seconds r))"
proof -
  let ?h = "sha256 (trim_space (er_consumer_token r))" and ?now = "env_clock E (sv_calls s)"
  obtain d where d: "live_session E s ?h = Some d" "go_get (cs_leases d) (er_lease_id r) = Some l"
      "lease_kind (al_metadata l) \<noteq> ''ssh''" "er_arguments r \<noteq> []"
      "in_bounds second (30 * minute) (seconds (er_timeout_seconds r))"
    using assms(2) by (auto simp: exec_decision_def Let_def split: option.splits if_splits)
  then obtain c where c: "go_get (sv_consumers s) ?h = Some c" "consumer_live ?now c"
    "d = keep_leases (lease_live ?now) c"
    by (auto simp: live_session_def Let_def split: option.splits if_splits)
  moreover have "go_get (cs_leases c) (er_lease_id r) = Some l" "lease_live ?now l"
    using d(2) c(3) keep_leases_get [OF wf_leases [OF wf c(1)]] by (auto split: option.splits if_splits)
  ultimately show thesis using that d(3-5) by blast
qed

text \<open>A child that starts has a lease of the session that the capability opens.\<close>

lemma child_lease:
  assumes "reachable E W S" and x: "execute_begin E r (sys_service S) = (Inr x, s)"
  obtains c l where "go_get (sv_consumers (sys_service S)) (sha256 (trim_space (er_consumer_token r))) = Some c"
    and "consumer_live (env_clock E (sv_calls (sys_service S))) c"
    and "go_get (cs_leases c) (er_lease_id r) = Some l"
    and "lease_live (env_clock E (sv_calls (sys_service S))) l"
    and "xr_request x = r" and "buffer s (xr_secret x) = buffer (sys_service S) (al_secret l)"
    and "started_for E x (al_metadata l) (buffer s (xr_secret x))"
proof -
  have mem: "memory_ok (in_flight S) (sys_service S)" using config_reachable [OF assms(1)] by (rule config_memory)
  obtain l where dec: "exec_decision E r (sys_service S) = Inr l" and req: "xr_request x = r"
    and env: "xr_env x = lease_env (al_metadata l)" "xr_timeout x = seconds (er_timeout_seconds r)"
    and b: "buffer s (xr_secret x) = buffer (sys_service S) (al_secret l)"
    using execute_begin_decision [OF mem, of E r] x by (auto split: sum.splits)
  obtain c where c: "go_get (sv_consumers (sys_service S)) (sha256 (trim_space (er_consumer_token r))) = Some c"
      "consumer_live (env_clock E (sv_calls (sys_service S))) c" "go_get (cs_leases c) (er_lease_id r) = Some l"
      "lease_live (env_clock E (sv_calls (sys_service S))) l" "lease_kind (al_metadata l) \<noteq> ''ssh''"
      "er_arguments r \<noteq> []" "in_bounds second (30 * minute) (seconds (er_timeout_seconds r))"
    using memory_wf [OF mem] dec by (rule decision_lease)
  have e: "(er_lease_id r, l) \<in> set (cs_leases c)" using c(3) by (rule go_get_mem)
  then have "l \<in> set (all_leases (sys_service S))" using go_get_mem [OF c(1)] by (force simp: all_leases_set)
  then have "ticket_of (sys_service S) l \<in> tickets (table_of S)" by (simp add: tickets_def table_of_def granted_def)
  then have "released E (al_metadata l, buffer s (xr_secret x))"
    using reachable_tickets [OF assms(1)] b by (auto simp: ticket_of_def)
  moreover have "session_consistent (sv_trace (sys_service S)) (sha256 (trim_space (er_consumer_token r))) c"
    using system_reachable [OF assms(1)] c(1) consistency.holds_get unfolding system_ok_def by blast
  then have "lease_id (al_metadata l) = er_lease_id r"
    using e by (auto simp: session_consistent_def lease_consistent_def Let_def)
  ultimately have "started_for E x (al_metadata l) (buffer s (xr_secret x))"
    using c(5-7) req env by (simp add: started_for_def)
  then show thesis using that c(1-4) req b by blast
qed

lemma new_child:
  "step E W S S' \<Longrightarrow> x \<in> set (sys_running S') \<Longrightarrow>
     x \<in> set (sys_running S) \<or> (\<exists>r. execute_begin E r (sys_service S) = (Inr x, sys_service S'))"
  by (cases rule: step.cases) auto

lemma children_reachable: "reachable E W S \<Longrightarrow> children_ok E S"
proof (induction rule: reachable.induct)
  case (start s)
  then show ?case by (simp add: children_ok_def initial_def)
next
  case (more S S')
  have "\<exists>m. started_for E x m (buffer (sys_service S') (xr_secret x))" if x: "x \<in> set (sys_running S')" for x
  proof (cases "x \<in> set (sys_running S)")
    case True
    then show ?thesis
      using more.IH running_kept [OF config_reachable [OF more.hyps(1)] more.hyps(2) _ x]
      by (simp add: children_ok_def)
  next
    case False
    then obtain r where "execute_begin E r (sys_service S) = (Inr x, sys_service S')"
      using new_child [OF more.hyps(2) x] by blast
    with more.hyps(1) show ?thesis by (rule child_lease) blast
  qed
  then show ?case by (simp add: children_ok_def)
qed

text \<open>C7: child_secret_was_approved.
  From a reachable state, an execution is begun only through a lease that is live, in the live
  session its capability opens, under the identifier it names, and it takes a copy of the secret
  of that very lease. Whatever else runs until the child is started, the child then gets exactly
  one secret: one the Keychain released on a prompt that named the consumer, the profile, the
  reason and the duration of a lease with that identifier, which is not for an SSH identity, in
  the variable of that lease.\<close>

theorem child_secret_was_approved:
  assumes "reachable E W S"
  shows "(execute_begin E r (sys_service S) = (Inr x, s) \<longrightarrow>
      (\<exists>c l. go_get (sv_consumers (sys_service S)) (sha256 (trim_space (er_consumer_token r))) = Some c \<and>
        consumer_live (env_clock E (sv_calls (sys_service S))) c \<and>
        go_get (cs_leases c) (er_lease_id r) = Some l \<and>
        lease_live (env_clock E (sv_calls (sys_service S))) l \<and>
        lease_kind (al_metadata l) \<noteq> ''ssh'' \<and> xr_env x = lease_env (al_metadata l) \<and>
        buffer s (xr_secret x) = buffer (sys_service S) (al_secret l))) \<and>
    (y \<in> set (sys_running S) \<longrightarrow>
      (\<exists>m secret. released E (m, secret) \<and> lease_id m = er_lease_id (xr_request y) \<and> lease_kind m \<noteq> ''ssh'' \<and>
        sv_trace (snd (execute_finish E y (sys_service S))) =
          ChildRun (exec_command E (xr_request y) secret (lease_env m)) # sv_trace (sys_service S)))"
proof (intro conjI impI)
  assume "execute_begin E r (sys_service S) = (Inr x, s)"
  with assms show "\<exists>c l. go_get (sv_consumers (sys_service S)) (sha256 (trim_space (er_consumer_token r))) = Some c \<and>
        consumer_live (env_clock E (sv_calls (sys_service S))) c \<and>
        go_get (cs_leases c) (er_lease_id r) = Some l \<and>
        lease_live (env_clock E (sv_calls (sys_service S))) l \<and>
        lease_kind (al_metadata l) \<noteq> ''ssh'' \<and> xr_env x = lease_env (al_metadata l) \<and>
        buffer s (xr_secret x) = buffer (sys_service S) (al_secret l)"
    by (rule child_lease) (auto simp: started_for_def)
next
  assume "y \<in> set (sys_running S)"
  then obtain m where "started_for E y m (buffer (sys_service S) (xr_secret y))"
    using children_reachable [OF assms] by (auto simp: children_ok_def)
  then show "\<exists>m secret. released E (m, secret) \<and> lease_id m = er_lease_id (xr_request y) \<and> lease_kind m \<noteq> ''ssh'' \<and>
        sv_trace (snd (execute_finish E y (sys_service S))) =
          ChildRun (exec_command E (xr_request y) secret (lease_env m)) # sv_trace (sys_service S)"
    using execute_finish_trace [of y E "sys_service S"] by (force simp: started_for_def)
qed

theorem child_secret_was_approved_witness:
  "(\<exists>c l. go_get (sv_consumers (sys_service sample_system)) (sha256 (gc_token sample_context)) = Some c \<and>
      go_get (cs_leases c) (lease_id (gy_lease sample_ready)) = Some l \<and>
      lease_live (env_clock sample_env (sv_calls (sys_service sample_system))) l) \<and>
   (\<exists>m secret. released sample_env (m, secret) \<and> lease_id m = lease_id (gy_lease sample_ready))"
proof
  have "memory_ok (in_flight sample_system) (sys_service sample_system)"
    using config_reachable [OF sample_reachable] by (rule config_memory)
  then obtain x s where x: "execute_begin sample_env sample_child (sys_service sample_system) = (Inr x, s)"
      "xr_request x = sample_child"
    using execute_begin_decision [of "in_flight sample_system" "sys_service sample_system" sample_env sample_child]
    by (auto simp: sample_child_decision)
  let ?S = "sample_system\<lparr>sys_service := s, sys_running := x # sys_running sample_system\<rparr>"
  have request: "trim_space (er_consumer_token sample_child) = gc_token sample_context"
    "er_lease_id sample_child = lease_id (gy_lease sample_ready)"
    using sample_child_trim by (simp_all add: sample_child_def)
  show "\<exists>c l. go_get (sv_consumers (sys_service sample_system)) (sha256 (gc_token sample_context)) = Some c \<and>
      go_get (cs_leases c) (lease_id (gy_lease sample_ready)) = Some l \<and>
      lease_live (env_clock sample_env (sv_calls (sys_service sample_system))) l"
    using child_secret_was_approved [OF sample_reachable, of sample_child x s] x(1) unfolding request by blast
  have "reachable sample_env W ?S" for W
    using sample_reachable step.child_starts [OF x(1)] by (rule reachable.more)
  then show "\<exists>m secret. released sample_env (m, secret) \<and> lease_id m = lease_id (gy_lease sample_ready)"
    using child_secret_was_approved [of sample_env _ ?S _ _ _ x] x(2) request(2) by force
qed

section \<open>The profile editor\<close>

text \<open>The Keychain released the secret for a prompt that asks to reveal the profile.\<close>

definition revealed_for :: "env \<Rightarrow> gostring \<Rightarrow> bytes \<Rightarrow> bool" where
  "revealed_for E n secret \<longleftrightarrow>
     (\<exists>k. env_keychain_read E k n (''Reveal and manage the Key Session profile '' @ n @ ''. '' @
        ''Open the human profile editor and view or change its password.'') = Inr secret)"

definition holds_reveal :: "env \<Rightarrow> gostring \<Rightarrow> nat \<Rightarrow> nat list \<Rightarrow> service \<Rightarrow> bool" where
  "holds_reveal E n a F s \<longleftrightarrow> (\<exists>secret. revealed_for E n secret \<and> holding a secret F s)"

fun reveal_ok :: "env \<Rightarrow> profile_job option \<Rightarrow> nat list \<Rightarrow> service \<Rightarrow> bool" where
  "reveal_ok E (Some (OpenSession n a t)) F s = holds_reveal E n a F s"
| "reveal_ok E (Some (RevealSecret a t x)) F s = (\<exists>n. editable (disk_config s) n \<and> holds_reveal E n a F s)"
| "reveal_ok E _ F s = True"

lemma authorize_reveals:
  assumes "fst (authorize_profile_management E n
      ''Open the human profile editor and view or change its password.'' s) = Inr a"
  shows "revealed_for E n (buffer (snd (authorize_profile_management E n
      ''Open the human profile editor and view or change its password.'' s)) a)"
  using assms
  by (auto simp: authorize_profile_management_def keychain_read_def alloc_def log_effect_def buffer_def
      revealed_for_def next_call_def split: sum.splits)

lemma begin_manage_reveals:
  assumes "begin_manage E n s = (Next j, s')"
  shows "\<exists>a t. j = OpenSession n a t \<and> revealed_for E n (buffer s' a)"
  using assms authorize_reveals [of E n]
  by (auto simp: begin_manage_def case_prod_beta buffer_def random_capability_def next_call_def
      split: sum.splits if_splits)

lemma begin_reveals:
  assumes "begin_call E c s = (Next j, s')" and "memory_ok F s'" and "set (job_buffers j) \<subseteq> set F"
  shows "reveal_ok E (Some j) F s'"
proof (cases c)
  case (CallManage n)
  then obtain a t where "j = OpenSession n a t" "revealed_for E n (buffer s' a)"
    using assms(1) begin_manage_reveals by fastforce
  then show ?thesis using assms(2,3) by (auto simp: holds_reveal_def intro: holding_now)
next
  case (CallStore r)
  then show ?thesis
    using assms(1) by (auto simp: begin_store_def Let_def case_prod_beta split: sum.splits option.splits if_splits)
next
  case (CallUpdate n r)
  then show ?thesis
    using assms(1) by (auto simp: begin_update_def Let_def case_prod_beta split: sum.splits option.splits if_splits)
next
  case (CallDelete n)
  then show ?thesis
    using assms(1) by (auto simp: begin_delete_def case_prod_beta split: sum.splits option.splits if_splits)
next
  case (CallCreate r)
  then show ?thesis
    using assms(1) by (auto simp: begin_create_def Let_def case_prod_beta split: sum.splits option.splits if_splits)
qed

lemma open_config [frame]: "sv_config (snd (open_management E n a t s)) = sv_config s"
  by (simp add: open_management_def Let_def case_prod_beta expire_management_sessions_locked_def frame put_management_def)

lemma next_reveals:
  assumes n: "next_phase E j s = (Next j', s')" and fresh: "fresh_job j s" and job: "job_ok j s"
    and ok: "reveal_ok E (Some j) (job_buffers j @ F) s"
  shows "reveal_ok E (Some j') (job_buffers j' @ F) s'"
proof (cases j)
  case (OpenSession name a t)
  obtain secret where r: "revealed_for E name secret" "holding a secret (job_buffers j @ F) s"
    using ok OpenSession by (auto simp: holds_reveal_def)
  have "holding a secret (job_buffers j' @ F) s'"
    using held_buffer.continues [OF r(2) fresh, of E] n by simp
  moreover have "editable (disk_config s') name"
    using job n OpenSession disk_config_cong [OF open_config [of E name a t s]] by (auto simp: case_prod_beta)
  ultimately show ?thesis
    using n OpenSession r(1) by (fastforce simp: case_prod_beta holds_reveal_def)
qed (use n in \<open>auto simp: case_prod_beta split: option.splits\<close>)

lemma reveal_quiet:
  "quiet F G s s' \<Longrightarrow> reveal_ok E j F s \<Longrightarrow> reveal_ok E j G s'"
  using disk_config_cong [of s' s]
  by (cases "(E, j, F, s)" rule: reveal_ok.cases) (fastforce simp: quiet_def carries_def holds_reveal_def)+

lemma reveal_reachable: "reachable E W S \<Longrightarrow> reveal_ok E (sys_job S) (in_flight S) (sys_service S)"
proof (induction rule: reachable.induct)
  case (start s)
  then show ?case by (simp add: initial_def)
next
  case (more S S')
  note ok = config_reachable [OF more.hyps(1)]
  note mem' = config_memory [OF config_step [OF ok more.hyps(2)]]
  show ?case
    using more.hyps(2) config_wf [OF ok] config_memory [OF ok]
  proof (cases rule: step_kinds)
    case quiet
    then show ?thesis using reveal_quiet more.IH by metis
  next
    case (begins c p s)
    show ?thesis
    proof (cases p)
      case (Next j)
      then have "set (job_buffers j) \<subseteq> set (in_flight S')" using begins(3) by (auto simp: in_flight_def)
      then show ?thesis using begin_reveals [of E c "sys_service S" j s "in_flight S'"] begins Next mem' by simp
    qed (use begins in simp)
  next
    case (continues j p s)
    then have "S\<lparr>sys_job := Some j\<rparr> = S" by (cases S) simp
    then have m: "mset (in_flight S) = mset (job_buffers j @ in_flight (S\<lparr>sys_job := None\<rparr>))"
      using phase_in_flight [of "Next j" S] by simp
    have j: "reveal_ok E (Some j) (job_buffers j @ in_flight (S\<lparr>sys_job := None\<rparr>)) (sys_service S)"
      using reveal_quiet [OF quiet_shuffle_buffers [OF config_wf [OF ok] m]] more.IH continues(1) by simp
    show ?thesis
    proof (cases p)
      case (Next j')
      have "reveal_ok E (Some j') (job_buffers j' @ in_flight (S\<lparr>sys_job := None\<rparr>)) s"
        using continues(3) unfolding Next by (rule next_reveals [OF _ continues(2) config_okD(3) [OF ok continues(1)] j])
      moreover have "wf_state s" using memory_wf [OF mem'] continues(4) by simp
      moreover have "mset (job_buffers j' @ in_flight (S\<lparr>sys_job := None\<rparr>)) = mset (in_flight S')"
        using phase_in_flight [of "Next j'" S] continues(4) Next by (simp add: in_flight_def)
      ultimately have "reveal_ok E (Some j') (in_flight S') s"
        using reveal_quiet quiet_shuffle_buffers by blast
      then show ?thesis using continues(4) Next by simp
    qed (use continues in simp)
  next
    case (approves gc g s w)
    then show ?thesis by (simp add: profile_lock_free_def)
  next
    case (commits g)
    then show ?thesis using config_okD(2) [OF ok] by simp
  qed
qed

text \<open>A response with a secret, from the last phase or from the operation in one piece.\<close>

lemma managed_result:
  assumes "next_phase E j s = (Done (Managed (Inr resp)), s')"
  shows "\<exists>a t x. j = RevealSecret a t x \<and> mr_secret resp = buffer s a"
  using assms by (cases j) (auto simp: case_prod_beta split: option.splits)

lemma begin_no_result: "fst (begin_call E c s) \<noteq> Done (Managed (Inr resp))"
  by (cases c)
    (auto simp: begin_store_def begin_manage_def begin_update_def begin_delete_def begin_create_def Let_def
      case_prod_beta split: sum.splits option.splits)

lemma manage_reveals:
  assumes mem: "memory_ok F s" and r: "fst (begin_profile_management E n s) = Inr resp"
  shows "editable (disk_config s) n \<and> revealed_for E n (mr_secret resp)"
proof -
  let ?l = "snd (load_config E s)"
  let ?a = "authorize_profile_management E n ''Open the human profile editor and view or change its password.'' ?l"
  obtain cfg where cfg: "fst (load_config E s) = Inr cfg" "editable cfg n"
    using r by (auto simp: begin_profile_management_def case_prod_beta editable_def split: sum.splits if_splits)
  obtain a where a: "fst ?a = Inr a"
    using r cfg by (auto simp: begin_profile_management_def case_prod_beta editable_def split: sum.splits)
  obtain t where t: "fst (random_capability E ''ksm_'' (snd ?a)) = Inr t"
    and resp: "resp = fst (open_management E n a t (snd (random_capability E ''ksm_'' (snd ?a))))"
    using r cfg a by (auto simp: begin_profile_management_def case_prod_beta editable_def split: sum.splits)
  have "memory_ok (a # F) (snd ?a)" using mem a by (intro memory.authorizes memory.loads)
  then have "memory_ok (a # F) (snd (time_now E (snd (time_now E (snd (random_capability E ''ksm_'' (snd ?a)))))))"
    by (intro memory.now memory.capabilities)
  moreover have "buffer (snd (time_now E (snd (time_now E (snd (random_capability E ''ksm_'' (snd ?a))))))) a =
      buffer (snd ?a) a"
    by (simp add: buffer_def time_now_def random_capability_def next_call_def)
  ultimately have "buffer (expire_management_sessions_locked now
      (snd (time_now E (snd (time_now E (snd (random_capability E ''ksm_'' (snd ?a)))))))) a = buffer (snd ?a) a" for now
    using in_flight_contents(1) by metis
  then have "mr_secret resp = buffer (snd ?a) a"
    unfolding resp by (simp add: open_management_def Let_def case_prod_beta buffer_def frame put_management_def)
  then show ?thesis
    using authorize_reveals [OF a] cfg load_current disk_config_current by metis
qed



end
