(* ===== verification/Keychain_Bridge.thy ===== *)
theory Keychain_Bridge
  imports Profiles Validation
begin

text \<open>
  The Go side of \<^verbatim>\<open>internal/keychain/keychain_darwin.go\<close>. The native functions get C strings and
  return a status and perhaps a message; they are the fields of \<open>native\<close>. \<open>with_keychain\<close> gives
  the daemon the environment that these functions amount to.
\<close>

section \<open>The bridge\<close>

text \<open>\<^verbatim>\<open>C.CString\<close> copies every byte, but a C string ends at the first NUL.\<close>

definition c_string :: "gostring \<Rightarrow> gostring" where
  "c_string s = takeWhile (\<lambda>c. c \<noteq> CHR 0x00) s"

record native =
  nt_store :: "gostring \<Rightarrow> bytes \<Rightarrow> int \<times> gostring option"
  nt_read :: "gostring \<Rightarrow> gostring \<Rightarrow> int \<times> gostring option \<times> bytes"
  nt_delete :: "gostring \<Rightarrow> int \<times> gostring option"
  nt_delete_with_approval :: "gostring \<Rightarrow> gostring \<Rightarrow> int \<times> gostring option"

definition bridge_error :: "int \<Rightarrow> gostring option \<Rightarrow> gostring option" where
  "bridge_error status message =
     (if status = 0 then None
      else case message of
        None \<Rightarrow> Some ''macOS Keychain operation failed''
      | Some m \<Rightarrow> Some (''macOS Keychain operation failed: '' @ m))"

definition bridge_store :: "native \<Rightarrow> gostring \<Rightarrow> bytes \<Rightarrow> gostring option" where
  "bridge_store N account secret =
     (if secret = [] then Some ''secret is empty''
      else case nt_store N (c_string account) secret of (status, message) \<Rightarrow> bridge_error status message)"

definition bridge_read :: "native \<Rightarrow> gostring \<Rightarrow> gostring \<Rightarrow> gostring + bytes" where
  "bridge_read N account approval_message =
     (case nt_read N (c_string account) (c_string approval_message) of
        (status, message, secret) \<Rightarrow>
          (case bridge_error status message of Some e \<Rightarrow> Inl e | None \<Rightarrow> Inr secret))"

definition bridge_delete :: "native \<Rightarrow> gostring \<Rightarrow> gostring option" where
  "bridge_delete N account =
     (case nt_delete N (c_string account) of (status, message) \<Rightarrow> bridge_error status message)"

definition removal_message :: "gostring \<Rightarrow> gostring" where
  "removal_message account =
     ''Permanently remove the Key Session profile '' @ account @ '' and its stored secret.''"

definition bridge_delete_with_approval :: "native \<Rightarrow> gostring \<Rightarrow> gostring \<Rightarrow> gostring option" where
  "bridge_delete_with_approval N account message =
     (case nt_delete_with_approval N (c_string account) (c_string message) of
        (status, error) \<Rightarrow> bridge_error status error)"

text \<open>The \<open>n\<close>-th call may be answered differently from the others.\<close>

definition with_keychain :: "(nat \<Rightarrow> native) \<Rightarrow> env \<Rightarrow> env" where
  "with_keychain N E =
     E\<lparr>env_keychain_store := (\<lambda>n. bridge_store (N n)),
       env_keychain_read := (\<lambda>n. bridge_read (N n)),
       env_keychain_delete := (\<lambda>n. bridge_delete_with_approval (N n))\<rparr>"

section \<open>What the native side is asked\<close>

lemma bridge_error_None: "bridge_error status message = None \<longleftrightarrow> status = 0"
  by (simp add: bridge_error_def split: option.split)

lemma c_string_whole: "c_string s = s \<longleftrightarrow> CHR 0x00 \<notin> set s"
  by (auto simp: c_string_def takeWhile_eq_all_conv)

text \<open>The daemon stores, reads and deletes exactly when the native status is zero.\<close>

lemma native_store:
  "fst (keychain_store (with_keychain N E) account secret s) = None \<longleftrightarrow>
     secret \<noteq> [] \<and> fst (nt_store (N (sv_calls s)) (c_string account) secret) = 0"
  by (simp add: keychain_store_def with_keychain_def bridge_store_def Let_def bridge_error_None
      split: prod.split)

lemma native_read:
  "fst (keychain_read (with_keychain N E) account message s) = Inr a \<longleftrightarrow>
     fst (nt_read (N (sv_calls s)) (c_string account) (c_string message)) = 0 \<and> a = length (sv_heap s)"
  by (auto simp: keychain_read_def with_keychain_def bridge_read_def bridge_error_def alloc_def
      log_effect_def next_call_def split: prod.split option.split)

lemma native_delete:
  "fst (keychain_delete_with_approval (with_keychain N E) account s) = None \<longleftrightarrow>
     fst (nt_delete_with_approval (N (sv_calls s)) (c_string account) (c_string (removal_message account))) = 0"
  by (simp add: keychain_delete_with_approval_def with_keychain_def bridge_delete_with_approval_def
      removal_message_def Let_def bridge_error_None split: prod.split)

section \<open>The prompt is not cut short\<close>

lemma show_int_no_nul: "CHR 0x00 \<notin> set (show_int i)"
proof -
  have "CHR 0x00 \<notin> set (show_nat n)" for n
    using show_nat_digits [of n] by (auto simp: list_all_iff is_digit_def)
  then show ?thesis by (auto simp: show_int_def)
qed

lemma prompt_field_no_nul: "validate_prompt_field f s n = None \<Longrightarrow> CHR 0x00 \<notin> set s"
  using prompt_accepted_bytes by fastforce

lemma profile_name_no_nul: "profile_name_pattern s \<Longrightarrow> CHR 0x00 \<notin> set s"
  using profile_pattern_clean by (fastforce simp: is_alnum_def is_upper_def is_lower_def is_digit_def)

lemma prompt_is_shown_whole:
  assumes "validate_prompt_field f (gc_consumer_label gc) n = None"
    and "validate_prompt_field g (gr_reason (gc_request gc)) m = None" and "profile_name_pattern name"
  shows "c_string name = name" and "c_string (grant_message gc name p d) = grant_message gc name p d"
    and "c_string (removal_message name) = removal_message name"
  using prompt_field_no_nul [OF assms(1)] prompt_field_no_nul [OF assms(2)] profile_name_no_nul [OF assms(3)]
  by (simp_all add: c_string_whole grant_message_def grant_approval_message_def friendly_duration_def
      removal_message_def newline_def ssh_notice_def show_int_no_nul Let_def)

text \<open>
  The check for control characters knows only those of ASCII: a label may hold the line and
  paragraph separators of Unicode, which start a line of their own on the prompt.
\<close>

theorem prompt_accepts_line_separators:
  "validate_prompt_field ''consumer label''
     (''agent'' @ [CHR 0xE2, CHR 0x80, CHR 0xA8] @ ''Profile: x'') 80 = None"
  by (simp add: validate_prompt_field_def decode_rune_def decode_multi_def cont_byte_def
      in_second_range_def second_range_def)

end
