(* ===== verification/Keychain_Native.thy ===== *)
theory Keychain_Native
  imports Keychain_Bridge
begin

text \<open>
  The native half of the Keychain bridge, \<^verbatim>\<open>internal/keychain/keychain_darwin.m\<close>: which calls
  it makes to LocalAuthentication and the Security framework, in which order, and what it answers.
  The frameworks answer each call by its number in the log; nothing is assumed of their answers.
\<close>

section \<open>The frameworks\<close>

text \<open>\<open>Evaluate\<close> is a Touch ID prompt with its text and whether the human approved it.\<close>

datatype framework_call =
    CanEvaluate bool
  | Evaluate gostring bool
  | TrustApplication "gostring option" bool \<comment> \<open>the current program, or the installed helper\<close>
  | CreateAccess gostring "gostring option list" int
  | AddItem gostring bytes int
  | DeleteItem gostring int
  | CopyItem gostring int

type_synonym call_log = "framework_call list"

text \<open>
  \<open>fw_can_evaluate\<close> and \<open>fw_evaluate\<close> may come with a description of the error;
  \<open>fw_trust\<close> is the status of \<^verbatim>\<open>SecTrustedApplicationCreateFromPath\<close> and whether it made an object, and so is
  \<open>fw_create_access\<close> of \<^verbatim>\<open>SecAccessCreate\<close>.
\<close>

record frameworks =
  fw_utf8 :: "gostring \<Rightarrow> bool"
  fw_can_evaluate :: "nat \<Rightarrow> bool \<times> gostring option"
  fw_evaluate :: "nat \<Rightarrow> gostring \<Rightarrow> bool \<times> gostring option"
  fw_trust :: "nat \<Rightarrow> gostring option \<Rightarrow> int \<times> bool"
  fw_helper :: gostring
  fw_helper_executable :: bool
  fw_create_access :: "nat \<Rightarrow> gostring \<Rightarrow> gostring option list \<Rightarrow> int \<times> bool"
  fw_add_item :: "nat \<Rightarrow> gostring \<Rightarrow> bytes \<Rightarrow> int"
  fw_delete_item :: "nat \<Rightarrow> gostring \<Rightarrow> int"
  fw_copy_item :: "nat \<Rightarrow> gostring \<Rightarrow> int \<times> bytes"
  fw_no_memory :: bool
  fw_status_text :: "int \<Rightarrow> gostring option"

definition err_param :: int where "err_param = - 50"
definition err_duplicate :: int where "err_duplicate = - 25299"
definition err_not_found :: int where "err_not_found = - 25300"

text \<open>The text \<^verbatim>\<open>setErrorMessage\<close> leaves for a status.\<close>

definition status_message :: "frameworks \<Rightarrow> int \<Rightarrow> gostring" where
  "status_message F status =
     (case fw_status_text F status of None \<Rightarrow> ''unknown Keychain error'' | Some t \<Rightarrow> t)"

definition text_or :: "gostring \<Rightarrow> gostring option \<Rightarrow> gostring" where
  "text_or fallback t = (case t of None \<Rightarrow> fallback | Some x \<Rightarrow> x)"

section \<open>The prompt\<close>

text \<open>The answers are a status, the error message if one was set, and the log.\<close>

definition authenticate_user_presence ::
  "frameworks \<Rightarrow> gostring \<Rightarrow> gostring \<Rightarrow> call_log \<Rightarrow> int \<times> gostring option \<times> call_log" where
  "authenticate_user_presence F account reason log =
     (let (can, problem) = fw_can_evaluate F (length log); log1 = CanEvaluate can # log
      in if \<not> can then (1, Some (text_or ''Touch ID is unavailable or not enrolled'' problem), log1)
         else
           let shown = (if length reason > 0 then reason
                        else ''Reveal the Key Session profile '' @ account @ ''.'');
               (approved, failure) = fw_evaluate F (length log1) shown;
               log2 = Evaluate shown approved # log1
           in if \<not> approved then (1, Some (text_or ''Touch ID authentication was denied'' failure), log2)
              else (0, None, log2))"

section \<open>Storing\<close>

text \<open>
  The access list of an item: the current program and, when it can be trusted, the installed helper.
  Without an access object the store fails, with a message when a status explains it.
\<close>

definition create_trusted_access ::
  "frameworks \<Rightarrow> gostring \<Rightarrow> call_log \<Rightarrow> (gostring option + gostring option list) \<times> call_log" where
  "create_trusted_access F account log =
     (let (status, made) = fw_trust F (length log) None; log1 = TrustApplication None made # log
      in if status \<noteq> 0 \<or> \<not> made then (Inl (Some (status_message F status)), log1)
         else
           let (apps, log2) =
                 (if fw_helper_executable F then
                    let (st, m) = fw_trust F (length log1) (Some (fw_helper F))
                    in (if st = 0 \<and> m then [None, Some (fw_helper F)] else [None],
                        TrustApplication (Some (fw_helper F)) m # log1)
                  else ([None], log1));
               description = ''Key Session profile '' @ account;
               (result, access) = fw_create_access F (length log2) description apps;
               log3 = CreateAccess description apps result # log2
           in if result \<noteq> 0 then (Inl (Some (status_message F result)), log3)
              else if \<not> access then (Inl None, log3) else (Inr apps, log3))"

definition add_item :: "frameworks \<Rightarrow> gostring \<Rightarrow> bytes \<Rightarrow> call_log \<Rightarrow> int \<times> call_log" where
  "add_item F account data log =
     (let status = fw_add_item F (length log) account data in (status, AddItem account data status # log))"

definition delete_item :: "frameworks \<Rightarrow> gostring \<Rightarrow> call_log \<Rightarrow> int \<times> call_log" where
  "delete_item F account log =
     (let status = fw_delete_item F (length log) account in (status, DeleteItem account status # log))"

text \<open>An item that exists is deleted, and the new one is added in its place.\<close>

definition store_protected_secret ::
  "frameworks \<Rightarrow> gostring \<Rightarrow> bytes \<Rightarrow> call_log \<Rightarrow> int \<times> gostring option \<times> call_log" where
  "store_protected_secret F account data log =
     (case create_trusted_access F account log of
        (Inl message, log1) \<Rightarrow> (err_param, message, log1)
      | (Inr access, log1) \<Rightarrow>
          let (status, log2) = add_item F account data log1
          in if status = err_duplicate then
               let (deleted, log3) = delete_item F account log2
               in if deleted \<noteq> 0 \<and> deleted \<noteq> err_not_found then (deleted, Some (status_message F deleted), log3)
                  else
                    let (again, log4) = add_item F account data log3
                    in (again, if again \<noteq> 0 then Some (status_message F again) else None, log4)
             else (status, if status \<noteq> 0 then Some (status_message F status) else None, log2))"

definition key_session_store ::
  "frameworks \<Rightarrow> gostring \<Rightarrow> bytes \<Rightarrow> call_log \<Rightarrow> int \<times> gostring option \<times> call_log" where
  "key_session_store F account secret log =
     (if \<not> fw_utf8 F account \<or> length secret = 0 then (1, Some ''invalid profile or secret'', log)
      else case store_protected_secret F account secret log of
        (status, message, log1) \<Rightarrow> if status \<noteq> 0 then (1, message, log1) else (0, message, log1))"

section \<open>Reading and deleting\<close>

definition read_keychain_secret ::
  "frameworks \<Rightarrow> gostring \<Rightarrow> gostring \<Rightarrow> call_log \<Rightarrow> int \<times> gostring option \<times> bytes \<times> call_log" where
  "read_keychain_secret F account approval_message log =
     (if \<not> fw_utf8 F account \<or> \<not> fw_utf8 F approval_message \<or> length approval_message = 0
      then (1, Some ''invalid profile or approval message'', [], log)
      else case authenticate_user_presence F account approval_message log of
        (denied, message, log1) \<Rightarrow>
          if denied \<noteq> 0 then (1, message, [], log1)
          else
            let (status, data) = fw_copy_item F (length log1) account; log2 = CopyItem account status # log1
            in if status \<noteq> 0 then (1, Some (status_message F status), [], log2)
               else if fw_no_memory F then (1, Some ''could not allocate secret buffer'', [], log2)
               else (0, message, data, log2))"

definition key_session_delete :: "frameworks \<Rightarrow> gostring \<Rightarrow> call_log \<Rightarrow> int \<times> gostring option \<times> call_log" where
  "key_session_delete F account log =
     (if \<not> fw_utf8 F account then (1, Some ''invalid profile'', log)
      else
        let (status, log1) = delete_item F account log
        in if status \<noteq> 0 \<and> status \<noteq> err_not_found then (1, Some (status_message F status), log1)
           else (0, None, log1))"

definition key_session_delete_with_approval ::
  "frameworks \<Rightarrow> gostring \<Rightarrow> gostring \<Rightarrow> call_log \<Rightarrow> int \<times> gostring option \<times> call_log" where
  "key_session_delete_with_approval F account approval_message log =
     (if \<not> fw_utf8 F account \<or> \<not> fw_utf8 F approval_message \<or> length approval_message = 0
      then (1, Some ''invalid profile or approval message'', log)
      else case authenticate_user_presence F account approval_message log of
        (denied, message, log1) \<Rightarrow>
          if denied \<noteq> 0 then (1, message, log1) else key_session_delete F account log1)"

section \<open>The bridge over the frameworks\<close>

definition native_over :: "frameworks \<Rightarrow> native" where
  "native_over F =
     \<lparr>nt_store = (\<lambda>account secret. case key_session_store F account secret [] of (st, m, log) \<Rightarrow> (st, m)),
      nt_read = (\<lambda>account message. case read_keychain_secret F account message [] of (st, m, bs, log) \<Rightarrow> (st, m, bs)),
      nt_delete = (\<lambda>account. case key_session_delete F account [] of (st, m, log) \<Rightarrow> (st, m)),
      nt_delete_with_approval = (\<lambda>account message.
        case key_session_delete_with_approval F account message [] of (st, m, log) \<Rightarrow> (st, m))\<rparr>"

text \<open>The daemon on a Mac: its \<open>n\<close>-th call to the outside meets the frameworks \<open>M n\<close>.\<close>

definition on_mac :: "(nat \<Rightarrow> frameworks) \<Rightarrow> env \<Rightarrow> env" where
  "on_mac M E = with_keychain (\<lambda>n. native_over (M n)) E"

end
