(* ===== verification/Touch_Id.thy ===== *)
theory Touch_Id
  imports Released_Secrets Keychain_Native
begin

text \<open>
  The daemon together with the native Keychain code: what the prompts of Touch ID showed before a
  secret left the Keychain, down to the leases of a reachable state.
\<close>

section \<open>The order of the calls\<close>

text \<open>The log is newest first. Each access to a secret item comes right after an approved prompt.\<close>

lemma authenticated:
  "authenticate_user_presence F a m log = (0, e, log') \<Longrightarrow> m \<noteq> [] \<Longrightarrow>
     log' = Evaluate m True # CanEvaluate True # log"
  by (auto simp: authenticate_user_presence_def Let_def split: prod.splits if_splits)

fun touches_item :: "framework_call \<Rightarrow> bool" where
  "touches_item (CopyItem a st) = True"
| "touches_item (DeleteItem a st) = True"
| "touches_item c = False"

definition just_approved :: "gostring \<Rightarrow> call_log \<Rightarrow> bool" where
  "just_approved m log = (case log of c # rest \<Rightarrow> c = Evaluate m True | [] \<Rightarrow> False)"

text \<open>Every access to an item follows a prompt that was approved and showed \<open>m\<close>.\<close>

fun approved_first :: "gostring \<Rightarrow> call_log \<Rightarrow> bool" where
  "approved_first m [] = True"
| "approved_first m (c # log) = ((touches_item c \<longrightarrow> just_approved m log) \<and> approved_first m log)"

lemma authenticating_touches_nothing:
  assumes "authenticate_user_presence F a m log = (st, e, log')" and "approved_first x log"
  shows "approved_first x log'"
  using assms
  by (auto simp: authenticate_user_presence_def Let_def split: prod.splits if_splits)

lemma reading_is_approved:
  assumes "read_keychain_secret F a m log = (st, e, bs, log')" and "approved_first m log"
  shows "approved_first m log'"
  using assms authenticating_touches_nothing [OF _ assms(2)] authenticated [of F a m log]
  by (auto simp: read_keychain_secret_def Let_def just_approved_def split: prod.splits if_splits)

lemma deleting_is_approved:
  assumes "key_session_delete_with_approval F a m log = (st, e, log')" and "approved_first m log"
  shows "approved_first m log'"
  using assms authenticating_touches_nothing [OF _ assms(2)] authenticated [of F a m log]
  by (auto simp: key_session_delete_with_approval_def key_session_delete_def delete_item_def Let_def
      just_approved_def split: prod.splits if_splits)

text \<open>What must have happened before an item is touched, and what a call without it comes to.\<close>

definition permitted :: "frameworks \<Rightarrow> gostring \<Rightarrow> gostring \<Rightarrow> bool" where
  "permitted F a m \<longleftrightarrow>
     fw_utf8 F a \<and> fw_utf8 F m \<and> m \<noteq> [] \<and> fst (fw_can_evaluate F 0) \<and> fst (fw_evaluate F 1 m)"

lemma not_permitted:
  assumes "\<not> permitted F a m"
  shows "\<exists>e log. read_keychain_secret F a m [] = (1, Some e, [], log) \<and>
      key_session_delete_with_approval F a m [] = (1, Some e, log) \<and> list_all (\<lambda>c. \<not> touches_item c) log"
  using assms
  by (auto simp: permitted_def read_keychain_secret_def key_session_delete_with_approval_def
      authenticate_user_presence_def Let_def split: prod.split)

lemma permitted_authenticates:
  "permitted F a m \<Longrightarrow> authenticate_user_presence F a m [] = (0, None, [Evaluate m True, CanEvaluate True])"
  by (auto simp: permitted_def authenticate_user_presence_def Let_def split: prod.split)

text \<open>C6: items_need_an_approved_prompt.
  Whatever the frameworks answer, the native code looks at a Keychain item, or deletes it on the
  user's behalf, only right after a Touch ID prompt that showed the given message and was
  approved. When the account or the message is not UTF-8, the message is empty, the sensor is
  missing or the human refuses, both calls fail with the same message and touch no item. Otherwise
  the read asks for exactly the item of the account, and succeeds with its data when the framework
  finds it and there is memory; the deletion deletes exactly that item, and an item that is
  already gone counts as deleted.\<close>

theorem items_need_an_approved_prompt:
  "approved_first m (snd (snd (snd (read_keychain_secret F a m [])))) \<and>
   approved_first m (snd (snd (key_session_delete_with_approval F a m []))) \<and>
   (if permitted F a m then
      (let prompted = [Evaluate m True, CanEvaluate True];
           found = fw_copy_item F 2 a; status = fw_delete_item F 2 a;
           read = read_keychain_secret F a m []; deleted = key_session_delete_with_approval F a m []
       in snd (snd (snd read)) = CopyItem a (fst found) # prompted \<and>
          (fst read = 0 \<longleftrightarrow> fst found = 0 \<and> \<not> fw_no_memory F) \<and>
          (fst (snd (snd read)) = (if fst read = 0 then snd found else [])) \<and>
          snd (snd deleted) = DeleteItem a status # prompted \<and>
          (fst deleted = 0 \<longleftrightarrow> status \<in> {0, err_not_found}))
    else
      (\<exists>e log. read_keychain_secret F a m [] = (1, Some e, [], log) \<and>
         key_session_delete_with_approval F a m [] = (1, Some e, log) \<and> list_all (\<lambda>c. \<not> touches_item c) log))"
proof (intro conjI)
  obtain st e bs log where "read_keychain_secret F a m [] = (st, e, bs, log)" by (metis prod_cases4)
  then show "approved_first m (snd (snd (snd (read_keychain_secret F a m []))))"
    using reading_is_approved [of F a m "[]"] by simp
  obtain st e log where "key_session_delete_with_approval F a m [] = (st, e, log)" by (metis prod_cases3)
  then show "approved_first m (snd (snd (key_session_delete_with_approval F a m [])))"
    using deleting_is_approved [of F a m "[]"] by simp
next
  show "if permitted F a m then
      (let prompted = [Evaluate m True, CanEvaluate True];
           found = fw_copy_item F 2 a; status = fw_delete_item F 2 a;
           read = read_keychain_secret F a m []; deleted = key_session_delete_with_approval F a m []
       in snd (snd (snd read)) = CopyItem a (fst found) # prompted \<and>
          (fst read = 0 \<longleftrightarrow> fst found = 0 \<and> \<not> fw_no_memory F) \<and>
          (fst (snd (snd read)) = (if fst read = 0 then snd found else [])) \<and>
          snd (snd deleted) = DeleteItem a status # prompted \<and>
          (fst deleted = 0 \<longleftrightarrow> status \<in> {0, err_not_found}))
    else
      (\<exists>e log. read_keychain_secret F a m [] = (1, Some e, [], log) \<and>
         key_session_delete_with_approval F a m [] = (1, Some e, log) \<and> list_all (\<lambda>c. \<not> touches_item c) log)"
  proof (cases "permitted F a m")
    case True
    then have "fw_utf8 F a" "fw_utf8 F m" "m \<noteq> []" by (simp_all add: permitted_def)
    then show ?thesis
      using True permitted_authenticates [OF True]
      by (auto simp: read_keychain_secret_def key_session_delete_with_approval_def key_session_delete_def
          delete_item_def Let_def numeral_2_eq_2 split: prod.split)
  qed (use not_permitted in simp)
qed

lemma native_read_order:
  assumes "read_keychain_secret F a m log = (0, e, bs, log')"
  shows "log' = CopyItem a 0 # Evaluate m True # CanEvaluate True # log \<and>
    fw_copy_item F (Suc (Suc (length log))) a = (0, bs)"
proof -
  obtain e1 log1 where auth: "authenticate_user_presence F a m log = (0, e1, log1)" and m: "m \<noteq> []"
    using assms by (auto simp: read_keychain_secret_def split: prod.splits if_splits)
  have "log1 = Evaluate m True # CanEvaluate True # log" using auth m by (rule authenticated)
  then show ?thesis
    using assms auth m by (auto simp: read_keychain_secret_def Let_def split: prod.splits if_splits)
qed

lemma native_delete_order:
  assumes "key_session_delete_with_approval F a m log = (0, e, log')"
  shows "\<exists>st. st \<in> {0, err_not_found} \<and> log' = DeleteItem a st # Evaluate m True # CanEvaluate True # log"
proof -
  obtain e1 log1 where auth: "authenticate_user_presence F a m log = (0, e1, log1)" and m: "m \<noteq> []"
    using assms by (auto simp: key_session_delete_with_approval_def split: prod.splits if_splits)
  have "log1 = Evaluate m True # CanEvaluate True # log" using auth m by (rule authenticated)
  then show ?thesis
    using assms auth m
    by (auto simp: key_session_delete_with_approval_def key_session_delete_def delete_item_def Let_def
        split: prod.splits if_splits)
qed

section \<open>The daemon on a Mac\<close>

lemma mac_read:
  assumes "env_keychain_read (on_mac M E) n account message = Inr bs"
  shows "\<exists>e. read_keychain_secret (M n) (c_string account) (c_string message) [] =
    (0, e, bs, [CopyItem (c_string account) 0, Evaluate (c_string message) True, CanEvaluate True])"
proof -
  obtain st e x log where r: "read_keychain_secret (M n) (c_string account) (c_string message) [] = (st, e, x, log)"
    by (metis prod_cases4)
  then have "bridge_error st e = None \<and> x = bs"
    using assms by (auto simp: on_mac_def with_keychain_def bridge_read_def native_over_def split: option.splits)
  then have "st = 0" "x = bs" by (simp_all add: bridge_error_None)
  then show ?thesis using r native_read_order [of "M n"] by blast
qed

text \<open>C3: leases_hold_what_touch_id_released.
  On a Mac, in every reachable state, the secret of each lease is what the Security framework
  returned for the item of the lease's profile, in a call that directly followed a Touch ID
  prompt which the human approved, and which showed the consumer, the profile, the reason and
  the duration of that very lease.\<close>

theorem leases_hold_what_touch_id_released:
  assumes "reachable (on_mac M E) W S" and "go_get (sv_consumers (sys_service S)) h = Some c"
    and "(i, l) \<in> set (cs_leases c)"
  shows "\<exists>n d e. in_bounds minimum_lease maximum_lease d \<and>
    lease_expires_at (al_metadata l) \<le> lease_granted_at (al_metadata l) + sint d \<and>
    read_keychain_secret (M n) (c_string (lease_profile (al_metadata l)))
        (c_string (lease_prompt (al_metadata l) d)) [] =
      (0, e, buffer (sys_service S) (al_secret l),
       [CopyItem (c_string (lease_profile (al_metadata l))) 0,
        Evaluate (c_string (lease_prompt (al_metadata l) d)) True, CanEvaluate True])"
proof -
  have "l \<in> set (all_leases (sys_service S))"
    using go_get_mem [OF assms(2)] assms(3) by (force simp: all_leases_set)
  then have "ticket_of (sys_service S) l \<in> tickets (table_of S)"
    by (simp add: tickets_def table_of_def granted_def)
  then have "released (on_mac M E) (ticket_of (sys_service S) l)"
    using reachable_tickets [OF assms(1)] by blast
  then show ?thesis unfolding released_def ticket_of_def fst_conv snd_conv using mac_read by blast
qed

text \<open>A Mac where every call succeeds; the sample environment is the one it gives.\<close>

definition sample_mac :: frameworks where
  "sample_mac =
     \<lparr>fw_utf8 = (\<lambda>s. True), fw_can_evaluate = (\<lambda>n. (True, None)), fw_evaluate = (\<lambda>n r. (True, None)),
      fw_trust = (\<lambda>n p. (0, True)), fw_helper = [], fw_helper_executable = False,
      fw_create_access = (\<lambda>n d apps. (0, True)), fw_add_item = (\<lambda>n a bs. 0), fw_delete_item = (\<lambda>n a. 0),
      fw_copy_item = (\<lambda>n a. (0, ''s3cret'')), fw_no_memory = False, fw_status_text = (\<lambda>st. None)\<rparr>"

lemma sample_mac_bridge:
  "bridge_read (native_over sample_mac) account = sample_keychain"
  "bridge_store (native_over sample_mac) account secret = (if secret = [] then Some ''secret is empty'' else None)"
  "bridge_delete_with_approval (native_over sample_mac) account message =
     (case sample_keychain message of Inl e \<Rightarrow> Some e | Inr x \<Rightarrow> None)"
  by (auto simp: fun_eq_iff sample_mac_def native_over_def bridge_read_def bridge_store_def
      bridge_delete_with_approval_def bridge_error_def read_keychain_secret_def key_session_store_def
      key_session_delete_with_approval_def key_session_delete_def delete_item_def store_protected_secret_def
      create_trusted_access_def add_item_def authenticate_user_presence_def Let_def sample_keychain_def
      c_string_def err_duplicate_def err_not_found_def)

lemma sample_on_mac: "on_mac (\<lambda>n. sample_mac) sample_env = sample_env"
  by (simp add: on_mac_def with_keychain_def sample_env_def fun_eq_iff sample_mac_bridge)

theorem leases_hold_what_touch_id_released_witness:
  "\<exists>n d e. read_keychain_secret sample_mac ''api'' (c_string (lease_prompt (gy_lease sample_ready) d)) [] =
     (0, e, buffer (sys_service sample_system) 0,
      [CopyItem ''api'' 0, Evaluate (c_string (lease_prompt (gy_lease sample_ready) d)) True, CanEvaluate True])"
proof -
  have "reachable (on_mac (\<lambda>n. sample_mac) sample_env) W sample_system" for W
    unfolding sample_on_mac by (rule sample_reachable)
  moreover have "lease_profile (gy_lease sample_ready) = ''api''" "c_string ''api'' = ''api''"
    by (simp_all add: sample_ready_def c_string_def)
  ultimately show ?thesis
    using leases_hold_what_touch_id_released [of "\<lambda>n. sample_mac" sample_env _ sample_system, OF _ sample_granted,
        of _ "lease_id (gy_lease sample_ready)" "\<lparr>al_metadata = gy_lease sample_ready, al_secret = 0\<rparr>"]
      sample_granted_leases
    by auto
qed

section \<open>Replacing an item\<close>

text \<open>
  \<^verbatim>\<open>storeProtectedSecret\<close> deletes an item that exists before it adds the new one. When that fails,
  the store reports an error and the last change to the item that succeeded is its deletion.
\<close>

theorem failed_store_loses_the_item:
  assumes "fw_utf8 F a" and "bs \<noteq> []" and "create_trusted_access F a [] = (Inr apps, log)"
    and "fw_add_item F (length log) a bs = err_duplicate"
    and "fw_delete_item F (Suc (length log)) a = 0"
    and "fw_add_item F (Suc (Suc (length log))) a bs = st" and "st \<noteq> 0"
  shows "key_session_store F a bs [] =
    (1, Some (status_message F st), AddItem a bs st # DeleteItem a 0 # AddItem a bs err_duplicate # log)"
  using assms by (simp add: key_session_store_def store_protected_secret_def add_item_def delete_item_def Let_def)

end
