(* ===== verification/Phase_Properties.thy ===== *)
theory Phase_Properties
  imports Sample_Sessions Access_Properties
begin

text \<open>
  Properties of the operations on profiles between their locked sections, and of what a tick of
  the daemon leaves in memory while they run.
\<close>

section \<open>Phases and operations\<close>

lemma begin_rank: "phase_rank (fst (begin_call E c s)) \<le> 3"
  by (cases c) (auto simp: begin_store_def begin_manage_def begin_update_def begin_delete_def begin_create_def
      Let_def case_prod_beta split: sum.split option.split)

text \<open>An operation on profiles that nothing interrupts is the sequence of its phases: the same
  result and the same state as the operation run at once, after at most three more sections.\<close>

theorem profile_operations_in_phases:
  "run_call E c s = perform_call E c s \<and> phase_rank (fst (begin_call E c s)) \<le> 3"
  by (simp only: call_in_phases begin_rank)

section \<open>The secret in the answer of a management request\<close>

text \<open>Clearing a buffer keeps its length.\<close>

definition buffer_length :: "nat \<Rightarrow> nat \<Rightarrow> service \<Rightarrow> bool" where
  "buffer_length a n s \<longleftrightarrow> wf_state s \<and> a < length (sv_heap s) \<and> length (buffer s a) = n"

lemma clear_bytes_buffer_length: "length (buffer (clear_bytes a s) b) = length (buffer s b)"
  by (cases "a = b"; cases "a < length (sv_heap s)") (simp_all add: clear_bytes_def buffer_def list_update_beyond)

lemma length_primitives:
  "buffer_length a n s \<Longrightarrow> buffer_length a n (clear_lease_locked h i s)"
  "buffer_length a n s \<Longrightarrow> buffer_length a n (record_locked E k p cid lab r d s)"
  "buffer_length a n s \<Longrightarrow> buffer_length a n (drop_consumer h s)"
  "buffer_length a n s \<Longrightarrow> buffer_length a n (drop_management t m s)"
  "buffer_length a n s \<Longrightarrow> wf_state s"
proof -
  assume l: "buffer_length a n s"
  show "buffer_length a n (clear_lease_locked h i s)"
    using l wf_clear_lease [of s h i] clear_bytes_buffer_length [of _ s a]
    by (auto simp: buffer_length_def heap_length clear_lease_locked_def Let_def frame buffer_def split: option.split)
  show "buffer_length a n (drop_management t m s)"
    using l wf_drop_management [of s t m] clear_bytes_buffer_length [of "ms_secret m" s a]
    by (auto simp: buffer_length_def heap_length drop_management_def Let_def buffer_def)
qed (auto simp: buffer_length_def wf_record wf_drop_consumer frame buffer_def)

interpretation lengths: kept_by_primitives "buffer_length a n" for a n
  by unfold_locales (blast intro: length_primitives)+

text \<open>C25: revealed_secret_can_be_blank.
  \<^verbatim>\<open>BeginProfileManagement\<close> copies the secret into its response after it has released the state
  lock. When the daemon is closed in between, which clears the sessions, the response carries a
  valid-looking token and, instead of the secret, as many zero bytes.\<close>

theorem revealed_secret_can_be_blank:
  assumes "reachable E W S" and "sys_job S = Some (RevealSecret a t x)"
    and "go_get (sv_management (sys_service S)) t = Some m" and "ms_secret m = a"
  shows "reachable E W (S\<lparr>sys_service := close_service (sys_service S)\<rparr>) \<and>
    (\<exists>r. next_phase E (RevealSecret a t x) (close_service (sys_service S)) =
        (Done (Managed (Inr r)), close_service (sys_service S)) \<and>
      mr_management_token r = t \<and>
      mr_secret r = replicate (length (buffer (sys_service S) a)) (CHR 0x00))"
proof
  let ?s = "sys_service S" let ?s' = "close_service ?s"
  show "reachable E W (S\<lparr>sys_service := ?s'\<rparr>)"
    using reachable.more [OF assms(1) step.operation [of E W S Close]] by simp
  have mem: "memory_ok (in_flight S) ?s" using system_reachable [OF assms(1)] by (simp add: system_ok_def)
  have "a \<in> set (owned ?s)" using go_get_mem [OF assms(3)] assms(4) by (force simp: owned_def)
  then have a: "a < length (sv_heap ?s)" "a \<notin> set (in_flight S)" using mem by (auto simp: memory_ok_def)
  then have "buffer_length a (length (buffer ?s a)) ?s" using memory_wf [OF mem] by (simp add: buffer_length_def)
  then have len: "buffer_length a (length (buffer ?s a)) ?s'" by (rule lengths.close)
  then have "zeroed (buffer ?s' a)"
    using close_zeroes_everything [OF mem] a(2) by (auto simp: buffer_length_def)
  then have "buffer ?s' a = replicate (length (buffer ?s a)) (CHR 0x00)"
    using len by (auto simp: buffer_length_def zeroed_def list_all_iff intro: replicate_eqI)
  then show "\<exists>r. next_phase E (RevealSecret a t x) ?s' = (Done (Managed (Inr r)), ?s') \<and>
      mr_management_token r = t \<and> mr_secret r = replicate (length (buffer ?s a)) (CHR 0x00)"
    by simp
qed

theorem revealed_secret_can_be_blank_witness:
  "fst (next_phase sample_env (RevealSecret 0 managed_token managed_expiry) (close_service managed_service)) =
     Done (Managed (Inr \<lparr>mr_management_token = managed_token, mr_secret = replicate 6 (CHR 0x00),
       mr_expires_at = managed_expiry\<rparr>))"
  using revealed_secret_can_be_blank [OF managed_reachable, of 0 managed_token managed_expiry] managed_sessions
  by (simp add: managed_system_def initial_def buffer_def) (simp add: eval_nat_numeral)

section \<open>After a tick\<close>

text \<open>C24: expired_secrets_are_erased.
  In every reachable state the work of one tick leaves no secret of an expired lease, of an
  ended consumer session or of an expired management session in memory: each buffer that is not
  all zeros belongs to a lease that lives now in a session that lives now, to a management
  session that lives now, or to an operation in flight.\<close>

theorem expired_secrets_are_erased:
  assumes "reachable E W S" and "a < length (sv_heap (tick E (sys_service S)))"
    and "\<not> zeroed (buffer (tick E (sys_service S)) a)" and "a \<notin> set (in_flight S)"
  shows "(\<exists>e \<in> set (sv_consumers (tick E (sys_service S))). \<exists>l \<in> set (cs_leases (snd e)). al_secret (snd l) = a \<and>
      lease_live (env_clock E (sv_calls (sys_service S))) (snd l) \<and>
      consumer_live (env_clock E (sv_calls (sys_service S))) (snd e)) \<or>
    (\<exists>e \<in> set (sv_management (tick E (sys_service S))). ms_secret (snd e) = a \<and>
      env_clock E (sv_calls (sys_service S)) < ms_expires_at (snd e))"
proof -
  let ?s = "sys_service S" let ?now = "env_clock E (sv_calls ?s)" let ?s1 = "expire_locked E ?now (next_call ?s)"
  have t: "tick E ?s = expire_management_sessions_locked ?now ?s1" by (simp add: tick_def time_now_def)
  have mem: "memory_ok (in_flight S) ?s" using system_reachable [OF assms(1)] by (simp add: system_ok_def)
  then have "a \<in> set (owned (tick E ?s))"
    using memory.ticks [OF mem, of E] assms(2,3,4) by (auto simp: memory_ok_def)
  moreover have wf: "wf_state (next_call ?s)" using memory_wf [OF mem] by (simp add: wf_state_def frame)
  have c: "sv_consumers (tick E ?s) = map (\<lambda>(h, c). (h, keep_leases (lease_live ?now) c))
      (filter (\<lambda>e. consumer_live ?now (snd e)) (sv_consumers ?s))"
    using expire_consumers_eq [OF wf, of E ?now] by (simp add: t expire_management_sessions_locked_def frame)
  have m: "sv_management (tick E ?s) = filter (\<lambda>e. ?now < ms_expires_at (snd e)) (sv_management ?s)"
    using expire_management_eq [OF wf_kept.expire [OF wf], of ?now E ?now] by (simp add: t frame)
  ultimately consider e l where "e \<in> set (sv_consumers (tick E ?s))" "l \<in> set (cs_leases (snd e))" "al_secret (snd l) = a"
    | e where "e \<in> set (sv_management (tick E ?s))" "ms_secret (snd e) = a"
    by (auto simp: owned_def lease_buffers_def)
  then show ?thesis
  proof cases
    case 1
    then have "lease_live ?now (snd l) \<and> consumer_live ?now (snd e)"
      unfolding c by (auto simp: consumer_live_def)
    then show ?thesis using 1 by blast
  next
    case 2
    then have "?now < ms_expires_at (snd e)" unfolding m by simp
    then show ?thesis using 2 by blast
  qed
qed

lemma ssh_tick:
  "memory_ok [] (tick ssh_env ssh_service)" "buffer (tick ssh_env ssh_service) 0 = std_encode sample_seed"
  "0 \<in> set (owned (tick ssh_env ssh_service))"
proof -
  have wf: "wf_state (next_call ssh_service)" using ssh_committed(4) by (simp add: memory_wf)
  have "sv_consumers (tick ssh_env ssh_service) = sv_consumers ssh_service"
    using expire_consumers_eq [OF wf]
    by (simp add: tick_def time_now_def expire_management_sessions_locked_def frame ssh_committed consumer_live_def
        new_session_def Let_def installed_def keep_leases_def lease_live_def)
  then have l: "all_leases (tick ssh_env ssh_service) = [\<lparr>al_metadata = gy_lease ssh_ready, al_secret = 0\<rparr>]"
    by (simp add: all_leases_def ssh_committed(1) installed_def new_session_def Let_def)
  then show "0 \<in> set (owned (tick ssh_env ssh_service))"
    using lease_buffer_owned [of "\<lparr>al_metadata = gy_lease ssh_ready, al_secret = 0\<rparr>"] by simp
  have "leases_hold (\<lambda>m bs. bs = std_encode sample_seed) [] ssh_service"
    using ssh_committed(3,4)
    by (simp add: leases_hold_def all_leases_def ssh_committed(1) installed_def new_session_def Let_def)
  then have "leases_hold (\<lambda>m bs. bs = std_encode sample_seed) [] (tick ssh_env ssh_service)"
    by (rule lease_contents.ticks)
  then show "memory_ok [] (tick ssh_env ssh_service)" "buffer (tick ssh_env ssh_service) 0 = std_encode sample_seed"
    using l by (simp_all add: leases_hold_def)
qed

lemma sample_seed_not_zeroed: "\<not> zeroed (std_encode sample_seed)"
  unfolding sample_seed_def by code_simp

theorem expired_secrets_are_erased_witness:
  "(\<exists>e \<in> set (sv_consumers (tick ssh_env ssh_service)). \<exists>l \<in> set (cs_leases (snd e)). al_secret (snd l) = 0 \<and>
      lease_live 14 (snd l) \<and> consumer_live 14 (snd e)) \<or>
    (\<exists>e \<in> set (sv_management (tick ssh_env ssh_service)). ms_secret (snd e) = 0 \<and> 14 < ms_expires_at (snd e))"
proof -
  have "0 < length (sv_heap (tick ssh_env ssh_service))" using ssh_tick(1,3) by (auto simp: memory_ok_def)
  moreover have "in_flight ssh_system = []" by (simp add: in_flight_def ssh_system_def initial_def)
  ultimately show ?thesis
    using expired_secrets_are_erased [OF ssh_reachable, of 0] ssh_tick(2) sample_seed_not_zeroed ssh_committed(2)
    by simp
qed

end
