(* ===== verification/Response_Types.thy ===== *)
theory Response_Types
  imports Server
begin

text \<open>
  The types of the HTTP interface: which body and status a request may be answered with. JSON
  does not name the type of a document, so a client relies on this when it decodes a response.
\<close>

section \<open>The types\<close>

text \<open>The errors of the contract: status, code and whether a retry makes sense.\<close>

definition contract_errors :: "(nat \<times> gostring \<times> bool) list" where
  "contract_errors =
     [(400, ''INVALID_REQUEST'', False), (400, ''REQUEST_FAILED'', False), (401, ''UNAUTHORIZED'', False),
      (403, ''HOSTILE_ORIGIN'', False), (404, ''NOT_FOUND'', False), (503, ''UNAVAILABLE'', True)]"

definition profile_segment :: "gostring \<Rightarrow> bool" where
  "profile_segment name \<longleftrightarrow> name \<noteq> [] \<and> \<not> str_contains name ''/''"

inductive well_typed :: "gostring \<Rightarrow> gostring \<Rightarrow> http_response \<Rightarrow> bool" where
  refused: "(status, code, retryable) \<in> set contract_errors \<Longrightarrow>
    well_typed m p (write_error status code message retryable)"
| handshake: "well_typed ''GET'' ''/handshake'' (200, HandshakeBody h)"
| snapshot: "well_typed ''GET'' ''/v2/status'' (200, SnapshotBody x)"
| status: "well_typed ''POST'' ''/v2/consumers/status'' (200, StatusBody x)"
| grant: "well_typed ''POST'' ''/v2/leases'' (200, GrantBody x)"
| revoke: "well_typed ''POST'' ''/v2/leases/revoke'' (200, FlagBody ''revoked'' b)"
| admin_revoke: "well_typed ''POST'' ''/v2/admin/revoke'' (200, FlagBody ''revoked'' b)"
| exec: "well_typed ''POST'' ''/v2/exec'' (200, ExecBody x)"
| create: "well_typed ''POST'' ''/v2/ssh/profiles'' (200, ProfileBody x)"
| store: "well_typed ''POST'' ''/v2/profiles'' (200, FlagBody ''saved'' True)"
| manage_end: "profile_segment (profile_name_in p ''/management/end'') \<Longrightarrow> has_suffix p ''/management/end'' \<Longrightarrow>
    well_typed ''POST'' p (200, FlagBody ''ended'' b)"
| manage: "profile_segment (profile_name_in p ''/management'') \<Longrightarrow> has_suffix p ''/management'' \<Longrightarrow>
    well_typed ''POST'' p (200, ManagementBody x)"
| update: "profile_segment name \<Longrightarrow> well_typed ''PUT'' (profiles_prefix @ name) (200, FlagBody ''updated'' True)"
| delete: "profile_segment name \<Longrightarrow> well_typed ''DELETE'' (profiles_prefix @ name) (200, FlagBody ''deleted'' True)"
| doctor: "well_typed ''GET'' ''/v2/doctor'' (200, DoctorBody x)"
| inspect: "well_typed ''GET'' ''/v2/agent-connections'' (200, ConnectionsBody x)"
| repair: "well_typed ''POST'' ''/v2/agent-connections/repair'' (200, ConnectionsBody x)"

inductive_cases grant_typed: "well_typed ''POST'' ''/v2/leases'' (200, b)"

section \<open>Every handler is well typed\<close>

lemma typed_errors:
  "well_typed m p (write_service_error V e)" "well_typed m p hostile_origin" "well_typed m p unauthorized"
  "well_typed m p not_found" "well_typed m p invalid_body" "well_typed m p no_connections"
  "well_typed m p (write_error 400 ''INVALID_REQUEST'' message False)"
  unfolding write_service_error_def hostile_origin_def unauthorized_def not_found_def invalid_body_def
    no_connections_def
  by (rule well_typed.refused, simp add: contract_errors_def)+

text \<open>The combinators of the handlers.\<close>

definition typed :: "http_request \<Rightarrow> http_response \<times> 's \<Rightarrow> bool" where
  "typed q rs \<longleftrightarrow> well_typed (hr_method q) (hr_path q) (fst rs)"

lemma typed_if: "(c \<Longrightarrow> typed q x) \<Longrightarrow> (\<not> c \<Longrightarrow> typed q y) \<Longrightarrow> typed q (if c then x else y)"
  by simp

lemma typed_on: "typed q rs \<Longrightarrow> typed q (on_service a rs)" "typed q ra \<Longrightarrow> typed q (on_agents s ra)"
  by (simp_all add: typed_def on_service_def on_agents_def)

lemma typed_pair: "well_typed (hr_method q) (hr_path q) r \<Longrightarrow> typed q (r, s)"
  by (simp add: typed_def)

lemma typed_body: "(\<And>b. typed q (handler b s)) \<Longrightarrow> typed q (with_body dec q handler s)"
  by (simp add: with_body_def typed_def typed_errors split: option.split)

lemma typed_name:
  "(profile_segment name \<Longrightarrow> typed q (handler name)) \<Longrightarrow> typed q (with_name name handler s)"
  by (simp add: with_name_def profile_segment_def typed_def typed_errors)

lemma typed_answer:
  "(\<And>x. well_typed (hr_method q) (hr_path q) (200, f x)) \<Longrightarrow> typed q (answer V f rs)"
  "well_typed (hr_method q) (hr_path q) (200, FlagBody field True) \<Longrightarrow> typed q (answer_done V field os)"
  "(\<And>b. well_typed (hr_method q) (hr_path q) (200, FlagBody field b)) \<Longrightarrow> typed q (answer_flag field bs)"
  by (simp_all add: typed_def answer_def answer_done_def answer_flag_def typed_errors case_prod_beta
      split: sum.split option.split)

lemma typed_connections:
  "(\<And>c. well_typed (hr_method q) (hr_path q) (200, ConnectionsBody c)) \<Longrightarrow> typed q (serve_inspect M a)"
  "(\<And>c. well_typed (hr_method q) (hr_path q) (200, ConnectionsBody c)) \<Longrightarrow> typed q (serve_repair M b a)"
  by (simp_all add: typed_def serve_inspect_def serve_repair_def typed_errors case_prod_beta)

lemma typed_manager:
  "typed q x \<Longrightarrow> (\<And>m. typed q (f m)) \<Longrightarrow> typed q (case mo of None \<Rightarrow> x | Some m \<Rightarrow> f m)"
  by (simp split: option.split)

lemma typed_prefix:
  "has_prefix p profiles_prefix \<Longrightarrow> profile_segment (trim_prefix p profiles_prefix) \<Longrightarrow>
     well_typed ''PUT'' p (200, FlagBody ''updated'' True)"
  "has_prefix p profiles_prefix \<Longrightarrow> profile_segment (trim_prefix p profiles_prefix) \<Longrightarrow>
     well_typed ''DELETE'' p (200, FlagBody ''deleted'' True)"
  using well_typed.update [of "trim_prefix p profiles_prefix"] well_typed.delete [of "trim_prefix p profiles_prefix"]
  by (auto simp: trim_prefix_def elim!: prefixE)

lemmas typed_rules = typed_on typed_body typed_name typed_answer typed_connections typed_manager typed_pair

lemma route_typed: "typed q (route E V q (s, a))"
  unfolding route_def Let_def prod.case handshake_answer_def doctor_answer_def
  by (intro typed_if typed_rules; (elim conjE)?; simp add: well_typed.intros typed_errors typed_prefix)

text \<open>C11: responses_follow_the_contract.
  Every request is answered with an error of the contract, or with status 200 and the body its
  method and path promise; whatever the handler does, a client never decodes a response of
  another type.\<close>

theorem responses_follow_the_contract:
  "well_typed (hr_method q) (hr_path q) (fst (serve_http E V q d))"
proof (cases d)
  case (Pair s a)
  then show ?thesis
    using route_typed [of q E V s a] by (simp add: serve_http_def typed_errors typed_def)
qed

end
