(* ===== verification/Private_Paths.thy ===== *)
theory Private_Paths
  imports Config Agent_Files
begin

text \<open>
  Where the program keeps its files and how it protects their directories. \<open>Config\<close> and
  \<open>Agent_Files\<close> leave the calls on a directory to a function that makes some calls fail; here
  those calls are modelled on the directory itself, and the faults are computed from it.
\<close>

section \<open>Standard paths\<close>

definition default_store :: "gostring + gostring \<Rightarrow> gostring + gostring" where
  "default_store config_root =
     (case config_root of
        Inl msg \<Rightarrow> Inl (''locate user config directory: '' @ msg)
      | Inr root \<Rightarrow> Inr (path_join [root, ''key-session'', ''config.json'']))"

definition default_audit_store :: "gostring + gostring \<Rightarrow> gostring + gostring" where
  "default_audit_store config_root =
     (case config_root of
        Inl msg \<Rightarrow> Inl msg
      | Inr root \<Rightarrow> Inr (path_join [root, ''key-session'', ''audit.json'']))"

definition default_cache_path :: "gostring + gostring \<Rightarrow> gostring + gostring" where
  "default_cache_path cache_root =
     (case cache_root of
        Inl msg \<Rightarrow> Inl (''locate user cache directory: '' @ msg)
      | Inr root \<Rightarrow> Inr (path_join [root, ''key-session'', ''update-check.json'']))"

lemma standard_files:
  "default_store (Inr ''/Users/u/Library/Application Support'') =
     Inr ''/Users/u/Library/Application Support/key-session/config.json''"
  "default_audit_store (Inr ''/Users/u/Library/Application Support'') =
     Inr ''/Users/u/Library/Application Support/key-session/audit.json''"
  "default_cache_path (Inr ''/Users/u/Library/Caches'') = Inr ''/Users/u/Library/Caches/key-session/update-check.json''"
  by code_simp+

section \<open>The directory of the configuration\<close>

text \<open>
  \<open>fault i\<close> is an error of the \<open>i\<close>-th call, with no effect: \<^verbatim>\<open>Lstat\<close>, \<^verbatim>\<open>MkdirAll\<close>, \<^verbatim>\<open>Chmod\<close>.
  \<^verbatim>\<open>MkdirAll\<close> creates a missing directory and accepts one that exists; anything else there
  is an error.
\<close>

definition make_directory :: "gostring option \<Rightarrow> lstat \<Rightarrow> gostring option \<times> lstat" where
  "make_directory fault entry =
     (case fault of
        Some msg \<Rightarrow> (Some msg, entry)
      | None \<Rightarrow>
          (case entry of
             NotThere msg \<Rightarrow> (None, Found Directory mode_dir)
           | LstatFails msg \<Rightarrow> (Some msg, entry)
           | Found kind mode \<Rightarrow> (if kind = Directory then None else Some ''not a directory'', entry)))"

definition ensure_private_directory ::
  "(nat \<Rightarrow> gostring option) \<Rightarrow> gostring \<Rightarrow> lstat \<Rightarrow> gostring option \<times> lstat" where
  "ensure_private_directory fault directory entry =
     (case entry of
        Found Symlink mode \<Rightarrow> (Some (''refusing symlinked config directory: '' @ directory), entry)
      | LstatFails msg \<Rightarrow> (Some (''inspect config directory: '' @ msg), entry)
      | _ \<Rightarrow>
          (case make_directory (fault 0) entry of
             (Some msg, e) \<Rightarrow> (Some (''create config directory: '' @ msg), e)
           | (None, e) \<Rightarrow>
               (case fault 1 of Some msg \<Rightarrow> (Some msg, e) | None \<Rightarrow> (None, Found Directory mode_dir))))"

lemma ensured_private:
  "fst (ensure_private_directory fault directory entry) = None \<Longrightarrow>
     snd (ensure_private_directory fault directory entry) = Found Directory mode_dir"
  by (auto simp: ensure_private_directory_def make_directory_def split: lstat.splits file_kind.splits option.splits if_splits)

lemma ensured_not_a_link:
  "fst (ensure_private_directory fault directory entry) = None \<Longrightarrow>
     (\<exists>msg. entry = NotThere msg) \<or> (\<exists>mode. entry = Found Directory mode)"
  by (auto simp: ensure_private_directory_def make_directory_def split: lstat.splits file_kind.splits option.splits if_splits)

text \<open>Preparing it again changes nothing, unless a call fails.\<close>

lemma ensure_again:
  "ensure_private_directory (\<lambda>i. None) directory (Found Directory mode_dir) = (None, Found Directory mode_dir)"
  by (simp add: ensure_private_directory_def make_directory_def)

text \<open>
  \<open>config_save\<close> counts the three calls on the directory as its calls 0 to 2; the faults that
  they get from a directory.
\<close>

definition save_faults ::
  "(nat \<Rightarrow> gostring option) \<Rightarrow> gostring \<Rightarrow> lstat \<Rightarrow> (nat \<Rightarrow> gostring option) \<Rightarrow> nat \<Rightarrow> gostring option" where
  "save_faults dir_fault directory entry fault i =
     (if i < 2 then None
      else if i = 2 then fst (ensure_private_directory dir_fault directory entry) else fault i)"

definition save_in_directory ::
  "(nat \<Rightarrow> gostring option) \<Rightarrow> (nat \<Rightarrow> gostring option) \<Rightarrow> gostring \<Rightarrow> config \<Rightarrow> lstat \<Rightarrow> config_disk \<Rightarrow>
   error option \<times> lstat \<times> config_disk" where
  "save_in_directory dir_fault fault directory cfg entry d =
     (case ensure_private_directory dir_fault directory entry of
        (Some msg, e) \<Rightarrow> (Some (Outside msg), e, remove_temp d)
      | (None, e) \<Rightarrow>
          (case run_ops fault 3 (drop 3 (config_save_ops (Some (cfg_profiles cfg)))) d of
             (r, d1) \<Rightarrow> (map_option Outside r, e, remove_temp d1)))"

lemma save_in_directory_refines:
  "save_in_directory dir_fault fault directory cfg entry d =
     (let r = config_save (save_faults dir_fault directory entry fault) cfg d
      in (fst r, snd (ensure_private_directory dir_fault directory entry), snd r))"
proof -
  have tail: "run_ops (save_faults dir_fault directory entry fault) i os x = run_ops fault i os x" if "3 \<le> i"
    for i os and x :: config_disk
    using that by (induction os arbitrary: i x) (auto simp: save_faults_def split: option.split)
  let ?x = "Some (cfg_profiles cfg)"
  have ops: "config_save_ops ?x = PrepareDirectory # PrepareDirectory # PrepareDirectory # drop 3 (config_save_ops ?x)"
    by (simp add: config_save_ops_def)
  have "run_ops (save_faults dir_fault directory entry fault) 0 (config_save_ops ?x) d =
    (case fst (ensure_private_directory dir_fault directory entry) of
       Some msg \<Rightarrow> (Some msg, d) | None \<Rightarrow> run_ops fault 3 (drop 3 (config_save_ops ?x)) d)"
    by (subst ops) (simp add: save_faults_def tail numeral_2_eq_2 [symmetric] numeral_3_eq_3 [symmetric] del: drop_eq_Nil split: option.split)
  then show ?thesis
    by (cases "ensure_private_directory dir_fault directory entry")
      (auto simp: save_in_directory_def config_save_def replace_file_def Let_def case_prod_beta split: option.split)
qed

text \<open>A configuration that was saved is a file of mode 0600 in a directory of mode 0700.\<close>

lemma saved_privately:
  assumes "save_in_directory dir_fault fault directory cfg entry d = (None, e, d')"
  shows "e = Found Directory mode_dir \<and> target d' = Some (new_file (Some (cfg_profiles cfg)))"
proof -
  let ?e = "ensure_private_directory dir_fault directory entry"
  have "fst ?e = None"
    using assms by (cases ?e) (auto simp: save_in_directory_def split: option.splits)
  moreover have "e = snd ?e" "config_save (save_faults dir_fault directory entry fault) cfg d = (None, d')"
    using assms by (auto simp: save_in_directory_refines Let_def prod_eq_iff)
  ultimately show ?thesis
    using ensured_private config_writer.replace_success [of "save_faults dir_fault directory entry fault" "Some (cfg_profiles cfg)" d]
    by (auto simp: config_save_def Let_def)
qed

section \<open>Directories that are only checked\<close>

text \<open>\<^verbatim>\<open>validateOwnedDirectory\<close>, on what \<^verbatim>\<open>os.Lstat\<close> finds; it does not follow links.\<close>

definition validate_owned_directory :: "nat \<Rightarrow> file_at \<Rightarrow> gostring option" where
  "validate_owned_directory euid f =
     (case f of
        Absent \<Rightarrow> Some ''no such file or directory''
      | Unopenable msg \<Rightarrow> Some msg
      | Opened info \<Rightarrow>
          if of_kind info \<noteq> Directory \<or> writable_by_others (of_mode info) \<or> of_uid info \<noteq> euid
          then Some ''directory is not owner-controlled'' else None)"

definition path_exists :: "lstat \<Rightarrow> bool" where
  "path_exists entry = (case entry of Found kind mode \<Rightarrow> True | _ \<Rightarrow> False)"

text \<open>\<^verbatim>\<open>equalStrings\<close>: the lengths, then the elements in turn.\<close>

definition equal_strings :: "gostring list \<Rightarrow> gostring list \<Rightarrow> bool" where
  "equal_strings left right =
     (if length left \<noteq> length right then False
      else list_all (\<lambda>i. left ! i = right ! i) [0..<length left])"

lemma equal_strings_eq: "equal_strings left right \<longleftrightarrow> left = right"
  by (auto simp: equal_strings_def list_all_iff intro: nth_equalityI)

text \<open>A restore or an installation below a directory that others control does nothing.\<close>

lemma restore_refused:
  assumes "fault 0 = validate_owned_directory euid parent" and "validate_owned_directory euid parent = Some msg"
  shows "snd (restore_private_file euid fault remove_error expected (Some bs) f) = f"
    and "fst (restore_private_file euid fault remove_error expected (Some bs) f) \<noteq> None"
  using assms
  by (auto simp: restore_private_file_def replace_file_def restore_ops_def remove_temp_def Let_def split: sum.split)

lemma no_fault_left: "List.map_filter fault calls = [] \<longleftrightarrow> (\<forall>i \<in> set calls. fault i = None)"
  by (induction calls) (auto simp: List.map_filter_simps split: option.split)

lemma first_fault_some: "fault i = Some msg \<Longrightarrow> i \<in> set calls \<Longrightarrow> first_fault fault calls \<noteq> None"
  using no_fault_left [of fault calls]
  by (cases "List.map_filter fault calls") (auto simp: first_fault_def)

lemma install_refused:
  assumes "fault 1 = validate_owned_directory euid parent" and "validate_owned_directory euid parent = Some msg"
  shows "snd (install_skill fault source st) = st" and "fst (install_skill fault source st) \<noteq> None"
  using first_fault_some [of fault 1 msg "[0, 1, 2, 3]"] assms by (auto simp: install_skill_def)

end
