(* ===== verification/Spec2Isabelle.thy ===== *)
theory Spec2Isabelle
  imports Access_Properties System_Properties Execution_Properties Profile_Properties
    Grant_Properties Agent_Properties Update_Properties Server_Properties Startup_Properties
    Agent_Skill_Properties Client_Properties Cli_Command_Properties Daemon_Run_Properties Lock_Race
    Touch_Id Phase_Properties Response_Types Private_Paths
begin

text \<open>
  Key Session lets an agent use secrets of the macOS Keychain without seeing them. A per-user
  daemon holds consumer sessions, each opened by a random capability. A consumer asks for a
  lease of a profile; the human approves it on a biometric prompt; while the lease lives, the
  consumer may run a program whose environment holds the secret, or, for an SSH identity, sign
  authentication requests through the daemon's agent socket. This library models the Go program
  under \<^verbatim>\<open>src/internal\<close> and proves what makes it safe.

  \<^bold>\<open>Parts and theories.\<close>

  \<^item> \<open>Prelude\<close>, \<open>Go_Strings\<close>, \<open>Go_Numbers\<close>, \<open>Go_Paths\<close>, \<open>Sha256\<close>, \<open>Base64\<close>: Go maps as association
    lists with the locale \<open>key_value_map\<close>, byte strings, UTF-8, \<^verbatim>\<open>strconv\<close>, wrapping durations, paths,
    and the two encodings the program relies on, all executable.
  \<^item> \<open>Contract\<close>: the wire types of \<^verbatim>\<open>contract/v2/types.go\<close> and the errors.
  \<^item> \<open>Atomic_File\<close>: the system calls with which five routines replace a file; the locale
    \<open>atomic_writer\<close> is interpreted on each of them.
  \<^item> \<open>Config\<close> (\<^verbatim>\<open>config/config.go\<close>), \<open>Validation\<close> (the validators of \<^verbatim>\<open>daemon/service.go\<close>),
    \<open>Execution\<close> and \<open>Redaction\<close> (\<^verbatim>\<open>execution/executor.go\<close>).
  \<^item> \<open>Service_State\<close>: the state of \<^verbatim>\<open>daemon/service.go\<close> and the routines that run under its lock.
    Secrets live in buffers the code shares and overwrites, so the state has a heap of buffers.
    \<open>Grants\<close>, \<open>Consumers\<close>, \<open>Profiles\<close>, \<open>Ssh_Keys\<close>, \<open>Ssh_Agent\<close>: its operations, with those of
    \<^verbatim>\<open>ssh_profiles.go\<close>, \<^verbatim>\<open>ssh_agent.go\<close>, \<^verbatim>\<open>audit.go\<close> and \<^verbatim>\<open>runtime.go\<close>.
  \<^item> \<open>Profile_Phases\<close>: the five operations that hold \<^verbatim>\<open>profileMu\<close> to their end, cut where they release
    the state lock; uncut they are the operations of \<open>Profiles\<close>.
  \<^item> \<open>Daemon_System\<close>: the daemon as a step relation. A step is one section under the lock; a grant,
    an execution and an operation on profiles are several steps, with others in between.
  \<^item> \<open>Startup\<close>, \<open>Doctor\<close>, \<open>Server\<close>: the lock file and the descriptor probe, the self-check and the
    HTTP handler of \<^verbatim>\<open>daemon/server.go\<close>. \<open>Daemon_Run\<close>: its \<^verbatim>\<open>Run\<close>, with the stack of deferred
    calls and the handlers that go on while \<^verbatim>\<open>Shutdown\<close> waits and while those calls are made. \<open>Lock_Race\<close>: the lock taken by several processes at once, one system call per step.
  \<^item> \<open>Keychain_Bridge\<close>: \<^verbatim>\<open>keychain/keychain_darwin.go\<close> over the native functions, and
    \<open>Keychain_Native\<close>: those functions, \<^verbatim>\<open>keychain/keychain_darwin.m\<close>, with a log of the calls they make
    to LocalAuthentication and the Security framework. \<open>Touch_Id\<close> joins them with the daemon.
    \<open>Private_Paths\<close>: where the files are, and the directories they must be in.
  \<^item> \<open>Version\<close>, \<open>Update_Check\<close>: \<^verbatim>\<open>updatecheck/checker.go\<close>.
  \<^item> \<open>Agent_Files\<close>, \<open>Agent_Manager\<close>, \<open>Agent_Repair\<close>: \<^verbatim>\<open>agentconnections/manager.go\<close>, which connects
    coding agents: private files and the skill tree, inspection, repair with its rollback.
  \<^item> \<open>Api_Client\<close>: \<^verbatim>\<open>apiclient/client.go\<close>. \<open>Mcp\<close>: \<^verbatim>\<open>cli/mcp.go\<close>. \<open>Installation\<close>: \<^verbatim>\<open>buildinfo/info.go\<close> and
    \<^verbatim>\<open>cli/doctor.go\<close>. \<open>Cli\<close>, \<open>Cli_Commands\<close>: the commands of \<^verbatim>\<open>internal/cli\<close> and the exit status of
    \<^verbatim>\<open>cmd/key-session/main.go\<close>. A client sends requests through a transport; the transport
    \<open>deliver\<close> (\<open>Client_Properties\<close>) hands them to \<open>serve_http\<close>, which joins both halves.

  \<^bold>\<open>Interfaces.\<close> \<open>kept_by_primitives\<close> (\<open>Service_Invariants\<close>) states what an invariant must survive in
  the building blocks of the state. \<open>kept_by_readers\<close> (\<open>Operation_Invariants\<close>) adds the buffers in
  flight and yields every operation that does not write the configuration; \<open>kept_by_operations\<close>
  adds that write, and \<open>kept_by_daemon\<close> (\<open>System_Invariants\<close>) the opening of a management session
  and the reordering of maps, for every step of the system; \<open>session_property\<close> (\<open>Lease_Invariants\<close>) covers
  grants. They are interpreted on well-formedness and ownership of the buffers (\<open>Memory\<close>), on the
  consistency and the approval of leases (\<open>Consent\<close>), on the contents of owned buffers (\<open>Secrets\<close>), on the
  history of effects, and on what \<open>Lease_Contents\<close> needs: what leases hold together with their
  secrets, the profiles of the management sessions, the configuration on disk.
  \<open>agent_transport\<close> (\<open>Cli_Properties\<close>) is what a transport must keep for the five requests an MCP tool
  may cause; it is interpreted on a transport that logs and on the one that ends in the daemon.

  \<^bold>\<open>What the lemmas show.\<close> \<open>Access\<close> gives specifications of \<^verbatim>\<open>Execute\<close>, \<^verbatim>\<open>Revoke\<close>, \<^verbatim>\<open>AdminRevoke\<close> and
  \<^verbatim>\<open>ConsumerStatus\<close> over the sessions that are live at the time of the call. The theories whose
  names end in \<open>Properties\<close> hold the properties with their witnesses: every lease in a reachable state
  was approved on a prompt that named its consumer and profile; buffers are owned once or zero; returned
  output is redacted; updates and deletions of a profile need their approvals; whatever an HTTP request
  does is a sequence of steps of the system, and the bodies it answers with are of the type of the route;
  a lease that was granted can be used; when \<^verbatim>\<open>Run\<close> returns the sockets are closed, and what no
  operation still in flight holds is erased. \<open>Released_Secrets\<close> follows the secrets that leave the daemon:
  a child gets the secret of a lease of the session it was asked through, which a human approved, also
  when other operations run before it starts, and what is shown to the profile editor is the secret of the
  profile it is managing, never an SSH seed. The
  operations on profiles keep leases and configuration in step (\<open>Configured_Leases\<close>): in every
  reachable state a lease is for a profile that is configured, the secret of an SSH lease is the
  seed of the configured public key, and no management session is for an SSH identity. A tick
  leaves no expired secret in memory. \<open>Lease_Table\<close> sums this up as an abstract machine of tickets,
  leases with their secrets, which only end, except for the one that was just approved; every step
  of the daemon is one of its steps, and what is true of every ticket that is approved is true of
  every lease. \<open>Touch_Id\<close> carries this down to the sensor: the secret of a lease is what the Security
  framework returned right after an approved prompt that showed the terms of that lease, and no
  stored item is read, or deleted on request, without such a prompt. For the programs around the daemon:
  an agent that has only MCP, or the command line without a terminal, cannot change the stored profiles;
  the checks of the commands and the schemas of the tools agree with those of the daemon; a grant or an
  execution asked for over HTTP is the daemon's, as far as the client can read the answer; a repair never overwrites a change it has not seen. Some
  theorems show behaviour that is not intended: \<open>two_daemons_can_start\<close>,
  \<open>blank_lease_ends_the_session\<close>, \<open>tree_hash_confuses_trees\<close>,
  \<open>truncation_can_split_a_secret\<close>, \<open>huge_default_is_accepted\<close>,
  \<open>failed_save_leaves_old_leases\<close>, \<open>revealed_secret_can_be_blank\<close>,
  \<open>failed_store_loses_the_item\<close>, \<open>prompt_accepts_line_separators\<close>,
  \<open>hyphenated_number_sorts_first\<close> and \<open>management_is_taken_for_a_name\<close>.

  \<^bold>\<open>Abstractions.\<close> The outside (clock, random source, Keychain, file faults, child processes) is a
  record of functions that answers each call by its number, so statements hold for every
  behaviour of it. Maps keep the order of a list; steps named \<open>shuffled\<close> reorder them, as Go may.
  Random identifiers are assumed not to repeat where a step says so. The steps
  of one operation end where the state lock is released; what it does before it takes the lock,
  such as reading the configuration or asking the Keychain, touches no session and belongs to the
  same step: \<^verbatim>\<open>profileMu\<close> excludes the other operations that write there and the daemon is taken to be the only
  writer of its configuration. \<^verbatim>\<open>sort.Slice\<close> is a stable sort.
  The heap tracks the buffers of the daemon, not the immutable strings of its responses. The
  configuration of an agent may be changed by other processes before each call of the manager
  (\<open>ag_interfere\<close>); the comparison and the rename of a rollback are one step, and the errors of
  copying the skill are one fault. A command prints a list of items, not the wording around them,
  and \<^verbatim>\<open>int64(d.Seconds())\<close> is exact division. The steps of the lock race fail only because the
  file exists or does not. Bounds and fuel: \<open>acquire_lock\<close> runs with fuel, and two rounds are proved
  enough; \<open>connect\<close> runs with fuel, and 68 looks at the deadline are proved enough when 75 milliseconds pass
  between two of them;
  all other loops are structural or have a measure.

  \<^bold>\<open>Not modelled.\<close> JSON (decoded values, encoders and decoders are parameters), ed25519 and the SSH
  wire format of keys, \<^verbatim>\<open>url.Parse\<close>, the HTTP stack, timeouts of contexts, the flag parser
  \<^verbatim>\<open>cobra\<close>, the frameworks of macOS behind the Keychain bridge (the fields of \<open>frameworks\<close>), the Swift
  application and the scripts. The hidden command \<^verbatim>\<open>_daemon\<close> is \<open>run_daemon\<close> and has no constructor in
  \<open>cli_command\<close>.
\<close>

end
